(* ===== verification/Lspd_Prelude.thy ===== *)
theory Lspd_Prelude
  imports Main "HOL-Library.Word" "HOL-Library.Signed_Division" "HOL-Library.List_Lexorder"
begin

text \<open>
  Shared vocabulary of the development: the machine integers, byte strings, errors and panics
  of the Go program, and the parts of Go's standard library the sources call on them
  (\<^verbatim>\<open>encoding/hex\<close>, \<^verbatim>\<open>strconv\<close>, \<^verbatim>\<open>strings.Split\<close>, \<^verbatim>\<open>strings.HasPrefix\<close>, \<^verbatim>\<open>bytes.Compare\<close>),
  with the round-trip lemmas the component theories use.
\<close>

unbundle bit_operations_syntax

named_theorems db_simps \<open>evaluation of statements on a concrete table\<close>

section \<open>Types\<close>

type_synonym u8 = "8 word"
type_synonym u16 = "16 word"
type_synonym u32 = "32 word"
type_synonym u64 = "64 word"

text \<open>A Go \<^verbatim>\<open>[]byte\<close>; a nil slice is an absent value (\<open>None\<close>) where the code tells them apart.\<close>

type_synonym bytes = "u8 list"

text \<open>Instants and durations are nanoseconds, instants since the Unix epoch.\<close>

type_synonym time = int
type_synonym duration = int

text \<open>
  Errors are values: \<open>Error\<close> is \<^verbatim>\<open>errors.New\<close> or the error of an external call, \<open>Wrap\<close> is
  \<^verbatim>\<open>fmt.Errorf("...: %w", err)\<close>.
\<close>

datatype error = Error string | Wrap string error

text \<open>A call that may panic (nil dereference, division by zero) returns an \<open>outcome\<close>.\<close>

datatype 'a outcome = Ret 'a | Panic string

section \<open>Machine integers\<close>

definition second :: duration where
  "second = 1000000000"

definition millisecond :: duration where
  "millisecond = 1000000"

text \<open>\<^verbatim>\<open>int64\<close> is an \<open>int\<close> kept in range by wrapping after every arithmetic operation.\<close>

text \<open>\<^verbatim>\<open>Time.UnixMicro\<close>, also the precision of a \<^verbatim>\<open>timestamp\<close> column.\<close>

definition unix_micro :: "time \<Rightarrow> int" where
  "unix_micro t = t div 1000"

definition int64 :: "int \<Rightarrow> int" where
  "int64 x = (x + 2 ^ 63) mod 2 ^ 64 - 2 ^ 63"

definition in_int64 :: "int \<Rightarrow> bool" where
  "in_int64 x \<longleftrightarrow> - (2 ^ 63) \<le> x \<and> x < 2 ^ 63"

text \<open>Conversions between \<^verbatim>\<open>int64\<close> and \<^verbatim>\<open>uint64\<close> keep the bit pattern.\<close>

definition uint64_of :: "int \<Rightarrow> u64" where
  "uint64_of x = word_of_int x"

definition int64_of :: "u64 \<Rightarrow> int" where
  "int64_of w = sint w"

text \<open>Go's integer division truncates towards zero.\<close>

definition go_div :: "int \<Rightarrow> int \<Rightarrow> int" where
  "go_div a b = a sdiv b"

section \<open>Decimal numbers: strconv.FormatUint, ParseUint, ParseInt\<close>

definition digit_char :: "nat \<Rightarrow> char" where
  "digit_char d = ''0123456789'' ! d"

fun format_nat :: "nat \<Rightarrow> string" where
  "format_nat n =
     (if n < 10 then [digit_char n] else format_nat (n div 10) @ [digit_char (n mod 10)])"

declare format_nat.simps [simp del]

definition format_uint :: "('a::len) word \<Rightarrow> string" where
  "format_uint w = format_nat (unat w)"

definition digit_val :: "char \<Rightarrow> nat option" where
  "digit_val c =
     (let n = of_char c :: nat in if 48 \<le> n \<and> n \<le> 57 then Some (n - 48) else None)"

fun parse_digits :: "nat \<Rightarrow> string \<Rightarrow> nat option" where
  "parse_digits acc [] = Some acc"
| "parse_digits acc (c # cs) =
     (case digit_val c of None \<Rightarrow> None | Some d \<Rightarrow> parse_digits (10 * acc + d) cs)"

text \<open>\<^verbatim>\<open>strconv.ParseUint(s, 10, bits)\<close>: no sign, no empty string, out of range is an error.\<close>

definition parse_uint :: "nat \<Rightarrow> string \<Rightarrow> nat option" where
  "parse_uint bits s =
     (if s = [] then None
      else case parse_digits 0 s of
        None \<Rightarrow> None
      | Some n \<Rightarrow> if n < 2 ^ bits then Some n else None)"

text \<open>\<^verbatim>\<open>strconv.ParseInt(s, 10, 64)\<close>: an optional sign, then \<^verbatim>\<open>ParseUint\<close>, then the range check.\<close>

definition parse_int64 :: "string \<Rightarrow> int option" where
  "parse_int64 s =
     (case s of
        [] \<Rightarrow> None
      | c # cs \<Rightarrow>
          let neg = (c = CHR ''-''); body = (if c = CHR ''+'' \<or> c = CHR ''-'' then cs else s)
          in (case parse_uint 64 body of
                None \<Rightarrow> None
              | Some n \<Rightarrow>
                  if \<not> neg \<and> 2 ^ 63 \<le> n then None
                  else if neg \<and> 2 ^ 63 < n then None
                  else Some (if neg then - int n else int n)))"

section \<open>Hexadecimal: encoding/hex\<close>

definition hex_char :: "nat \<Rightarrow> char" where
  "hex_char d = ''0123456789abcdef'' ! d"

definition hex_val :: "char \<Rightarrow> nat option" where
  "hex_val c =
     (let n = of_char c :: nat in
      if 48 \<le> n \<and> n \<le> 57 then Some (n - 48)
      else if 97 \<le> n \<and> n \<le> 102 then Some (n - 87)
      else if 65 \<le> n \<and> n \<le> 70 then Some (n - 55)
      else None)"

text \<open>\<^verbatim>\<open>hex.EncodeToString\<close>\<close>

definition hex_encode :: "bytes \<Rightarrow> string" where
  "hex_encode bs = concat (map (\<lambda>b. [hex_char (unat b div 16), hex_char (unat b mod 16)]) bs)"

text \<open>\<^verbatim>\<open>hex.DecodeString\<close>: an odd length or a byte that is no hex digit is an error.\<close>

fun hex_decode :: "string \<Rightarrow> bytes option" where
  "hex_decode [] = Some []"
| "hex_decode [c] = None"
| "hex_decode (c # d # cs) =
     (case (hex_val c, hex_val d) of
        (Some x, Some y) \<Rightarrow> map_option ((#) (word_of_nat (16 * x + y))) (hex_decode cs)
      | _ \<Rightarrow> None)"

text \<open>With its error dropped it gives the bytes decoded before the error.\<close>

fun hex_decode_prefix :: "string \<Rightarrow> bytes" where
  "hex_decode_prefix (c # d # cs) =
     (case (hex_val c, hex_val d) of
        (Some x, Some y) \<Rightarrow> word_of_nat (16 * x + y) # hex_decode_prefix cs
      | _ \<Rightarrow> [])"
| "hex_decode_prefix _ = []"

section \<open>Strings and byte slices\<close>

text \<open>\<^verbatim>\<open>strings.Split(s, sep)\<close> for a separator of one character: never the empty list.\<close>

fun split_on :: "char \<Rightarrow> string \<Rightarrow> string list" where
  "split_on sep [] = [[]]"
| "split_on sep (c # cs) =
     (if c = sep then [] # split_on sep cs
      else case split_on sep cs of
        [] \<Rightarrow> [[c]]
      | f # fs \<Rightarrow> (c # f) # fs)"

definition has_prefix :: "string \<Rightarrow> string \<Rightarrow> bool" where
  "has_prefix s p \<longleftrightarrow> take (length p) s = p"

definition has_suffix :: "string \<Rightarrow> string \<Rightarrow> bool" where
  "has_suffix s p \<longleftrightarrow> length p \<le> length s \<and> drop (length s - length p) s = p"

definition string_bytes :: "string \<Rightarrow> bytes" where
  "string_bytes s = map of_char s"

text \<open>\<^verbatim>\<open>bytes.Compare\<close>: -1, 0 or 1 for the lexicographic order.\<close>

definition bytes_compare :: "bytes \<Rightarrow> bytes \<Rightarrow> int" where
  "bytes_compare a b = (if a < b then -1 else if a = b then 0 else 1)"

section \<open>Lemmas\<close>

lemma int64_id [simp]: "in_int64 x \<Longrightarrow> int64 x = x"
  by (simp add: int64_def in_int64_def)

lemma in_int64_int64 [simp]: "in_int64 (int64 x)"
  by (simp add: in_int64_def int64_def)

lemma in_int64_int64_of [simp]: "in_int64 (int64_of w)"
proof -
  have "sint w < 2 ^ 63" and "- (2 ^ 63) \<le> sint w"
    using sint_lt [of w] sint_ge [of w] by simp_all
  then show ?thesis
    by (simp add: in_int64_def int64_of_def)
qed

lemma uint64_of_int64_of [simp]: "uint64_of (int64_of w) = w"
  by (simp add: uint64_of_def int64_of_def)

lemma int64_of_uint64_of: "in_int64 x \<Longrightarrow> int64_of (uint64_of x) = x"
  by (simp add: uint64_of_def int64_of_def in_int64_def sint_sbintrunc' signed_take_bit_int_eq_self)

lemma go_div_nonneg: "0 \<le> a \<Longrightarrow> 0 \<le> b \<Longrightarrow> go_div a b = a div b"
  by (simp add: go_div_def signed_divide_int_def sgn_if)

lemma of_char_digit_char:
  assumes "d < 10"
  shows "of_char (digit_char d) = (48 + d :: nat)"
proof -
  from assms have "d \<in> set [0..<10]" by simp
  then show ?thesis
    by (auto simp: upt_rec numeral_eq_Suc digit_char_def)
qed

lemma digit_val_digit_char [simp]: "d < 10 \<Longrightarrow> digit_val (digit_char d) = Some d"
  by (simp add: digit_val_def of_char_digit_char)

lemma parse_digits_append:
  "parse_digits acc (s @ t) =
     (case parse_digits acc s of None \<Rightarrow> None | Some n \<Rightarrow> parse_digits n t)"
  by (induction s arbitrary: acc) (auto split: option.splits)

lemma parse_digits_format_nat [simp]: "parse_digits 0 (format_nat n) = Some n"
proof (induction n rule: format_nat.induct)
  case (1 n)
  show ?case
  proof (cases "n < 10")
    case True
    then show ?thesis by (subst format_nat.simps) simp
  next
    case False
    with "1.IH" have "parse_digits 0 (format_nat (n div 10)) = Some (n div 10)" by simp
    with False show ?thesis
      by (subst format_nat.simps) (simp add: parse_digits_append)
  qed
qed

lemma format_nat_not_Nil [simp]: "format_nat n \<noteq> []"
  by (subst format_nat.simps) simp

lemma parse_uint_format_nat [simp]: "n < 2 ^ bits \<Longrightarrow> parse_uint bits (format_nat n) = Some n"
  by (simp add: parse_uint_def)

lemma digit_char_cases: "d < 10 \<Longrightarrow> digit_char d \<in> set ''0123456789''"
  unfolding digit_char_def by (rule nth_mem) simp

lemma set_format_nat: "set (format_nat n) \<subseteq> set ''0123456789''"
proof (induction n rule: format_nat.induct)
  case (1 n)
  show ?case
  proof (cases "n < 10")
    case True
    then show ?thesis using digit_char_cases [of n] by (subst format_nat.simps) simp
  next
    case False
    then show ?thesis
      using "1.IH" digit_char_cases [of "n mod 10"] by (subst format_nat.simps) simp
  qed
qed

lemma format_nat_hd: "hd (format_nat n) \<in> set ''0123456789''"
  using set_format_nat [of n] hd_in_set [OF format_nat_not_Nil, of n] by blast

lemma parse_int64_format_nat:
  assumes "n < 2 ^ 63"
  shows "parse_int64 (format_nat n) = Some (int n)"
proof -
  obtain c cs where s: "format_nat n = c # cs"
    by (cases "format_nat n") auto
  have "c \<in> set ''0123456789''"
    using format_nat_hd [of n] s by simp
  then have c: "c \<noteq> CHR ''-''" "c \<noteq> CHR ''+''"
    by auto
  have "n < 2 ^ 64"
    using assms by (rule less_trans) simp
  then have "parse_uint 64 (c # cs) = Some n"
    by (simp flip: s)
  with c assms show ?thesis
    by (simp add: s parse_int64_def Let_def)
qed

lemma split_on_not_Nil [simp]: "split_on sep s \<noteq> []"
  by (induction s) (auto split: list.splits)

lemma split_on_id: "sep \<notin> set s \<Longrightarrow> split_on sep s = [s]"
  by (induction s) auto

lemma split_on_append:
  "sep \<notin> set s \<Longrightarrow> split_on sep (s @ sep # t) = s # split_on sep t"
  by (induction s) auto

lemma of_char_hex_char:
  assumes "d < 16"
  shows "of_char (hex_char d) = (if d < 10 then 48 + d else 87 + d :: nat)"
proof -
  from assms have "d \<in> set [0..<16]" by simp
  then show ?thesis
    by (auto simp: upt_rec numeral_eq_Suc hex_char_def)
qed

lemma hex_val_hex_char [simp]: "d < 16 \<Longrightarrow> hex_val (hex_char d) = Some d"
  by (auto simp: hex_val_def of_char_hex_char)

lemma hex_char_in: "d < 16 \<Longrightarrow> hex_char d \<in> set ''0123456789abcdef''"
  unfolding hex_char_def by (rule nth_mem) simp

lemma unat_u8_div16 [simp]: "unat (b :: u8) div 16 < 16"
  using unsigned_less [of b, where ?'a = nat] by simp

lemma hex_decode_encode [simp]: "hex_decode (hex_encode bs) = Some bs"
  by (induction bs) (simp_all add: hex_encode_def)

lemma set_hex_encode: "set (hex_encode bs) \<subseteq> set ''0123456789abcdef''"
  by (induction bs) (use hex_char_in in \<open>auto simp: hex_encode_def\<close>)

lemma hex_encode_Cons:
  "hex_encode (b # bs) = hex_char (unat b div 16) # hex_char (unat b mod 16) # hex_encode bs"
  by (simp add: hex_encode_def)

lemma hex_encode_inject [simp]: "hex_encode a = hex_encode b \<longleftrightarrow> a = b"
  by (metis hex_decode_encode option.inject)

lemma bytes_compare_eq_0 [simp]: "bytes_compare a b = 0 \<longleftrightarrow> a = b"
  by (auto simp: bytes_compare_def)

lemma bytes_compare_neg [simp]: "bytes_compare a b < 0 \<longleftrightarrow> a < b"
  by (auto simp: bytes_compare_def)

lemma bytes_compare_pos [simp]: "0 < bytes_compare a b \<longleftrightarrow> b < a"
  by (auto simp: bytes_compare_def)

lemma format_nat_inject [simp]: "format_nat a = format_nat b \<longleftrightarrow> a = b"
  by (metis option.inject parse_digits_format_nat)

lemma unat_of_char [simp]: "unat (of_char c :: u8) = of_char c"
proof -
  have "(of_char c :: u8) = word_of_nat (of_char c)"
    by (simp add: of_nat_of_char)
  moreover have "(of_char c :: nat) < 256" by (metis nat_of_char_less_256)
  ultimately show ?thesis by (simp add: unat_of_nat)
qed

lemma string_bytes_inject [simp]: "string_bytes s = string_bytes t \<longleftrightarrow> s = t"
proof -
  have "inj (of_char :: char \<Rightarrow> u8)"
    by (rule injI) (metis of_char_eq_iff unat_of_char)
  then show ?thesis by (simp add: string_bytes_def inj_map_eq_map)
qed

end
