(* ===== verification/Go_Float.thy ===== *)
theory Go_Float
  imports Lspd_Prelude
begin

text \<open>
  Finite \<^verbatim>\<open>float64\<close> values and the operations the sources apply to them: multiplication rounded
  to the nearest 53-bit significand (ties to even), truncating conversion to an integer,
  \<^verbatim>\<open>math.Ceil\<close> and \<^verbatim>\<open>math.Modf\<close>. A value is a significand and a binary exponent; infinities,
  NaN and the gradual underflow near zero do not occur in the sources' uses (fee rates and
  Unix times) and are not represented.
\<close>

datatype float64 = Float (significand: int) (exponent: int)

fun bit_length :: "nat \<Rightarrow> nat" where
  "bit_length n = (if n = 0 then 0 else Suc (bit_length (n div 2)))"

declare bit_length.simps [simp del]

definition round_half_even :: "nat \<Rightarrow> nat \<Rightarrow> nat" where
  "round_half_even n k =
     (if k = 0 then n
      else let q = n div 2 ^ k; r = n mod 2 ^ k; h = 2 ^ (k - 1)
           in if r > h \<or> r = h \<and> odd q then q + 1 else q)"

definition fl_round :: "int \<Rightarrow> int \<Rightarrow> float64" where
  "fl_round m e =
     (let k = bit_length (nat \<bar>m\<bar>) - 53
      in Float (sgn m * int (round_half_even (nat \<bar>m\<bar>) k)) (e + int k))"

fun fl_mul :: "float64 \<Rightarrow> float64 \<Rightarrow> float64" where
  "fl_mul (Float m e) (Float n f) = fl_round (m * n) (e + f)"

text \<open>Conversion of a \<^verbatim>\<open>float64\<close> to an integer discards the fraction.\<close>

fun fl_trunc :: "float64 \<Rightarrow> int" where
  "fl_trunc (Float m e) =
     (if 0 \<le> e then m * 2 ^ nat e else sgn m * (\<bar>m\<bar> div 2 ^ nat (- e)))"

fun fl_ceil :: "float64 \<Rightarrow> int" where
  "fl_ceil (Float m e) =
     (if 0 \<le> e then m * 2 ^ nat e else - ((- m) div 2 ^ nat (- e)))"

text \<open>\<^verbatim>\<open>math.Modf\<close>: the integer part and the fraction, both with the sign of the argument.\<close>

fun fl_modf :: "float64 \<Rightarrow> int \<times> float64" where
  "fl_modf (Float m e) =
     (if 0 \<le> e then (m * 2 ^ nat e, Float 0 0)
      else (sgn m * (\<bar>m\<bar> div 2 ^ nat (- e)), Float (sgn m * (\<bar>m\<bar> mod 2 ^ nat (- e))) e))"

definition fl_uint32 :: "float64 \<Rightarrow> u32" where
  "fl_uint32 x = word_of_int (fl_trunc x)"

lemma bit_length_0 [simp]: "bit_length 0 = 0"
  by (simp add: bit_length.simps)

lemma bit_length_bound: "n < 2 ^ bit_length n"
proof (induction n rule: bit_length.induct)
  case (1 n)
  show ?case
  proof (cases "n = 0")
    case False
    with "1.IH" have "n div 2 < 2 ^ bit_length (n div 2)" by simp
    then have "n < 2 * 2 ^ bit_length (n div 2)" by linarith
    with False show ?thesis by (subst bit_length.simps) simp
  qed simp
qed

lemma bit_length_le: "n < 2 ^ k \<Longrightarrow> bit_length n \<le> k"
proof (induction n arbitrary: k rule: bit_length.induct)
  case (1 n)
  show ?case
  proof (cases "n = 0")
    case False
    with "1.prems" obtain j where k: "k = Suc j"
      by (cases k) auto
    with "1.prems" have "n div 2 < 2 ^ j" by (simp add: less_mult_imp_div_less)
    with False "1.IH" k show ?thesis by (subst bit_length.simps) simp
  qed simp
qed

text \<open>Products whose significand fits 53 bits are exact.\<close>

lemma fl_mul_exact:
  assumes "nat \<bar>m * n\<bar> < 2 ^ 53"
  shows "fl_mul (Float m e) (Float n f) = Float (m * n) (e + f)"
proof -
  have "bit_length (nat \<bar>m * n\<bar>) \<le> 53"
    using assms by (rule bit_length_le)
  then show ?thesis
    by (simp add: fl_round_def round_half_even_def sgn_mult_abs)
qed

lemma fl_modf_parts:
  assumes "fl_modf (Float m e) = (i, Float r e')" and "e < 0"
  shows "m = i * 2 ^ nat (- e) + r" and "\<bar>r\<bar> < 2 ^ nat (- e)"
proof -
  let ?p = "2 ^ nat (- e) :: int"
  from assms have i: "i = sgn m * (\<bar>m\<bar> div ?p)" and r: "r = sgn m * (\<bar>m\<bar> mod ?p)"
    by auto
  have "sgn m * (\<bar>m\<bar> div ?p) * ?p + sgn m * (\<bar>m\<bar> mod ?p) = sgn m * (\<bar>m\<bar> div ?p * ?p + \<bar>m\<bar> mod ?p)"
    by (simp only: distrib_left mult.assoc)
  also have "\<dots> = m"
    by (simp only: div_mult_mod_eq sgn_mult_abs)
  finally show "m = i * ?p + r"
    by (simp only: i r)
  show "\<bar>r\<bar> < ?p"
    by (simp add: r abs_mult sgn_if)
qed

end
