(* ===== verification/Chain_Fees.thy ===== *)
theory Chain_Fees
  imports Go_Float
begin

text \<open>
  On-chain fee estimation: the package \<^verbatim>\<open>chain\<close> (the \<^verbatim>\<open>FeeEstimator\<close> interface and the default
  estimator) and the client of the mempool.space API in \<^verbatim>\<open>mempool/mempool_client.go\<close>. The HTTP
  exchange is an argument: a function from the URL to the response, whose body is given as what
  the JSON decoder makes of it. The locale \<open>fee_estimator\<close> is the interface's contract.
\<close>

section \<open>chain/fee_estimator.go\<close>

type_synonym FeeStrategy = int

definition FeeStrategyFastest :: FeeStrategy where "FeeStrategyFastest = 0"
definition FeeStrategyHalfHour :: FeeStrategy where "FeeStrategyHalfHour = 1"
definition FeeStrategyHour :: FeeStrategy where "FeeStrategyHour = 2"
definition FeeStrategyEconomy :: FeeStrategy where "FeeStrategyEconomy = 3"
definition FeeStrategyMinimum :: FeeStrategy where "FeeStrategyMinimum = 4"

record FeeEstimation =
  SatPerVByte :: "float64 option"
  TargetConf :: "u32 option"

type_synonym 'w FeeEstimator = "FeeStrategy \<Rightarrow> 'w \<Rightarrow> (error + FeeEstimation) \<times> 'w"

section \<open>chain/default\_fee\_estimator.go\<close>

definition DefaultFeeEstimator_EstimateFeeRate :: "u32 \<Rightarrow> 'w FeeEstimator" where
  "DefaultFeeEstimator_EstimateFeeRate targetConf strategy w =
     (Inr \<lparr>SatPerVByte = None, TargetConf = Some targetConf\<rparr>, w)"

section \<open>mempool/mempool\_client.go\<close>

record RecommendedFeesResponse =
  FastestFee :: float64
  HalfHourFee :: float64
  HourFee :: float64
  EconomyFee :: float64
  MinimumFee :: float64

record http_response =
  StatusCode :: int
  Body :: "error + RecommendedFeesResponse"

text \<open>The client's state is its base URL, which always ends in a slash.\<close>

definition NewMempoolClient :: "string \<Rightarrow> error + string" where
  "NewMempoolClient apiBaseUrl =
     (if apiBaseUrl = '''' then Inl (Error ''apiBaseUrl not set'')
      else Inr (if \<not> has_suffix apiBaseUrl ''/'' then apiBaseUrl @ ''/'' else apiBaseUrl))"

definition recommended_rate :: "RecommendedFeesResponse \<Rightarrow> FeeStrategy \<Rightarrow> float64 option" where
  "recommended_rate body strategy =
     (if strategy = FeeStrategyFastest then Some (FastestFee body)
      else if strategy = FeeStrategyHalfHour then Some (HalfHourFee body)
      else if strategy = FeeStrategyHour then Some (HourFee body)
      else if strategy = FeeStrategyEconomy then Some (EconomyFee body)
      else if strategy = FeeStrategyMinimum then Some (MinimumFee body)
      else None)"

definition MempoolClient_EstimateFeeRate ::
  "(string \<Rightarrow> 'w \<Rightarrow> (error + http_response) \<times> 'w) \<Rightarrow> string \<Rightarrow> 'w FeeEstimator" where
  "MempoolClient_EstimateFeeRate httpGet apiBaseUrl strategy w =
     (case httpGet (apiBaseUrl @ ''fees/recommended'') w of
        (Inl err, w') \<Rightarrow> (Inl (Wrap ''httpClient.Do error'' err), w')
      | (Inr resp, w') \<Rightarrow>
          if \<not> (200 \<le> StatusCode resp \<and> StatusCode resp < 300)
          then (Inl (Error ''error statuscode''), w')
          else (case Body resp of
                  Inl err \<Rightarrow> (Inl (Wrap ''failed to unmarshal response'' err), w')
                | Inr body \<Rightarrow>
                    (case recommended_rate body strategy of
                       None \<Rightarrow> (Inl (Error ''unsupported fee strategy''), w')
                     | Some rate \<Rightarrow>
                         (Inr \<lparr>SatPerVByte = Some rate, TargetConf = None\<rparr>, w'))))"

section \<open>The contract of FeeEstimator\<close>

definition one_rate :: "FeeEstimation \<Rightarrow> bool" where
  "one_rate f \<longleftrightarrow> (SatPerVByte f = None) \<noteq> (TargetConf f = None)"

text \<open>
  The fee of a channel open (\<^verbatim>\<open>interceptor/intercept_handler.go\<close>, \<^verbatim>\<open>openChannel\<close>): the estimate, or
  the configured confirmation target when estimating fails.
\<close>

definition channel_open_fee ::
  "'w FeeEstimator \<Rightarrow> FeeStrategy \<Rightarrow> u32 \<Rightarrow> 'w \<Rightarrow> FeeEstimation \<times> 'w" where
  "channel_open_fee estimate strategy targetConf w =
     (case estimate strategy w of
        (Inl err, w') \<Rightarrow> (\<lparr>SatPerVByte = None, TargetConf = Some targetConf\<rparr>, w')
      | (Inr fee, w') \<Rightarrow> (fee, w'))"

locale fee_estimator =
  fixes estimate :: "'w FeeEstimator"
  assumes estimate_one_rate: "estimate strategy w = (Inr f, w') \<Longrightarrow> one_rate f"
begin

lemma channel_open_fee_one_rate:
  "channel_open_fee estimate strategy targetConf w = (fee, w') \<Longrightarrow> one_rate fee"
  by (auto simp: channel_open_fee_def one_rate_def dest: estimate_one_rate
      split: prod.splits sum.splits)

end

interpretation default_estimator: fee_estimator "DefaultFeeEstimator_EstimateFeeRate targetConf"
  for targetConf
  by unfold_locales (simp add: DefaultFeeEstimator_EstimateFeeRate_def one_rate_def)

interpretation mempool_estimator: fee_estimator "MempoolClient_EstimateFeeRate httpGet apiBaseUrl"
  for httpGet apiBaseUrl
  by unfold_locales
    (auto simp: MempoolClient_EstimateFeeRate_def one_rate_def
      split: prod.splits sum.splits option.splits if_splits)

section \<open>Lemmas\<close>

lemma recommended_rate_None_iff: "recommended_rate body s = None \<longleftrightarrow> s \<notin> {0..4}"
  unfolding recommended_rate_def FeeStrategyFastest_def FeeStrategyHalfHour_def FeeStrategyHour_def
    FeeStrategyEconomy_def FeeStrategyMinimum_def
  by auto

lemma NewMempoolClient_slash: "NewMempoolClient url = Inr base \<Longrightarrow> has_suffix base ''/''"
  by (auto simp: NewMempoolClient_def has_suffix_def split: if_splits)

end
