(* ===== verification/Lightning.thy ===== *)
theory Lightning
  imports Lspd_Prelude Go_Float
begin

text \<open>
  The package \<^verbatim>\<open>lightning\<close>: short channel ids (\<^verbatim>\<open>short_channel_id.go\<close>), funding outpoints
  (\<^verbatim>\<open>outpoint.go\<close>), signed messages (\<^verbatim>\<open>verify_message.go\<close>) and the \<^verbatim>\<open>Client\<close> interface that the
  CLN and LND clients implement (\<^verbatim>\<open>client.go\<close>). The functions of the btcd, lnd and zbase32
  libraries the code calls are fields of the record \<open>libs\<close>; \<open>libs_ok\<close> states what their
  documentation promises, and \<open>std_libs\<close> is a concrete instance of it.
\<close>

section \<open>Libraries\<close>

record outpoint =
  op_hash :: bytes
  op_index :: u32

record libs =
  lnwire_ToUint64 :: "u32 \<Rightarrow> u32 \<Rightarrow> u16 \<Rightarrow> u64"
  chainhash_SetBytes :: "bytes \<Rightarrow> error + bytes"
  outpoint_String :: "outpoint \<Rightarrow> string"
  sha256 :: "bytes \<Rightarrow> bytes"
  zbase32_DecodeString :: "string \<Rightarrow> error + bytes"
  ecdsa_RecoverCompact :: "bytes \<Rightarrow> bytes \<Rightarrow> error + (bytes \<times> bool)"
  ecdsa_SignCompact :: "bytes \<Rightarrow> bytes \<Rightarrow> bytes"
  btcec_PubKey :: "bytes \<Rightarrow> bytes"

text \<open>
  Documented behaviour: \<^verbatim>\<open>lnwire.ShortChannelID.ToUint64\<close> is the compact BOLT 7 encoding,
  \<^verbatim>\<open>chainhash.Hash.SetBytes\<close> takes exactly 32 bytes, and \<^verbatim>\<open>wire.OutPoint.String\<close> is the
  byte-reversed hash in hex, a colon and the output index.
\<close>

definition scid_encoding :: "libs \<Rightarrow> bool" where
  "scid_encoding L \<longleftrightarrow>
     (\<forall>b t p. lnwire_ToUint64 L b t p =
        push_bit 40 (ucast b) OR push_bit 16 (ucast t) OR ucast p)"

definition hash_bytes :: "libs \<Rightarrow> bool" where
  "hash_bytes L \<longleftrightarrow>
     (\<forall>bs. chainhash_SetBytes L bs =
        (if length bs = 32 then Inr bs else Inl (Error ''invalid hash length'')))"

definition outpoint_format :: "libs \<Rightarrow> bool" where
  "outpoint_format L \<longleftrightarrow>
     (\<forall>op. outpoint_String L op =
        hex_encode (rev (op_hash op)) @ '':'' @ format_uint (op_index op))"

text \<open>
  \<^verbatim>\<open>ecdsa.RecoverCompact\<close> recovers the public key that made a compact signature of a hash with
  \<^verbatim>\<open>ecdsa.SignCompact\<close>, and that the signature is for a compressed key.
\<close>

definition recovers_signer :: "libs \<Rightarrow> bool" where
  "recovers_signer L \<longleftrightarrow>
     (\<forall>k h. ecdsa_RecoverCompact L (ecdsa_SignCompact L k h) h = Inr (btcec_PubKey L k, True))"

definition libs_ok :: "libs \<Rightarrow> bool" where
  "libs_ok L \<longleftrightarrow> scid_encoding L \<and> hash_bytes L \<and> outpoint_format L"

definition std_libs :: libs where
  "std_libs = \<lparr>
     lnwire_ToUint64 = (\<lambda>b t p. push_bit 40 (ucast b) OR push_bit 16 (ucast t) OR ucast p),
     chainhash_SetBytes =
       (\<lambda>bs. if length bs = 32 then Inr bs else Inl (Error ''invalid hash length'')),
     outpoint_String =
       (\<lambda>op. hex_encode (rev (op_hash op)) @ '':'' @ format_uint (op_index op)),
     sha256 = (\<lambda>bs. bs),
     zbase32_DecodeString = (\<lambda>s. Inr (string_bytes s)),
     ecdsa_RecoverCompact =
       (\<lambda>sig h. let n = length sig - length h in
          if drop n sig = h then Inr (take n sig, True) else Inl (Error ''recover'')),
     ecdsa_SignCompact = (\<lambda>k h. k @ h),
     btcec_PubKey = (\<lambda>k. k) \<rparr>"

section \<open>Short channel ids\<close>

type_synonym ShortChannelID = u64

definition NewShortChannelIDFromString :: "libs \<Rightarrow> string \<Rightarrow> error + ShortChannelID" where
  "NewShortChannelIDFromString L channelID =
     (if channelID = '''' then Inr 0
      else case split_on (CHR ''x'') channelID of
        [f0, f1, f2] \<Rightarrow>
          (case parse_int64 f0 of
             None \<Rightarrow> Inl (Error ''failed to parse block height'')
           | Some blockHeight \<Rightarrow>
               (case parse_int64 f1 of
                  None \<Rightarrow> Inl (Error ''failed to parse block height'')
                | Some txIndex \<Rightarrow>
                    (case parse_int64 f2 of
                       None \<Rightarrow> Inl (Error ''failed to parse block height'')
                     | Some txPos \<Rightarrow>
                         Inr (lnwire_ToUint64 L (word_of_int blockHeight) (word_of_int txIndex)
                                (word_of_int txPos)))))
      | _ \<Rightarrow> Inl (Error ''invalid short channel id''))"

text \<open>The method \<^verbatim>\<open>ToString\<close>; its nil receiver is \<open>None\<close>.\<close>

definition scid_ToString :: "ShortChannelID option \<Rightarrow> string" where
  "scid_ToString c =
     (case c of
        None \<Rightarrow> ''''
      | Some u \<Rightarrow>
          let blockHeight = drop_bit 40 u AND 0xFFFFFF;
              txIndex = drop_bit 16 u AND 0xFFFFFF;
              outputIndex = u AND 0xFFFF
          in format_uint blockHeight @ ''x'' @ format_uint txIndex @ ''x'' @
             format_uint outputIndex)"

section \<open>Outpoints\<close>

definition NewOutPoint :: "libs \<Rightarrow> bytes \<Rightarrow> u32 \<Rightarrow> error + outpoint" where
  "NewOutPoint L fundingTxID index =
     (case chainhash_SetBytes L fundingTxID of
        Inl err \<Rightarrow> Inl err
      | Inr h \<Rightarrow> Inr \<lparr>op_hash = h, op_index = index\<rparr>)"

definition NewOutPointFromString :: "libs \<Rightarrow> string \<Rightarrow> error + outpoint" where
  "NewOutPointFromString L op =
     (case split_on (CHR '':'') op of
        [s0, s1] \<Rightarrow>
          (case hex_decode s0 of
             None \<Rightarrow> Inl (Error ''invalid outpoint'')
           | Some fundingTxId \<Rightarrow>
               (case parse_uint 32 s1 of
                  None \<Rightarrow> Inl (Error ''invalid outpoint'')
                | Some outnum \<Rightarrow> NewOutPoint L fundingTxId (word_of_nat outnum)))
      | _ \<Rightarrow> Inl (Error ''invalid outpoint''))"

section \<open>Signed messages\<close>

definition ErrInvalidSignature :: error where
  "ErrInvalidSignature = Error ''invalid signature''"

definition SignedMsgPrefix :: bytes where
  "SignedMsgPrefix = string_bytes ''Lightning Signed Message:''"

text \<open>A public key is represented by its compressed serialisation.\<close>

definition VerifyMessage :: "libs \<Rightarrow> bytes \<Rightarrow> string \<Rightarrow> error + bytes" where
  "VerifyMessage L message signature =
     (case zbase32_DecodeString L signature of
        Inl err \<Rightarrow> Inl (Wrap ''failed to decode signature'' err)
      | Inr sig \<Rightarrow>
          let msg = SignedMsgPrefix @ message;
              first = sha256 L msg;
              snd_hash = sha256 L first
          in case ecdsa_RecoverCompact L sig snd_hash of
               Inl err \<Rightarrow> Inl ErrInvalidSignature
             | Inr (pubkey, wasCompressed) \<Rightarrow>
                 if \<not> wasCompressed then Inl ErrInvalidSignature else Inr pubkey)"

section \<open>The Client interface\<close>

record GetInfoResult =
  Alias :: string
  Pubkey :: string

record GetChannelResult =
  gc_AliasScid :: "ShortChannelID option"
  gc_ConfirmedScid :: "ShortChannelID option"
  gc_HtlcMinimumMsat :: u64

record RoutingPolicy =
  Ppm :: u32
  BaseMsat :: u64

record OpenChannelRequest =
  oc_Destination :: bytes
  oc_CapacitySat :: u64
  oc_MinConfs :: "u32 option"
  oc_FeeSatPerVByte :: "float64 option"
  oc_TargetConf :: "u32 option"
  oc_RoutingPolicy :: "RoutingPolicy option"

record Channel =
  ch_AliasScid :: "ShortChannelID option"
  ch_ConfirmedScid :: "ShortChannelID option"
  ch_ChannelPoint :: "outpoint option"
  ch_PeerId :: bytes

text \<open>
  A client is the record of its methods. Each takes the state \<open>'w\<close> of the world (the lightning
  node and the clock) and returns the result with the new state; a nil result is \<open>None\<close>. The
  two methods that wait may also not return at all, which is the outer \<open>None\<close> of their result.
\<close>

record 'w Client =
  GetInfo :: "'w \<Rightarrow> (error + GetInfoResult) \<times> 'w"
  IsConnected :: "bytes \<Rightarrow> 'w \<Rightarrow> (error + bool) \<times> 'w"
  OpenChannel :: "OpenChannelRequest \<Rightarrow> 'w \<Rightarrow> (error + outpoint) \<times> 'w"
  GetChannel :: "bytes \<Rightarrow> outpoint \<Rightarrow> 'w \<Rightarrow> (error + GetChannelResult) \<times> 'w"
  GetPeerId :: "ShortChannelID \<Rightarrow> 'w \<Rightarrow> (error + bytes option) \<times> 'w"
  GetClosedChannels ::
    "string \<Rightarrow> (string \<rightharpoonup> u64) \<Rightarrow> 'w \<Rightarrow> (error + (string \<rightharpoonup> u64)) \<times> 'w"
  WaitOnline :: "bytes \<Rightarrow> time \<Rightarrow> 'w \<Rightarrow> (error option \<times> 'w) option"
  WaitChannelActive :: "bytes \<Rightarrow> time \<Rightarrow> 'w \<Rightarrow> (error option \<times> 'w) option"
  ListChannels :: "'w \<Rightarrow> (error + Channel option list) \<times> 'w"

text \<open>A client of a node that does not answer, for concrete instances.\<close>

definition unreachable_client :: "'w Client" where
  "unreachable_client = \<lparr>
     GetInfo = (\<lambda>w. (Inl (Error ''unavailable''), w)),
     IsConnected = (\<lambda>_ w. (Inl (Error ''unavailable''), w)),
     OpenChannel = (\<lambda>_ w. (Inl (Error ''unavailable''), w)),
     GetChannel = (\<lambda>_ _ w. (Inl (Error ''unavailable''), w)),
     GetPeerId = (\<lambda>_ w. (Inl (Error ''unavailable''), w)),
     GetClosedChannels = (\<lambda>_ _ w. (Inl (Error ''unavailable''), w)),
     WaitOnline = (\<lambda>_ _ w. Some (Some (Error ''unavailable''), w)),
     WaitChannelActive = (\<lambda>_ _ w. Some (Some (Error ''unavailable''), w)),
     ListChannels = (\<lambda>w. (Inl (Error ''unavailable''), w)) \<rparr>"

section \<open>Lemmas\<close>

lemma libs_ok_std [simp]: "libs_ok std_libs"
  by (simp add: libs_ok_def scid_encoding_def hash_bytes_def outpoint_format_def std_libs_def)

lemma recovers_signer_std [simp]: "recovers_signer std_libs"
  by (simp add: recovers_signer_def std_libs_def)

lemma libs_okD:
  assumes "libs_ok L"
  shows "scid_encoding L" and "hash_bytes L" and "outpoint_format L"
  using assms by (simp_all add: libs_ok_def)

lemma x_notin_format_nat [simp]: "CHR ''x'' \<notin> set (format_nat n)"
  using set_format_nat [of n] by auto

lemma colon_notin_hex_encode [simp]: "CHR '':'' \<notin> set (hex_encode bs)"
  using set_hex_encode [of bs] by auto

lemma colon_notin_format_nat [simp]: "CHR '':'' \<notin> set (format_nat n)"
  using set_format_nat [of n] by auto

lemma split_on_scid:
  "split_on (CHR ''x'') (format_nat a @ ''x'' @ format_nat b @ ''x'' @ format_nat c) =
     [format_nat a, format_nat b, format_nat c]"
  by (simp add: split_on_append split_on_id)

text \<open>Parsing three decimal fields packs them into the compact encoding.\<close>

lemma NewShortChannelID_fields:
  assumes "scid_encoding L" and "a < 2 ^ 63" and "b < 2 ^ 63" and "c < 2 ^ 63"
  shows "NewShortChannelIDFromString L (format_nat a @ ''x'' @ format_nat b @ ''x'' @ format_nat c) =
           Inr (push_bit 40 (ucast (word_of_nat a :: u32)) OR
                push_bit 16 (ucast (word_of_nat b :: u32)) OR ucast (word_of_nat c :: u16))"
proof -
  have "format_nat a @ ''x'' @ format_nat b @ ''x'' @ format_nat c \<noteq> []"
    by simp
  with assms show ?thesis
    unfolding NewShortChannelIDFromString_def split_on_scid
    by (simp add: parse_int64_format_nat scid_encoding_def)
qed

lemma scid_fields_recombine:
  fixes u :: u64
  shows "push_bit 40 (drop_bit 40 u AND 0xFFFFFF) OR push_bit 16 (drop_bit 16 u AND 0xFFFFFF) OR
           (u AND 0xFFFF) = u"
proof -
  have "u AND 0xFFFFFF = take_bit 24 u" and "u AND 0xFFFF = take_bit 16 u" for u :: u64
    by (simp_all add: take_bit_eq_mask mask_eq_exp_minus_1)
  moreover have "push_bit 40 (take_bit 24 (drop_bit 40 u)) OR
      push_bit 16 (take_bit 24 (drop_bit 16 u)) OR take_bit 16 u = u"
  proof (rule bit_word_eqI)
    fix n :: nat
    show "bit (push_bit 40 (take_bit 24 (drop_bit 40 u)) OR
        push_bit 16 (take_bit 24 (drop_bit 16 u)) OR take_bit 16 u) n \<longleftrightarrow> bit u n"
      if "n < LENGTH(64)"
      using that by (cases "n < 16"; cases "n < 40") (auto simp: bit_simps)
  qed
  ultimately show ?thesis by simp
qed

lemma ucast_ucast_small [simp]:
  fixes x :: u64
  assumes "unat x < 2 ^ LENGTH('a::len)"
  shows "ucast (ucast x :: 'a word) = x"
proof (rule unsigned_word_eqI)
  show "unat (ucast (ucast x :: 'a word) :: u64) = unat x"
    using assms unsigned_less [of x, where ?'a = nat]
    by (simp add: unsigned_ucast_eq unsigned_take_bit_eq take_bit_nat_eq_self)
qed

text \<open>
  C35: Printing a short channel id with \<^verbatim>\<open>ToString\<close> and parsing the text with
  \<^verbatim>\<open>NewShortChannelIDFromString\<close> gives the same id back, for every 64-bit id, when
  \<^verbatim>\<open>lnwire\<close> encodes ids as documented.
\<close>

theorem scid_roundtrip:
  assumes "scid_encoding L"
  shows "NewShortChannelIDFromString L (scid_ToString (Some u)) = Inr u"
proof -
  let ?b = "drop_bit 40 u AND 0xFFFFFF" and ?t = "drop_bit 16 u AND 0xFFFFFF"
  let ?o = "u AND 0xFFFF"
  have mask: "unat (x AND m) \<le> unat m" for x m :: u64
    by (rule word_and_le1 [THEN word_le_nat_alt [THEN iffD1]])
  have b: "unat ?b < 2 ^ 32" "unat ?t < 2 ^ 32" "unat ?o < 2 ^ 16"
    using mask [of "drop_bit 40 u" "0xFFFFFF"] mask [of "drop_bit 16 u" "0xFFFFFF"]
      mask [of u "0xFFFF"] by simp_all
  then have "unat ?b < 2 ^ 63" "unat ?t < 2 ^ 63" "unat ?o < 2 ^ 63"
    by simp_all
  with assms have "NewShortChannelIDFromString L (scid_ToString (Some u)) =
      Inr (push_bit 40 (ucast (ucast ?b :: u32)) OR
           push_bit 16 (ucast (ucast ?t :: u32)) OR ucast (ucast ?o :: u16))"
    by (simp add: scid_ToString_def format_uint_def NewShortChannelID_fields del: append_Cons)
  with b show ?thesis
    by (simp add: scid_fields_recombine del: push_bit_and)
qed

lemma scid_encoding_std [simp]: "scid_encoding std_libs"
  by (rule libs_okD) simp

theorem scid_roundtrip_witness:
  "NewShortChannelIDFromString std_libs (scid_ToString (Some 0x0A0B0C0D0E0F0001)) =
     Inr 0x0A0B0C0D0E0F0001"
  by (rule scid_roundtrip [OF scid_encoding_std])

lemma NewOutPoint_ok [simp]:
  assumes "hash_bytes L" and "length h = 32"
  shows "NewOutPoint L h i = Inr \<lparr>op_hash = h, op_index = i\<rparr>"
  using assms by (simp add: NewOutPoint_def hash_bytes_def)

lemma NewOutPoint_hash:
  assumes "hash_bytes L" and "NewOutPoint L h i = Inr op"
  shows "op_hash op = h" and "op_index op = i" and "length h = 32"
  using assms by (auto simp: NewOutPoint_def hash_bytes_def split: if_splits)

text \<open>
  \<^verbatim>\<open>NewOutPointFromString\<close> reads the hex digits of a printed outpoint without reversing them,
  while printing reverses: the parsed outpoint has the byte-reversed transaction id.
\<close>

lemma NewOutPointFromString_String:
  assumes "libs_ok L" and "length (op_hash op) = 32"
  shows "NewOutPointFromString L (outpoint_String L op) = Inr (op\<lparr>op_hash := rev (op_hash op)\<rparr>)"
proof -
  have idx: "unat (op_index op) < 2 ^ 32"
    using unsigned_less [of "op_index op", where ?'a = nat] by simp
  have "outpoint_String L op =
      hex_encode (rev (op_hash op)) @ CHR '':'' # format_nat (unat (op_index op))"
    using assms(1) by (simp add: libs_ok_def outpoint_format_def format_uint_def)
  with idx assms show ?thesis
    by (cases op) (simp add: NewOutPointFromString_def split_on_append split_on_id libs_okD)
qed

lemma NewOutPointFromString_String_witness:
  "NewOutPointFromString std_libs
     (outpoint_String std_libs \<lparr>op_hash = 1 # replicate 31 0, op_index = 7\<rparr>) =
   Inr \<lparr>op_hash = replicate 31 0 @ [1], op_index = 7\<rparr>"
  using NewOutPointFromString_String [OF libs_ok_std,
      of "\<lparr>op_hash = 1 # replicate 31 0, op_index = 7\<rparr>"]
  by simp

end
