(* ===== verification/Nodes.thy ===== *)
theory Nodes
  imports Lightning
begin

text \<open>
  Node configuration (\<^verbatim>\<open>config/config.go\<close>), the table of nodes by API token
  (\<^verbatim>\<open>common/nodes_service.go\<close>), the request context (\<^verbatim>\<open>rpc/node_context.go\<close>) and the token check
  that the gRPC server runs before every call (\<^verbatim>\<open>cmd/lspd/grpc_server.go\<close>).
\<close>

section \<open>config/config.go\<close>

record LndConfig =
  lnd_Address :: string
  lnd_Cert :: string
  lnd_Macaroon :: string

record ClnConfig =
  cln_PluginAddress :: string
  cln_GrpcAddress :: string
  cln_CaCert :: string
  cln_ClientCert :: string
  cln_ClientKey :: string

record NodeConfig =
  Name :: string
  NodePubkey :: string
  LspdPrivateKey :: string
  ConfigTokens :: "string list"
  LegacyOnionTokens :: "string list"
  Host :: string
  PublicChannelAmount :: int
  ConfigTargetConf :: u32
  MinConfs :: "u32 option"
  MinHtlcMsat :: u64
  BaseFeeMsat :: u64
  FeeRate :: float64
  TimeLockDelta :: u32
  ChannelFeePermyriad :: int
  ChannelMinimumFeeMsat :: int
  AdditionalChannelCapacity :: int
  MaxInactiveDuration :: u64
  NotificationTimeout :: string
  Lnd :: "LndConfig option"
  Cln :: "ClnConfig option"

section \<open>common/nodes\_service.go\<close>

text \<open>Keys are represented by their serialisations.\<close>

record 'w Node =
  NodeId :: bytes
  NodeClient :: "'w Client"
  Config :: NodeConfig
  PrivateKey :: bytes
  PublicKey :: bytes
  EciesPrivateKey :: bytes
  EciesPublicKey :: bytes
  Tokens :: "string list"

record 'w nodesService =
  nodes :: "'w Node list"
  nodeLookup :: "string \<rightharpoonup> 'w Node"

fun add_tokens ::
  "'w Node \<Rightarrow> string list \<Rightarrow> (string \<rightharpoonup> 'w Node) \<Rightarrow> error + (string \<rightharpoonup> 'w Node)" where
  "add_tokens node [] m = Inr m"
| "add_tokens node (token # ts) m =
     (case m token of
        Some _ \<Rightarrow> Inl (Error ''cannot have multiple nodes with the same token'')
      | None \<Rightarrow> add_tokens node ts (m(token \<mapsto> node)))"

fun add_nodes ::
  "'w Node list \<Rightarrow> (string \<rightharpoonup> 'w Node) \<Rightarrow> error + (string \<rightharpoonup> 'w Node)" where
  "add_nodes [] m = Inr m"
| "add_nodes (node # ns) m =
     (case add_tokens node (Tokens node) m of
        Inl err \<Rightarrow> Inl err
      | Inr m' \<Rightarrow> add_nodes ns m')"

definition NewNodesService :: "'w Node list \<Rightarrow> error + 'w nodesService" where
  "NewNodesService ns =
     (case add_nodes ns Map.empty of
        Inl err \<Rightarrow> Inl err
      | Inr m \<Rightarrow> Inr \<lparr>nodes = ns, nodeLookup = m\<rparr>)"

definition ErrNodeNotFound :: error where
  "ErrNodeNotFound = Error ''node not found''"

definition GetNode :: "'w nodesService \<Rightarrow> string \<Rightarrow> error + 'w Node" where
  "GetNode s token =
     (case nodeLookup s token of None \<Rightarrow> Inl ErrNodeNotFound | Some node \<Rightarrow> Inr node)"

definition GetNodes :: "'w nodesService \<Rightarrow> 'w Node list" where
  "GetNodes s = nodes s"

section \<open>rpc/node\_context.go\<close>

text \<open>Of a request context only the value stored under the key \<^verbatim>\<open>node\<close> is used.\<close>

type_synonym 'w ctx = "('w Node \<times> string) option"

definition PermissionDenied :: error where
  "PermissionDenied = Error ''Not authorized''"

definition ctx_GetNode :: "'w ctx \<Rightarrow> error + ('w Node \<times> string)" where
  "ctx_GetNode ctx = (case ctx of None \<Rightarrow> Inl PermissionDenied | Some nt \<Rightarrow> Inr nt)"

definition WithNode :: "'w ctx \<Rightarrow> 'w Node \<Rightarrow> string \<Rightarrow> 'w ctx" where
  "WithNode ctx node token = Some (node, token)"

section \<open>cmd/lspd/grpc\_server.go\<close>

fun auth_loop :: "'w nodesService \<Rightarrow> string list \<Rightarrow> ('w Node \<times> string) option" where
  "auth_loop s [] = None"
| "auth_loop s (auth # auths) =
     (if \<not> has_prefix auth ''Bearer '' then auth_loop s auths
      else let token = drop 7 auth
           in case GetNode s token of
                Inl err \<Rightarrow> auth_loop s auths
              | Inr node \<Rightarrow> Some (node, token))"

text \<open>
  The unary interceptor: \<open>md\<close> is the list of \<^verbatim>\<open>authorization\<close> values of the call's metadata, if
  the call has metadata; the handler runs with the node in its context.
\<close>

definition authorize ::
  "'w nodesService \<Rightarrow> string list option \<Rightarrow> ('w ctx \<Rightarrow> 'r) \<Rightarrow> error + 'r" where
  "authorize s md handler =
     (case md of
        None \<Rightarrow> Inl PermissionDenied
      | Some auths \<Rightarrow>
          (case auth_loop s auths of
             None \<Rightarrow> Inl PermissionDenied
           | Some (node, token) \<Rightarrow> Inr (handler (WithNode None node token))))"

section \<open>Lemmas\<close>

definition token_error :: error where
  "token_error = Error ''cannot have multiple nodes with the same token''"

definition token_map :: "'w Node \<Rightarrow> string list \<Rightarrow> string \<rightharpoonup> 'w Node" where
  "token_map node ts = (\<lambda>t. if t \<in> set ts then Some node else None)"

lemma token_map_Nil [simp]: "token_map node [] = Map.empty"
  by (simp add: token_map_def)

lemma dom_token_map [simp]: "dom (token_map node ts) = set ts"
  by (auto simp: token_map_def dom_def)

lemma token_map_Cons: "m(t \<mapsto> node) ++ token_map node ts = m ++ token_map node (t # ts)"
  by (auto simp: token_map_def map_add_def fun_eq_iff)

lemma add_tokens_eq:
  "add_tokens node ts m =
     (if distinct ts \<and> set ts \<inter> dom m = {} then Inr (m ++ token_map node ts)
      else Inl token_error)"
  by (induction ts arbitrary: m)
    (auto simp: token_error_def token_map_Cons dom_def split: option.splits)

text \<open>The node a token belongs to, by search through the configured nodes.\<close>

definition owner :: "'w Node list \<Rightarrow> string \<rightharpoonup> 'w Node" where
  "owner ns t = find (\<lambda>n. t \<in> set (Tokens n)) ns"

definition all_tokens :: "'w Node list \<Rightarrow> string list" where
  "all_tokens ns = concat (map Tokens ns)"

lemma dom_owner: "dom (owner ns) = set (all_tokens ns)"
  by (auto simp: owner_def all_tokens_def dom_def find_None_iff not_None_eq [symmetric]
      simp del: not_None_eq)

lemma owner_Cons: "owner (n # ns) = owner ns ++ token_map n (Tokens n)"
  by (auto simp: owner_def token_map_def map_add_def fun_eq_iff)

lemma add_nodes_eq:
  "add_nodes ns m =
     (if distinct (all_tokens ns) \<and> set (all_tokens ns) \<inter> dom m = {} then Inr (m ++ owner ns)
      else Inl token_error)"
proof (induction ns arbitrary: m)
  case Nil
  show ?case by (simp add: all_tokens_def owner_def map_add_def fun_eq_iff)
next
  case (Cons n ns)
  have all: "all_tokens (n # ns) = Tokens n @ all_tokens ns"
    by (simp add: all_tokens_def)
  show ?case
  proof (cases "distinct (all_tokens (n # ns)) \<and> set (all_tokens (n # ns)) \<inter> dom m = {}")
    case True
    then have "dom (owner ns) \<inter> dom (token_map n (Tokens n)) = {}"
      by (auto simp: dom_owner all)
    then have "token_map n (Tokens n) ++ owner ns = owner (n # ns)"
      unfolding owner_Cons by (rule map_add_comm [symmetric])
    then have "m ++ token_map n (Tokens n) ++ owner ns = m ++ owner (n # ns)"
      by (metis map_add_assoc)
    with True show ?thesis
      by (auto simp: add_tokens_eq Cons.IH all)
  next
    case False
    then show ?thesis
      by (auto simp: add_tokens_eq Cons.IH all)
  qed
qed

lemma NewNodesService_eq:
  "NewNodesService ns =
     (if distinct (all_tokens ns) then Inr \<lparr>nodes = ns, nodeLookup = owner ns\<rparr>
      else Inl token_error)"
  by (simp add: NewNodesService_def add_nodes_eq)

lemma owner_Some: "owner ns t = Some n \<Longrightarrow> n \<in> set ns \<and> t \<in> set (Tokens n)"
  by (auto simp: owner_def find_Some_iff)

lemma owner_unique:
  assumes "distinct (all_tokens ns)" and "n \<in> set ns" and "t \<in> set (Tokens n)"
  shows "owner ns t = Some n"
  using assms
proof (induction ns)
  case (Cons a ns)
  then show ?case
    by (auto simp: owner_def all_tokens_def)
qed simp

text \<open>
  The node table is created exactly when no token is configured twice (within one node or
  across nodes), and then looking a token up finds a node exactly when that node was configured
  with the token.
\<close>

lemma NewNodesService_correct:
  "case NewNodesService ns of
     Inl err \<Rightarrow> err = token_error \<and> \<not> distinct (concat (map Tokens ns))
   | Inr s \<Rightarrow> distinct (concat (map Tokens ns)) \<and> GetNodes s = ns \<and>
       (\<forall>t n. GetNode s t = Inr n \<longleftrightarrow> n \<in> set ns \<and> t \<in> set (Tokens n))"
  by (auto simp: NewNodesService_eq GetNode_def GetNodes_def all_tokens_def
      dest: owner_Some owner_unique [unfolded all_tokens_def] split: option.splits)

lemma bearer_token: "has_prefix a ''Bearer '' \<longleftrightarrow> a = ''Bearer '' @ drop 7 a"
proof -
  have "length ''Bearer '' = 7" by simp
  then show ?thesis
    unfolding has_prefix_def by (metis append_eq_conv_conj append_take_drop_id)
qed

lemma auth_loop_Some:
  assumes "auth_loop s auths = Some (node, token)"
  shows "''Bearer '' @ token \<in> set auths \<and> GetNode s token = Inr node"
  using assms
proof (induction auths)
  case (Cons a auths)
  show ?case
  proof (cases "has_prefix a ''Bearer ''")
    case True
    then have "a = ''Bearer '' @ drop 7 a"
      by (simp only: bearer_token)
    moreover have "GetNode s (drop 7 a) = Inr node \<and> token = drop 7 a \<or>
        auth_loop s auths = Some (node, token)"
      using Cons.prems True by (auto simp: Let_def split: sum.splits)
    ultimately show ?thesis
      using Cons.IH by (metis list.set_intros)
  next
    case False
    with Cons show ?thesis by auto
  qed
qed simp

lemma auth_loop_None:
  assumes "auth_loop s auths = None" and "''Bearer '' @ token \<in> set auths"
  shows "GetNode s token = Inl ErrNodeNotFound"
  using assms
proof (induction auths)
  case (Cons a auths)
  show ?case
  proof (cases "a = ''Bearer '' @ token")
    case True
    then have "has_prefix a ''Bearer ''" and "drop 7 a = token"
      by (simp_all add: has_prefix_def)
    with Cons.prems show ?thesis
      by (auto simp: GetNode_def Let_def split: sum.splits option.splits)
  next
    case False
    with Cons show ?thesis
      by (auto simp: Let_def split: if_splits sum.splits)
  qed
qed simp

text \<open>
  C16: A gRPC handler runs only for a caller that presented a configured token: when the node
  table was built from the nodes \<open>ns\<close>, the handler's context holds a node of \<open>ns\<close> together with one
  of that node's tokens, and a \<^verbatim>\<open>Bearer\<close> value of the call's metadata carries this token. A call
  with a \<^verbatim>\<open>Bearer\<close> value of a configured token is never denied.
\<close>

theorem authorize_correct:
  assumes "NewNodesService ns = Inr s"
  shows "case authorize s md handler of
     Inr r \<Rightarrow> (\<exists>n t auths. r = handler (Some (n, t)) \<and> n \<in> set ns \<and> t \<in> set (Tokens n) \<and>
                 md = Some auths \<and> ''Bearer '' @ t \<in> set auths)
   | Inl err \<Rightarrow> err = PermissionDenied \<and>
       \<not> (\<exists>n t auths. n \<in> set ns \<and> t \<in> set (Tokens n) \<and> md = Some auths \<and>
            ''Bearer '' @ t \<in> set auths)"
proof -
  from assms have d: "distinct (all_tokens ns)" and s: "nodeLookup s = owner ns"
    by (auto simp: NewNodesService_eq split: if_splits)
  have get: "GetNode s t = Inr n \<longleftrightarrow> n \<in> set ns \<and> t \<in> set (Tokens n)" for t n
    using owner_unique [OF d] owner_Some [of ns t n]
    by (auto simp: GetNode_def s split: option.splits)
  show ?thesis
  proof (cases md)
    case None
    then show ?thesis by (simp add: authorize_def)
  next
    case (Some auths)
    show ?thesis
    proof (cases "auth_loop s auths")
      case None
      have "\<not> (n \<in> set ns \<and> t \<in> set (Tokens n))" if "''Bearer '' @ t \<in> set auths" for n t
        using auth_loop_None [OF None that] get [of t n] by auto
      then show ?thesis
        using None by (auto simp: authorize_def \<open>md = Some auths\<close> simp del: append_Cons)
    next
      case (Some nt)
      obtain n t where nt: "nt = (n, t)" by (cases nt)
      with Some have "''Bearer '' @ t \<in> set auths" and "GetNode s t = Inr n"
        using auth_loop_Some by blast+
      then show ?thesis
        using Some nt get by (auto simp: authorize_def \<open>md = Some auths\<close> WithNode_def)
    qed
  qed
qed

text \<open>A configured node for the concrete instances below.\<close>

definition sample_config :: NodeConfig where
  "sample_config = \<lparr>
     Name = ''lsp'', NodePubkey = [], LspdPrivateKey = [], ConfigTokens = [''tok''],
     LegacyOnionTokens = [], Host = ''localhost'', PublicChannelAmount = 1000183,
     ConfigTargetConf = 6, MinConfs = Some 1, MinHtlcMsat = 600, BaseFeeMsat = 1000,
     FeeRate = Float 1 (- 20), TimeLockDelta = 144, ChannelFeePermyriad = 40,
     ChannelMinimumFeeMsat = 2000000, AdditionalChannelCapacity = 100000,
     MaxInactiveDuration = 3888000, NotificationTimeout = ''1m'', Lnd = None, Cln = None\<rparr>"

definition sample_node :: "'w Node" where
  "sample_node = \<lparr>
     NodeId = [2], NodeClient = unreachable_client, Config = sample_config, PrivateKey = [1],
     PublicKey = [3], EciesPrivateKey = [1], EciesPublicKey = [3], Tokens = [''tok'']\<rparr>"

theorem authorize_correct_witness:
  "NewNodesService [sample_node :: unit Node] = Inr \<lparr>nodes = [sample_node], nodeLookup = owner [sample_node]\<rparr> \<and>
   authorize \<lparr>nodes = [sample_node :: unit Node], nodeLookup = owner [sample_node]\<rparr>
     (Some [''Basic x'', ''Bearer tok'']) (\<lambda>ctx. ctx) = Inr (Some (sample_node, ''tok''))"
proof -
  let ?s = "\<lparr>nodes = [sample_node :: unit Node], nodeLookup = owner [sample_node]\<rparr>"
  have s: "NewNodesService [sample_node :: unit Node] = Inr ?s"
    by (simp add: NewNodesService_eq all_tokens_def sample_node_def)
  have t: "set (Tokens (sample_node :: unit Node)) = {''tok''}"
    by (simp add: sample_node_def)
  show ?thesis
    using authorize_correct [OF s, of "Some [''Basic x'', ''Bearer tok'']" "\<lambda>ctx. ctx"] s t
    by (auto split: sum.splits)
qed

end
