(* ===== verification/World.thy ===== *)
theory World
  imports Lspd_Prelude
begin

text \<open>
  The world that stateful code runs in. Operations take a world \<open>'w\<close> and return the new one. What
  they need of it are its clock, the fate of the next database statement, the ability to sleep,
  and cells: places that hold a table or a map the code owns. The locale \<open>cell_laws\<close> is the
  contract of a cell, the locale \<open>database\<close> says that reading the clock or finding out a
  statement's fate leaves a table alone. \<open>std_world\<close> is a concrete world, a clock that ticks, a
  script of statement fates and one table, on which the locales are interpreted.
\<close>

section \<open>Interfaces\<close>

text \<open>The clock, \<^verbatim>\<open>time.Now()\<close>: time passes between two readings, so reading changes the world.\<close>

type_synonym 'w clock = "'w \<Rightarrow> time \<times> 'w"

text \<open>
  The connection pool: the error of the next statement, if it fails. A failing statement leaves
  its table as it was.
\<close>

type_synonym 'w pool = "'w \<Rightarrow> error option \<times> 'w"

record ('w, 's) cell =
  cell_get :: "'w \<Rightarrow> 's"
  cell_put :: "'s \<Rightarrow> 'w \<Rightarrow> 'w"

locale cell_laws =
  fixes c :: "('w, 's) cell"
  assumes get_put [simp]: "cell_get c (cell_put c s w) = s"
    and put_put [simp]: "cell_put c s (cell_put c s' w) = cell_put c s w"
    and put_get [simp]: "cell_put c (cell_get c w) w = w"

locale database = cell_laws table
  for table :: "('w, 's) cell" +
  fixes pool :: "'w pool" and now :: "'w clock"
  assumes pool_table [simp]: "cell_get table (snd (pool w)) = cell_get table w"
    and now_table [simp]: "cell_get table (snd (now w)) = cell_get table w"
begin

lemma pool_step: "pool w = (e, w') \<Longrightarrow> cell_get table w' = cell_get table w"
  using pool_table [of w] by simp

lemma now_step: "now w = (t, w') \<Longrightarrow> cell_get table w' = cell_get table w"
  using now_table [of w] by simp

end

section \<open>Statements\<close>

text \<open>\<^verbatim>\<open>pool.Exec\<close> and \<^verbatim>\<open>pool.Query\<close>: run a statement on a table unless it fails.\<close>

definition exec :: "'w pool \<Rightarrow> ('w, 's) cell \<Rightarrow> ('s \<Rightarrow> 's) \<Rightarrow> 'w \<Rightarrow> error option \<times> 'w" where
  "exec pool table f w =
     (case pool w of
        (Some err, w1) \<Rightarrow> (Some err, w1)
      | (None, w1) \<Rightarrow> (None, cell_put table (f (cell_get table w1)) w1))"

definition query :: "'w pool \<Rightarrow> ('w, 's) cell \<Rightarrow> ('s \<Rightarrow> 'r) \<Rightarrow> 'w \<Rightarrow> (error + 'r) \<times> 'w" where
  "query pool table f w =
     (case pool w of
        (Some err, w1) \<Rightarrow> (Inl err, w1)
      | (None, w1) \<Rightarrow> (Inr (f (cell_get table w1)), w1))"

context database
begin

lemma exec_table:
  "exec pool table f w = (r, w') \<Longrightarrow>
     cell_get table w' = (if r = None then f (cell_get table w) else cell_get table w)"
  by (auto simp: exec_def pool_step split: prod.splits option.splits)

lemma query_table:
  "query pool table f w = (r, w') \<Longrightarrow> cell_get table w' = cell_get table w"
  by (auto simp: query_def pool_step split: prod.splits option.splits)

lemma query_result:
  "query pool table f w = (Inr x, w') \<Longrightarrow> x = f (cell_get table w)"
  by (auto simp: query_def pool_step split: prod.splits option.splits)

end

text \<open>
  A transaction runs its statements one after the other; the first that fails ends it with that
  statement's label, and then none of its effects remain.
\<close>

fun run_tx :: "'w pool \<Rightarrow> string list \<Rightarrow> 'w \<Rightarrow> error option \<times> 'w" where
  "run_tx pool [] w = (None, w)"
| "run_tx pool (label # labels) w =
     (case pool w of
        (Some err, w1) \<Rightarrow> (Some (Wrap label err), w1)
      | (None, w1) \<Rightarrow> run_tx pool labels w1)"

context database
begin

lemma run_tx_table:
  "run_tx pool labels w = (e, w') \<Longrightarrow> cell_get table w' = cell_get table w"
  by (induction labels arbitrary: w) (auto simp: pool_step split: prod.splits option.splits)

end

section \<open>Insert with conflict resolution\<close>

text \<open>
  \<^verbatim>\<open>INSERT ... ON CONFLICT (key) DO UPDATE\<close> of one row: a row with the same key is merged with the
  new one, otherwise the new one is added. Merging with \<open>keep_old\<close> is \<^verbatim>\<open>DO NOTHING\<close>.
\<close>

definition keep_old :: "'r \<Rightarrow> 'r \<Rightarrow> 'r" where
  "keep_old old new = old"

definition upsert :: "('r \<Rightarrow> 'k) \<Rightarrow> ('r \<Rightarrow> 'r \<Rightarrow> 'r) \<Rightarrow> 'r \<Rightarrow> 'r list \<Rightarrow> 'r list" where
  "upsert key merge new rows =
     (if key new \<in> key ` set rows
      then map (\<lambda>r. if key r = key new then merge r new else r) rows
      else rows @ [new])"

lemma upsert_keep_old:
  "upsert key keep_old new rows = (if key new \<in> key ` set rows then rows else rows @ [new])"
  unfolding upsert_def keep_old_def by simp

definition row_of :: "('r \<Rightarrow> 'k) \<Rightarrow> 'k \<Rightarrow> 'r list \<Rightarrow> 'r option" where
  "row_of key k rows = find (\<lambda>r. key r = k) rows"

lemma row_of_distinct:
  "distinct (map key rows) \<Longrightarrow> r \<in> set rows \<Longrightarrow> row_of key (key r) rows = Some r"
  by (induction rows) (auto simp: row_of_def rev_image_eqI)

lemma row_of_SomeD: "row_of key k rows = Some r \<Longrightarrow> r \<in> set rows \<and> key r = k"
  by (auto simp: row_of_def find_Some_iff)

lemma row_of_map_key:
  "(\<And>r. key (f r) = key r) \<Longrightarrow> row_of key k (map f rows) = map_option f (row_of key k rows)"
  by (induction rows) (auto simp: row_of_def)

locale upsert_key =
  fixes key :: "'r \<Rightarrow> 'k" and merge :: "'r \<Rightarrow> 'r \<Rightarrow> 'r"
  assumes merge_key [simp]: "key (merge r new) = key r"
begin

lemma map_key_upsert:
  "map key (upsert key merge new rows) =
     (if key new \<in> key ` set rows then map key rows else map key rows @ [key new])"
  by (auto simp: upsert_def)

lemma keys_upsert [simp]:
  "key ` set (upsert key merge new rows) = insert (key new) (key ` set rows)"
  using map_key_upsert [of new rows] by (metis (no_types) insert_absorb list.set_map set_append
      Un_insert_right list.simps(15) sup_bot_right empty_set)

lemma distinct_upsert [intro]:
  "distinct (map key rows) \<Longrightarrow> distinct (map key (upsert key merge new rows))"
  by (simp add: map_key_upsert)

lemma upsert_merged:
  assumes "r \<in> set (upsert key merge new rows)" and "key r = key new"
  shows "r = new \<or> (\<exists>x\<in>set rows. r = merge x new)"
proof (cases "key new \<in> key ` set rows")
  case True
  with assms(1) obtain x where "x \<in> set rows" "r = (if key x = key new then merge x new else x)"
    unfolding upsert_def by (simp only: if_True set_map) blast
  with assms(2) show ?thesis by (auto split: if_splits)
next
  case False
  with assms(2) have "r \<notin> set rows" by (metis imageI)
  with assms(1) False show ?thesis by (simp add: upsert_def)
qed

lemma row_of_map:
  "row_of key k (map (\<lambda>r. if key r = key new then merge r new else r) rows) =
     map_option (\<lambda>r. if key r = key new then merge r new else r) (row_of key k rows)"
  by (induction rows) (auto simp: row_of_def)

lemma row_of_None: "row_of key k rows = None \<longleftrightarrow> k \<notin> key ` set rows"
  by (auto simp: row_of_def find_None_iff)

lemma row_of_key: "row_of key k rows = Some r \<Longrightarrow> key r = k"
  by (auto simp: row_of_def find_Some_iff)

lemma row_of_append: "row_of key k (rows @ [new]) =
    (case row_of key k rows of None \<Rightarrow> if key new = k then Some new else None | Some r \<Rightarrow> Some r)"
  by (induction rows) (auto simp: row_of_def)

lemma row_of_upsert:
  "row_of key k (upsert key merge new rows) =
     (if k = key new
      then Some (case row_of key k rows of None \<Rightarrow> new | Some r \<Rightarrow> merge r new)
      else row_of key k rows)"
proof (cases "key new \<in> key ` set rows")
  case True
  then show ?thesis
    using row_of_None [of k rows] row_of_key [of k rows]
    by (cases "row_of key k rows") (auto simp: upsert_def row_of_map)
next
  case False
  with row_of_None [of "key new" rows] show ?thesis
    by (auto simp: upsert_def row_of_append split: option.splits)
qed

end

section \<open>A concrete world\<close>

record 's std_world =
  sw_time :: time
  sw_fates :: "error option list"
  sw_table :: 's

definition std_now :: "'s std_world clock" where
  "std_now w = (sw_time w, w\<lparr>sw_time := sw_time w + 1\<rparr>)"

definition std_pool :: "'s std_world pool" where
  "std_pool w =
     (case sw_fates w of [] \<Rightarrow> (None, w) | f # fs \<Rightarrow> (f, w\<lparr>sw_fates := fs\<rparr>))"

definition std_table :: "('s std_world, 's) cell" where
  "std_table = \<lparr>cell_get = sw_table, cell_put = (\<lambda>s w. w\<lparr>sw_table := s\<rparr>)\<rparr>"

declare exec_def [db_simps] query_def [db_simps] std_pool_def [db_simps] std_table_def [db_simps]

text \<open>The two halves of a table that is a pair are cells of their own.\<close>

definition cell_fst :: "('w, 'a \<times> 'b) cell \<Rightarrow> ('w, 'a) cell" where
  "cell_fst c = \<lparr>cell_get = (\<lambda>w. fst (cell_get c w)),
     cell_put = (\<lambda>a w. cell_put c (a, snd (cell_get c w)) w)\<rparr>"

definition cell_snd :: "('w, 'a \<times> 'b) cell \<Rightarrow> ('w, 'b) cell" where
  "cell_snd c = \<lparr>cell_get = (\<lambda>w. snd (cell_get c w)),
     cell_put = (\<lambda>b w. cell_put c (fst (cell_get c w), b) w)\<rparr>"

lemma database_cell_fst:
  "database c pool now \<Longrightarrow> database (cell_fst c) pool now"
  by (simp add: database_def database_axioms_def cell_laws_def cell_fst_def)

lemma database_cell_snd:
  "database c pool now \<Longrightarrow> database (cell_snd c) pool now"
  by (simp add: database_def database_axioms_def cell_laws_def cell_snd_def)

interpretation std: database std_table std_pool std_now
  by unfold_locales (auto simp: std_table_def std_pool_def std_now_def split: list.split)

interpretation std_fst: database "cell_fst std_table" std_pool std_now
  by (rule database_cell_fst) (rule std.database_axioms)

interpretation std_snd: database "cell_snd std_table" std_pool std_now
  by (rule database_cell_snd) (rule std.database_axioms)

end
