(* ===== verification/Go_Time.thy ===== *)
theory Go_Time
  imports Lspd_Prelude "HOL-Library.Monad_Syntax"
begin

text \<open>
  Go's \<^verbatim>\<open>time.Format\<close> and \<^verbatim>\<open>time.Parse\<close> for the one layout the program uses,
  \<^verbatim>\<open>2006-01-02T15:04:05.999Z\<close> (\<^verbatim>\<open>format/time.go\<close>), on UTC instants. The calendar counts years from
  1 March, so that the leap day is the last day of a year; \<open>days_of_civil\<close> and \<open>civil_of_days\<close>
  convert between a day number (0 is 1 January 1970) and a date. The main lemma is the round
  trip: parsing a formatted instant gives the instant truncated to milliseconds.
\<close>

section \<open>The calendar\<close>

definition days_of_civil :: "int \<Rightarrow> int \<Rightarrow> int \<Rightarrow> int" where
  "days_of_civil y m d =
     (let y' = (if m \<le> 2 then y - 1 else y);
          mp = (if m \<le> 2 then m + 9 else m - 3);
          yoe = y' mod 400;
          doy = (153 * mp + 2) div 5 + d - 1
      in (y' div 400) * 146097 + (yoe * 365 + yoe div 4 - yoe div 100 + doy) - 719468)"

definition civil_of_days :: "int \<Rightarrow> int \<times> int \<times> int" where
  "civil_of_days days =
     (let z = days + 719468;
          era = z div 146097;
          doe = z mod 146097;
          n100 = min (doe div 36524) 3;
          r = doe - 36524 * n100;
          n4 = r div 1461;
          r4 = r mod 1461;
          n1 = min (r4 div 365) 3;
          doy = r4 - 365 * n1;
          y' = 400 * era + 100 * n100 + 4 * n4 + n1;
          mp = (5 * doy + 2) div 153;
          d = doy - (153 * mp + 2) div 5 + 1;
          m = (if mp < 10 then mp + 3 else mp - 9)
      in (if m \<le> 2 then y' + 1 else y', m, d))"

definition is_leap :: "int \<Rightarrow> bool" where
  "is_leap y \<longleftrightarrow> y mod 4 = 0 \<and> (y mod 100 \<noteq> 0 \<or> y mod 400 = 0)"

definition days_in :: "int \<Rightarrow> int \<Rightarrow> int" where
  "days_in m y =
     (if m = 2 then (if is_leap y then 29 else 28)
      else if m = 4 \<or> m = 6 \<or> m = 9 \<or> m = 11 then 30 else 31)"

section \<open>Format\<close>

definition pad2 :: "nat \<Rightarrow> string" where
  "pad2 n = [digit_char (n div 10 mod 10), digit_char (n mod 10)]"

definition pad4 :: "nat \<Rightarrow> string" where
  "pad4 n = pad2 (n div 100) @ pad2 n"

definition format_year :: "int \<Rightarrow> string" where
  "format_year y =
     (let n = nat \<bar>y\<bar>; s = (if n < 10000 then pad4 n else format_nat n)
      in if y < 0 then ''-'' @ s else s)"

text \<open>The fraction \<^verbatim>\<open>.999\<close>: milliseconds, without trailing zeros, nothing for zero.\<close>

definition format_millis :: "nat \<Rightarrow> string" where
  "format_millis ms =
     (if ms = 0 then []
      else if ms mod 100 = 0 then ''.'' @ [digit_char (ms div 100)]
      else if ms mod 10 = 0 then ''.'' @ pad2 (ms div 10)
      else ''.'' @ digit_char (ms div 100) # pad2 ms)"

definition time_format :: "time \<Rightarrow> string" where
  "time_format t =
     (let secs = t div second; ns = t mod second;
          (y, m, d) = civil_of_days (secs div 86400);
          sod = nat (secs mod 86400)
      in format_year y @ ''-'' @ pad2 (nat m) @ ''-'' @ pad2 (nat d) @ ''T'' @
         pad2 (sod div 3600) @ '':'' @ pad2 (sod div 60 mod 60) @ '':'' @ pad2 (sod mod 60) @
         format_millis (nat (ns div millisecond)) @ ''Z'')"

section \<open>Parse\<close>

type_synonym 'a parser = "string \<Rightarrow> ('a \<times> string) option"

fun digit :: "nat parser" where
  "digit [] = None"
| "digit (c # cs) = map_option (\<lambda>d. (d, cs)) (digit_val c)"

definition two_digits :: "nat parser" where
  "two_digits s = do { (a, s) \<leftarrow> digit s; (b, s) \<leftarrow> digit s; Some (10 * a + b, s) }"

definition one_or_two_digits :: "nat parser" where
  "one_or_two_digits s =
     do { (a, s) \<leftarrow> digit s;
          case digit s of None \<Rightarrow> Some (a, s) | Some (b, s') \<Rightarrow> Some (10 * a + b, s') }"

definition four_digits :: "nat parser" where
  "four_digits s = do { (a, s) \<leftarrow> two_digits s; (b, s) \<leftarrow> two_digits s; Some (100 * a + b, s) }"

fun literal :: "char \<Rightarrow> unit parser" where
  "literal c [] = None"
| "literal c (x # s) = (if x = c then Some ((), s) else None)"

fun take_digits :: "string \<Rightarrow> nat list \<times> string" where
  "take_digits [] = ([], [])"
| "take_digits (c # s) =
     (case digit_val c of
        None \<Rightarrow> ([], c # s)
      | Some d \<Rightarrow> (let (ds, r) = take_digits s in (d # ds, r)))"

definition nanos_of_digits :: "nat list \<Rightarrow> nat" where
  "nanos_of_digits ds =
     (let ds' = take 9 ds in foldl (\<lambda>n d. 10 * n + d) 0 ds' * 10 ^ (9 - length ds'))"

text \<open>
  The fraction of a second is optional: a period or comma followed by any number of digits, of
  which nine count.
\<close>

definition fraction :: "nat parser" where
  "fraction s =
     (case s of
        c # s' \<Rightarrow>
          (if (c = CHR ''.'' \<or> c = CHR '','') \<and> fst (take_digits s') \<noteq> []
           then let (ds, r) = take_digits s' in Some (nanos_of_digits ds, r)
           else Some (0, s))
      | [] \<Rightarrow> Some (0, s))"

definition time_parse :: "string \<Rightarrow> time option" where
  "time_parse s = do {
     (y, s) \<leftarrow> four_digits s;
     (_, s) \<leftarrow> literal (CHR ''-'') s;
     (m, s) \<leftarrow> two_digits s;
     (_, s) \<leftarrow> literal (CHR ''-'') s;
     (d, s) \<leftarrow> two_digits s;
     (_, s) \<leftarrow> literal (CHR ''T'') s;
     (hh, s) \<leftarrow> one_or_two_digits s;
     (_, s) \<leftarrow> literal (CHR '':'') s;
     (mm, s) \<leftarrow> two_digits s;
     (_, s) \<leftarrow> literal (CHR '':'') s;
     (ss, s) \<leftarrow> two_digits s;
     (ns, s) \<leftarrow> fraction s;
     (_, s) \<leftarrow> literal (CHR ''Z'') s;
     if s = [] \<and> 1 \<le> m \<and> m \<le> 12 \<and> hh < 24 \<and> mm < 60 \<and> ss < 60 \<and> 1 \<le> d \<and>
        int d \<le> days_in (int m) (int y)
     then Some ((days_of_civil (int y) (int m) (int d) * 86400 +
                 int (hh * 3600 + mm * 60 + ss)) * second + int ns)
     else None }"

section \<open>The calendar round trip\<close>

lemma civil_parts:
  fixes doe :: int
  assumes "0 \<le> doe" and "doe < 146097"
  defines "n100 \<equiv> min (doe div 36524) 3"
  defines "r \<equiv> doe - 36524 * n100"
  defines "n4 \<equiv> r div 1461"
  defines "r4 \<equiv> r mod 1461"
  defines "n1 \<equiv> min (r4 div 365) 3"
  defines "doy \<equiv> r4 - 365 * n1"
  shows "0 \<le> n100 \<and> n100 \<le> 3" and "0 \<le> n4 \<and> n4 \<le> 24" and "0 \<le> n1 \<and> n1 \<le> 3"
    and "0 \<le> doy \<and> doy \<le> 365"
    and "doy = 365 \<Longrightarrow> n1 = 3 \<and> (n4 = 24 \<longrightarrow> n100 = 3)"
    and "doe = 36524 * n100 + 1461 * n4 + 365 * n1 + doy"
proof -
  show n100: "0 \<le> n100 \<and> n100 \<le> 3"
    using assms(1,2) by (simp add: n100_def)
  have r: "0 \<le> r" "r \<le> 36524" "n100 < 3 \<Longrightarrow> r < 36524"
    using assms(1,2) unfolding r_def n100_def min_def by (auto split: if_splits)
  then show "0 \<le> n4 \<and> n4 \<le> 24"
    unfolding n4_def by (auto simp: div_int_pos_iff)
  have r4: "0 \<le> r4" "r4 < 1461"
    by (simp_all add: r4_def)
  then show "0 \<le> n1 \<and> n1 \<le> 3"
    by (simp add: n1_def)
  show "0 \<le> doy \<and> doy \<le> 365"
    using r4 unfolding doy_def n1_def min_def by (auto split: if_splits)
  have rr: "r = 1461 * n4 + r4"
    by (simp add: n4_def r4_def)
  then show "doe = 36524 * n100 + 1461 * n4 + 365 * n1 + doy"
    by (simp add: r_def doy_def)
  show "n1 = 3 \<and> (n4 = 24 \<longrightarrow> n100 = 3)" if d: "doy = 365"
  proof -
    from d r4 have "r4 = 1460 \<and> n1 = 3"
      unfolding doy_def n1_def min_def by (auto split: if_splits)
    with r rr n100 show ?thesis by (cases "n100 < 3") auto
  qed
qed

lemma month_parts:
  fixes doy :: int
  assumes "0 \<le> doy" and "doy \<le> 365"
  defines "mp \<equiv> (5 * doy + 2) div 153"
  defines "d \<equiv> doy - (153 * mp + 2) div 5 + 1"
  defines "m \<equiv> (if mp < 10 then mp + 3 else mp - 9)"
  shows "0 \<le> mp \<and> mp \<le> 11" and "1 \<le> m \<and> m \<le> 12"
    and "mp = (if m \<le> 2 then m + 9 else m - 3)"
    and "1 \<le> d" and "(m = 2 \<and> d = 29 \<and> doy = 365) \<or> d \<le> days_in m 1"
proof -
  show mp: "0 \<le> mp \<and> mp \<le> 11"
    using assms(1,2) unfolding mp_def by linarith
  show "1 \<le> m \<and> m \<le> 12" "mp = (if m \<le> 2 then m + 9 else m - 3)"
    using mp by (auto simp: m_def)
  have b: "153 * mp \<le> 5 * doy + 2" "5 * doy + 2 < 153 * mp + 153"
    unfolding mp_def by linarith+
  show "1 \<le> d"
    using b unfolding d_def by linarith
  have "mp = 0 \<or> mp = 1 \<or> mp = 2 \<or> mp = 3 \<or> mp = 4 \<or> mp = 5 \<or> mp = 6 \<or> mp = 7 \<or>
      mp = 8 \<or> mp = 9 \<or> mp = 10 \<or> mp = 11"
    using mp by presburger
  then show "(m = 2 \<and> d = 29 \<and> doy = 365) \<or> d \<le> days_in m 1"
    using b assms(2) by (elim disjE) (auto simp: d_def m_def days_in_def is_leap_def)
qed

lemma days_in_mono: "days_in m 1 \<le> days_in m y"
  by (simp add: days_in_def is_leap_def)

lemma civil_of_days_correct:
  assumes "civil_of_days n = (y, m, d)"
  shows "days_of_civil y m d = n" and "1 \<le> m \<and> m \<le> 12" and "1 \<le> d \<and> d \<le> days_in m y"
proof -
  define era doe where "era = (n + 719468) div 146097" and "doe = (n + 719468) mod 146097"
  have doe: "0 \<le> doe" "doe < 146097" by (simp_all add: doe_def)
  define n100 r where "n100 = min (doe div 36524) 3" and "r = doe - 36524 * n100"
  define n4 r4 where "n4 = r div 1461" and "r4 = r mod 1461"
  define n1 doy where "n1 = min (r4 div 365) 3" and "doy = r4 - 365 * n1"
  define mp where "mp = (5 * doy + 2) div 153"
  define y' yoe where "y' = 400 * era + yoe" and "yoe = 100 * n100 + 4 * n4 + n1"
  note parts = civil_parts [OF doe, folded n100_def, folded r_def, folded n4_def r4_def,
      folded n1_def, folded doy_def]
  from parts(4) have doy: "0 \<le> doy" "doy \<le> 365" by simp_all
  note mparts = month_parts [OF doy, folded mp_def]
  have eqs: "m = (if mp < 10 then mp + 3 else mp - 9)" "d = doy - (153 * mp + 2) div 5 + 1"
    "y = (if m \<le> 2 then y' + 1 else y')"
    using assms
    unfolding civil_of_days_def Let_def era_def [symmetric] doe_def [symmetric]
      n100_def [symmetric] r_def [symmetric] n4_def [symmetric] r4_def [symmetric]
      n1_def [symmetric] doy_def [symmetric] mp_def [symmetric]
    by (auto simp: y'_def yoe_def)
  note mparts = mparts [folded eqs(1), folded eqs(2)]
  have yoe: "0 \<le> yoe" "yoe < 400"
    using parts(1-3) unfolding yoe_def by linarith+
  then have yy: "y' mod 400 = yoe" "y' div 400 = era"
    by (simp_all add: y'_def)
  have div4: "yoe div 4 = 25 * n100 + n4" and div100: "yoe div 100 = n100"
    using parts(1-3) unfolding yoe_def by linarith+
  have "doe = yoe * 365 + yoe div 4 - yoe div 100 + doy"
    using parts(6) unfolding div4 div100 by (simp add: yoe_def)
  moreover have "n + 719468 = era * 146097 + doe"
    by (simp add: era_def doe_def)
  ultimately show "days_of_civil y m d = n"
    using mparts(3) by (simp add: days_of_civil_def eqs(2,3) Let_def yy)
  show "1 \<le> m \<and> m \<le> 12" using mparts(2) .
  have "is_leap y" if "m = 2" "doy = 365"
  proof -
    have n1: "n1 = 3" and n4: "n4 = 24 \<Longrightarrow> n100 = 3" using parts(5) that(2) by auto
    have "y = 400 * era + 100 * n100 + 4 * (n4 + 1)"
      using that(1) n1 by (simp add: eqs(3) y'_def yoe_def)
    then have y4: "y = 4 * (100 * era + 25 * n100 + n4 + 1)"
      and y100: "y = (4 * n4 + 4) + 100 * (4 * era + n100)" by simp_all
    show ?thesis
    proof (cases "n4 = 24")
      case True
      then show ?thesis using n4 y4 by (simp add: is_leap_def)
    next
      case False
      have "y mod 100 = (4 * n4 + 4) mod 100" unfolding y100 by (rule mod_mult_self2)
      also have "\<dots> = 4 * n4 + 4" using False parts(2) by simp
      finally show ?thesis using parts(2) y4 by (simp add: is_leap_def)
    qed
  qed
  then show "1 \<le> d \<and> d \<le> days_in m y"
    using mparts(4,5) days_in_mono [of m y] by (auto simp: days_in_def)
qed

section \<open>The round trip of a formatted instant\<close>

lemma two_digits_pad2 [simp]: "n < 100 \<Longrightarrow> two_digits (pad2 n @ s) = Some (n, s)"
  by (simp add: two_digits_def pad2_def)

lemma one_or_two_digits_pad2 [simp]:
  "n < 100 \<Longrightarrow> one_or_two_digits (pad2 n @ s) = Some (n, s)"
  by (simp add: one_or_two_digits_def pad2_def)

lemma mod_100: "n mod 100 = 10 * (n div 10 mod 10) + n mod (10 :: nat)"
  using mod_mult2_eq [of n 10 10] by simp

lemma pad2_mod: "pad2 (n mod 100) = pad2 n"
  unfolding mod_100 pad2_def by (simp add: div_mult1_eq [of _ _ 10] add.commute)

lemma four_digits_pad4 [simp]: "n < 10000 \<Longrightarrow> four_digits (pad4 n @ s) = Some (n, s)"
  by (simp add: four_digits_def pad4_def pad2_mod [of n, symmetric])

lemma take_digits_digit_char:
  "d < 10 \<Longrightarrow> take_digits (digit_char d # s) = (d # fst (take_digits s), snd (take_digits s))"
  by (simp add: case_prod_unfold Let_def)

lemma take_digits_Z: "take_digits ''Z'' = ([], ''Z'')"
  by (simp add: digit_val_def of_char_def)

lemma fraction_format_millis [simp]:
  assumes "ms < 1000"
  shows "fraction (format_millis ms @ ''Z'') = Some (ms * 1000000, ''Z'')"
proof -
  define a b c where "a = ms div 100" and "b = ms div 10 mod 10" and "c = ms mod 10"
  have abc: "a < 10" "b < 10" "c < 10"
    using assms by (simp_all add: a_def b_def c_def)
  have ms: "ms = 100 * a + (10 * b + c)"
    using mod_100 [of ms] mult_div_mod_eq [of 100 ms] by (simp add: a_def b_def c_def)
  have pads: "pad2 ms = [digit_char b, digit_char c]"
    "pad2 (ms div 10) = [digit_char a, digit_char b]"
    using abc by (simp_all add: pad2_def a_def b_def c_def div_mult2_eq [symmetric])
  have fm: "format_millis ms =
    (if a = 0 \<and> b = 0 \<and> c = 0 then []
     else if b = 0 \<and> c = 0 then ''.'' @ [digit_char a]
     else if c = 0 then ''.'' @ [digit_char a, digit_char b]
     else ''.'' @ [digit_char a, digit_char b, digit_char c])"
    unfolding format_millis_def pads mod_100 a_def [symmetric] b_def [symmetric] c_def [symmetric]
    by (subst ms) auto
  show ?thesis
    unfolding fm using abc
    by (auto simp: fraction_def take_digits_Z take_digits_digit_char nanos_of_digits_def ms
        simp del: take_digits.simps(2))
qed

lemma time_parse_format:
  assumes "civil_of_days (t div second div 86400) = (y, m, d)" and "0 \<le> y" and "y \<le> 9999"
  shows "time_parse (time_format t) = Some (t - t mod millisecond)"
proof -
  define sod ns where "sod = nat (t div second mod 86400)" and "ns = t mod second"
  note c = civil_of_days_correct [OF assms(1)]
  have sod: "sod < 86400" "int sod = t div second mod 86400"
    by (simp_all add: sod_def nat_less_iff)
  have ns: "0 \<le> ns" "ns < second" by (simp_all add: ns_def second_def)
  have ms: "nat (ns div millisecond) < 1000"
    using ns by (simp add: second_def millisecond_def nat_less_iff)
  have d31: "d \<le> 31" using c(3) by (auto simp: days_in_def split: if_splits)
  have fy: "format_year y = pad4 (nat y)"
    using assms(2,3) by (simp add: format_year_def Let_def nat_less_iff)
  have "sod div 3600 = sod div 60 div 60" by (simp add: div_mult2_eq [symmetric])
  then have hms: "sod div 3600 < 24"
    "sod div 3600 * 3600 + sod div 60 mod 60 * 60 + sod mod 60 = sod"
    using sod(1) div_mult_mod_eq [of sod 60] div_mult_mod_eq [of "sod div 60" 60] by linarith+
  have trunc: "t div second * second + int (nat (ns div millisecond) * 1000000) =
      t - t mod millisecond"
  proof -
    have "t mod second mod millisecond = t mod millisecond"
      by (rule mod_mod_cancel) (simp add: second_def millisecond_def)
    moreover have "ns div millisecond * millisecond = ns - ns mod millisecond"
      by (simp add: minus_mod_eq_div_mult)
    ultimately show ?thesis
      using ns(1) div_mult_mod_eq [of t second]
      by (simp add: ns_def millisecond_def pos_imp_zdiv_nonneg_iff)
  qed
  obtain yn mn dn where n: "y = int yn" "m = int mn" "d = int dn"
    using assms(2) c(2,3) by (metis nonneg_int_cases order_trans zero_le_one)
  define k where "k = nat (ns div millisecond)"
  have "time_format t = pad4 yn @ ''-'' @ pad2 mn @ ''-'' @ pad2 dn @ ''T'' @
         pad2 (sod div 3600) @ '':'' @ pad2 (sod div 60 mod 60) @ '':'' @ pad2 (sod mod 60) @
         format_millis k @ ''Z''"
    using assms(1) fy n
    by (simp add: time_format_def Let_def sod_def [symmetric] ns_def [symmetric] k_def)
  then have "time_parse (time_format t) =
      Some ((days_of_civil y m d * 86400 +
        int (sod div 3600 * 3600 + sod div 60 mod 60 * 60 + sod mod 60)) * second +
        int (nat (ns div millisecond) * 1000000))"
    using assms(3) c(2,3) d31 ms [folded k_def] hms(1) n
    by (simp add: time_parse_def k_def [symmetric] del: One_nat_def)
  also have "\<dots> = Some (t - t mod millisecond)"
    unfolding hms(2) sod(2) c(1) trunc [symmetric] by simp
  finally show ?thesis .
qed

end
