(* ===== verification/Json.thy ===== *)
theory Json
  imports Lspd_Prelude
begin

text \<open>
  What the program uses of \<^verbatim>\<open>encoding/json\<close>: the text of a string literal as \<^verbatim>\<open>json.Marshal\<close> writes
  it (strings are UTF-8, as protobuf and PostgreSQL deliver them), JSON values as a \<^verbatim>\<open>jsonb\<close>
  column keeps them, and the decoding of a struct field with \<^verbatim>\<open>json.Unmarshal\<close>. The main lemma is
  that a string can be read back from its literal.
\<close>

section \<open>String literals\<close>

definition quote_char :: char where "quote_char = CHR 0x22"

definition backslash :: char where "backslash = CHR 0x5C"

definition html_char :: "char \<Rightarrow> bool" where
  "html_char c \<longleftrightarrow> c = CHR ''<'' \<or> c = CHR ''>'' \<or> c = CHR ''&''"

definition escape_char :: "char \<Rightarrow> string" where
  "escape_char c =
     (let n = of_char c :: nat in
      if c = quote_char \<or> c = backslash then [backslash, c]
      else if n = 8 then [backslash, CHR ''b'']
      else if n = 12 then [backslash, CHR ''f'']
      else if n = 10 then [backslash, CHR ''n'']
      else if n = 13 then [backslash, CHR ''r'']
      else if n = 9 then [backslash, CHR ''t'']
      else if n < 32 \<or> html_char c
      then backslash # ''u00'' @ [hex_char (n div 16), hex_char (n mod 16)]
      else [c])"

text \<open>The line separators U+2028 and U+2029 (three bytes each) are written as escapes.\<close>

definition line_separator :: "string \<Rightarrow> bool" where
  "line_separator s \<longleftrightarrow> s = [CHR 0xE2, CHR 0x80, CHR 0xA8] \<or> s = [CHR 0xE2, CHR 0x80, CHR 0xA9]"

fun json_escape :: "string \<Rightarrow> string" where
  "json_escape [] = []"
| "json_escape (c # s) =
     (if line_separator (take 3 (c # s))
      then backslash # ''u202'' @ [if s ! 1 = CHR 0xA8 then CHR ''8'' else CHR ''9''] @
           json_escape (drop 2 s)
      else escape_char c @ json_escape s)"

definition json_string :: "string \<Rightarrow> string" where
  "json_string s = quote_char # json_escape s @ [quote_char]"

section \<open>Values and the decoding of struct fields\<close>

text \<open>A number is its literal, so that the decoder sees the digits the column holds.\<close>

datatype json =
    JNull
  | JBool bool
  | JNum string
  | JStr string
  | JArr "json list"
  | JObj "(string \<times> json) list"

text \<open>
  A field of an unsigned integer type, of a \<^verbatim>\<open>uint64\<close> with the \<^verbatim>\<open>string\<close> option and of a string:
  \<^verbatim>\<open>null\<close> leaves the field as it is, a value of another type or out of range is an error
  (\<open>None\<close>).
\<close>

definition decode_uint :: "('a::len) word \<Rightarrow> json \<Rightarrow> 'a word option" where
  "decode_uint old j =
     (case j of
        JNull \<Rightarrow> Some old
      | JNum s \<Rightarrow> map_option word_of_nat (parse_uint LENGTH('a) s)
      | _ \<Rightarrow> None)"

definition decode_quoted_uint :: "('a::len) word \<Rightarrow> json \<Rightarrow> 'a word option" where
  "decode_quoted_uint old j =
     (case j of
        JNull \<Rightarrow> Some old
      | JStr s \<Rightarrow>
          if s = ''null'' then Some old else map_option word_of_nat (parse_uint LENGTH('a) s)
      | _ \<Rightarrow> None)"

definition decode_string :: "string \<Rightarrow> json \<Rightarrow> string option" where
  "decode_string old j =
     (case j of JNull \<Rightarrow> Some old | JStr s \<Rightarrow> Some s | _ \<Rightarrow> None)"

text \<open>Field names match exactly or, failing that, up to the case of letters.\<close>

definition lower_char :: "char \<Rightarrow> char" where
  "lower_char c =
     (let n = of_char c :: nat in if 65 \<le> n \<and> n \<le> 90 then char_of (n + 32) else c)"

definition field_matches :: "string \<Rightarrow> string \<Rightarrow> bool" where
  "field_matches field key \<longleftrightarrow> map lower_char key = map lower_char field"

text \<open>The members of an object are decoded in order into a struct.\<close>

fun decode_members :: "('s \<Rightarrow> string \<Rightarrow> json \<Rightarrow> 's option) \<Rightarrow> 's \<Rightarrow> (string \<times> json) list \<Rightarrow> 's option" where
  "decode_members f s [] = Some s"
| "decode_members f s ((k, v) # kvs) =
     (case f s k v of None \<Rightarrow> None | Some s' \<Rightarrow> decode_members f s' kvs)"

section \<open>Lemmas\<close>

text \<open>Reading a literal back, up to its closing quote.\<close>

fun json_unescape :: "string \<Rightarrow> (string \<times> string) option" where
  "json_unescape [] = None"
| "json_unescape (c # s) =
     (if c = quote_char then Some ([], s)
      else if c = backslash then
        (case s of
           [] \<Rightarrow> None
         | d # s' \<Rightarrow>
             if d = CHR ''u'' then
               (case s' of
                  h1 # h2 # h3 # h4 # s'' \<Rightarrow>
                    map_option (\<lambda>(t, r).
                      ((if h1 = CHR ''2''
                        then [CHR 0xE2, CHR 0x80, if h4 = CHR ''8'' then CHR 0xA8 else CHR 0xA9]
                        else [char_of (16 * the (hex_val h3) + the (hex_val h4) :: nat)]) @ t, r))
                      (json_unescape s'')
                | _ \<Rightarrow> None)
             else map_option (\<lambda>(t, r).
               ((if d = CHR ''b'' then char_of (8 :: nat) else if d = CHR ''f'' then char_of (12 :: nat)
                 else if d = CHR ''n'' then char_of (10 :: nat) else if d = CHR ''r'' then char_of (13 :: nat)
                 else if d = CHR ''t'' then char_of (9 :: nat) else d) # t, r))
               (json_unescape s'))
      else map_option (\<lambda>(t, r). (c # t, r)) (json_unescape s))"

lemma json_unescape_escape_char:
  "json_unescape (escape_char c @ r) = map_option (\<lambda>(t, r). (c # t, r)) (json_unescape r)"
proof -
  have special: "char_of n = c" if "of_char c = (n :: nat)" for n
    using that by auto
  have hex: "16 * (of_char c div 16) + of_char c mod 16 = (of_char c :: nat)"
    by simp
  have "(of_char c :: nat) < 256" by (metis nat_of_char_less_256)
  then have "of_char c div 16 < (16 :: nat)" by linarith
  then show ?thesis
    using hex
    by (auto simp: escape_char_def Let_def quote_char_def backslash_def special)
qed

lemma json_unescape_escape:
  "json_unescape (json_escape s @ quote_char # r) = Some (s, r)"
proof (induction s rule: json_escape.induct)
  case 1
  show ?case by simp
next
  case (2 c s)
  show ?case
  proof (cases "line_separator (take 3 (c # s))")
    case True
    then obtain d s' where "c = CHR 0xE2" "s = CHR 0x80 # d # s'" "d = CHR 0xA8 \<or> d = CHR 0xA9"
      by (cases s; cases "tl s") (auto simp: line_separator_def numeral_3_eq_3)
    with 2 True show ?thesis by (auto simp: backslash_def quote_char_def)
  next
    case False
    with 2 show ?thesis by (simp add: json_unescape_escape_char del: json_unescape.simps)
  qed
qed

lemma json_string_inject:
  assumes "json_string s @ r = json_string t @ q"
  shows "s = t \<and> r = q"
proof -
  have "json_escape s @ quote_char # r = json_escape t @ quote_char # q"
    using assms by (simp add: json_string_def)
  then have "Some (s, r) = Some (t, q)"
    by (metis json_unescape_escape)
  then show ?thesis by simp
qed

end
