(* ===== verification/Opening.thy ===== *)
theory Opening
  imports Nodes World Go_Time Go_Sort Json
begin

text \<open>
  Channel opening fees: the menu of signed offers, the check of an offer a client sends back and
  the comparison with current fees (\<^verbatim>\<open>common/opening_service.go\<close>, \<^verbatim>\<open>common/opening_store.go\<close>), and
  the settings table behind it (\<^verbatim>\<open>postgresql/opening_store.go\<close>). An offer is bound by a promise, a
  compact signature over the SHA-256 hash of a JSON array of its five terms.
\<close>

section \<open>common/opening\_store.go\<close>

record OpeningFeeParams =
  MinFeeMsat :: u64
  Proportional :: u32
  ValidUntil :: string
  MinLifetime :: u32
  MaxClientToSelfDelay :: u32
  Promise :: string

record OpeningFeeParamsSetting =
  Validity :: duration
  Params :: "OpeningFeeParams option"

record 'w OpeningStore =
  GetFeeParamsSettings :: "string \<Rightarrow> 'w \<Rightarrow> (error + OpeningFeeParamsSetting list) \<times> 'w"

section \<open>common/opening\_service.go\<close>

text \<open>The text that \<^verbatim>\<open>json.Marshal\<close> gives for the five items.\<close>

definition params_blob :: "OpeningFeeParams \<Rightarrow> string" where
  "params_blob params =
     ''['' @ format_uint (MinFeeMsat params) @ '','' @ format_uint (Proportional params) @ '','' @
     json_string (ValidUntil params) @ '','' @ format_uint (MinLifetime params) @ '','' @
     format_uint (MaxClientToSelfDelay params) @ '']''"

definition paramsHash :: "libs \<Rightarrow> OpeningFeeParams \<Rightarrow> error + bytes" where
  "paramsHash L params = Inr (sha256 L (string_bytes (params_blob params)))"

definition createPromise :: "libs \<Rightarrow> bytes \<Rightarrow> OpeningFeeParams \<Rightarrow> error + string" where
  "createPromise L lspPrivateKey params =
     (case paramsHash L params of
        Inl err \<Rightarrow> Inl err
      | Inr hash \<Rightarrow> Inr (hex_encode (ecdsa_SignCompact L lspPrivateKey hash)))"

definition verifyPromise :: "libs \<Rightarrow> bytes \<Rightarrow> OpeningFeeParams \<Rightarrow> error option" where
  "verifyPromise L lspPublicKey params =
     (case paramsHash L params of
        Inl err \<Rightarrow> Some err
      | Inr hash \<Rightarrow>
          (case hex_decode (Promise params) of
             None \<Rightarrow> Some (Error ''encoding/hex'')
           | Some sig \<Rightarrow>
               (case ecdsa_RecoverCompact L sig hash of
                  Inl err \<Rightarrow> Some err
                | Inr (pub, _) \<Rightarrow>
                    if lspPublicKey \<noteq> pub then Some (Error ''invalid promise'') else None)))"

text \<open>The offer made from a setting at a given time, before it is signed.\<close>

definition unsigned_offer :: "time \<Rightarrow> duration \<Rightarrow> OpeningFeeParams \<Rightarrow> OpeningFeeParams" where
  "unsigned_offer t validity p = \<lparr>
     MinFeeMsat = MinFeeMsat p,
     Proportional = Proportional p,
     ValidUntil = time_format (t + validity),
     MinLifetime = MinLifetime p,
     MaxClientToSelfDelay = MaxClientToSelfDelay p,
     Promise = '''' \<rparr>"

fun menu_loop ::
  "libs \<Rightarrow> 'w clock \<Rightarrow> bytes \<Rightarrow> OpeningFeeParamsSetting list \<Rightarrow> OpeningFeeParams list \<Rightarrow> 'w \<Rightarrow>
     (error + OpeningFeeParams list) outcome \<times> 'w" where
  "menu_loop L now privateKey [] menu w = (Ret (Inr menu), w)"
| "menu_loop L now privateKey (setting # settings) menu w =
     (case now w of
        (t, w1) \<Rightarrow>
          (case Params setting of
             None \<Rightarrow> (Panic ''nil pointer dereference'', w1)
           | Some p \<Rightarrow>
               let params = unsigned_offer t (Validity setting) p
               in case createPromise L privateKey params of
                    Inl err \<Rightarrow> (Ret (Inl err), w1)
                  | Inr promise \<Rightarrow>
                      menu_loop L now privateKey settings
                        (menu @ [params\<lparr>Promise := promise\<rparr>]) w1))"

definition menu_less :: "OpeningFeeParams \<Rightarrow> OpeningFeeParams \<Rightarrow> bool" where
  "menu_less a b \<longleftrightarrow>
     (if MinFeeMsat a = MinFeeMsat b then Proportional a < Proportional b
      else MinFeeMsat a < MinFeeMsat b)"

definition GetFeeParamsMenu ::
  "libs \<Rightarrow> 'w clock \<Rightarrow> 'w OpeningStore \<Rightarrow> string \<Rightarrow> bytes \<Rightarrow> 'w \<Rightarrow>
     (error + OpeningFeeParams list) outcome \<times> 'w" where
  "GetFeeParamsMenu L now store token privateKey w =
     (case GetFeeParamsSettings store token w of
        (Inl err, w1) \<Rightarrow> (Ret (Inl (Error ''failed to get opening_fee_params'')), w1)
      | (Inr settings, w1) \<Rightarrow>
          (case menu_loop L now privateKey settings [] w1 of
             (Ret (Inr menu), w2) \<Rightarrow> (Ret (Inr (go_sort menu_less menu)), w2)
           | r \<Rightarrow> r))"

definition ValidateOpeningFeeParams ::
  "libs \<Rightarrow> 'w clock \<Rightarrow> OpeningFeeParams option \<Rightarrow> bytes \<Rightarrow> 'w \<Rightarrow> bool \<times> 'w" where
  "ValidateOpeningFeeParams L now params publicKey w =
     (case params of
        None \<Rightarrow> (False, w)
      | Some p \<Rightarrow>
          (case verifyPromise L publicKey p of
             Some err \<Rightarrow> (False, w)
           | None \<Rightarrow>
               (case time_parse (ValidUntil p) of
                  None \<Rightarrow> (False, w)
                | Some t \<Rightarrow> (case now w of (n, w1) \<Rightarrow> (\<not> n > t, w1)))))"

fun cheaper_loop :: "OpeningFeeParamsSetting list \<Rightarrow> OpeningFeeParams \<Rightarrow> bool outcome" where
  "cheaper_loop [] params = Ret False"
| "cheaper_loop (setting # settings) params =
     (case Params setting of
        None \<Rightarrow> Panic ''nil pointer dereference''
      | Some p \<Rightarrow>
          if MinFeeMsat p \<le> MinFeeMsat params then Ret True else cheaper_loop settings params)"

definition IsCurrentChainFeeCheaper ::
  "'w OpeningStore \<Rightarrow> string \<Rightarrow> OpeningFeeParams \<Rightarrow> 'w \<Rightarrow> bool outcome \<times> 'w" where
  "IsCurrentChainFeeCheaper store token params w =
     (case GetFeeParamsSettings store token w of
        (Inl err, w1) \<Rightarrow> (Ret False, w1)
      | (Inr settings, w1) \<Rightarrow> (cheaper_loop settings params, w1))"

text \<open>The interface through which the interceptor and the channel opener use the service.\<close>

record 'w OpeningService =
  os_GetFeeParamsMenu ::
    "string \<Rightarrow> bytes \<Rightarrow> 'w \<Rightarrow> (error + OpeningFeeParams list) outcome \<times> 'w"
  os_ValidateOpeningFeeParams :: "OpeningFeeParams option \<Rightarrow> bytes \<Rightarrow> 'w \<Rightarrow> bool \<times> 'w"
  os_IsCurrentChainFeeCheaper :: "string \<Rightarrow> OpeningFeeParams \<Rightarrow> 'w \<Rightarrow> bool outcome \<times> 'w"

definition NewOpeningService :: "libs \<Rightarrow> 'w clock \<Rightarrow> 'w OpeningStore \<Rightarrow> 'w OpeningService" where
  "NewOpeningService L now store = \<lparr>
     os_GetFeeParamsMenu = GetFeeParamsMenu L now store,
     os_ValidateOpeningFeeParams = ValidateOpeningFeeParams L now,
     os_IsCurrentChainFeeCheaper = IsCurrentChainFeeCheaper store \<rparr>"

section \<open>postgresql/opening\_store.go\<close>

record new_channel_params_row =
  ncp_token :: "string option"
  ncp_validity :: int
  ncp_params :: json

record extendedParams =
  ep_Token :: string
  ep_Params :: OpeningFeeParams

definition zero_params :: OpeningFeeParams where
  "zero_params = \<lparr>MinFeeMsat = 0, Proportional = 0, ValidUntil = '''', MinLifetime = 0,
     MaxClientToSelfDelay = 0, Promise = ''''\<rparr>"

text \<open>The struct tags of \<^verbatim>\<open>OpeningFeeParams\<close> and of \<^verbatim>\<open>extendedParams\<close>, for decoding and encoding.\<close>

definition set_fee_param ::
  "OpeningFeeParams \<Rightarrow> string \<Rightarrow> json \<Rightarrow> OpeningFeeParams option" where
  "set_fee_param p k v =
     (if field_matches ''min_msat'' k
      then map_option (\<lambda>x. p\<lparr>MinFeeMsat := x\<rparr>) (decode_quoted_uint (MinFeeMsat p) v)
      else if field_matches ''proportional'' k
      then map_option (\<lambda>x. p\<lparr>Proportional := x\<rparr>) (decode_uint (Proportional p) v)
      else if field_matches ''valid_until'' k
      then map_option (\<lambda>x. p\<lparr>ValidUntil := x\<rparr>) (decode_string (ValidUntil p) v)
      else if field_matches ''max_idle_time'' k
      then map_option (\<lambda>x. p\<lparr>MinLifetime := x\<rparr>) (decode_uint (MinLifetime p) v)
      else if field_matches ''max_client_to_self_delay'' k
      then map_option (\<lambda>x. p\<lparr>MaxClientToSelfDelay := x\<rparr>) (decode_uint (MaxClientToSelfDelay p) v)
      else if field_matches ''promise'' k
      then map_option (\<lambda>x. p\<lparr>Promise := x\<rparr>) (decode_string (Promise p) v)
      else Some p)"

text \<open>Decoding into a pointer: \<^verbatim>\<open>null\<close> is the nil pointer.\<close>

definition unmarshal_fee_params :: "json \<Rightarrow> OpeningFeeParams option option" where
  "unmarshal_fee_params j =
     (case j of
        JNull \<Rightarrow> Some None
      | JObj kvs \<Rightarrow> map_option Some (decode_members set_fee_param zero_params kvs)
      | _ \<Rightarrow> None)"

definition set_extended_param :: "extendedParams \<Rightarrow> string \<Rightarrow> json \<Rightarrow> extendedParams option" where
  "set_extended_param e k v =
     (if field_matches ''token'' k
      then map_option (\<lambda>x. e\<lparr>ep_Token := x\<rparr>) (decode_string (ep_Token e) v)
      else if field_matches ''fees_params'' k
      then (case v of
              JNull \<Rightarrow> Some e
            | JObj kvs \<Rightarrow>
                map_option (\<lambda>x. e\<lparr>ep_Params := x\<rparr>) (decode_members set_fee_param (ep_Params e) kvs)
            | _ \<Rightarrow> None)
      else Some e)"

definition unmarshal_extended_params :: "json \<Rightarrow> extendedParams option option" where
  "unmarshal_extended_params j =
     (case j of
        JNull \<Rightarrow> Some None
      | JObj kvs \<Rightarrow>
          map_option Some
            (decode_members set_extended_param \<lparr>ep_Token = '''', ep_Params = zero_params\<rparr> kvs)
      | _ \<Rightarrow> None)"

definition marshal_fee_params :: "OpeningFeeParams \<Rightarrow> json" where
  "marshal_fee_params p = JObj [
     (''min_msat'', JStr (format_uint (MinFeeMsat p))),
     (''proportional'', JNum (format_uint (Proportional p))),
     (''valid_until'', JStr (ValidUntil p)),
     (''max_idle_time'', JNum (format_uint (MinLifetime p))),
     (''max_client_to_self_delay'', JNum (format_uint (MaxClientToSelfDelay p))),
     (''promise'', JStr (Promise p))]"

definition marshal_extended_params :: "extendedParams \<Rightarrow> json" where
  "marshal_extended_params e = JObj [
     (''token'', JStr (ep_Token e)), (''fees_params'', marshal_fee_params (ep_Params e))]"

text \<open>The query reads the rows in table order.\<close>

fun settings_of_rows :: "new_channel_params_row list \<Rightarrow> error + OpeningFeeParamsSetting list" where
  "settings_of_rows [] = Inr []"
| "settings_of_rows (r # rs) =
     (case unmarshal_fee_params (ncp_params r) of
        None \<Rightarrow> Inl (Error ''json: cannot unmarshal'')
      | Some params \<Rightarrow>
          (case settings_of_rows rs of
             Inl err \<Rightarrow> Inl err
           | Inr settings \<Rightarrow>
               Inr (\<lparr>Validity = int64 (second * ncp_validity r), Params = params\<rparr> # settings)))"

definition PostgresOpeningStore ::
  "'w pool \<Rightarrow> ('w, new_channel_params_row list) cell \<Rightarrow> 'w OpeningStore" where
  "PostgresOpeningStore pool table = \<lparr>
     GetFeeParamsSettings = (\<lambda>token w.
       case query pool table
              (filter (\<lambda>r. ncp_token r = Some token \<and> 0 < ncp_validity r)) w of
         (Inl err, w1) \<Rightarrow> (Inl err, w1)
       | (Inr rows, w1) \<Rightarrow> (settings_of_rows rows, w1)) \<rparr>"

section \<open>Lemmas\<close>

text \<open>What an offer is signed over.\<close>

definition terms_of :: "OpeningFeeParams \<Rightarrow> u64 \<times> u32 \<times> string \<times> u32 \<times> u32" where
  "terms_of p = (MinFeeMsat p, Proportional p, ValidUntil p, MinLifetime p, MaxClientToSelfDelay p)"

lemma split_at_char:
  assumes "a @ c # r = b @ c # q" and "c \<notin> set a" and "c \<notin> set b"
  shows "a = b \<and> r = q"
proof -
  have "takeWhile (\<lambda>x. x \<noteq> c) (a @ c # r) = a" "takeWhile (\<lambda>x. x \<noteq> c) (b @ c # q) = b"
    using assms(2,3) by (auto simp: takeWhile_append)
  then have "a = b" using assms(1) by simp
  then show ?thesis using assms(1) by simp
qed

lemma format_nat_split:
  assumes "format_nat a @ c # r = format_nat b @ c # q" and "c \<notin> set ''0123456789''"
  shows "a = b \<and> r = q"
proof -
  have nin: "c \<notin> set (format_nat n)" for n
    using set_format_nat [of n] assms(2) by blast
  have "format_nat a = format_nat b \<and> r = q"
    by (rule split_at_char [OF assms(1) nin nin])
  then show ?thesis by simp
qed

lemma params_blob_inject: "params_blob p = params_blob q \<longleftrightarrow> terms_of p = terms_of q"
proof
  assume "params_blob p = params_blob q"
  then show "terms_of p = terms_of q"
    unfolding params_blob_def terms_of_def format_uint_def
    by (auto dest!: format_nat_split json_string_inject simp: word_unat_eq_iff)
next
  assume "terms_of p = terms_of q"
  then show "params_blob p = params_blob q"
    by (simp add: params_blob_def terms_of_def)
qed

text \<open>The offers of the loop: each setting signed at some reading of the clock.\<close>

definition signed_offer :: "libs \<Rightarrow> bytes \<Rightarrow> time \<Rightarrow> OpeningFeeParamsSetting \<Rightarrow> OpeningFeeParams" where
  "signed_offer L k t s =
     (let u = unsigned_offer t (Validity s) (the (Params s))
      in u\<lparr>Promise := hex_encode
             (ecdsa_SignCompact L k (sha256 L (string_bytes (params_blob u))))\<rparr>)"

lemma params_blob_Promise [simp]: "params_blob (p\<lparr>Promise := x\<rparr>) = params_blob p"
  by (simp add: params_blob_def)

lemma createPromise_ok: "createPromise L k p =
  Inr (hex_encode (ecdsa_SignCompact L k (sha256 L (string_bytes (params_blob p)))))"
  by (simp add: createPromise_def paramsHash_def)

lemma verifyPromise_createPromise:
  assumes "recovers_signer L" and "createPromise L k p = Inr promise"
  shows "verifyPromise L (btcec_PubKey L k) (p\<lparr>Promise := promise\<rparr>) = None"
  using assms
  by (auto simp: verifyPromise_def createPromise_ok paramsHash_def recovers_signer_def)

lemma verifyPromise_signed_offer:
  "recovers_signer L \<Longrightarrow> verifyPromise L (btcec_PubKey L k) (signed_offer L k t s) = None"
  unfolding signed_offer_def Let_def
  by (rule verifyPromise_createPromise) (simp_all add: createPromise_ok)

lemma menu_loop_offers:
  assumes "\<forall>s\<in>set settings. Params s \<noteq> None"
  shows "\<exists>offers w'. menu_loop L now k settings menu w = (Ret (Inr (menu @ offers)), w') \<and>
           list_all2 (\<lambda>s p. \<exists>t. p = signed_offer L k t s) settings offers"
  using assms
proof (induction settings arbitrary: menu w)
  case Nil
  show ?case by simp
next
  case (Cons s settings)
  obtain t w1 where now: "now w = (t, w1)" by (cases "now w")
  from Cons.prems obtain p where p: "Params s = Some p" by auto
  obtain offers w' where
    "menu_loop L now k settings (menu @ [signed_offer L k t s]) w1 =
       (Ret (Inr ((menu @ [signed_offer L k t s]) @ offers)), w')"
    "list_all2 (\<lambda>s p. \<exists>t. p = signed_offer L k t s) settings offers"
    using Cons.IH [of "menu @ [signed_offer L k t s]" w1] Cons.prems by auto
  with now p show ?case
    by (intro exI [of _ "signed_offer L k t s # offers"] exI [of _ w'])
       (auto simp: createPromise_ok signed_offer_def Let_def)
qed

interpretation menu_order: strict_weak_order menu_less
  by unfold_locales (auto simp: menu_less_def split: if_splits)

lemma not_menu_less:
  "\<not> menu_less b a \<longleftrightarrow> MinFeeMsat a < MinFeeMsat b \<or>
     (MinFeeMsat a = MinFeeMsat b \<and> Proportional a \<le> Proportional b)"
  by (auto simp: menu_less_def)

definition fee_terms :: "OpeningFeeParams \<Rightarrow> u64 \<times> u32 \<times> u32 \<times> u32" where
  "fee_terms p = (MinFeeMsat p, Proportional p, MinLifetime p, MaxClientToSelfDelay p)"

lemma fee_terms_signed_offer [simp]: "fee_terms (signed_offer L k t s) = fee_terms (the (Params s))"
  by (simp add: fee_terms_def signed_offer_def Let_def unsigned_offer_def)

text \<open>
  C19: The menu: when the settings can be read and none is JSON \<^verbatim>\<open>null\<close>, the service returns one
  offer per setting with that setting's fees and limits, cheapest first (by minimum fee, then by
  proportional fee), each with a promise that verifies under the public key of the signing key.
\<close>

theorem GetFeeParamsMenu_correct:
  assumes "recovers_signer L" and "GetFeeParamsSettings store token w = (Inr settings, w1)"
    and "\<forall>s\<in>set settings. Params s \<noteq> None"
  shows "\<exists>menu w2. GetFeeParamsMenu L now store token k w = (Ret (Inr menu), w2) \<and>
           image_mset fee_terms (mset menu) =
             image_mset (\<lambda>s. fee_terms (the (Params s))) (mset settings) \<and>
           sorted_wrt (\<lambda>a b. MinFeeMsat a < MinFeeMsat b \<or>
             (MinFeeMsat a = MinFeeMsat b \<and> Proportional a \<le> Proportional b)) menu \<and>
           (\<forall>p\<in>set menu. verifyPromise L (btcec_PubKey L k) p = None)"
proof -
  obtain offers w2 where loop: "menu_loop L now k settings [] w1 = (Ret (Inr offers), w2)"
    and offers: "list_all2 (\<lambda>s p. \<exists>t. p = signed_offer L k t s) settings offers"
    using menu_loop_offers [OF assms(3), of L now k "[]" w1] by auto
  let ?menu = "go_sort menu_less offers"
  have menu: "GetFeeParamsMenu L now store token k w = (Ret (Inr ?menu), w2)"
    using assms(2) loop by (simp add: GetFeeParamsMenu_def)
  have "map fee_terms offers = map (\<lambda>s. fee_terms (the (Params s))) settings"
    using offers by (induction rule: list_all2_induct) auto
  then have "image_mset fee_terms (mset offers) =
      image_mset (\<lambda>s. fee_terms (the (Params s))) (mset settings)"
    by (metis mset_map)
  moreover have "verifyPromise L (btcec_PubKey L k) p = None" if "p \<in> set offers" for p
    using offers that verifyPromise_signed_offer [OF assms(1)]
    by (auto simp: list_all2_conv_all_nth in_set_conv_nth)
  ultimately show ?thesis
    using menu menu_order.go_sort_sorted [of offers] by (auto simp: not_menu_less)
qed

definition sample_params :: OpeningFeeParams where
  "sample_params = zero_params\<lparr>MinFeeMsat := 2000000, Proportional := 4000, MinLifetime := 4320\<rparr>"

definition sample_store :: "time OpeningStore" where
  "sample_store = \<lparr>GetFeeParamsSettings = (\<lambda>token w.
     (Inr [\<lparr>Validity = 3600 * second, Params = Some sample_params\<rparr>,
           \<lparr>Validity = 60 * second, Params = Some (sample_params\<lparr>MinFeeMsat := 1000\<rparr>)\<rparr>], w))\<rparr>"

theorem GetFeeParamsMenu_correct_witness:
  "\<exists>menu w2. GetFeeParamsMenu std_libs (\<lambda>w. (w, w + second)) sample_store ''t'' [1, 2] 0 =
       (Ret (Inr menu), w2) \<and> size menu = 2 \<and>
     (\<forall>p\<in>set menu. verifyPromise std_libs [1, 2] p = None)"
proof -
  let ?s = "[\<lparr>Validity = 3600 * second, Params = Some sample_params\<rparr>,
           \<lparr>Validity = 60 * second, Params = Some (sample_params\<lparr>MinFeeMsat := 1000\<rparr>)\<rparr>]"
  have "GetFeeParamsSettings sample_store ''t'' 0 = (Inr ?s, 0)" by (simp add: sample_store_def)
  from GetFeeParamsMenu_correct [OF recovers_signer_std this, of "\<lambda>w. (w, w + second)" "[1, 2]"]
  obtain menu w2 where m: "GetFeeParamsMenu std_libs (\<lambda>w. (w, w + second)) sample_store ''t'' [1, 2] 0 =
       (Ret (Inr menu), w2)"
    "image_mset fee_terms (mset menu) = image_mset (\<lambda>s. fee_terms (the (Params s))) (mset ?s)"
    "\<forall>p\<in>set menu. verifyPromise std_libs (btcec_PubKey std_libs [1, 2]) p = None"
    by auto
  have "size menu = size (image_mset fee_terms (mset menu))" by simp
  also have "\<dots> = 2" unfolding m(2) by simp
  finally show ?thesis using m by (auto simp: std_libs_def)
qed

definition year_of :: "time \<Rightarrow> int" where
  "year_of t = fst (civil_of_days (t div second div 86400))"

lemma time_parse_time_format:
  assumes "0 \<le> year_of t \<and> year_of t \<le> 9999"
  shows "time_parse (time_format t) = Some (t - t mod millisecond)"
  using assms time_parse_format
  by (cases "civil_of_days (t div second div 86400)") (auto simp: year_of_def)

lemma ValidateOpeningFeeParams_iff:
  "fst (ValidateOpeningFeeParams L now params pub w) \<longleftrightarrow>
     (\<exists>q e. params = Some q \<and> verifyPromise L pub q = None \<and>
        time_parse (ValidUntil q) = Some e \<and> fst (now w) \<le> e)"
  by (auto simp: ValidateOpeningFeeParams_def split: option.splits prod.splits)

text \<open>
  C22: An offer signed with the node's key is accepted back under its public key exactly as long
  as the clock has not passed the offer's end of validity, cut to whole milliseconds by the text
  form it is sent in.
\<close>

theorem ValidateOpeningFeeParams_offer:
  assumes "recovers_signer L" and "0 \<le> year_of (t + v) \<and> year_of (t + v) \<le> 9999"
    and "createPromise L k (unsigned_offer t v p) = Inr promise"
  shows "fst (ValidateOpeningFeeParams L now (Some ((unsigned_offer t v p)\<lparr>Promise := promise\<rparr>))
           (btcec_PubKey L k) w) \<longleftrightarrow>
           fst (now w) \<le> t + v - (t + v) mod millisecond"
proof -
  have "ValidUntil ((unsigned_offer t v p)\<lparr>Promise := promise\<rparr>) = time_format (t + v)"
    by (simp add: unsigned_offer_def)
  with verifyPromise_createPromise [OF assms(1,3)] time_parse_time_format [OF assms(2)]
  show ?thesis by (simp add: ValidateOpeningFeeParams_iff)
qed

theorem ValidateOpeningFeeParams_offer_witness:
  "\<exists>promise. createPromise std_libs [7] (unsigned_offer 0 (3600 * second) sample_params) = Inr promise \<and>
     (let offer = (unsigned_offer 0 (3600 * second) sample_params)\<lparr>Promise := promise\<rparr> in
      fst (ValidateOpeningFeeParams std_libs (\<lambda>w. (w, w)) (Some offer) [7] (3600 * second)) \<and>
      \<not> fst (ValidateOpeningFeeParams std_libs (\<lambda>w. (w, w)) (Some offer) [7] (3601 * second)))"
proof -
  have y: "0 \<le> year_of (0 + 3600 * second) \<and> year_of (0 + 3600 * second) \<le> 9999"
    by code_simp
  have k: "btcec_PubKey std_libs [7] = [7]" by (simp add: std_libs_def)
  obtain promise where
    p: "createPromise std_libs [7] (unsigned_offer 0 (3600 * second) sample_params) = Inr promise"
    using createPromise_ok by blast
  have v: "0 + 3600 * second - (0 + 3600 * second) mod millisecond = 3600 * second"
    "\<not> 3601 * second \<le> 3600 * second"
    by (simp_all add: second_def millisecond_def)
  note V = ValidateOpeningFeeParams_offer [OF recovers_signer_std y p, of "\<lambda>w. (w, w)",
      unfolded k v(1) fst_conv]
  show ?thesis
    unfolding Let_def by (rule exI [of _ promise]) (intro conjI p V [THEN iffD2, OF order_refl],
        unfold V, rule v(2))
qed


lemma cheaper_loop_iff:
  assumes "\<forall>s\<in>set settings. Params s \<noteq> None"
  shows "cheaper_loop settings params =
           Ret (\<exists>s\<in>set settings. MinFeeMsat (the (Params s)) \<le> MinFeeMsat params)"
  using assms by (induction settings) auto

text \<open>
  The comparison with current fees says yes exactly when the settings of the token can be
  read and one of them has a minimum fee of at most the offer's.
\<close>

lemma IsCurrentChainFeeCheaper_iff:
  assumes "\<And>settings w1. GetFeeParamsSettings store token w = (Inr settings, w1) \<Longrightarrow>
             \<forall>s\<in>set settings. Params s \<noteq> None"
  shows "fst (IsCurrentChainFeeCheaper store token params w) =
           Ret (\<exists>settings w1. GetFeeParamsSettings store token w = (Inr settings, w1) \<and>
                  (\<exists>s\<in>set settings. MinFeeMsat (the (Params s)) \<le> MinFeeMsat params))"
  using assms
  by (auto simp: IsCurrentChainFeeCheaper_def cheaper_loop_iff split: prod.split sum.split)

lemma IsCurrentChainFeeCheaper_iff_witness:
  "fst (IsCurrentChainFeeCheaper sample_store ''t'' (sample_params\<lparr>MinFeeMsat := 999\<rparr>) 0) = Ret False
   \<and> fst (IsCurrentChainFeeCheaper sample_store ''t'' (sample_params\<lparr>MinFeeMsat := 1000\<rparr>) 0) = Ret True"
  using IsCurrentChainFeeCheaper_iff [of sample_store "''t''" 0 "sample_params\<lparr>MinFeeMsat := 999\<rparr>"]
    IsCurrentChainFeeCheaper_iff [of sample_store "''t''" 0 "sample_params\<lparr>MinFeeMsat := 1000\<rparr>"]
  by (auto simp: sample_store_def sample_params_def)

lemma decode_uint_format [simp]: "decode_uint old (JNum (format_uint w)) = Some w"
  using unsigned_less [of w, where ?'a = nat] by (simp add: decode_uint_def format_uint_def)

lemma decode_quoted_uint_format [simp]: "decode_quoted_uint old (JStr (format_uint w)) = Some w"
proof -
  have "CHR ''n'' \<notin> set (format_nat (unat w))"
    using set_format_nat [of "unat w"] by auto
  then have "format_nat (unat w) \<noteq> ''null''" by auto
  then show ?thesis
    using unsigned_less [of w, where ?'a = nat]
    by (simp add: decode_quoted_uint_def format_uint_def)
qed

lemma field_matches_names [simp]:
  "field_matches ''min_msat'' ''min_msat''"
  "field_matches ''proportional'' ''proportional''"
  "field_matches ''valid_until'' ''valid_until''"
  "field_matches ''max_idle_time'' ''max_idle_time''"
  "field_matches ''max_client_to_self_delay'' ''max_client_to_self_delay''"
  "field_matches ''promise'' ''promise''"
  "field_matches ''token'' ''token''"
  "field_matches ''fees_params'' ''fees_params''"
  by (simp_all add: field_matches_def)

lemma field_matches_length: "length f \<noteq> length k \<Longrightarrow> \<not> field_matches f k"
  by (auto simp: field_matches_def dest: map_eq_imp_length_eq)

lemma decode_marshal_fee_params:
  "marshal_fee_params p = JObj kvs \<Longrightarrow> decode_members set_fee_param q kvs = Some p"
  by (cases p; cases q)
     (auto simp: marshal_fee_params_def set_fee_param_def field_matches_length decode_string_def)

lemma unmarshal_marshal_extended_params:
  "unmarshal_extended_params (marshal_extended_params e) = Some (Some e)"
proof -
  obtain kvs where "marshal_fee_params (ep_Params e) = JObj kvs"
    by (simp add: marshal_fee_params_def)
  with decode_marshal_fee_params [OF this] show ?thesis
    by (cases e) (simp add: unmarshal_extended_params_def marshal_extended_params_def
        set_extended_param_def field_matches_length decode_string_def)
qed

end
