(* ===== verification/Notifications.thy ===== *)
theory Notifications
  imports Nodes World Json
begin

text \<open>
  Webhook notifications: the service that tells a client of a pending payment
  (\<^verbatim>\<open>notifications/notification_service.go\<close>), the gRPC server that registers webhooks
  (\<^verbatim>\<open>notifications/server.go\<close>), the removal of stale ones (\<^verbatim>\<open>notifications/cleanup.go\<close>) and the
  table that holds them (\<^verbatim>\<open>postgresql/notifications_store.go\<close>). The locale \<open>notification_store\<close> is
  the contract between the service and its store.
\<close>

section \<open>notifications/store.go\<close>

record 'w NotificationStore =
  Register :: "string \<Rightarrow> string \<Rightarrow> 'w \<Rightarrow> error option \<times> 'w"
  GetRegistrations :: "string \<Rightarrow> 'w \<Rightarrow> (error + string list) \<times> 'w"
  Unsubscribe :: "string \<Rightarrow> string \<Rightarrow> 'w \<Rightarrow> error option \<times> 'w"
  RemoveExpired :: "time \<Rightarrow> 'w \<Rightarrow> error option \<times> 'w"

section \<open>notifications/notification\_service.go\<close>

definition minNotificationInterval :: duration where
  "minNotificationInterval = 30 * second"

text \<open>
  A service is its store, the place of its map of recent notifications, the clock, and the HTTP
  client: \<open>http_Post url body\<close> gives the status code or an error.
\<close>

record 'w NotificationService =
  recentNotifications :: "('w, string \<rightharpoonup> time) cell"
  ns_store :: "'w NotificationStore"
  ns_now :: "'w clock"
  http_Post :: "string \<Rightarrow> string \<Rightarrow> 'w \<Rightarrow> (error + int) \<times> 'w"

definition paymentIdentifier :: "string \<Rightarrow> string \<Rightarrow> string" where
  "paymentIdentifier pubkey paymentHash = pubkey @ ''|'' @ paymentHash"

text \<open>The encoded \<^verbatim>\<open>PaymentReceivedPayload\<close>; the encoder ends it with a newline.\<close>

definition payment_received_payload :: "string \<Rightarrow> string" where
  "payment_received_payload paymenthash =
     ''{'' @ json_string ''template'' @ '':'' @ json_string ''payment_received'' @ '','' @
     json_string ''data'' @ '':{'' @ json_string ''payment_hash'' @ '':'' @
     json_string paymenthash @ ''}}'' @ [CHR 0x0A]"

definition notifyOnce ::
  "'w NotificationService \<Rightarrow> string \<Rightarrow> string \<Rightarrow> 'w \<Rightarrow> bool \<times> 'w" where
  "notifyOnce s body url w =
     (case http_Post s url body w of
        (Inl err, w1) \<Rightarrow> (False, w1)
      | (Inr status, w1) \<Rightarrow> (go_div status 100 = 2, w1))"

text \<open>The registrations are notified one after the other; the code runs them concurrently.\<close>

fun notify_all ::
  "'w NotificationService \<Rightarrow> string \<Rightarrow> string list \<Rightarrow> bool \<Rightarrow> 'w \<Rightarrow> bool \<times> 'w" where
  "notify_all s body [] notified w = (notified, w)"
| "notify_all s body (url # urls) notified w =
     (case notifyOnce s body url w of
        (n, w1) \<Rightarrow> notify_all s body urls (notified \<or> n) w1)"

definition recently_notified ::
  "'w NotificationService \<Rightarrow> string \<Rightarrow> 'w \<Rightarrow> bool \<times> 'w" where
  "recently_notified s ident w =
     (case cell_get (recentNotifications s) w ident of
        None \<Rightarrow> (False, w)
      | Some lastTime \<Rightarrow>
          (case ns_now s w of
             (n, w1) \<Rightarrow> (lastTime + minNotificationInterval > n, w1)))"

definition Notify ::
  "'w NotificationService \<Rightarrow> string \<Rightarrow> string \<Rightarrow> 'w \<Rightarrow> (error + bool) \<times> 'w" where
  "Notify s pubkey paymenthash w =
     (let ident = paymentIdentifier pubkey paymenthash in
      case recently_notified s ident w of
        (True, w1) \<Rightarrow> (Inr True, w1)
      | (False, w1) \<Rightarrow>
          (case GetRegistrations (ns_store s) pubkey w1 of
             (Inl err, w2) \<Rightarrow> (Inl err, w2)
           | (Inr registrations, w2) \<Rightarrow>
               (case notify_all s (payment_received_payload paymenthash) registrations False w2 of
                  (False, w3) \<Rightarrow> (Inr False, w3)
                | (True, w3) \<Rightarrow>
                    (case ns_now s w3 of
                       (n, w4) \<Rightarrow>
                         (Inr True,
                          cell_put (recentNotifications s)
                            ((cell_get (recentNotifications s) w4)(ident \<mapsto> n)) w4)))))"

text \<open>
  One round of the loop of \<^verbatim>\<open>Start\<close>; \<open>n ident\<close> is the reading of the clock when the entry of \<open>ident\<close> is
  looked at.
\<close>

definition clean_recent :: "(string \<Rightarrow> time) \<Rightarrow> (string \<rightharpoonup> time) \<Rightarrow> string \<rightharpoonup> time" where
  "clean_recent n m =
     (\<lambda>ident. case m ident of
             None \<Rightarrow> None
           | Some lastTime \<Rightarrow>
               if lastTime + minNotificationInterval < n ident then None else Some lastTime)"

section \<open>notifications/server.go\<close>

definition ErrInternal :: error where
  "ErrInternal = Error ''internal error''"

record SubscribeRequest =
  req_Url :: string
  req_Signature :: string

text \<open>
  ECIES decryption and the protobuf decoding of the two requests, which have the same fields, are
  parameters.
\<close>

record notification_codec =
  ecies_Decrypt :: "bytes \<Rightarrow> bytes \<Rightarrow> error + bytes"
  proto_Unmarshal :: "bytes \<Rightarrow> error + SubscribeRequest"

definition open_request ::
  "notification_codec \<Rightarrow> 'w Node \<Rightarrow> bytes \<Rightarrow> error + SubscribeRequest" where
  "open_request C node blob =
     (case ecies_Decrypt C (EciesPrivateKey node) blob of
        Inl err \<Rightarrow> Inl (Wrap ''ecies.Decrypt error'' err)
      | Inr data \<Rightarrow>
          (case proto_Unmarshal C data of
             Inl err \<Rightarrow> Inl (Wrap ''proto.Unmarshal error'' err)
           | Inr request \<Rightarrow> Inr request))"

text \<open>
  On a bad signature \<^verbatim>\<open>SubscribeNotifications\<close> formats the nil public key for its log line, and
  \<^verbatim>\<open>SerializeCompressed\<close> dereferences it.
\<close>

definition SubscribeNotifications ::
  "libs \<Rightarrow> notification_codec \<Rightarrow> 'w NotificationStore \<Rightarrow> 'w ctx \<Rightarrow> bytes \<Rightarrow> 'w \<Rightarrow>
     error option outcome \<times> 'w" where
  "SubscribeNotifications L C store ctx blob w =
     (case ctx_GetNode ctx of
        Inl err \<Rightarrow> (Ret (Some err), w)
      | Inr (node, _) \<Rightarrow>
          (case open_request C node blob of
             Inl err \<Rightarrow> (Ret (Some err), w)
           | Inr request \<Rightarrow>
               (case VerifyMessage L (string_bytes (req_Url request)) (req_Signature request) of
                  Inl err \<Rightarrow> (Panic ''nil pointer dereference'', w)
                | Inr pubkey \<Rightarrow>
                    (case Register store (hex_encode pubkey) (req_Url request) w of
                       (Some err, w1) \<Rightarrow> (Ret (Some ErrInternal), w1)
                     | (None, w1) \<Rightarrow> (Ret None, w1)))))"

definition UnsubscribeNotifications ::
  "libs \<Rightarrow> notification_codec \<Rightarrow> 'w NotificationStore \<Rightarrow> 'w ctx \<Rightarrow> bytes \<Rightarrow> 'w \<Rightarrow>
     error option outcome \<times> 'w" where
  "UnsubscribeNotifications L C store ctx blob w =
     (case ctx_GetNode ctx of
        Inl err \<Rightarrow> (Ret (Some err), w)
      | Inr (node, _) \<Rightarrow>
          (case open_request C node blob of
             Inl err \<Rightarrow> (Ret (Some err), w)
           | Inr request \<Rightarrow>
               (case VerifyMessage L (string_bytes (req_Url request)) (req_Signature request) of
                  Inl err \<Rightarrow> (Ret (Some err), w)
                | Inr pubkey \<Rightarrow>
                    (case Unsubscribe store (hex_encode pubkey) (req_Url request) w of
                       (Some err, w1) \<Rightarrow> (Ret (Some ErrInternal), w1)
                     | (None, w1) \<Rightarrow> (Ret None, w1)))))"

section \<open>notifications/cleanup.go\<close>

definition ExpiryDuration :: duration where
  "ExpiryDuration = 24 * 28 * 3600 * second"

text \<open>One round of the loop of \<^verbatim>\<open>Start\<close>; the loop repeats it every hour.\<close>

definition cleanup_round :: "'w clock \<Rightarrow> 'w NotificationStore \<Rightarrow> 'w \<Rightarrow> error option \<times> 'w" where
  "cleanup_round now store w =
     (case now w of (n, w1) \<Rightarrow> RemoveExpired store (n - ExpiryDuration) w1)"

section \<open>postgresql/notifications\_store.go\<close>

record subscription_row =
  sub_pubkey :: bytes
  sub_url :: string
  sub_created_at :: int
  sub_refreshed_at :: int

definition sub_key :: "subscription_row \<Rightarrow> bytes \<times> string" where
  "sub_key r = (sub_pubkey r, sub_url r)"

definition refresh_row :: "subscription_row \<Rightarrow> subscription_row \<Rightarrow> subscription_row" where
  "refresh_row old new = old\<lparr>sub_refreshed_at := sub_refreshed_at new\<rparr>"

text \<open>The statements; the unique index on public key and URL resolves the conflict of the insert.\<close>

definition upsert_subscription ::
  "bytes \<Rightarrow> string \<Rightarrow> int \<Rightarrow> subscription_row list \<Rightarrow> subscription_row list" where
  "upsert_subscription pk url n =
     upsert sub_key refresh_row
       \<lparr>sub_pubkey = pk, sub_url = url, sub_created_at = n, sub_refreshed_at = n\<rparr>"

definition urls_of :: "bytes \<Rightarrow> subscription_row list \<Rightarrow> string list" where
  "urls_of pk rows = map sub_url (filter (\<lambda>r. sub_pubkey r = pk) rows)"

definition delete_subscription ::
  "bytes \<Rightarrow> string \<Rightarrow> subscription_row list \<Rightarrow> subscription_row list" where
  "delete_subscription pk url rows =
     filter (\<lambda>r. \<not> (sub_pubkey r = pk \<and> sub_url r = url)) rows"

definition delete_expired :: "int \<Rightarrow> subscription_row list \<Rightarrow> subscription_row list" where
  "delete_expired before rows = filter (\<lambda>r. \<not> sub_refreshed_at r < before) rows"

text \<open>\<^verbatim>\<open>Unsubscribe\<close> drops the statement's error.\<close>

definition PostgresNotificationsStore ::
  "'w pool \<Rightarrow> 'w clock \<Rightarrow> ('w, subscription_row list) cell \<Rightarrow> 'w NotificationStore" where
  "PostgresNotificationsStore pool now table = \<lparr>
     Register = (\<lambda>pubkey url w.
       case hex_decode pubkey of
         None \<Rightarrow> (Some (Error ''encoding/hex''), w)
       | Some pk \<Rightarrow>
           (case now w of
              (n, w1) \<Rightarrow> exec pool table (upsert_subscription pk url (unix_micro n)) w1)),
     GetRegistrations = (\<lambda>pubkey w.
       case hex_decode pubkey of
         None \<Rightarrow> (Inl (Error ''encoding/hex''), w)
       | Some pk \<Rightarrow> query pool table (urls_of pk) w),
     Unsubscribe = (\<lambda>pubkey url w.
       case hex_decode pubkey of
         None \<Rightarrow> (Some (Error ''encoding/hex''), w)
       | Some pk \<Rightarrow> (None, snd (exec pool table (delete_subscription pk url) w))),
     RemoveExpired = (\<lambda>before w. exec pool table (delete_expired (unix_micro before)) w) \<rparr>"

section \<open>The contract of the store\<close>

text \<open>
  \<open>subs w\<close> is the set of subscriptions a store holds. \<^verbatim>\<open>Unsubscribe\<close> may fail silently, so it either
  removes the subscription or does nothing.
\<close>

lemma SubscribeNotifications_cases:
  assumes "SubscribeNotifications L C S ctx blob w = (r, w')"
  shows "(w' = w \<and> r \<noteq> Ret None) \<or>
     (\<exists>u sig k e. VerifyMessage L (string_bytes u) sig = Inr k \<and>
        Register S (hex_encode k) u w = (e, w') \<and> (r = Ret None \<longleftrightarrow> e = None))"
  using assms
  by (auto simp: SubscribeNotifications_def split: sum.splits prod.splits option.splits)

lemma UnsubscribeNotifications_cases:
  assumes "UnsubscribeNotifications L C S ctx blob w = (r, w')"
  shows "(w' = w \<and> r \<noteq> Ret None) \<or>
     (\<exists>u sig k e. VerifyMessage L (string_bytes u) sig = Inr k \<and>
        Unsubscribe S (hex_encode k) u w = (e, w') \<and> (r = Ret None \<longleftrightarrow> e = None))"
  using assms
  by (auto simp: UnsubscribeNotifications_def split: sum.splits prod.splits option.splits)

locale notification_store =
  fixes S :: "'w NotificationStore" and subs :: "'w \<Rightarrow> (bytes \<times> string) set"
  assumes register: "Register S (hex_encode k) url w = (e, w') \<Longrightarrow>
      subs w' = (if e = None then insert (k, url) (subs w) else subs w)"
    and registrations: "GetRegistrations S (hex_encode k) w = (Inr urls, w') \<Longrightarrow>
      set urls = {u. (k, u) \<in> subs w}"
    and registrations_keep: "GetRegistrations S pubkey w = (r, w') \<Longrightarrow> subs w' = subs w"
    and unsubscribe: "Unsubscribe S (hex_encode k) url w = (e, w') \<Longrightarrow>
      subs w' = subs w - {(k, url)} \<or> subs w' = subs w"
    and remove_expired: "RemoveExpired S t w = (e, w') \<Longrightarrow> subs w' \<subseteq> subs w"
begin

lemma subscribe_verified:
  assumes "SubscribeNotifications L C S ctx blob w = (r, w')"
  shows "subs w' = subs w \<or>
     (\<exists>k u sig. VerifyMessage L (string_bytes u) sig = Inr k \<and> r = Ret None \<and>
        subs w' = insert (k, u) (subs w))"
  using SubscribeNotifications_cases [OF assms] register by (metis (full_types))

lemma unsubscribe_verified:
  assumes "UnsubscribeNotifications L C S ctx blob w = (r, w')"
  shows "subs w' = subs w \<or>
     (\<exists>k u sig. VerifyMessage L (string_bytes u) sig = Inr k \<and> subs w' = subs w - {(k, u)})"
  using UnsubscribeNotifications_cases [OF assms] unsubscribe by metis

lemma cleanup_keeps:
  assumes "\<And>w. subs (snd (now w)) = subs w" and "cleanup_round now S w = (e, w')"
  shows "subs w' \<subseteq> subs w"
proof (cases "now w")
  case (Pair n w1)
  with assms(2) have "RemoveExpired S (n - ExpiryDuration) w1 = (e, w')"
    by (simp add: cleanup_round_def)
  from remove_expired [OF this] show ?thesis using assms(1) [of w] Pair by simp
qed

end

section \<open>The PostgreSQL store keeps the contract\<close>

definition subscriptions :: "subscription_row list \<Rightarrow> (bytes \<times> string) set" where
  "subscriptions rows = sub_key ` set rows"

interpretation sub_upsert: upsert_key sub_key refresh_row
  by unfold_locales (simp add: sub_key_def refresh_row_def)

lemma subscriptions_upsert [simp]:
  "subscriptions (upsert_subscription pk url n rows) = insert (pk, url) (subscriptions rows)"
  unfolding subscriptions_def upsert_subscription_def sub_upsert.keys_upsert by (simp add: sub_key_def)

lemma subscriptions_delete [simp]:
  "subscriptions (delete_subscription pk url rows) = subscriptions rows - {(pk, url)}"
  by (auto simp: subscriptions_def delete_subscription_def sub_key_def)

lemma subscriptions_expired: "subscriptions (delete_expired t rows) \<subseteq> subscriptions rows"
  by (auto simp: subscriptions_def delete_expired_def)

lemma set_urls_of: "set (urls_of pk rows) = {u. (pk, u) \<in> subscriptions rows}"
  by (auto simp: urls_of_def subscriptions_def sub_key_def)

locale notifications_db = database table pool now
  for table :: "('w, subscription_row list) cell" and pool :: "'w pool" and now :: "'w clock"

sublocale notifications_db \<subseteq> pg: notification_store "PostgresNotificationsStore pool now table"
  "\<lambda>w. subscriptions (cell_get table w)"
proof
  fix k url w e w'
  assume "Register (PostgresNotificationsStore pool now table) (hex_encode k) url w = (e, w')"
  then show "subscriptions (cell_get table w') =
      (if e = None then insert (k, url) (subscriptions (cell_get table w))
       else subscriptions (cell_get table w))"
    by (auto simp: PostgresNotificationsStore_def dest!: exec_table now_step split: prod.splits)
next
  fix k w urls w'
  assume "GetRegistrations (PostgresNotificationsStore pool now table) (hex_encode k) w = (Inr urls, w')"
  then show "set urls = {u. (k, u) \<in> subscriptions (cell_get table w)}"
    by (auto simp: PostgresNotificationsStore_def set_urls_of dest!: query_result)
next
  fix pubkey w r w'
  assume "GetRegistrations (PostgresNotificationsStore pool now table) pubkey w = (r, w')"
  then show "subscriptions (cell_get table w') = subscriptions (cell_get table w)"
    by (auto simp: PostgresNotificationsStore_def dest!: query_table split: option.splits)
next
  fix k url w e w'
  assume u: "Unsubscribe (PostgresNotificationsStore pool now table) (hex_encode k) url w = (e, w')"
  obtain r where "exec pool table (delete_subscription k url) w = (r, w')"
    using u by (cases "exec pool table (delete_subscription k url) w")
      (auto simp: PostgresNotificationsStore_def)
  then show "subscriptions (cell_get table w') = subscriptions (cell_get table w) - {(k, url)} \<or>
      subscriptions (cell_get table w') = subscriptions (cell_get table w)"
    by (auto dest!: exec_table split: if_splits)
next
  fix t w e w'
  assume "RemoveExpired (PostgresNotificationsStore pool now table) t w = (e, w')"
  then show "subscriptions (cell_get table w') \<subseteq> subscriptions (cell_get table w)"
    by (auto simp: PostgresNotificationsStore_def dest!: exec_table
        subscriptions_expired [THEN subsetD] split: if_splits)
qed

interpretation std_notifications: notifications_db std_table std_pool std_now
  by unfold_locales

context notifications_db
begin

lemmas subscribe_pg = pg.subscribe_verified
lemmas unsubscribe_pg = pg.unsubscribe_verified

end

section \<open>Properties\<close>


definition sample_codec :: notification_codec where
  "sample_codec = \<lparr>ecies_Decrypt = (\<lambda>k b. Inr b),
     proto_Unmarshal = (\<lambda>d. Inr \<lparr>req_Url = ''http://u'', req_Signature = map (\<lambda>b. char_of (unat b)) d\<rparr>)\<rparr>"

definition sample_world :: "subscription_row list std_world" where
  "sample_world = \<lparr>sw_time = 0, sw_fates = [], sw_table = []\<rparr>"


text \<open>
  A service whose clock, store and HTTP client leave its map of recent notifications alone.
\<close>

locale notification_service = cell_laws "recentNotifications s"
  for s :: "'w NotificationService" +
  assumes clock_recent: "cell_get (recentNotifications s) (snd (ns_now s w)) =
    cell_get (recentNotifications s) w"
begin

lemma recently_notified_recent:
  "recently_notified s i w = (b, w') \<Longrightarrow>
     cell_get (recentNotifications s) w' = cell_get (recentNotifications s) w"
  using clock_recent [of w] by (auto simp: recently_notified_def split: option.splits prod.splits)

lemma Notify_remembers:
  assumes "Notify s pk h w = (Inr True, w1)"
  shows "\<exists>t. cell_get (recentNotifications s) w1 (paymentIdentifier pk h) = Some t"
proof (cases "recently_notified s (paymentIdentifier pk h) w")
  case (Pair b w0)
  show ?thesis
  proof (cases b)
    case True
    with Pair assms have "w1 = w0" by (simp add: Notify_def)
    with True Pair recently_notified_recent [OF Pair] show ?thesis
      by (auto simp: recently_notified_def split: option.splits)
  next
    case False
    with Pair assms show ?thesis
      by (auto simp: Notify_def Let_def split: prod.splits sum.splits bool.splits)
  qed
qed

lemma Notify_recent:
  assumes "cell_get (recentNotifications s) w (paymentIdentifier pk h) = Some t"
    and "fst (ns_now s w) < t + minNotificationInterval"
  shows "Notify s pk h w = (Inr True, snd (ns_now s w))"
  using assms by (cases "ns_now s w") (simp add: Notify_def recently_notified_def Let_def)

end

text \<open>
  A client is not notified twice about a payment within thirty seconds: after a notification
  that succeeded, the service remembers a time, and a further call before that time plus thirty
  seconds reports success while doing nothing but read the clock: no store access and no HTTP
  request.
\<close>

lemma Notify_deduplicates:
  assumes "notification_service s" and "Notify s pk h w = (Inr True, w1)"
  shows "\<exists>t. cell_get (recentNotifications s) w1 (paymentIdentifier pk h) = Some t \<and>
           (fst (ns_now s w1) < t + 30 * second \<longrightarrow> Notify s pk h w1 = (Inr True, snd (ns_now s w1)))"
  using notification_service.Notify_remembers [OF assms] notification_service.Notify_recent [OF assms(1)]
  by (auto simp: minNotificationInterval_def)

text \<open>The service on its PostgreSQL store, in the concrete world.\<close>

definition std_service ::
  "(string \<Rightarrow> string \<Rightarrow> (subscription_row list \<times> (string \<rightharpoonup> time)) std_world \<Rightarrow>
     (error + int) \<times> (subscription_row list \<times> (string \<rightharpoonup> time)) std_world) \<Rightarrow>
   (subscription_row list \<times> (string \<rightharpoonup> time)) std_world NotificationService" where
  "std_service post = \<lparr>recentNotifications = cell_snd std_table,
     ns_store = PostgresNotificationsStore std_pool std_now (cell_fst std_table),
     ns_now = std_now, http_Post = post\<rparr>"

interpretation std_service: notification_service "std_service post" for post
  by unfold_locales (simp_all add: std_service_def std_snd.get_put std_snd.put_put std_snd.put_get
      std_snd.now_table)

lemma Notify_deduplicates_witness:
  "\<exists>w1. Notify (std_service (\<lambda>u b w. (Inr 204, w))) ''02ab'' ''ff''
          \<lparr>sw_time = 5, sw_fates = [],
           sw_table = ([\<lparr>sub_pubkey = [2, 0xab], sub_url = ''http://a'', sub_created_at = 0,
             sub_refreshed_at = 0\<rparr>], Map.empty)\<rparr> = (Inr True, w1) \<and>
        Notify (std_service (\<lambda>u b w. (Inr 204, w))) ''02ab'' ''ff'' w1 = (Inr True, w1\<lparr>sw_time := 7\<rparr>)"
proof -
  let ?i = "paymentIdentifier ''02ab'' ''ff''" and ?s = "std_service (\<lambda>u b w. (Inr 204, w))"
  let ?rows = "[\<lparr>sub_pubkey = [2, 0xab], sub_url = ''http://a'', sub_created_at = 0,
             sub_refreshed_at = 0\<rparr>]"
  let ?w = "\<lparr>sw_time = 5, sw_fates = [], sw_table = (?rows, Map.empty)\<rparr>"
  let ?w1 = "\<lparr>sw_time = 6, sw_fates = [], sw_table = (?rows, [?i \<mapsto> 5])\<rparr>"
  have h: "hex_decode ''02ab'' = Some [2, 0xab]" by code_simp
  have n: "Notify ?s ''02ab'' ''ff'' ?w = (Inr True, ?w1)"
    by (simp add: Notify_def recently_notified_def std_service_def db_simps std_now_def
        cell_snd_def cell_fst_def PostgresNotificationsStore_def h urls_of_def
        notifyOnce_def go_div_nonneg del: hex_decode.simps)
  have "cell_get (recentNotifications ?s) ?w1 ?i = Some 5"
    "ns_now ?s ?w1 = (6, ?w1\<lparr>sw_time := 7\<rparr>)" "6 < 5 + 30 * second"
    by (simp_all add: std_service_def std_table_def cell_snd_def std_now_def second_def)
  with Notify_deduplicates [OF std_service.notification_service_axioms n] n show ?thesis
    by auto
qed

text \<open>
  Cleaning the map of recent notifications is invisible: whatever the clock readings during a
  round were, at any later time the same payments count as recently notified as without the
  round.
\<close>

lemma clean_recent_transparent:
  assumes "\<forall>i. n i \<le> later"
  shows "(\<exists>t. clean_recent n m ident = Some t \<and> t + minNotificationInterval > later) \<longleftrightarrow>
         (\<exists>t. m ident = Some t \<and> t + minNotificationInterval > later)"
  using assms [THEN spec, of ident] by (auto simp: clean_recent_def split: option.split)

lemma clean_recent_transparent_witness:
  "(\<exists>t. clean_recent (\<lambda>_. 50 * second) [''a'' \<mapsto> 0, ''b'' \<mapsto> 40 * second] ''b'' = Some t \<and>
        t + minNotificationInterval > 60 * second) \<and>
   \<not> (\<exists>t. clean_recent (\<lambda>_. 50 * second) [''a'' \<mapsto> 0, ''b'' \<mapsto> 40 * second] ''a'' = Some t \<and>
        t + minNotificationInterval > 60 * second)"
  using clean_recent_transparent [of "\<lambda>_. 50 * second" "60 * second"
      "[''a'' \<mapsto> 0, ''b'' \<mapsto> 40 * second]"]
  by (simp add: second_def minNotificationInterval_def)

lemma upsert_refreshed:
  assumes "r \<in> set (upsert_subscription k u n rows)" and "sub_key r = (k, u)"
  shows "sub_refreshed_at r = n"
proof -
  let ?new = "\<lparr>sub_pubkey = k, sub_url = u, sub_created_at = n, sub_refreshed_at = n\<rparr>"
  have "sub_key r = sub_key ?new" using assms(2) by (simp add: sub_key_def)
  from sub_upsert.upsert_merged [OF assms(1) [unfolded upsert_subscription_def] this]
  have "sub_refreshed_at r = sub_refreshed_at ?new"
    by (elim disjE bexE) (simp_all add: refresh_row_def)
  then show ?thesis by simp
qed

lemma upsert_delete_expired:
  "(k, u) \<in> subscriptions (delete_expired b (upsert_subscription k u n rows)) \<longleftrightarrow> b \<le> n"
proof -
  have "(k, u) \<in> subscriptions (upsert_subscription k u n rows)" by simp
  then obtain r where r: "r \<in> set (upsert_subscription k u n rows)" "sub_key r = (k, u)"
    by (auto simp del: subscriptions_upsert simp: subscriptions_def)
  show ?thesis
    using r upsert_refreshed [OF r] upsert_refreshed [of _ k u n rows]
    unfolding subscriptions_def delete_expired_def by (auto simp: not_less image_def)
qed

context notifications_db
begin

lemma register_table:
  assumes "Register (PostgresNotificationsStore pool now table) (hex_encode k) u w = (None, w')"
  shows "cell_get table w' =
    upsert_subscription k u (unix_micro (fst (now w))) (cell_get table w)"
  using assms
  by (cases "now w") (auto simp: PostgresNotificationsStore_def dest!: exec_table now_step)

lemma cleanup_table:
  assumes "cleanup_round now (PostgresNotificationsStore pool now table) w = (None, w')"
  shows "cell_get table w' =
    delete_expired (unix_micro (fst (now w) - ExpiryDuration)) (cell_get table w)"
  using assms
  by (cases "now w")
     (auto simp: cleanup_round_def PostgresNotificationsStore_def dest!: exec_table now_step)

end

text \<open>
  A webhook lives four weeks from its last registration: after a registration, a cleanup round
  keeps it exactly when the round's clock is at most 28 days ahead of the registration's, counted
  in microseconds.
\<close>

lemma subscription_lifetime:
  assumes "notifications_db table pool now"
    and "Register (PostgresNotificationsStore pool now table) (hex_encode k) u w = (None, w1)"
    and "cleanup_round now (PostgresNotificationsStore pool now table) w1 = (None, w2)"
  shows "(k, u) \<in> subscriptions (cell_get table w2) \<longleftrightarrow>
           unix_micro (fst (now w1) - 28 * 24 * 3600 * second) \<le> unix_micro (fst (now w))"
  unfolding notifications_db.cleanup_table [OF assms(1,3)]
    notifications_db.register_table [OF assms(1,2)] upsert_delete_expired
  by (simp add: ExpiryDuration_def)

lemma subscription_lifetime_witness:
  "([2], ''http://a'') \<in> subscriptions (cell_get std_table (snd (cleanup_round std_now
     (PostgresNotificationsStore std_pool std_now std_table)
     (snd (Register (PostgresNotificationsStore std_pool std_now std_table) (hex_encode [2])
        ''http://a'' sample_world)))))"
proof -
  let ?S = "PostgresNotificationsStore std_pool std_now
      (std_table :: (subscription_row list std_world, subscription_row list) cell)"
  let ?w1 = "snd (Register ?S (hex_encode [2]) ''http://a'' sample_world)"
  have "Register ?S (hex_encode [2]) ''http://a'' sample_world = (None, ?w1)"
    and "cleanup_round std_now ?S ?w1 = (None, snd (cleanup_round std_now ?S ?w1))"
    and "unix_micro (fst (std_now ?w1) - 28 * 24 * 3600 * second) \<le>
      unix_micro (fst (std_now sample_world))"
    by code_simp+
  with subscription_lifetime [OF std_notifications.notifications_db_axioms] show ?thesis
    by blast
qed



end
