(* ===== verification/History.thy ===== *)
theory History
  imports Nodes World
begin

text \<open>
  Channel and forwarding history: the records and the store interface (\<^verbatim>\<open>history/store.go\<close>), the
  periodic copy of a node's channels (\<^verbatim>\<open>history/channel_sync.go\<close>) and the PostgreSQL store
  (\<^verbatim>\<open>postgresql/history_store.go\<close>). The lemmas give what a lookup returns after each operation and
  that the unique keys of the tables hold.
\<close>

section \<open>history/store.go\<close>

record ChannelUpdate =
  cu_NodeID :: bytes
  cu_PeerId :: bytes
  cu_AliasScid :: "ShortChannelID option"
  cu_ConfirmedScid :: "ShortChannelID option"
  cu_ChannelPoint :: "outpoint option"
  cu_LastUpdate :: time

record Forward =
  fw_Identifier :: string
  fw_InChannel :: ShortChannelID
  fw_OutChannel :: ShortChannelID
  fw_InMsat :: u64
  fw_OutMsat :: u64
  fw_ResolvedTime :: time

record OpenChannelHtlc =
  och_NodeId :: bytes
  och_PeerId :: bytes
  och_ChannelPoint :: outpoint
  och_OriginalAmountMsat :: u64
  och_ForwardAmountMsat :: u64
  och_IncomingAmountMsat :: u64
  och_ForwardTime :: time

record 'w HistoryStore =
  UpdateChannels :: "ChannelUpdate option list \<Rightarrow> 'w \<Rightarrow> error option outcome \<times> 'w"
  InsertForwards :: "Forward list \<Rightarrow> bytes \<Rightarrow> 'w \<Rightarrow> error option \<times> 'w"
  UpdateForwards :: "Forward list \<Rightarrow> bytes \<Rightarrow> 'w \<Rightarrow> error option \<times> 'w"
  FetchClnForwardOffsets :: "bytes \<Rightarrow> 'w \<Rightarrow> (error + u64 \<times> u64) \<times> 'w"
  SetClnForwardOffsets :: "bytes \<Rightarrow> u64 \<Rightarrow> u64 \<Rightarrow> 'w \<Rightarrow> error option \<times> 'w"
  FetchLndForwardOffset :: "bytes \<Rightarrow> 'w \<Rightarrow> (error + time option) \<times> 'w"
  AddOpenChannelHtlc :: "OpenChannelHtlc \<Rightarrow> 'w \<Rightarrow> error option \<times> 'w"

section \<open>history/channel\_sync.go\<close>

definition channel_updates :: "bytes \<Rightarrow> time \<Rightarrow> Channel option list \<Rightarrow> ChannelUpdate option list" where
  "channel_updates nodeid lastUpdate channels =
     map (map_option (\<lambda>c. \<lparr>
       cu_NodeID = nodeid,
       cu_PeerId = ch_PeerId c,
       cu_AliasScid = ch_AliasScid c,
       cu_ConfirmedScid = ch_ConfirmedScid c,
       cu_ChannelPoint = ch_ChannelPoint c,
       cu_LastUpdate = lastUpdate\<rparr>)) channels"

definition channelsSynchronizeNodeOnce ::
  "'w clock \<Rightarrow> 'w HistoryStore \<Rightarrow> 'w Node \<Rightarrow> 'w \<Rightarrow> unit outcome \<times> 'w" where
  "channelsSynchronizeNodeOnce now store node w =
     (case now w of
        (lastUpdate, w1) \<Rightarrow>
          (case ListChannels (NodeClient node) w1 of
             (Inl err, w2) \<Rightarrow> (Ret (), w2)
           | (Inr channels, w2) \<Rightarrow>
               (case UpdateChannels store (channel_updates (NodeId node) lastUpdate channels) w2 of
                  (Panic m, w3) \<Rightarrow> (Panic m, w3)
                | (Ret _, w3) \<Rightarrow> (Ret (), w3))))"

text \<open>The nodes are synchronised one after the other; the code runs them concurrently.\<close>

fun channelsSynchronizeOnce ::
  "'w clock \<Rightarrow> 'w HistoryStore \<Rightarrow> 'w Node list \<Rightarrow> 'w \<Rightarrow> unit outcome \<times> 'w" where
  "channelsSynchronizeOnce now store [] w = (Ret (), w)"
| "channelsSynchronizeOnce now store (node # ns) w =
     (case channelsSynchronizeNodeOnce now store node w of
        (Panic m, w1) \<Rightarrow> (Panic m, w1)
      | (Ret _, w1) \<Rightarrow> channelsSynchronizeOnce now store ns w1)"

section \<open>postgresql/history\_store.go\<close>

record channel_row =
  cr_nodeid :: bytes
  cr_peerid :: bytes
  cr_alias_scid :: "int option"
  cr_confirmed_scid :: "int option"
  cr_funding_tx_id :: bytes
  cr_funding_tx_outnum :: int
  cr_first_seen :: int
  cr_last_update :: int

record forward_row =
  fr_identifier :: string
  fr_resolved_time :: int
  fr_nodeid :: bytes
  fr_chanid_in :: int
  fr_chanid_out :: int
  fr_amt_msat_in :: int
  fr_amt_msat_out :: int

record offset_row =
  or_nodeid :: bytes
  or_last_created_index :: int
  or_last_updated_index :: int

record htlc_row =
  hr_nodeid :: bytes
  hr_peerid :: bytes
  hr_funding_tx_id :: bytes
  hr_funding_tx_outnum :: int
  hr_forward_amt_msat :: int
  hr_original_amt_msat :: int
  hr_incoming_amt_msat :: int
  hr_forward_time :: int

record history_tables =
  tbl_channels :: "channel_row list"
  tbl_forwards :: "forward_row list"
  tbl_offsets :: "offset_row list"
  tbl_htlcs :: "htlc_row list"

text \<open>
  \<^verbatim>\<open>copyFromChanUpdates\<close>: \<^verbatim>\<open>Next\<close> skips nil entries and \<^verbatim>\<open>Values\<close> dereferences the channel point.
\<close>

definition chan_update_values :: "ChannelUpdate \<Rightarrow> channel_row outcome" where
  "chan_update_values u =
     (case cu_ChannelPoint u of
        None \<Rightarrow> Panic ''nil pointer dereference''
      | Some cp \<Rightarrow> Ret \<lparr>
          cr_nodeid = cu_NodeID u,
          cr_peerid = cu_PeerId u,
          cr_alias_scid = map_option int64_of (cu_AliasScid u),
          cr_confirmed_scid = map_option int64_of (cu_ConfirmedScid u),
          cr_funding_tx_id = op_hash cp,
          cr_funding_tx_outnum = uint (op_index cp),
          cr_first_seen = unix_micro (cu_LastUpdate u),
          cr_last_update = unix_micro (cu_LastUpdate u)\<rparr>)"

fun copy_chan_updates :: "ChannelUpdate option list \<Rightarrow> channel_row list outcome" where
  "copy_chan_updates [] = Ret []"
| "copy_chan_updates (None # us) = copy_chan_updates us"
| "copy_chan_updates (Some u # us) =
     (case chan_update_values u of
        Panic m \<Rightarrow> Panic m
      | Ret r \<Rightarrow> (case copy_chan_updates us of Panic m \<Rightarrow> Panic m | Ret rs \<Rightarrow> Ret (r # rs)))"

definition forward_values :: "bytes \<Rightarrow> Forward \<Rightarrow> forward_row" where
  "forward_values nodeid f = \<lparr>
     fr_identifier = fw_Identifier f,
     fr_resolved_time = int64 (fw_ResolvedTime f),
     fr_nodeid = nodeid,
     fr_chanid_in = int64_of (fw_InChannel f),
     fr_chanid_out = int64_of (fw_OutChannel f),
     fr_amt_msat_in = int64_of (fw_InMsat f),
     fr_amt_msat_out = int64_of (fw_OutMsat f)\<rparr>"

definition channel_key :: "channel_row \<Rightarrow> bytes \<times> bytes \<times> int" where
  "channel_key r = (cr_nodeid r, cr_funding_tx_id r, cr_funding_tx_outnum r)"

definition merge_channel :: "channel_row \<Rightarrow> channel_row \<Rightarrow> channel_row" where
  "merge_channel old new = old\<lparr>
     cr_alias_scid := cr_alias_scid new,
     cr_confirmed_scid := cr_confirmed_scid new,
     cr_last_update := cr_last_update new\<rparr>"

definition forward_key :: "forward_row \<Rightarrow> bytes \<times> string" where
  "forward_key r = (fr_nodeid r, fr_identifier r)"

definition merge_forward :: "forward_row \<Rightarrow> forward_row \<Rightarrow> forward_row" where
  "merge_forward old new = old\<lparr>
     fr_resolved_time := fr_resolved_time new,
     fr_chanid_in := fr_chanid_in new,
     fr_chanid_out := fr_chanid_out new,
     fr_amt_msat_in := fr_amt_msat_in new,
     fr_amt_msat_out := fr_amt_msat_out new\<rparr>"

text \<open>
  \<^verbatim>\<open>INSERT ... SELECT\<close> of the copied rows. With \<^verbatim>\<open>DO UPDATE\<close> the statement fails when two copied rows
  have the same key, since a row may be affected only once; with \<^verbatim>\<open>DO NOTHING\<close> it does not.
\<close>

definition insert_rows ::
  "('r \<Rightarrow> 'k) \<Rightarrow> ('r \<Rightarrow> 'r \<Rightarrow> 'r) \<Rightarrow> 'r list \<Rightarrow> 'r list \<Rightarrow> 'r list" where
  "insert_rows key merge new rows = foldl (\<lambda>rs r. upsert key merge r rs) rows new"

definition affects_twice :: error where
  "affects_twice = Error ''ON CONFLICT DO UPDATE command cannot affect row a second time''"

definition tx_labels :: "string list" where
  "tx_labels = [''pgxPool.Begin() error'', ''CREATE TEMP TABLE error'', ''CopyFrom() error'',
     ''INSERT INTO error'', ''Commit'']"

definition pg_UpdateChannels ::
  "'w pool \<Rightarrow> ('w, history_tables) cell \<Rightarrow> ChannelUpdate option list \<Rightarrow> 'w \<Rightarrow>
     error option outcome \<times> 'w" where
  "pg_UpdateChannels pool table updates w =
     (if updates = [] then (Ret None, w)
      else case run_tx pool (take 2 tx_labels) w of
        (Some err, w1) \<Rightarrow> (Ret (Some err), w1)
      | (None, w1) \<Rightarrow>
          (case copy_chan_updates updates of
             Panic m \<Rightarrow> (Panic m, w1)
           | Ret rows \<Rightarrow>
               (case run_tx pool (drop 2 tx_labels) w1 of
                  (Some err, w2) \<Rightarrow> (Ret (Some err), w2)
                | (None, w2) \<Rightarrow>
                    if distinct (map channel_key rows)
                    then (Ret None, cell_put table
                            ((cell_get table w2)\<lparr>tbl_channels :=
                               insert_rows channel_key merge_channel rows
                                 (tbl_channels (cell_get table w2))\<rparr>) w2)
                    else (Ret (Some affects_twice), w2))))"

definition pg_InsertForwards ::
  "'w pool \<Rightarrow> ('w, history_tables) cell \<Rightarrow> Forward list \<Rightarrow> bytes \<Rightarrow> 'w \<Rightarrow> error option \<times> 'w" where
  "pg_InsertForwards pool table forwards nodeid w =
     (if forwards = [] then (None, w)
      else case run_tx pool tx_labels w of
        (Some err, w1) \<Rightarrow> (Some err, w1)
      | (None, w1) \<Rightarrow>
          (None, cell_put table ((cell_get table w1)\<lparr>tbl_forwards :=
             insert_rows forward_key keep_old (map (forward_values nodeid) forwards)
               (tbl_forwards (cell_get table w1))\<rparr>) w1))"

definition pg_UpdateForwards ::
  "'w pool \<Rightarrow> ('w, history_tables) cell \<Rightarrow> Forward list \<Rightarrow> bytes \<Rightarrow> 'w \<Rightarrow> error option \<times> 'w" where
  "pg_UpdateForwards pool table forwards nodeid w =
     (if forwards = [] then (None, w)
      else case run_tx pool tx_labels w of
        (Some err, w1) \<Rightarrow> (Some err, w1)
      | (None, w1) \<Rightarrow>
          let rows = map (forward_values nodeid) forwards in
          if distinct (map forward_key rows)
          then (None, cell_put table ((cell_get table w1)\<lparr>tbl_forwards :=
                  insert_rows forward_key merge_forward rows
                    (tbl_forwards (cell_get table w1))\<rparr>) w1)
          else (Some affects_twice, w1))"

definition pg_FetchClnForwardOffsets ::
  "'w pool \<Rightarrow> ('w, history_tables) cell \<Rightarrow> bytes \<Rightarrow> 'w \<Rightarrow> (error + u64 \<times> u64) \<times> 'w" where
  "pg_FetchClnForwardOffsets pool table nodeid w =
     (case query pool table (\<lambda>t. row_of or_nodeid nodeid (tbl_offsets t)) w of
        (Inl err, w1) \<Rightarrow> (Inl err, w1)
      | (Inr None, w1) \<Rightarrow> (Inr (0, 0), w1)
      | (Inr (Some r), w1) \<Rightarrow>
          (Inr (uint64_of (or_last_created_index r), uint64_of (or_last_updated_index r)), w1))"

definition merge_offsets :: "offset_row \<Rightarrow> offset_row \<Rightarrow> offset_row" where
  "merge_offsets old new = old\<lparr>
     or_last_created_index := or_last_created_index new,
     or_last_updated_index := or_last_updated_index new\<rparr>"

definition pg_SetClnForwardOffsets ::
  "'w pool \<Rightarrow> ('w, history_tables) cell \<Rightarrow> bytes \<Rightarrow> u64 \<Rightarrow> u64 \<Rightarrow> 'w \<Rightarrow> error option \<times> 'w" where
  "pg_SetClnForwardOffsets pool table nodeid created updated w =
     exec pool table (\<lambda>t. t\<lparr>tbl_offsets := upsert or_nodeid merge_offsets
       \<lparr>or_nodeid = nodeid, or_last_created_index = int64_of created,
        or_last_updated_index = int64_of updated\<rparr> (tbl_offsets t)\<rparr>) w"

text \<open>\<^verbatim>\<open>SELECT MAX(resolved_time)\<close> is NULL when the node has no forwards.\<close>

definition max_resolved :: "bytes \<Rightarrow> forward_row list \<Rightarrow> int option" where
  "max_resolved nodeid rows =
     (case map fr_resolved_time (filter (\<lambda>r. fr_nodeid r = nodeid) rows) of
        [] \<Rightarrow> None
      | t # ts \<Rightarrow> Some (foldl max t ts))"

definition pg_FetchLndForwardOffset ::
  "'w pool \<Rightarrow> ('w, history_tables) cell \<Rightarrow> bytes \<Rightarrow> 'w \<Rightarrow> (error + time option) \<times> 'w" where
  "pg_FetchLndForwardOffset pool table nodeid w =
     query pool table (\<lambda>t. max_resolved nodeid (tbl_forwards t)) w"

definition pg_AddOpenChannelHtlc ::
  "'w pool \<Rightarrow> ('w, history_tables) cell \<Rightarrow> OpenChannelHtlc \<Rightarrow> 'w \<Rightarrow> error option \<times> 'w" where
  "pg_AddOpenChannelHtlc pool table h w =
     exec pool table (\<lambda>t. t\<lparr>tbl_htlcs := tbl_htlcs t @ [\<lparr>
       hr_nodeid = och_NodeId h,
       hr_peerid = och_PeerId h,
       hr_funding_tx_id = op_hash (och_ChannelPoint h),
       hr_funding_tx_outnum = uint (op_index (och_ChannelPoint h)),
       hr_forward_amt_msat = int64_of (och_ForwardAmountMsat h),
       hr_original_amt_msat = int64_of (och_OriginalAmountMsat h),
       hr_incoming_amt_msat = int64_of (och_IncomingAmountMsat h),
       hr_forward_time = int64 (och_ForwardTime h)\<rparr>]\<rparr>) w"

definition PostgresHistoryStore ::
  "'w pool \<Rightarrow> ('w, history_tables) cell \<Rightarrow> 'w HistoryStore" where
  "PostgresHistoryStore pool table = \<lparr>
     UpdateChannels = pg_UpdateChannels pool table,
     InsertForwards = pg_InsertForwards pool table,
     UpdateForwards = pg_UpdateForwards pool table,
     FetchClnForwardOffsets = pg_FetchClnForwardOffsets pool table,
     SetClnForwardOffsets = pg_SetClnForwardOffsets pool table,
     FetchLndForwardOffset = pg_FetchLndForwardOffset pool table,
     AddOpenChannelHtlc = pg_AddOpenChannelHtlc pool table\<rparr>"

section \<open>Rows after an insert\<close>

context upsert_key
begin

lemma insert_rows_Nil [simp]: "insert_rows key merge [] rows = rows"
  by (simp add: insert_rows_def)

lemma insert_rows_Cons [simp]:
  "insert_rows key merge (n # ns) rows = insert_rows key merge ns (upsert key merge n rows)"
  by (simp add: insert_rows_def)

lemma distinct_insert_rows:
  "distinct (map key rows) \<Longrightarrow> distinct (map key (insert_rows key merge new rows))"
  by (induction new arbitrary: rows) (auto intro: distinct_upsert)

lemma row_of_insert_rows:
  assumes "distinct (map key new)"
  shows "row_of key k (insert_rows key merge new rows) =
    (case row_of key k new of
       None \<Rightarrow> row_of key k rows
     | Some n \<Rightarrow> Some (case row_of key k rows of None \<Rightarrow> n | Some r \<Rightarrow> merge r n))"
  using assms
proof (induction new arbitrary: rows)
  case Nil
  show ?case by (simp add: row_of_def)
next
  case (Cons n ns)
  have "row_of key (key n) ns = None"
    using Cons.prems by (simp add: row_of_None)
  moreover have "row_of key k (n # ns) = (if key n = k then Some n else row_of key k ns)"
    by (simp add: row_of_def)
  ultimately show ?case
    using Cons.IH [of "upsert key merge n rows"] Cons.prems
    by (cases "k = key n") (auto simp: row_of_upsert split: option.split)
qed

end

interpretation channels: upsert_key channel_key merge_channel
  by unfold_locales (simp add: channel_key_def merge_channel_def)

interpretation forwards: upsert_key forward_key merge_forward
  by unfold_locales (simp add: forward_key_def merge_forward_def)

interpretation new_forwards: upsert_key forward_key keep_old
  by unfold_locales (simp add: keep_old_def)

interpretation offsets: upsert_key or_nodeid merge_offsets
  by unfold_locales (simp add: merge_offsets_def)

text \<open>With \<^verbatim>\<open>DO NOTHING\<close> a row that is there is never changed, whatever the copied rows are.\<close>

lemma row_of_upsert_keep_old:
  "row_of forward_key k (upsert forward_key keep_old n rows) =
     (case row_of forward_key k rows of
        None \<Rightarrow> if k = forward_key n then Some n else None
      | Some r \<Rightarrow> Some r)"
  unfolding new_forwards.row_of_upsert by (auto simp: keep_old_def split: option.split)

lemma row_of_keep_old:
  "row_of forward_key k (insert_rows forward_key keep_old new rows) =
     (case row_of forward_key k rows of None \<Rightarrow> row_of forward_key k new | Some r \<Rightarrow> Some r)"
proof (induction new arbitrary: rows)
  case Nil
  show ?case by (cases "row_of forward_key k rows") (simp_all add: insert_rows_def row_of_def)
next
  case (Cons n ns)
  have "row_of forward_key k (n # ns) = (if forward_key n = k then Some n else row_of forward_key k ns)"
    by (simp add: row_of_def)
  with Cons.IH [of "upsert forward_key keep_old n rows"] show ?case
    by (cases "row_of forward_key k rows") (auto simp: row_of_upsert_keep_old)
qed

lemma insert_present:
  "forward_key ` set new \<subseteq> forward_key ` set rows \<Longrightarrow> insert_rows forward_key keep_old new rows = rows"
  by (induction new) (simp_all add: upsert_keep_old)

lemma keys_insert_rows:
  "forward_key ` set (insert_rows forward_key keep_old new rows) =
     forward_key ` set new \<union> forward_key ` set rows"
  by (induction new arbitrary: rows) auto

section \<open>The PostgreSQL store\<close>

text \<open>The unique indexes of the tables.\<close>

definition history_ok :: "history_tables \<Rightarrow> bool" where
  "history_ok t \<longleftrightarrow> distinct (map channel_key (tbl_channels t)) \<and>
     distinct (map forward_key (tbl_forwards t)) \<and> distinct (map or_nodeid (tbl_offsets t))"

locale history_db = database table pool now
  for table :: "('w, history_tables) cell" and pool :: "'w pool" and now :: "'w clock"
begin

lemma UpdateChannels_table:
  assumes "pg_UpdateChannels pool table updates w = (r, w')"
  shows "cell_get table w' = cell_get table w \<or>
    (\<exists>rows. copy_chan_updates updates = Ret rows \<and> distinct (map channel_key rows) \<and>
       cell_get table w' = (cell_get table w)\<lparr>tbl_channels :=
         insert_rows channel_key merge_channel rows (tbl_channels (cell_get table w))\<rparr>)"
  using assms
  by (auto simp: pg_UpdateChannels_def dest!: run_tx_table
      split: if_splits prod.splits option.splits outcome.splits)

lemma UpdateChannels_success:
  assumes "pg_UpdateChannels pool table updates w = (Ret None, w')"
  shows "\<exists>rows. copy_chan_updates updates = Ret rows \<and> distinct (map channel_key rows) \<and>
       cell_get table w' = (cell_get table w)\<lparr>tbl_channels :=
         insert_rows channel_key merge_channel rows (tbl_channels (cell_get table w))\<rparr>"
  using assms
  by (auto simp: pg_UpdateChannels_def dest!: run_tx_table
      split: if_splits prod.splits option.splits outcome.splits)

lemma InsertForwards_table:
  assumes "pg_InsertForwards pool table fs nodeid w = (r, w')"
  shows "cell_get table w' = (if r = None
    then (cell_get table w)\<lparr>tbl_forwards := insert_rows forward_key keep_old
           (map (forward_values nodeid) fs) (tbl_forwards (cell_get table w))\<rparr>
    else cell_get table w)"
  using assms
  by (auto simp: pg_InsertForwards_def dest!: run_tx_table
      split: if_splits prod.splits option.splits)

lemma UpdateForwards_table:
  assumes "pg_UpdateForwards pool table fs nodeid w = (r, w')"
  shows "cell_get table w' = (if r = None
    then (cell_get table w)\<lparr>tbl_forwards := insert_rows forward_key merge_forward
           (map (forward_values nodeid) fs) (tbl_forwards (cell_get table w))\<rparr>
    else cell_get table w)"
  using assms
  by (auto simp: pg_UpdateForwards_def Let_def dest!: run_tx_table
      split: if_splits prod.splits option.splits)

lemma SetOffsets_table:
  assumes "pg_SetClnForwardOffsets pool table nodeid c u w = (r, w')"
  shows "cell_get table w' = (if r = None
    then (cell_get table w)\<lparr>tbl_offsets := upsert or_nodeid merge_offsets
           \<lparr>or_nodeid = nodeid, or_last_created_index = int64_of c, or_last_updated_index = int64_of u\<rparr>
           (tbl_offsets (cell_get table w))\<rparr>
    else cell_get table w)"
  using exec_table [OF assms [unfolded pg_SetClnForwardOffsets_def]] by simp

end

interpretation std_history: history_db std_table std_pool std_now
  by unfold_locales

section \<open>The offsets of the forward synchronisation\<close>

text \<open>What the CLN forward synchronisation relies on: the offsets last set are the ones fetched.\<close>

locale offset_store =
  fixes S :: "'w HistoryStore" and offs :: "'w \<Rightarrow> bytes \<Rightarrow> u64 \<times> u64"
  assumes fetch: "FetchClnForwardOffsets S n w = (Inr x, w') \<Longrightarrow> x = offs w n"
    and fetch_keeps: "FetchClnForwardOffsets S n w = (r, w') \<Longrightarrow> offs w' = offs w"
    and set_offsets: "SetClnForwardOffsets S n c u w = (e, w') \<Longrightarrow>
      offs w' = (if e = None then (offs w)(n := (c, u)) else offs w)"
    and insert_keeps: "InsertForwards S fs n w = (e, w') \<Longrightarrow> offs w' = offs w"
    and update_keeps: "UpdateForwards S fs n w = (e, w') \<Longrightarrow> offs w' = offs w"
begin

lemma fetch_after_set:
  assumes "SetClnForwardOffsets S n c u w = (None, w1)"
    and "FetchClnForwardOffsets S m w1 = (Inr x, w2)"
  shows "x = (if m = n then (c, u) else offs w m)"
  using fetch [OF assms(2)] set_offsets [OF assms(1)] by simp

end

definition stored_offsets :: "history_tables \<Rightarrow> bytes \<Rightarrow> u64 \<times> u64" where
  "stored_offsets t n =
     (case row_of or_nodeid n (tbl_offsets t) of
        None \<Rightarrow> (0, 0)
      | Some r \<Rightarrow> (uint64_of (or_last_created_index r), uint64_of (or_last_updated_index r)))"

lemma stored_offsets_upsert:
  "stored_offsets (t\<lparr>tbl_offsets := upsert or_nodeid merge_offsets
      \<lparr>or_nodeid = n, or_last_created_index = int64_of c, or_last_updated_index = int64_of u\<rparr>
      (tbl_offsets t)\<rparr>) = (stored_offsets t)(n := (c, u))"
  by (rule ext)
     (auto simp: stored_offsets_def offsets.row_of_upsert merge_offsets_def split: option.split)

lemma stored_offsets_cong:
  "tbl_offsets t = tbl_offsets t' \<Longrightarrow> stored_offsets t = stored_offsets t'"
  by (rule ext) (simp add: stored_offsets_def)

sublocale history_db \<subseteq> offset_store "PostgresHistoryStore pool table"
  "\<lambda>w. stored_offsets (cell_get table w)"
proof
  fix n w x w'
  assume "FetchClnForwardOffsets (PostgresHistoryStore pool table) n w = (Inr x, w')"
  then show "x = stored_offsets (cell_get table w) n"
    by (auto simp: PostgresHistoryStore_def pg_FetchClnForwardOffsets_def stored_offsets_def
        dest!: query_result split: prod.splits sum.splits option.splits)
next
  fix n w r w'
  assume "FetchClnForwardOffsets (PostgresHistoryStore pool table) n w = (r, w')"
  then show "stored_offsets (cell_get table w') = stored_offsets (cell_get table w)"
    by (auto simp: PostgresHistoryStore_def pg_FetchClnForwardOffsets_def
        dest!: query_table split: prod.splits sum.splits option.splits)
next
  fix n c u w e w'
  assume "SetClnForwardOffsets (PostgresHistoryStore pool table) n c u w = (e, w')"
  then have "pg_SetClnForwardOffsets pool table n c u w = (e, w')"
    by (simp add: PostgresHistoryStore_def)
  from SetOffsets_table [OF this] show "stored_offsets (cell_get table w') =
      (if e = None then (stored_offsets (cell_get table w))(n := (c, u))
       else stored_offsets (cell_get table w))"
    by (simp add: stored_offsets_upsert)
next
  fix fs n w e w'
  assume "InsertForwards (PostgresHistoryStore pool table) fs n w = (e, w')"
  then have "pg_InsertForwards pool table fs n w = (e, w')"
    by (simp add: PostgresHistoryStore_def)
  from InsertForwards_table [OF this]
  show "stored_offsets (cell_get table w') = stored_offsets (cell_get table w)"
    by (auto intro!: stored_offsets_cong)
next
  fix fs n w e w'
  assume "UpdateForwards (PostgresHistoryStore pool table) fs n w = (e, w')"
  then have "pg_UpdateForwards pool table fs n w = (e, w')"
    by (simp add: PostgresHistoryStore_def)
  from UpdateForwards_table [OF this]
  show "stored_offsets (cell_get table w') = stored_offsets (cell_get table w)"
    by (auto intro!: stored_offsets_cong)
qed

section \<open>Properties\<close>

context history_db
begin

lemmas pg_fetch_after_set = fetch_after_set

end

datatype history_op =
    HUpdateChannels "ChannelUpdate option list"
  | HInsertForwards "Forward list" bytes
  | HUpdateForwards "Forward list" bytes
  | HSetOffsets bytes u64 u64
  | HAddHtlc OpenChannelHtlc

fun apply_op :: "'w HistoryStore \<Rightarrow> history_op \<Rightarrow> 'w \<Rightarrow> 'w" where
  "apply_op S (HUpdateChannels us) w = snd (UpdateChannels S us w)"
| "apply_op S (HInsertForwards fs n) w = snd (InsertForwards S fs n w)"
| "apply_op S (HUpdateForwards fs n) w = snd (UpdateForwards S fs n w)"
| "apply_op S (HSetOffsets n c u) w = snd (SetClnForwardOffsets S n c u w)"
| "apply_op S (HAddHtlc h) w = snd (AddOpenChannelHtlc S h w)"

context history_db
begin

lemma apply_op_ok:
  assumes "history_ok (cell_get table w)"
  shows "history_ok (cell_get table (apply_op (PostgresHistoryStore pool table) op w))"
proof (cases op)
  case (HUpdateChannels us)
  obtain r w' where r: "pg_UpdateChannels pool table us w = (r, w')" by fastforce
  from UpdateChannels_table [OF r] r HUpdateChannels assms show ?thesis
    by (auto simp: PostgresHistoryStore_def history_ok_def intro: channels.distinct_insert_rows)
next
  case (HInsertForwards fs n)
  obtain r w' where r: "pg_InsertForwards pool table fs n w = (r, w')" by fastforce
  from InsertForwards_table [OF r] r HInsertForwards assms show ?thesis
    by (auto simp: PostgresHistoryStore_def history_ok_def intro: new_forwards.distinct_insert_rows)
next
  case (HUpdateForwards fs n)
  obtain r w' where r: "pg_UpdateForwards pool table fs n w = (r, w')" by fastforce
  from UpdateForwards_table [OF r] r HUpdateForwards assms show ?thesis
    by (auto simp: PostgresHistoryStore_def history_ok_def intro: forwards.distinct_insert_rows)
next
  case (HSetOffsets n c u)
  obtain r w' where r: "pg_SetClnForwardOffsets pool table n c u w = (r, w')" by fastforce
  from SetOffsets_table [OF r] r HSetOffsets assms show ?thesis
    by (auto simp: PostgresHistoryStore_def history_ok_def)
next
  case (HAddHtlc h)
  obtain r w' where r: "pg_AddOpenChannelHtlc pool table h w = (r, w')" by fastforce
  from exec_table [OF r [unfolded pg_AddOpenChannelHtlc_def]] r HAddHtlc assms show ?thesis
    by (auto simp: PostgresHistoryStore_def history_ok_def)
qed

lemma fold_apply_op_ok:
  "history_ok (cell_get table w) \<Longrightarrow>
     history_ok (cell_get table (fold (apply_op (PostgresHistoryStore pool table)) ops w))"
  by (induction ops arbitrary: w) (auto intro: apply_op_ok)

end

lemma copy_chan_updates_mem:
  assumes "copy_chan_updates us = Ret rows" and "Some u \<in> set us"
  shows "\<exists>r\<in>set rows. chan_update_values u = Ret r"
  using assms
  by (induction us arbitrary: rows rule: copy_chan_updates.induct) (auto split: outcome.splits)

lemma copy_chan_updates_panics:
  assumes "Some u \<in> set us" and "cu_ChannelPoint u = None"
  shows "\<exists>m. copy_chan_updates us = Panic m"
  using assms
proof (induction us rule: copy_chan_updates.induct)
  case (3 v us)
  then show ?case
    by (cases "chan_update_values v"; cases "copy_chan_updates us")
       (auto simp: chan_update_values_def)
qed auto

definition empty_history :: history_tables where
  "empty_history = \<lparr>tbl_channels = [], tbl_forwards = [], tbl_offsets = [], tbl_htlcs = []\<rparr>"



text \<open>
  C33: After a successful update every listed channel has a row with the aliases and time of the
  update; a row that was there before keeps its peer and the time it was first seen, a new one is
  first seen at the time of the update.
\<close>

theorem UpdateChannels_lookup:
  assumes "history_db table pool now"
    and "UpdateChannels (PostgresHistoryStore pool table) updates w = (Ret None, w')"
    and "Some u \<in> set updates"
  shows "\<exists>cp r. cu_ChannelPoint u = Some cp \<and>
    row_of channel_key (cu_NodeID u, op_hash cp, uint (op_index cp)) (tbl_channels (cell_get table w')) =
      Some r \<and>
    cr_alias_scid r = map_option int64_of (cu_AliasScid u) \<and>
    cr_confirmed_scid r = map_option int64_of (cu_ConfirmedScid u) \<and>
    cr_last_update r = unix_micro (cu_LastUpdate u) \<and>
    (cr_peerid r, cr_first_seen r) =
      (case row_of channel_key (cu_NodeID u, op_hash cp, uint (op_index cp))
              (tbl_channels (cell_get table w)) of
         None \<Rightarrow> (cu_PeerId u, unix_micro (cu_LastUpdate u))
       | Some old \<Rightarrow> (cr_peerid old, cr_first_seen old))"
proof -
  have "pg_UpdateChannels pool table updates w = (Ret None, w')"
    using assms(2) by (simp add: PostgresHistoryStore_def)
  from history_db.UpdateChannels_success [OF assms(1) this] obtain rows where
    rows: "copy_chan_updates updates = Ret rows" "distinct (map channel_key rows)"
    and tbl: "cell_get table w' = (cell_get table w)\<lparr>tbl_channels :=
      insert_rows channel_key merge_channel rows (tbl_channels (cell_get table w))\<rparr>"
    by blast
  from copy_chan_updates_mem [OF rows(1) assms(3)] obtain n where
    n: "n \<in> set rows" "chan_update_values u = Ret n" by blast
  then obtain cp where cp: "cu_ChannelPoint u = Some cp"
    by (auto simp: chan_update_values_def split: option.splits)
  have key: "channel_key n = (cu_NodeID u, op_hash cp, uint (op_index cp))"
    using n(2) cp by (auto simp: chan_update_values_def channel_key_def)
  show ?thesis
    using n(2) cp row_of_distinct [OF rows(2) n(1)] channels.row_of_insert_rows [OF rows(2)]
    by (auto simp: tbl key chan_update_values_def merge_channel_def split: option.splits)
qed

definition sample_update :: ChannelUpdate where
  "sample_update = \<lparr>cu_NodeID = [1], cu_PeerId = [2], cu_AliasScid = Some 7, cu_ConfirmedScid = None,
     cu_ChannelPoint = Some \<lparr>op_hash = [3], op_index = 0\<rparr>, cu_LastUpdate = 5000\<rparr>"

theorem UpdateChannels_lookup_witness:
  "\<exists>r. row_of channel_key ([1], [3], 0) (tbl_channels (cell_get std_table
     (snd (UpdateChannels (PostgresHistoryStore std_pool std_table) [None, Some sample_update]
       \<lparr>sw_time = 0, sw_fates = [], sw_table = empty_history\<rparr>)))) = Some r \<and> cr_first_seen r = 5"
proof -
  let ?S = "PostgresHistoryStore std_pool (std_table :: (history_tables std_world, history_tables) cell)"
  let ?w = "\<lparr>sw_time = 0, sw_fates = [], sw_table = empty_history\<rparr>"
  let ?r = "UpdateChannels ?S [None, Some sample_update] ?w"
  have "?r = (Ret None, snd ?r)"
    by (simp add: PostgresHistoryStore_def pg_UpdateChannels_def tx_labels_def std_pool_def
        chan_update_values_def sample_update_def)
  from UpdateChannels_lookup [OF std_history.history_db_axioms this, of sample_update]
  obtain r where "row_of channel_key ([1], [3], 0) (tbl_channels (cell_get std_table (snd ?r))) = Some r"
    "cr_first_seen r = 5"
    by (auto simp: sample_update_def row_of_def empty_history_def std_table_def unix_micro_def)
  then show ?thesis by blast
qed

text \<open>
  Inserting forwards is idempotent and never rewrites history: rows that are there stay as they
  are, and inserting the same batch again leaves the table as the first insert left it, so a
  synchronisation that repeats a page after a crash does no harm.
\<close>

lemma InsertForwards_idempotent:
  assumes "history_db table pool now"
    and "InsertForwards (PostgresHistoryStore pool table) fs n w = (e, w1)"
    and "InsertForwards (PostgresHistoryStore pool table) fs n w1 = (None, w2)"
  shows "(e = None \<longrightarrow> cell_get table w2 = cell_get table w1) \<and>
    (\<forall>k r. row_of forward_key k (tbl_forwards (cell_get table w)) = Some r \<longrightarrow>
       row_of forward_key k (tbl_forwards (cell_get table w2)) = Some r)"
proof -
  have i: "pg_InsertForwards pool table fs n w = (e, w1)"
    "pg_InsertForwards pool table fs n w1 = (None, w2)"
    using assms(2,3) by (simp_all add: PostgresHistoryStore_def)
  note t = history_db.InsertForwards_table [OF assms(1) i(1)]
    history_db.InsertForwards_table [OF assms(1) i(2)]
  have "cell_get table w2 = cell_get table w1" if "e = None"
    using t that by (simp add: insert_present keys_insert_rows)
  moreover have "row_of forward_key k (tbl_forwards (cell_get table w2)) = Some r"
    if "row_of forward_key k (tbl_forwards (cell_get table w)) = Some r" for k r
    using t that by (simp add: row_of_keep_old)
  ultimately show ?thesis by blast
qed

definition sample_forward :: Forward where
  "sample_forward = \<lparr>fw_Identifier = ''a'', fw_InChannel = 1, fw_OutChannel = 2, fw_InMsat = 1000,
     fw_OutMsat = 990, fw_ResolvedTime = 17\<rparr>"

lemma InsertForwards_idempotent_witness:
  "let S = PostgresHistoryStore std_pool std_table;
       w1 = snd (InsertForwards S [sample_forward, sample_forward] [9]
              \<lparr>sw_time = 0, sw_fates = [], sw_table = empty_history\<rparr>);
       w2 = snd (InsertForwards S [sample_forward, sample_forward] [9] w1)
   in cell_get std_table w2 = cell_get std_table w1"
proof -
  let ?S = "PostgresHistoryStore std_pool (std_table :: (history_tables std_world, history_tables) cell)"
  let ?w = "\<lparr>sw_time = 0, sw_fates = [], sw_table = empty_history\<rparr>"
  let ?r1 = "InsertForwards ?S [sample_forward, sample_forward] [9] ?w"
  let ?r2 = "InsertForwards ?S [sample_forward, sample_forward] [9] (snd ?r1)"
  have "?r1 = (None, snd ?r1)" "?r2 = (None, snd ?r2)"
    by (simp_all add: PostgresHistoryStore_def pg_InsertForwards_def tx_labels_def db_simps)
  from InsertForwards_idempotent [OF std_history.history_db_axioms this] show ?thesis
    by (simp add: Let_def)
qed

text \<open>
  Offsets set for a node are the ones fetched for it afterwards, for all 64-bit values although
  the columns are signed, and setting them leaves the offsets of other nodes alone.
\<close>

lemma ClnForwardOffsets_roundtrip:
  assumes "history_db table pool now"
    and "SetClnForwardOffsets (PostgresHistoryStore pool table) n c u w = (None, w1)"
    and "FetchClnForwardOffsets (PostgresHistoryStore pool table) m w1 = (Inr x, w2)"
  shows "x = (if m = n then (c, u) else stored_offsets (cell_get table w) m)"
  by (rule history_db.pg_fetch_after_set [OF assms])

lemma ClnForwardOffsets_roundtrip_witness:
  "let S = PostgresHistoryStore std_pool std_table;
       w1 = snd (SetClnForwardOffsets S [1] 0xFFFFFFFFFFFFFFFF 3
              \<lparr>sw_time = 0, sw_fates = [], sw_table = empty_history\<rparr>)
   in fst (FetchClnForwardOffsets S [1] w1) = Inr (0xFFFFFFFFFFFFFFFF, 3)"
proof -
  let ?S = "PostgresHistoryStore std_pool (std_table :: (history_tables std_world, history_tables) cell)"
  let ?w = "\<lparr>sw_time = 0, sw_fates = [], sw_table = empty_history\<rparr>"
  let ?r1 = "SetClnForwardOffsets ?S [1] 0xFFFFFFFFFFFFFFFF 3 ?w"
  let ?r2 = "FetchClnForwardOffsets ?S [1] (snd ?r1)"
  have 1: "?r1 = (None, snd ?r1)"
    by (simp add: PostgresHistoryStore_def pg_SetClnForwardOffsets_def db_simps)
  have "\<exists>x. fst ?r2 = Inr x"
    by (simp add: PostgresHistoryStore_def pg_SetClnForwardOffsets_def pg_FetchClnForwardOffsets_def
        db_simps split: option.split)
  then obtain x where 2: "fst ?r2 = Inr x" by blast
  then have "?r2 = (Inr x, snd ?r2)" by (simp add: prod_eq_iff)
  from 2 ClnForwardOffsets_roundtrip [OF std_history.history_db_axioms 1 this] show ?thesis
    by (simp add: Let_def)
qed

end
