(* ===== verification/Intercept_Types.thy ===== *)
theory Intercept_Types
  imports Lightning
begin

text \<open>
  The types of htlc interception (\<^verbatim>\<open>common/intercept_handler.go\<close>) and the handler that tries others
  in turn (\<^verbatim>\<open>common/combined_handler.go\<close>). A handler takes the state of the world; it returns an
  outcome (a result or a crash) with the new state, or never returns (\<open>None\<close>).
\<close>

section \<open>common/intercept\_handler.go\<close>

datatype InterceptAction =
    INTERCEPT_RESUME
  | INTERCEPT_RESUME_WITH_ONION
  | INTERCEPT_FAIL_HTLC_WITH_CODE
  | INTERCEPT_IGNORE

type_synonym InterceptFailureCode = u16

definition FAILURE_TEMPORARY_CHANNEL_FAILURE :: InterceptFailureCode where
  "FAILURE_TEMPORARY_CHANNEL_FAILURE = 0x1007"

definition FAILURE_AMOUNT_BELOW_MINIMUM :: InterceptFailureCode where
  "FAILURE_AMOUNT_BELOW_MINIMUM = 0x100B"

definition FAILURE_INCORRECT_CLTV_EXPIRY :: InterceptFailureCode where
  "FAILURE_INCORRECT_CLTV_EXPIRY = 0x100D"

definition FAILURE_TEMPORARY_NODE_FAILURE :: InterceptFailureCode where
  "FAILURE_TEMPORARY_NODE_FAILURE = 0x2002"

definition FAILURE_UNKNOWN_NEXT_PEER :: InterceptFailureCode where
  "FAILURE_UNKNOWN_NEXT_PEER = 0x400A"

definition FAILURE_INCORRECT_OR_UNKNOWN_PAYMENT_DETAILS :: InterceptFailureCode where
  "FAILURE_INCORRECT_OR_UNKNOWN_PAYMENT_DETAILS = 0x400F"

record InterceptRequest =
  req_Identifier :: string
  req_Scid :: ShortChannelID
  req_PaymentHash :: bytes
  req_IncomingAmountMsat :: u64
  req_OutgoingAmountMsat :: u64
  req_IncomingExpiry :: u32
  req_OutgoingExpiry :: u32

definition PaymentId :: "InterceptRequest \<Rightarrow> string" where
  "PaymentId r = scid_ToString (Some (req_Scid r)) @ ''|'' @ hex_encode (req_PaymentHash r)"

definition HtlcId :: "InterceptRequest \<Rightarrow> string" where
  "HtlcId r = req_Identifier r"

record InterceptResult =
  Action :: InterceptAction
  FailureCode :: InterceptFailureCode
  Destination :: "bytes option"
  AmountMsat :: u64
  FeeMsat :: "u64 option"
  TotalAmountMsat :: u64
  ChannelPoint :: "outpoint option"
  Scid :: ShortChannelID
  PaymentSecret :: "bytes option"
  UseLegacyOnionBlob :: bool

text \<open>The zero value of a result, and the two results that carry no more than an action.\<close>

definition resume_result :: InterceptResult where
  "resume_result = \<lparr>Action = INTERCEPT_RESUME, FailureCode = 0, Destination = None, AmountMsat = 0,
     FeeMsat = None, TotalAmountMsat = 0, ChannelPoint = None, Scid = 0, PaymentSecret = None,
     UseLegacyOnionBlob = False\<rparr>"

definition fail_result :: "InterceptFailureCode \<Rightarrow> InterceptResult" where
  "fail_result code =
     resume_result\<lparr>Action := INTERCEPT_FAIL_HTLC_WITH_CODE, FailureCode := code\<rparr>"

type_synonym 'w InterceptHandler =
  "InterceptRequest \<Rightarrow> 'w \<Rightarrow> (InterceptResult outcome \<times> 'w) option"

section \<open>common/combined\_handler.go\<close>

fun CombinedHandler_Intercept :: "'w InterceptHandler list \<Rightarrow> 'w InterceptHandler" where
  "CombinedHandler_Intercept [] req w = Some (Ret resume_result, w)"
| "CombinedHandler_Intercept (handler # handlers) req w =
     (case handler req w of
        None \<Rightarrow> None
      | Some (Panic m, w1) \<Rightarrow> Some (Panic m, w1)
      | Some (Ret res, w1) \<Rightarrow>
          if Action res \<noteq> INTERCEPT_RESUME then Some (Ret res, w1)
          else CombinedHandler_Intercept handlers req w1)"

section \<open>Lemmas\<close>

text \<open>The states a list of handlers passes through while all of them resume.\<close>

fun all_resume :: "'w InterceptHandler list \<Rightarrow> InterceptRequest \<Rightarrow> 'w \<Rightarrow> 'w \<Rightarrow> bool" where
  "all_resume [] req w w' \<longleftrightarrow> w' = w"
| "all_resume (h # hs) req w w' \<longleftrightarrow>
     (\<exists>res w1. h req w = Some (Ret res, w1) \<and> Action res = INTERCEPT_RESUME \<and> all_resume hs req w1 w')"

lemma CombinedHandler_append:
  "all_resume hs req w w1 \<Longrightarrow>
     CombinedHandler_Intercept (hs @ hs') req w = CombinedHandler_Intercept hs' req w1"
  by (induction hs arbitrary: w) auto

lemma CombinedHandler_ret:
  assumes "CombinedHandler_Intercept hs req w = Some (Ret res, w')"
  shows "(\<exists>hs1 h hs2 w1. hs = hs1 @ h # hs2 \<and> all_resume hs1 req w w1 \<and>
            h req w1 = Some (Ret res, w') \<and> Action res \<noteq> INTERCEPT_RESUME) \<or>
         (all_resume hs req w w' \<and> res = resume_result)"
  using assms
proof (induction hs arbitrary: w)
  case Nil
  then show ?case by simp
next
  case (Cons h hs)
  then obtain r w1 where h: "h req w = Some (Ret r, w1)"
    by (auto split: option.splits outcome.splits)
  show ?case
  proof (cases "Action r = INTERCEPT_RESUME")
    case False
    with h Cons.prems show ?thesis
      by (intro disjI1 exI [of _ "[]"] exI [of _ h] exI [of _ hs] exI [of _ w]) auto
  next
    case True
    with h Cons.prems have "CombinedHandler_Intercept hs req w1 = Some (Ret res, w')" by simp
    from Cons.IH [OF this] show ?thesis
    proof
      assume "\<exists>hs1 g hs2 w2. hs = hs1 @ g # hs2 \<and> all_resume hs1 req w1 w2 \<and>
            g req w2 = Some (Ret res, w') \<and> Action res \<noteq> INTERCEPT_RESUME"
      then obtain hs1 g hs2 w2 where "hs = hs1 @ g # hs2" "all_resume hs1 req w1 w2"
        "g req w2 = Some (Ret res, w')" "Action res \<noteq> INTERCEPT_RESUME" by blast
      with h True show ?thesis
        by (intro disjI1 exI [of _ "h # hs1"] exI [of _ g] exI [of _ hs2] exI [of _ w2]) auto
    next
      assume "all_resume hs req w1 w' \<and> res = resume_result"
      with h True show ?thesis by auto
    qed
  qed
qed

text \<open>
  The combined handler returns the first result that is not a plain resume, from the state the
  handlers before it left, and a plain resume exactly when all handlers resume.
\<close>

lemma CombinedHandler_first:
  "CombinedHandler_Intercept hs req w = Some (Ret res, w') \<longleftrightarrow>
     (\<exists>hs1 h hs2 w1. hs = hs1 @ h # hs2 \<and> all_resume hs1 req w w1 \<and>
        h req w1 = Some (Ret res, w') \<and> Action res \<noteq> INTERCEPT_RESUME) \<or>
     (all_resume hs req w w' \<and> res = resume_result)"
proof
  assume "(\<exists>hs1 h hs2 w1. hs = hs1 @ h # hs2 \<and> all_resume hs1 req w w1 \<and>
        h req w1 = Some (Ret res, w') \<and> Action res \<noteq> INTERCEPT_RESUME) \<or>
     (all_resume hs req w w' \<and> res = resume_result)"
  then show "CombinedHandler_Intercept hs req w = Some (Ret res, w')"
    using CombinedHandler_append [of hs req w w' "[]"] by (auto simp: CombinedHandler_append)
qed (rule CombinedHandler_ret)

end
