(* ===== verification/Intercept_Store.thy ===== *)
theory Intercept_Store
  imports Opening
begin

text \<open>
  Registered payments: the store interface of the interceptor (\<^verbatim>\<open>interceptor/store.go\<close>) and the
  PostgreSQL store (\<^verbatim>\<open>postgresql/intercept_store.go\<close>). The locale \<open>intercept_store\<close> is the contract
  the interceptor relies on: the first registration of a payment hash wins, a funding outpoint
  that was set is found again, and a probe of a payment finds the payment.
\<close>

section \<open>interceptor/store.go\<close>

record PaymentInfoResult =
  pi_token :: string
  pi_params :: "OpeningFeeParams option"
  pi_paymentHash :: "bytes option"
  pi_paymentSecret :: "bytes option"
  pi_destination :: "bytes option"
  pi_incomingAmountMsat :: int
  pi_outgoingAmountMsat :: int
  pi_channelPoint :: "outpoint option"
  pi_tag :: "string option"

record 'w InterceptStore =
  PaymentInfo :: "bytes \<Rightarrow> 'w \<Rightarrow> (error + PaymentInfoResult) outcome \<times> 'w"
  SetFundingTx :: "bytes \<Rightarrow> outpoint \<Rightarrow> 'w \<Rightarrow> error option \<times> 'w"
  RegisterPayment ::
    "string \<Rightarrow> OpeningFeeParams option \<Rightarrow> bytes option \<Rightarrow> bytes option \<Rightarrow> bytes option \<Rightarrow> int \<Rightarrow> int \<Rightarrow>
       string \<Rightarrow> 'w \<Rightarrow> error option \<times> 'w"

section \<open>postgresql/intercept\_store.go\<close>

text \<open>
  A row of the table \<^verbatim>\<open>payments\<close>, whose primary key is the payment hash. The tag is kept as its JSON
  text.
\<close>

record payment_row =
  py_payment_hash :: bytes
  py_payment_secret :: bytes
  py_destination :: bytes
  py_incoming_amount_msat :: int
  py_outgoing_amount_msat :: int
  py_funding_tx_id :: "bytes option"
  py_funding_tx_outnum :: "int option"
  py_opening_fee_params :: "json option"
  py_tag :: "string option"

definition no_payment :: PaymentInfoResult where
  "no_payment = \<lparr>pi_token = [], pi_params = None, pi_paymentHash = None, pi_paymentSecret = None,
     pi_destination = None, pi_incomingAmountMsat = 0, pi_outgoingAmountMsat = 0,
     pi_channelPoint = None, pi_tag = None\<rparr>"

definition probe_hash :: "libs \<Rightarrow> bytes \<Rightarrow> bytes" where
  "probe_hash L paymentHash = sha256 L (string_bytes ''probing-01:'' @ paymentHash)"

definition select_payment :: "libs \<Rightarrow> bytes \<Rightarrow> payment_row list \<Rightarrow> payment_row option" where
  "select_payment L h rows = find (\<lambda>r. py_payment_hash r = h \<or> probe_hash L (py_payment_hash r) = h) rows"

text \<open>
  The rest of \<^verbatim>\<open>PaymentInfo\<close>, on the row found. When the column \<^verbatim>\<open>opening_fee_params\<close> is NULL or JSON
  \<^verbatim>\<open>null\<close>, \<^verbatim>\<open>extParams\<close> stays nil and reading its token crashes.
\<close>

definition payment_info_of_row :: "libs \<Rightarrow> payment_row \<Rightarrow> (error + PaymentInfoResult) outcome" where
  "payment_info_of_row L r =
     (let cp = (case py_funding_tx_id r of
                  None \<Rightarrow> None
                | Some txid \<Rightarrow>
                    (case NewOutPoint L txid
                            (word_of_int (case py_funding_tx_outnum r of None \<Rightarrow> 0 | Some n \<Rightarrow> n)) of
                       Inl err \<Rightarrow> None
                     | Inr op \<Rightarrow> Some op));
          ext = (case py_opening_fee_params r of
                   None \<Rightarrow> Some None
                 | Some j \<Rightarrow> unmarshal_extended_params j)
      in case ext of
           None \<Rightarrow> Ret (Inl (Error ''json: cannot unmarshal''))
         | Some None \<Rightarrow> Panic ''nil pointer dereference''
         | Some (Some e) \<Rightarrow> Ret (Inr \<lparr>
             pi_token = ep_Token e,
             pi_params = Some (ep_Params e),
             pi_paymentHash = Some (py_payment_hash r),
             pi_paymentSecret = Some (py_payment_secret r),
             pi_destination = Some (py_destination r),
             pi_incomingAmountMsat = py_incoming_amount_msat r,
             pi_outgoingAmountMsat = py_outgoing_amount_msat r,
             pi_channelPoint = cp,
             pi_tag = py_tag r\<rparr>))"

definition pg_PaymentInfo ::
  "libs \<Rightarrow> 'w pool \<Rightarrow> ('w, payment_row list) cell \<Rightarrow> bytes \<Rightarrow> 'w \<Rightarrow>
     (error + PaymentInfoResult) outcome \<times> 'w" where
  "pg_PaymentInfo L pool table h w =
     (case query pool table (select_payment L h) w of
        (Inl err, w1) \<Rightarrow> (Ret (Inl err), w1)
      | (Inr None, w1) \<Rightarrow> (Ret (Inr no_payment), w1)
      | (Inr (Some r), w1) \<Rightarrow> (payment_info_of_row L r, w1))"

text \<open>The output index is stored in a 32-bit signed column; larger values do not encode.\<close>

definition pg_SetFundingTx ::
  "'w pool \<Rightarrow> ('w, payment_row list) cell \<Rightarrow> bytes \<Rightarrow> outpoint \<Rightarrow> 'w \<Rightarrow> error option \<times> 'w" where
  "pg_SetFundingTx pool table h cp w =
     (if 2 ^ 31 \<le> uint (op_index cp)
      then (Some (Error ''greater than maximum value for int4''), w)
      else exec pool table (map (\<lambda>r. if py_payment_hash r = h
             then r\<lparr>py_funding_tx_id := Some (op_hash cp),
                    py_funding_tx_outnum := Some (uint (op_index cp))\<rparr>
             else r)) w)"

definition new_payment_row ::
  "string \<Rightarrow> OpeningFeeParams \<Rightarrow> bytes \<Rightarrow> bytes \<Rightarrow> bytes \<Rightarrow> int \<Rightarrow> int \<Rightarrow> string \<Rightarrow> payment_row" where
  "new_payment_row token params destination paymentHash paymentSecret incoming outgoing tag = \<lparr>
     py_payment_hash = paymentHash,
     py_payment_secret = paymentSecret,
     py_destination = destination,
     py_incoming_amount_msat = incoming,
     py_outgoing_amount_msat = outgoing,
     py_funding_tx_id = None,
     py_funding_tx_outnum = None,
     py_opening_fee_params =
       Some (marshal_extended_params \<lparr>ep_Token = token, ep_Params = params\<rparr>),
     py_tag = (if tag = [] then None else Some tag)\<rparr>"

text \<open>
  Without params the statement sends an empty text for the \<^verbatim>\<open>jsonb\<close> column, and a nil byte slice is
  NULL, which the columns exclude; PostgreSQL rejects both.
\<close>

definition pg_RegisterPayment ::
  "'w pool \<Rightarrow> ('w, payment_row list) cell \<Rightarrow> string \<Rightarrow> OpeningFeeParams option \<Rightarrow> bytes option \<Rightarrow>
     bytes option \<Rightarrow> bytes option \<Rightarrow> int \<Rightarrow> int \<Rightarrow> string \<Rightarrow> 'w \<Rightarrow> error option \<times> 'w" where
  "pg_RegisterPayment pool table token params destination paymentHash paymentSecret incoming outgoing
       tag w =
     (case (case (params, destination, paymentHash, paymentSecret) of
              (Some p, Some d, Some h, Some s) \<Rightarrow>
                exec pool table (upsert py_payment_hash keep_old
                  (new_payment_row token p d h s incoming outgoing tag)) w
            | _ \<Rightarrow>
                (case pool w of (e, w1) \<Rightarrow>
                  (Some (case e of None \<Rightarrow> Error ''invalid input'' | Some err \<Rightarrow> err), w1))) of
        (Some err, w1) \<Rightarrow> (Some (Wrap ''registerPayment error'' err), w1)
      | (None, w1) \<Rightarrow> (None, w1))"

definition PostgresInterceptStore ::
  "libs \<Rightarrow> 'w pool \<Rightarrow> ('w, payment_row list) cell \<Rightarrow> 'w InterceptStore" where
  "PostgresInterceptStore L pool table = \<lparr>
     PaymentInfo = pg_PaymentInfo L pool table,
     SetFundingTx = pg_SetFundingTx pool table,
     RegisterPayment = pg_RegisterPayment pool table\<rparr>"

section \<open>The contract of the store\<close>

text \<open>
  \<open>reg w\<close> is the map of registered payments by hash, \<open>ok w\<close> the store's own invariant. A lookup
  finds a payment by its hash or by its probe hash.
\<close>

definition new_payment ::
  "string \<Rightarrow> OpeningFeeParams \<Rightarrow> bytes \<Rightarrow> bytes \<Rightarrow> bytes \<Rightarrow> int \<Rightarrow> int \<Rightarrow> string \<Rightarrow> PaymentInfoResult" where
  "new_payment token params destination paymentHash paymentSecret incoming outgoing tag = \<lparr>
     pi_token = token, pi_params = Some params, pi_paymentHash = Some paymentHash,
     pi_paymentSecret = Some paymentSecret, pi_destination = Some destination,
     pi_incomingAmountMsat = incoming, pi_outgoingAmountMsat = outgoing,
     pi_channelPoint = None, pi_tag = (if tag = [] then None else Some tag)\<rparr>"

definition set_channel_point ::
  "bytes \<Rightarrow> outpoint \<Rightarrow> (bytes \<rightharpoonup> PaymentInfoResult) \<Rightarrow> bytes \<rightharpoonup> PaymentInfoResult" where
  "set_channel_point h cp m =
     m(h := map_option (\<lambda>p. p\<lparr>pi_channelPoint := Some cp\<rparr>) (m h))"

locale intercept_store =
  fixes L :: libs and S :: "'w InterceptStore" and reg :: "'w \<Rightarrow> bytes \<rightharpoonup> PaymentInfoResult"
    and ok :: "'w \<Rightarrow> bool"
  assumes info_keeps: "ok w \<Longrightarrow> PaymentInfo S h w = (r, w') \<Longrightarrow> ok w' \<and> reg w' = reg w"
    and info_returns: "ok w \<Longrightarrow> PaymentInfo S h w \<noteq> (Panic m, w')"
    and info_result: "ok w \<Longrightarrow> PaymentInfo S h w = (Ret (Inr i), w') \<Longrightarrow>
      (i = no_payment \<and> (\<forall>h'. reg w h' \<noteq> None \<longrightarrow> h' \<noteq> h \<and> probe_hash L h' \<noteq> h)) \<or>
      (\<exists>h'. reg w h' = Some i \<and> (h' = h \<or> probe_hash L h' = h))"
    and reg_complete: "ok w \<Longrightarrow> reg w h = Some p \<Longrightarrow>
      pi_paymentHash p = Some h \<and> pi_paymentSecret p \<noteq> None \<and> pi_destination p \<noteq> None \<and>
      pi_params p \<noteq> None"
    and set_funding: "ok w \<Longrightarrow> length (op_hash cp) = 32 \<Longrightarrow> SetFundingTx S h cp w = (e, w') \<Longrightarrow>
      ok w' \<and> reg w' = (if e = None then set_channel_point h cp (reg w) else reg w)"
    and register: "ok w \<Longrightarrow>
      RegisterPayment S token (Some params) (Some d) (Some h) (Some s) inc out tag w = (e, w') \<Longrightarrow>
      ok w' \<and> reg w' = (if e = None \<and> reg w h = None
        then (reg w)(h \<mapsto> new_payment token params d h s inc out tag) else reg w)"
    and register_nil: "ok w \<Longrightarrow> ps = None \<or> ds = None \<or> hs = None \<or> ss = None \<Longrightarrow>
      RegisterPayment S token ps ds hs ss inc out tag w = (e, w') \<Longrightarrow>
      e \<noteq> None \<and> ok w' \<and> reg w' = reg w"
begin

text \<open>A payment whose hash is no probe hash of a registered payment is found by its own hash only.\<close>

lemma info_of_registered:
  assumes "ok w" and "PaymentInfo S h w = (Ret (Inr i), w')" and "reg w h = Some p"
    and "\<forall>h'. reg w h' \<noteq> None \<longrightarrow> probe_hash L h' \<noteq> h"
  shows "i = p"
  using info_result [OF assms(1,2)] assms(3,4) by auto

lemma info_of_unregistered:
  assumes "ok w" and "PaymentInfo S h w = (Ret (Inr i), w')"
    and "\<forall>h'. reg w h' \<noteq> None \<longrightarrow> h' \<noteq> h \<and> probe_hash L h' \<noteq> h"
  shows "i = no_payment"
  using info_result [OF assms(1,2)] assms(3) by auto

lemma info_after_set_funding:
  assumes "ok w" and "length (op_hash cp) = 32" and "SetFundingTx S h cp w = (None, w1)"
    and "reg w h = Some p" and "\<forall>h'. reg w h' \<noteq> None \<longrightarrow> probe_hash L h' \<noteq> h"
    and "PaymentInfo S h w1 = (Ret (Inr i), w2)"
  shows "i = p\<lparr>pi_channelPoint := Some cp\<rparr>"
proof -
  have w1: "ok w1" "reg w1 = set_channel_point h cp (reg w)"
    using set_funding [OF assms(1-3)] by simp_all
  have "reg w1 h = Some (p\<lparr>pi_channelPoint := Some cp\<rparr>)"
    using assms(4) by (simp add: w1(2) set_channel_point_def)
  moreover have "\<forall>h'. reg w1 h' \<noteq> None \<longrightarrow> probe_hash L h' \<noteq> h"
    using assms(5) by (auto simp: w1(2) set_channel_point_def)
  ultimately show ?thesis
    using info_of_registered [OF w1(1) assms(6)] by blast
qed

end

section \<open>The PostgreSQL store keeps the contract\<close>

definition payments_of :: "libs \<Rightarrow> payment_row list \<Rightarrow> bytes \<rightharpoonup> PaymentInfoResult" where
  "payments_of L rows h =
     (case row_of py_payment_hash h rows of
        None \<Rightarrow> None
      | Some r \<Rightarrow> (case payment_info_of_row L r of Ret (Inr i) \<Rightarrow> Some i | _ \<Rightarrow> None))"

text \<open>The table's invariant: unique hashes, and fee params that decode.\<close>

definition row_decodes :: "libs \<Rightarrow> payment_row \<Rightarrow> bool" where
  "row_decodes L r \<longleftrightarrow> (\<exists>i. payment_info_of_row L r = Ret (Inr i))"

definition payments_ok :: "libs \<Rightarrow> payment_row list \<Rightarrow> bool" where
  "payments_ok L rows \<longleftrightarrow> distinct (map py_payment_hash rows) \<and> (\<forall>r\<in>set rows. row_decodes L r)"

lemma payment_info_fields:
  assumes "payment_info_of_row L r = Ret (Inr i)"
  shows "pi_paymentHash i = Some (py_payment_hash r)" "pi_paymentSecret i = Some (py_payment_secret r)"
    "pi_destination i = Some (py_destination r)" "pi_params i \<noteq> None"
  using assms by (auto simp: payment_info_of_row_def Let_def split: option.splits)

lemma payments_of_mem:
  assumes "payments_ok L rows" and "r \<in> set rows"
  shows "\<exists>i. payment_info_of_row L r = Ret (Inr i) \<and> payments_of L rows (py_payment_hash r) = Some i"
  using assms row_of_distinct [of py_payment_hash rows r]
  by (fastforce simp: payments_ok_def row_decodes_def payments_of_def)

lemma payments_of_Some:
  assumes "payments_of L rows h = Some i"
  shows "\<exists>r\<in>set rows. py_payment_hash r = h \<and> payment_info_of_row L r = Ret (Inr i)"
  using assms row_of_SomeD [of py_payment_hash h rows]
  by (auto simp: payments_of_def split: option.splits outcome.splits sum.splits)

lemma payments_of_None_iff:
  assumes "payments_ok L rows"
  shows "payments_of L rows h = None \<longleftrightarrow> h \<notin> py_payment_hash ` set rows"
proof
  assume "payments_of L rows h = None"
  then show "h \<notin> py_payment_hash ` set rows"
    using payments_of_mem [OF assms] by fastforce
next
  assume "h \<notin> py_payment_hash ` set rows"
  then show "payments_of L rows h = None"
    using payments_of_Some [of L rows h] by (cases "payments_of L rows h") auto
qed

lemma select_payment_Some:
  "select_payment L h rows = Some r \<Longrightarrow>
     r \<in> set rows \<and> (py_payment_hash r = h \<or> probe_hash L (py_payment_hash r) = h)"
  by (auto simp: select_payment_def find_Some_iff)

lemma select_payment_None:
  "select_payment L h rows = None \<Longrightarrow> r \<in> set rows \<Longrightarrow>
     py_payment_hash r \<noteq> h \<and> probe_hash L (py_payment_hash r) \<noteq> h"
  by (auto simp: select_payment_def find_None_iff)

text \<open>What the statements do to a row.\<close>

definition fund_row :: "bytes \<Rightarrow> outpoint \<Rightarrow> payment_row \<Rightarrow> payment_row" where
  "fund_row h cp r =
     (if py_payment_hash r = h
      then r\<lparr>py_funding_tx_id := Some (op_hash cp), py_funding_tx_outnum := Some (uint (op_index cp))\<rparr>
      else r)"

lemma fund_row_hash [simp]: "py_payment_hash (fund_row h cp r) = py_payment_hash r"
  by (simp add: fund_row_def)

lemma fund_row_info:
  assumes "hash_bytes L" and "length (op_hash cp) = 32" and "payment_info_of_row L r = Ret (Inr i)"
  shows "payment_info_of_row L (fund_row h cp r) =
    Ret (Inr (if py_payment_hash r = h then i\<lparr>pi_channelPoint := Some cp\<rparr> else i))"
  using assms
  by (auto simp: payment_info_of_row_def fund_row_def Let_def split: option.splits)

lemma payments_ok_fund:
  assumes "hash_bytes L" and "length (op_hash cp) = 32" and "payments_ok L rows"
  shows "payments_ok L (map (fund_row h cp) rows)"
proof -
  have "map py_payment_hash (map (fund_row h cp) rows) = map py_payment_hash rows" by simp
  moreover have "row_decodes L (fund_row h cp r)" if "row_decodes L r" for r
    using that fund_row_info [OF assms(1,2)] by (auto simp: row_decodes_def)
  ultimately show ?thesis using assms(3) by (auto simp: payments_ok_def simp del: map_map)
qed

lemma payments_of_fund:
  assumes "hash_bytes L" and "length (op_hash cp) = 32" and "payments_ok L rows"
  shows "payments_of L (map (fund_row h cp) rows) = set_channel_point h cp (payments_of L rows)"
proof
  fix k
  show "payments_of L (map (fund_row h cp) rows) k = set_channel_point h cp (payments_of L rows) k"
  proof (cases "row_of py_payment_hash k rows")
    case None
    then show ?thesis
      by (auto simp: payments_of_def row_of_map_key set_channel_point_def)
  next
    case (Some r)
    then have r: "r \<in> set rows" "py_payment_hash r = k" using row_of_SomeD by metis+
    with assms(3) obtain i where "payment_info_of_row L r = Ret (Inr i)"
      by (auto simp: payments_ok_def row_decodes_def)
    with Some r fund_row_info [OF assms(1,2) this, of h] show ?thesis
      by (auto simp: payments_of_def row_of_map_key set_channel_point_def)
  qed
qed

lemma new_payment_row_info:
  "payment_info_of_row L (new_payment_row token p d h s inc out tag) =
     Ret (Inr (new_payment token p d h s inc out tag))"
  by (simp add: payment_info_of_row_def new_payment_row_def new_payment_def
      unmarshal_marshal_extended_params)

interpretation payment_rows: upsert_key py_payment_hash keep_old
  by unfold_locales (simp add: keep_old_def)

lemma payments_of_register:
  assumes "payments_ok L rows"
  shows "payments_of L (upsert py_payment_hash keep_old
           (new_payment_row token p d h s inc out tag) rows) =
    (if payments_of L rows h = None
     then (payments_of L rows)(h \<mapsto> new_payment token p d h s inc out tag)
     else payments_of L rows)"
proof -
  let ?n = "new_payment_row token p d h s inc out tag"
  have key: "py_payment_hash ?n = h" by (simp add: new_payment_row_def)
  have None_iff: "payments_of L rows h = None \<longleftrightarrow> row_of py_payment_hash h rows = None"
    using payments_of_None_iff [OF assms, of h] payment_rows.row_of_None [of h rows] by argo
  show ?thesis
  proof
    fix k
    have row: "row_of py_payment_hash k (upsert py_payment_hash keep_old ?n rows) =
        (if k = h then Some (case row_of py_payment_hash k rows of None \<Rightarrow> ?n | Some r \<Rightarrow> r)
         else row_of py_payment_hash k rows)" for k
      using payment_rows.row_of_upsert [of k ?n rows] by (simp only: key keep_old_def)
    show "payments_of L (upsert py_payment_hash keep_old ?n rows) k =
      (if payments_of L rows h = None
       then (payments_of L rows)(h \<mapsto> new_payment token p d h s inc out tag)
       else payments_of L rows) k"
      unfolding None_iff by (cases "k = h"; cases "row_of py_payment_hash h rows")
        (simp_all add: payments_of_def row new_payment_row_info)
  qed
qed

lemma payments_ok_register:
  assumes "payments_ok L rows"
  shows "payments_ok L (upsert py_payment_hash keep_old
           (new_payment_row token p d h s inc out tag) rows)"
proof -
  have "row_decodes L (new_payment_row token p d h s inc out tag)"
    by (simp add: row_decodes_def new_payment_row_info)
  moreover have "py_payment_hash (new_payment_row token p d h s inc out tag) = h"
    by (simp add: new_payment_row_def)
  ultimately show ?thesis using assms by (auto simp: payments_ok_def upsert_keep_old)
qed

locale payments_db = database table pool now
  for table :: "('w, payment_row list) cell" and pool :: "'w pool" and now :: "'w clock" +
  fixes L :: libs
  assumes hash_bytes: "hash_bytes L"

sublocale payments_db \<subseteq> intercept_store L "PostgresInterceptStore L pool table"
  "\<lambda>w. payments_of L (cell_get table w)" "\<lambda>w. payments_ok L (cell_get table w)"
proof
  fix w h r w'
  assume "payments_ok L (cell_get table w)"
    and "PaymentInfo (PostgresInterceptStore L pool table) h w = (r, w')"
  then show "payments_ok L (cell_get table w') \<and>
      payments_of L (cell_get table w') = payments_of L (cell_get table w)"
    by (auto simp: PostgresInterceptStore_def pg_PaymentInfo_def dest!: query_table
        split: prod.splits sum.splits option.splits)
next
  fix w h m w'
  assume ok: "payments_ok L (cell_get table w)"
  show "PaymentInfo (PostgresInterceptStore L pool table) h w \<noteq> (Panic m, w')"
  proof
    assume "PaymentInfo (PostgresInterceptStore L pool table) h w = (Panic m, w')"
    then obtain r where "select_payment L h (cell_get table w) = Some r"
      "payment_info_of_row L r = Panic m"
      by (auto simp: PostgresInterceptStore_def pg_PaymentInfo_def dest!: query_result [THEN sym]
          split: prod.splits sum.splits option.splits)
    with ok select_payment_Some [of L h "cell_get table w" r] show False
      by (auto simp: payments_ok_def row_decodes_def)
  qed
next
  fix w h i w'
  assume ok: "payments_ok L (cell_get table w)"
    and i: "PaymentInfo (PostgresInterceptStore L pool table) h w = (Ret (Inr i), w')"
  show "(i = no_payment \<and> (\<forall>h'. payments_of L (cell_get table w) h' \<noteq> None \<longrightarrow>
          h' \<noteq> h \<and> probe_hash L h' \<noteq> h)) \<or>
      (\<exists>h'. payments_of L (cell_get table w) h' = Some i \<and> (h' = h \<or> probe_hash L h' = h))"
  proof (cases "select_payment L h (cell_get table w)")
    case None
    then have "i = no_payment"
      using i by (auto simp: PostgresInterceptStore_def pg_PaymentInfo_def dest!: query_result
          split: prod.splits sum.splits option.splits)
    with select_payment_None [OF None] payments_of_None_iff [OF ok] show ?thesis by auto
  next
    case (Some r)
    then have r: "payment_info_of_row L r = Ret (Inr i)"
      using i by (auto simp: PostgresInterceptStore_def pg_PaymentInfo_def dest!: query_result
          split: prod.splits sum.splits option.splits)
    from select_payment_Some [OF Some] have "r \<in> set (cell_get table w)"
      and h: "py_payment_hash r = h \<or> probe_hash L (py_payment_hash r) = h" by simp_all
    with r payments_of_mem [OF ok, of r] have "payments_of L (cell_get table w) (py_payment_hash r) = Some i"
      by auto
    with h show ?thesis by blast
  qed
next
  fix w h p
  assume "payments_of L (cell_get table w) h = Some p"
  from payments_of_Some [OF this] obtain r where r: "py_payment_hash r = h"
    "payment_info_of_row L r = Ret (Inr p)" by blast
  from payment_info_fields [OF r(2)] r(1) show "pi_paymentHash p = Some h \<and> pi_paymentSecret p \<noteq> None \<and> pi_destination p \<noteq> None \<and>
      pi_params p \<noteq> None"
    by simp
next
  fix w cp h e w'
  assume ok: "payments_ok L (cell_get table w)" and len: "length (op_hash cp) = 32"
    and s: "SetFundingTx (PostgresInterceptStore L pool table) h cp w = (e, w')"
  have "cell_get table w' =
      (if e = None then map (fund_row h cp) (cell_get table w) else cell_get table w)"
    using s by (auto simp: PostgresInterceptStore_def pg_SetFundingTx_def fund_row_def [abs_def]
        dest!: exec_table split: if_splits)
  with payments_ok_fund [OF hash_bytes len ok] payments_of_fund [OF hash_bytes len ok] ok
  show "payments_ok L (cell_get table w') \<and> payments_of L (cell_get table w') =
      (if e = None then set_channel_point h cp (payments_of L (cell_get table w))
       else payments_of L (cell_get table w))"
    by simp
next
  fix w token params d h s inc out tag e w'
  assume ok: "payments_ok L (cell_get table w)"
    and r: "RegisterPayment (PostgresInterceptStore L pool table) token (Some params) (Some d) (Some h)
      (Some s) inc out tag w = (e, w')"
  have "cell_get table w' =
      (if e = None then upsert py_payment_hash keep_old
         (new_payment_row token params d h s inc out tag) (cell_get table w)
       else cell_get table w)"
    using r by (auto simp: PostgresInterceptStore_def pg_RegisterPayment_def
        dest!: exec_table split: prod.splits option.splits if_splits)
  with payments_ok_register [OF ok] payments_of_register [OF ok] ok
  show "payments_ok L (cell_get table w') \<and> payments_of L (cell_get table w') =
      (if e = None \<and> payments_of L (cell_get table w) h = None
       then (payments_of L (cell_get table w))(h \<mapsto> new_payment token params d h s inc out tag)
       else payments_of L (cell_get table w))"
    by simp
next
  fix w and p :: "OpeningFeeParams option" and ds hs ss :: "bytes option" and token inc out tag e w'
  assume ok: "payments_ok L (cell_get table w)"
    and nil: "p = None \<or> ds = None \<or> hs = None \<or> ss = None"
    and r: "RegisterPayment (PostgresInterceptStore L pool table) token p ds hs ss inc out tag w = (e, w')"
  obtain x w1 where "pool w = (x, w1)" by fastforce
  with r nil have "e \<noteq> None \<and> cell_get table w' = cell_get table w"
    by (auto simp: PostgresInterceptStore_def pg_RegisterPayment_def pool_step
        split: option.splits)
  with ok show "e \<noteq> None \<and> payments_ok L (cell_get table w') \<and>
      payments_of L (cell_get table w') = payments_of L (cell_get table w)"
    by simp
qed

interpretation std_payments: payments_db std_table std_pool std_now std_libs
  by unfold_locales (simp add: libs_okD)

context payments_db
begin

lemmas pg_info_after_set_funding = info_after_set_funding
lemmas pg_register = register
lemmas pg_info_of_registered = info_of_registered
lemmas pg_info_keeps = info_keeps

lemma register_lookup:
  assumes "payments_ok L (cell_get table w)"
    and "RegisterPayment (PostgresInterceptStore L pool table) token (Some params) (Some d) (Some h)
      (Some s) inc out tag w = (None, w1)"
    and "PaymentInfo (PostgresInterceptStore L pool table) h w1 = (Ret (Inr i), w2)"
    and "probe_hash L h \<noteq> h"
    and "\<forall>h'. payments_of L (cell_get table w) h' \<noteq> None \<longrightarrow> probe_hash L h' \<noteq> h"
  shows "i = (case payments_of L (cell_get table w) h of
    None \<Rightarrow> new_payment token params d h s inc out tag | Some old \<Rightarrow> old)"
proof -
  note w1 = register [OF assms(1,2), THEN conjunct1] register [OF assms(1,2), THEN conjunct2]
  have "payments_of L (cell_get table w1) h = Some (case payments_of L (cell_get table w) h of
      None \<Rightarrow> new_payment token params d h s inc out tag | Some old \<Rightarrow> old)"
    by (auto simp: w1(2) split: option.split)
  moreover have "\<forall>h'. payments_of L (cell_get table w1) h' \<noteq> None \<longrightarrow> probe_hash L h' \<noteq> h"
    using assms(4,5) by (auto simp: w1(2))
  ultimately show ?thesis
    using info_of_registered [OF w1(1) assms(3)] by blast
qed

end

section \<open>Properties\<close>

definition sample_payments :: "payment_row list std_world" where
  "sample_payments = \<lparr>sw_time = 0, sw_fates = [], sw_table = []\<rparr>"




definition registered_payments :: "payment_row list std_world" where
  "registered_payments = \<lparr>sw_time = 0, sw_fates = [],
     sw_table = [new_payment_row ''tok'' sample_params [2] [3] [4] 5000 4000 []]\<rparr>"

lemma registered_payments_ok:
  "payments_ok std_libs (cell_get std_table registered_payments)"
  "payments_of std_libs (cell_get std_table registered_payments) =
     [[3] \<mapsto> new_payment ''tok'' sample_params [2] [3] [4] 5000 4000 []]"
proof -
  have key: "py_payment_hash (new_payment_row ''tok'' sample_params [2] [3] [4] 5000 4000 []) = [3]"
    by (simp add: new_payment_row_def)
  show "payments_ok std_libs (cell_get std_table registered_payments)"
    by (simp add: payments_ok_def registered_payments_def std_table_def row_decodes_def
        new_payment_row_info)
  show "payments_of std_libs (cell_get std_table registered_payments) =
     [[3] \<mapsto> new_payment ''tok'' sample_params [2] [3] [4] 5000 4000 []]"
    by (rule ext) (auto simp: payments_of_def registered_payments_def std_table_def row_of_def key
        new_payment_row_info)
qed


text \<open>
  A payment row without fee params crashes every lookup that finds it: the column may be NULL,
  \<^verbatim>\<open>extParams\<close> then stays nil, and its token is read anyway. So the interceptor's branch for
  payments without fee params is never reached, and the store refuses to register one.
\<close>

lemma PaymentInfo_null_params:
  assumes "payments_db table pool now L" and "fst (pool w) = None"
    and "select_payment L h (cell_get table w) = Some r" and "py_opening_fee_params r = None"
  shows "fst (PaymentInfo (PostgresInterceptStore L pool table) h w) = Panic ''nil pointer dereference'' \<and>
    fst (RegisterPayment (PostgresInterceptStore L pool table) token None d h' s inc out tag w) \<noteq> None"
proof -
  have "cell_get table (snd (pool w)) = cell_get table w"
    using assms(1) by (simp add: payments_db_def database_def database_axioms_def)
  then have "query pool table (select_payment L h) w = (Inr (Some r), snd (pool w))"
    using assms(2,3) by (cases "pool w") (simp add: query_def)
  with assms(2,4) show ?thesis
    by (cases "pool w") (simp add: PostgresInterceptStore_def pg_PaymentInfo_def
        pg_RegisterPayment_def payment_info_of_row_def)
qed

lemma PaymentInfo_null_params_witness:
  "fst (PaymentInfo (PostgresInterceptStore std_libs std_pool std_table) [3]
     (registered_payments\<lparr>sw_table :=
        [(new_payment_row ''tok'' sample_params [2] [3] [4] 5000 4000 [])\<lparr>py_opening_fee_params := None\<rparr>]\<rparr>)) =
   Panic ''nil pointer dereference''"
  by (rule PaymentInfo_null_params [where r = "(new_payment_row ''tok'' sample_params [2] [3] [4]
        5000 4000 [])\<lparr>py_opening_fee_params := None\<rparr>",
        OF std_payments.payments_db_axioms, THEN conjunct1])
     (simp_all add: db_simps registered_payments_def select_payment_def
       new_payment_row_def)

end
