(* ===== verification/Go_Duration.thy ===== *)
theory Go_Duration
  imports Go_Float
begin

text \<open>
  \<^verbatim>\<open>time.ParseDuration\<close>, which reads the configured notification timeout: a sign and a sequence of
  decimal numbers with a unit, such as \<^verbatim>\<open>1h15m30.5s\<close>. Fractions go through \<^verbatim>\<open>float64\<close> as in the Go
  library; sums that leave the range of \<^verbatim>\<open>time.Duration\<close> are errors (\<open>None\<close>).
\<close>

text \<open>Division of two positive integers, rounded to the nearest float: two guard bits are exact.\<close>

definition fl_div_int :: "int \<Rightarrow> int \<Rightarrow> float64" where
  "fl_div_int a b =
     (let k = 64 + bit_length (nat b); q = a * 2 ^ k div b; r = a * 2 ^ k mod b
      in fl_round (2 * q + (if r = 0 then 0 else 1)) (- int (k + 1)))"

definition unit_value :: "string \<Rightarrow> int option" where
  "unit_value u =
     (if u = ''ns'' then Some 1
      else if u = ''us'' \<or> u = [CHR 0xC2, CHR 0xB5, CHR ''s''] \<or> u = [CHR 0xCE, CHR 0xBC, CHR ''s'']
      then Some 1000
      else if u = ''ms'' then Some 1000000
      else if u = ''s'' then Some 1000000000
      else if u = ''m'' then Some 60000000000
      else if u = ''h'' then Some 3600000000000
      else None)"

text \<open>The leading digits as a number of at most $2^{63}$, and the rest.\<close>

fun leading_int :: "int \<Rightarrow> string \<Rightarrow> (int \<times> string) option" where
  "leading_int x [] = Some (x, [])"
| "leading_int x (c # s) =
     (case digit_val c of
        None \<Rightarrow> Some (x, c # s)
      | Some d \<Rightarrow>
          if 2 ^ 63 div 10 < x \<or> 2 ^ 63 < 10 * x + int d then None else leading_int (10 * x + int d) s)"

text \<open>
  The digits of a fraction with their scale; digits past the precision of 63 bits are skipped.
\<close>

fun leading_fraction :: "bool \<Rightarrow> int \<Rightarrow> int \<Rightarrow> string \<Rightarrow> int \<times> int \<times> string" where
  "leading_fraction ovf x scale [] = (x, scale, [])"
| "leading_fraction ovf x scale (c # s) =
     (case digit_val c of
        None \<Rightarrow> (x, scale, c # s)
      | Some d \<Rightarrow>
          if ovf \<or> (2 ^ 63 - 1) div 10 < x \<or> 2 ^ 63 < 10 * x + int d
          then leading_fraction True x scale s
          else leading_fraction False (10 * x + int d) (10 * scale) s)"

definition unit_end :: "char \<Rightarrow> bool" where
  "unit_end c \<longleftrightarrow> c = CHR ''.'' \<or> digit_val c \<noteq> None"

text \<open>One number with its unit, in nanoseconds, and the rest of the text.\<close>

definition duration_component :: "string \<Rightarrow> (int \<times> string) option" where
  "duration_component s =
     (if s = [] \<or> \<not> unit_end (hd s) then None
      else case leading_int 0 s of
        None \<Rightarrow> None
      | Some (v, s1) \<Rightarrow>
          let pre = (length s1 \<noteq> length s);
              dot = (s1 \<noteq> [] \<and> hd s1 = CHR ''.'');
              (f, scale, s2) = (if dot then leading_fraction False 0 1 (tl s1) else (0, 1, s1));
              post = (dot \<and> length s2 \<noteq> length (tl s1));
              u = takeWhile (\<lambda>c. \<not> unit_end c) s2;
              s3 = dropWhile (\<lambda>c. \<not> unit_end c) s2
          in if \<not> pre \<and> \<not> post then None
             else if u = [] then None
             else case unit_value u of
               None \<Rightarrow> None
             | Some un \<Rightarrow>
                 if 2 ^ 63 div un < v then None
                 else let frac = (if f = 0 then 0
                        else fl_trunc (fl_mul (fl_round f 0) (fl_div_int un scale)));
                        total = v * un + frac
                      in if f \<noteq> 0 \<and> 2 ^ 63 < total then None else Some (total, s3))"

lemma leading_int_length: "leading_int x s = Some (y, r) \<Longrightarrow> length r \<le> length s"
  by (induction x s rule: leading_int.induct) (auto split: option.splits if_splits)

lemma leading_fraction_length:
  "leading_fraction b x c s = (y, d, r) \<Longrightarrow> length r \<le> length s"
  by (induction b x c s rule: leading_fraction.induct) (auto split: option.splits if_splits)

lemma duration_component_length:
  assumes "duration_component s = Some (v, r)"
  shows "length r < length s"
proof -
  obtain x s1 where s1: "leading_int 0 s = Some (x, s1)"
    using assms by (auto simp: duration_component_def split: if_splits option.splits)
  define dot where "dot = (s1 \<noteq> [] \<and> hd s1 = CHR ''.'')"
  obtain f c s2 where s2: "(if dot then leading_fraction False 0 1 (tl s1) else (0, 1, s1)) = (f, c, s2)"
    using prod_cases3 by blast
  have u: "takeWhile (\<lambda>c. \<not> unit_end c) s2 \<noteq> []" and r: "r = dropWhile (\<lambda>c. \<not> unit_end c) s2"
    using assms s1 s2 unfolding duration_component_def dot_def [symmetric]
    by (auto simp: dot_def [symmetric] Let_def split: if_splits option.splits)
  have "length s2 \<le> length s1"
    using s2 leading_fraction_length [of False 0 1 "tl s1" f c s2] by (auto split: if_splits)
  moreover have "length (takeWhile (\<lambda>c. \<not> unit_end c) s2) + length r = length s2"
    unfolding r by (metis length_append takeWhile_dropWhile_id)
  ultimately show ?thesis
    using u leading_int_length [OF s1] by (cases "takeWhile (\<lambda>c. \<not> unit_end c) s2") auto
qed

function duration_loop :: "int \<Rightarrow> string \<Rightarrow> int option" where
  "duration_loop d s =
     (if s = [] then Some d
      else case duration_component s of
        None \<Rightarrow> None
      | Some (v, r) \<Rightarrow>
          if 2 ^ 63 < (d + v) mod 2 ^ 64 then None else duration_loop ((d + v) mod 2 ^ 64) r)"
  by pat_completeness auto
termination
  by (relation "measure (\<lambda>(d, s). length s)") (auto dest: duration_component_length)

declare duration_loop.simps [simp del]

definition ParseDuration :: "string \<Rightarrow> duration option" where
  "ParseDuration s =
     (let neg = (s \<noteq> [] \<and> hd s = CHR ''-'');
          body = (if s \<noteq> [] \<and> (hd s = CHR ''-'' \<or> hd s = CHR ''+'') then tl s else s)
      in if body = ''0'' then Some 0
         else if body = [] then None
         else case duration_loop 0 body of
           None \<Rightarrow> None
         | Some d \<Rightarrow>
             if neg then Some (int64 (- d))
             else if 2 ^ 63 - 1 < d then None
             else Some d)"

lemma ParseDuration_1m: "ParseDuration ''1m'' = Some 60000000000"
  by code_simp

lemma ParseDuration_mixed: "ParseDuration ''-1h1s'' = Some (- 3601000000000)"
  by code_simp

lemma ParseDuration_empty: "ParseDuration [] = None"
  by code_simp

end
