(* ===== verification/Interceptor.thy ===== *)
theory Interceptor
  imports Intercept_Types Intercept_Store History Chain_Fees Go_Duration
begin

text \<open>
  The htlc interceptor (\<^verbatim>\<open>interceptor/intercept_handler.go\<close>): it recognises registered payments,
  wakes up the destination, opens a channel for the first part of a payment, waits for the
  channel and forwards the parts with their share of the opening fee taken off. The interfaces it
  is built from are records of state-passing functions, as in the source; the clock, sleeping and
  the e-mail that announces an opened channel are fields too. A call started with \<^verbatim>\<open>go\<close> is run at
  once and its result ignored. The waiting loop may run forever, so results are options.
\<close>

section \<open>The interceptor and its dependencies\<close>

record 'w Interceptor =
  i_nodeid :: bytes
  i_client :: "'w Client"
  i_config :: NodeConfig
  i_store :: "'w InterceptStore"
  i_historyStore :: "'w HistoryStore"
  i_openingService :: "'w OpeningService"
  i_feeEstimator :: "'w FeeEstimator"
  i_feeStrategy :: FeeStrategy
  i_Notify :: "string \<Rightarrow> string \<Rightarrow> 'w \<Rightarrow> (error + bool) \<times> 'w"
  i_now :: "'w clock"
  i_sleep :: "duration \<Rightarrow> 'w \<Rightarrow> 'w"
  i_email :: "bytes \<Rightarrow> int \<Rightarrow> bytes \<Rightarrow> int \<Rightarrow> outpoint \<Rightarrow> string option \<Rightarrow> 'w \<Rightarrow> 'w"

definition NewInterceptHandler ::
  "'w Client \<Rightarrow> NodeConfig \<Rightarrow> 'w InterceptStore \<Rightarrow> 'w HistoryStore \<Rightarrow> 'w OpeningService \<Rightarrow>
     'w FeeEstimator \<Rightarrow> FeeStrategy \<Rightarrow> (string \<Rightarrow> string \<Rightarrow> 'w \<Rightarrow> (error + bool) \<times> 'w) \<Rightarrow> 'w clock \<Rightarrow>
     (duration \<Rightarrow> 'w \<Rightarrow> 'w) \<Rightarrow>
     (bytes \<Rightarrow> int \<Rightarrow> bytes \<Rightarrow> int \<Rightarrow> outpoint \<Rightarrow> string option \<Rightarrow> 'w \<Rightarrow> 'w) \<Rightarrow> 'w Interceptor" where
  "NewInterceptHandler client config store historyStore openingService feeEstimator feeStrategy
     notify now sleep email = \<lparr>
       i_nodeid = hex_decode_prefix (NodePubkey config),
       i_client = client,
       i_config = config,
       i_store = store,
       i_historyStore = historyStore,
       i_openingService = openingService,
       i_feeEstimator = feeEstimator,
       i_feeStrategy = feeStrategy,
       i_Notify = notify,
       i_now = now,
       i_sleep = sleep,
       i_email = email\<rparr>"

text \<open>A nil byte slice behaves as an empty one.\<close>

definition bytes_of :: "bytes option \<Rightarrow> bytes" where
  "bytes_of b = (case b of None \<Rightarrow> [] | Some bs \<Rightarrow> bs)"

section \<open>notifyAndWait\<close>

text \<open>The deadline for the peer to come online; one minute if none is configured.\<close>

definition notification_timeout :: "'w Interceptor \<Rightarrow> duration" where
  "notification_timeout i =
     (case ParseDuration (NotificationTimeout (i_config i)) of
        None \<Rightarrow> 60 * second
      | Some d \<Rightarrow> d)"

definition notifyAndWait ::
  "'w Interceptor \<Rightarrow> string \<Rightarrow> bytes \<Rightarrow> bool \<Rightarrow> 'w \<Rightarrow> (InterceptResult option \<times> 'w) option" where
  "notifyAndWait i reqPaymentHashStr nextHop isRegistered w =
     (case i_Notify i (hex_encode nextHop) reqPaymentHashStr w of
        (Inl err, w1) \<Rightarrow> Some (Some resume_result, w1)
      | (Inr False, w1) \<Rightarrow> Some (Some resume_result, w1)
      | (Inr True, w1) \<Rightarrow>
          (case i_now i w1 of
             (t, w2) \<Rightarrow>
               let timeout = t + notification_timeout i in
               (case WaitOnline (i_client i) nextHop timeout w2 of
                  None \<Rightarrow> None
                | Some (Some err, w3) \<Rightarrow> Some (Some resume_result, w3)
                | Some (None, w3) \<Rightarrow>
                    if \<not> isRegistered
                    then (case WaitChannelActive (i_client i) nextHop timeout w3 of
                            None \<Rightarrow> None
                          | Some (Some err, w4) \<Rightarrow> Some (Some resume_result, w4)
                          | Some (None, w4) \<Rightarrow> Some (None, w4))
                    else Some (None, w3))))"

section \<open>openChannel\<close>

definition channel_capacity :: "NodeConfig \<Rightarrow> int \<Rightarrow> int" where
  "channel_capacity cfg incomingAmountMsat =
     (let capacity = int64 (go_div incomingAmountMsat 1000 + AdditionalChannelCapacity cfg)
      in if capacity = PublicChannelAmount cfg then int64 (capacity + 1) else capacity)"

definition open_request_of ::
  "NodeConfig \<Rightarrow> bytes \<Rightarrow> int \<Rightarrow> FeeEstimation \<Rightarrow> OpenChannelRequest" where
  "open_request_of cfg destination capacity fee = \<lparr>
     oc_Destination = destination,
     oc_CapacitySat = uint64_of capacity,
     oc_MinConfs = MinConfs cfg,
     oc_FeeSatPerVByte = SatPerVByte fee,
     oc_TargetConf = TargetConf fee,
     oc_RoutingPolicy = Some \<lparr>Ppm = fl_uint32 (fl_mul (FeeRate cfg) (Float 1000000 0)),
       BaseMsat = BaseFeeMsat cfg\<rparr>\<rparr>"

text \<open>An error of \<^verbatim>\<open>SetFundingTx\<close> is returned although the channel is being opened.\<close>

definition openChannel ::
  "'w Interceptor \<Rightarrow> bytes \<Rightarrow> bytes \<Rightarrow> int \<Rightarrow> string option \<Rightarrow> 'w \<Rightarrow> (error + outpoint) \<times> 'w" where
  "openChannel i paymentHash destination incomingAmountMsat tag w =
     (let cfg = i_config i; capacity = channel_capacity cfg incomingAmountMsat in
      case channel_open_fee (i_feeEstimator i) (i_feeStrategy i) (ConfigTargetConf cfg) w of
        (fee, w1) \<Rightarrow>
          (case OpenChannel (i_client i) (open_request_of cfg destination capacity fee) w1 of
             (Inl err, w2) \<Rightarrow> (Inl err, w2)
           | (Inr channelPoint, w2) \<Rightarrow>
               (let w3 = i_email i paymentHash incomingAmountMsat destination capacity channelPoint tag w2
                in case SetFundingTx (i_store i) paymentHash channelPoint w3 of
                     (Some err, w4) \<Rightarrow> (Inl err, w4)
                   | (None, w4) \<Rightarrow> (Inr channelPoint, w4))))"

section \<open>Intercept\<close>

definition default_params :: "NodeConfig \<Rightarrow> time \<Rightarrow> OpeningFeeParams" where
  "default_params cfg t = \<lparr>
     MinFeeMsat = uint64_of (ChannelMinimumFeeMsat cfg),
     Proportional = word_of_int (int64 (ChannelFeePermyriad cfg * 100)),
     ValidUntil = time_format (t + 24 * 3600 * second),
     MinLifetime = ucast (MaxInactiveDuration cfg div 600),
     MaxClientToSelfDelay = 10000,
     Promise = []\<rparr>"

text \<open>The fee params of a payment; those of the node's configuration if it was registered without.\<close>

definition payment_params ::
  "'w Interceptor \<Rightarrow> PaymentInfoResult \<Rightarrow> 'w \<Rightarrow> OpeningFeeParams \<times> 'w" where
  "payment_params i info w =
     (case pi_params info of
        None \<Rightarrow> (case i_now i w of (t, w') \<Rightarrow> (default_params (i_config i) t, w'))
      | Some p \<Rightarrow> (p, w))"

text \<open>
  The block for a payment without a channel: a failed check is the htlc's result (\<open>Inl\<close>), otherwise
  the channel that was opened.
\<close>

definition open_for_payment ::
  "'w Interceptor \<Rightarrow> InterceptRequest \<Rightarrow> PaymentInfoResult \<Rightarrow> 'w \<Rightarrow>
     (InterceptResult + outpoint) outcome \<times> 'w" where
  "open_for_payment i req info w =
     (let failure = fail_result FAILURE_TEMPORARY_CHANNEL_FAILURE;
          cfg = i_config i;
          open = (\<lambda>w. case openChannel i (req_PaymentHash req) (bytes_of (pi_destination info))
                            (pi_incomingAmountMsat info) (pi_tag info) w of
                        (Inl err, w') \<Rightarrow> (Ret (Inl failure), w')
                      | (Inr cp, w') \<Rightarrow> (Ret (Inr cp), w'))
      in case payment_params i info w of
           (params, w1) \<Rightarrow>
             if uint (req_IncomingExpiry req) - uint (req_OutgoingExpiry req) < uint (TimeLockDelta cfg)
             then (Ret (Inl failure), w1)
             else (case time_parse (ValidUntil params) of
                     None \<Rightarrow> (Ret (Inl failure), w1)
                   | Some validUntil \<Rightarrow>
                       (case i_now i w1 of
                          (t, w2) \<Rightarrow>
                            if t > validUntil
                            then (case os_IsCurrentChainFeeCheaper (i_openingService i)
                                         (pi_token info) params w2 of
                                    (Panic m, w3) \<Rightarrow> (Panic m, w3)
                                  | (Ret False, w3) \<Rightarrow> (Ret (Inl failure), w3)
                                  | (Ret True, w3) \<Rightarrow> open w3)
                            else open w2)))"

text \<open>
  The forwarded amount: the htlc's share of the outgoing amount, with \<^verbatim>\<open>big.Int\<close> division (Euclidean)
  and its conversion to \<^verbatim>\<open>int64\<close>.
\<close>

definition big_div :: "int \<Rightarrow> int \<Rightarrow> int" where
  "big_div x y = (if 0 < y then x div y else - (x div (- y)))"

definition forward_amount :: "int \<Rightarrow> u64 \<Rightarrow> int \<Rightarrow> int" where
  "forward_amount outgoing htlcAmount incoming =
     int64 (big_div (outgoing * int64_of htlcAmount) incoming)"

text \<open>The channel is there: record it, and answer with the new onion.\<close>

definition channel_ready ::
  "'w Interceptor \<Rightarrow> InterceptRequest \<Rightarrow> PaymentInfoResult \<Rightarrow> outpoint \<Rightarrow> int \<Rightarrow> GetChannelResult \<Rightarrow>
     ShortChannelID \<Rightarrow> 'w \<Rightarrow> InterceptResult outcome \<times> 'w" where
  "channel_ready i req info cp amt chanResult scid w =
     (let destination = bytes_of (pi_destination info) in
      case i_now i w of
        (t1, w1) \<Rightarrow>
          (case UpdateChannels (i_historyStore i) [Some \<lparr>
                  cu_NodeID = i_nodeid i,
                  cu_PeerId = destination,
                  cu_AliasScid = gc_AliasScid chanResult,
                  cu_ConfirmedScid = gc_ConfirmedScid chanResult,
                  cu_ChannelPoint = Some cp,
                  cu_LastUpdate = t1\<rparr>] w1 of
             (Panic m, w2) \<Rightarrow> (Panic m, w2)
           | (Ret _, w2) \<Rightarrow>
               (case i_now i w2 of
                  (t2, w3) \<Rightarrow>
                    (case AddOpenChannelHtlc (i_historyStore i) \<lparr>
                            och_NodeId = i_nodeid i,
                            och_PeerId = destination,
                            och_ChannelPoint = cp,
                            och_OriginalAmountMsat = req_OutgoingAmountMsat req,
                            och_ForwardAmountMsat = uint64_of amt,
                            och_IncomingAmountMsat = req_IncomingAmountMsat req,
                            och_ForwardTime = t2\<rparr> w3 of
                       (_, w4) \<Rightarrow>
                         (Ret \<lparr>
                            Action = INTERCEPT_RESUME_WITH_ONION,
                            FailureCode = 0,
                            Destination = pi_destination info,
                            AmountMsat = uint64_of amt,
                            FeeMsat = None,
                            TotalAmountMsat = uint64_of (pi_outgoingAmountMsat info),
                            ChannelPoint = Some cp,
                            Scid = scid,
                            PaymentSecret = pi_paymentSecret info,
                            UseLegacyOnionBlob =
                              pi_token info \<in> set (LegacyOnionTokens (i_config i))\<rparr>, w4)))))"

definition ready_scid :: "GetChannelResult \<Rightarrow> ShortChannelID option" where
  "ready_scid r =
     (case gc_ConfirmedScid r of None \<Rightarrow> gc_AliasScid r | Some scid \<Rightarrow> Some scid)"

text \<open>
  The loop that waits for the channel. A channel with neither a confirmed nor an alias id is polled
  again without looking at the deadline.
\<close>

partial_function (option) wait_channel ::
  "'w Interceptor \<Rightarrow> InterceptRequest \<Rightarrow> PaymentInfoResult \<Rightarrow> outpoint \<Rightarrow> int \<Rightarrow> time \<Rightarrow> 'w \<Rightarrow>
     (InterceptResult outcome \<times> 'w) option" where
  "wait_channel i req info cp amt deadline w =
     (case GetChannel (i_client i) (bytes_of (pi_destination info)) cp w of
        (Inr chanResult, w1) \<Rightarrow>
          (case ready_scid chanResult of
             None \<Rightarrow> wait_channel i req info cp amt deadline (i_sleep i second w1)
           | Some scid \<Rightarrow> Some (channel_ready i req info cp amt chanResult scid w1))
      | (Inl err, w1) \<Rightarrow>
          (case i_now i w1 of
             (t, w2) \<Rightarrow>
               if t > deadline
               then Some (Ret (fail_result FAILURE_TEMPORARY_CHANNEL_FAILURE), w2)
               else wait_channel i req info cp amt deadline (i_sleep i second w2)))"

definition forward_registered ::
  "'w Interceptor \<Rightarrow> InterceptRequest \<Rightarrow> PaymentInfoResult \<Rightarrow> 'w \<Rightarrow>
     (InterceptResult outcome \<times> 'w) option" where
  "forward_registered i req info w =
     (case (case pi_channelPoint info of
              Some cp \<Rightarrow> (Ret (Inr cp), w)
            | None \<Rightarrow> open_for_payment i req info w) of
        (Panic m, w1) \<Rightarrow> Some (Panic m, w1)
      | (Ret (Inl res), w1) \<Rightarrow> Some (Ret res, w1)
      | (Ret (Inr cp), w1) \<Rightarrow>
          if pi_incomingAmountMsat info = 0 then Some (Panic ''division by zero'', w1)
          else let amt = forward_amount (pi_outgoingAmountMsat info) (req_OutgoingAmountMsat req)
                           (pi_incomingAmountMsat info)
               in case i_now i w1 of
                    (t, w2) \<Rightarrow> wait_channel i req info cp amt (t + 60 * second) w2)"

text \<open>
  From the payment's registration to the peer being online. The error of \<^verbatim>\<open>GetPeerId\<close> is dropped in
  the source, so that an error means no known next hop; the result of \<^verbatim>\<open>notifyAndWait\<close> is not used.
\<close>

definition handle_payment ::
  "'w Interceptor \<Rightarrow> InterceptRequest \<Rightarrow> PaymentInfoResult \<Rightarrow> 'w \<Rightarrow>
     (InterceptResult outcome \<times> 'w) option" where
  "handle_payment i req info w =
     (let isRegistered = (pi_paymentSecret info \<noteq> None);
          isProbe = (isRegistered \<and> bytes_of (pi_paymentHash info) \<noteq> req_PaymentHash req);
          destination = bytes_of (pi_destination info);
          hashStr = hex_encode (req_PaymentHash req)
      in case GetPeerId (i_client i) (req_Scid req) w of
           (peer, w1) \<Rightarrow>
             (let hop = (case peer of Inl err \<Rightarrow> None | Inr p \<Rightarrow> p)
              in if isRegistered \<and> hop \<noteq> None \<and> bytes_of hop \<noteq> destination
                 then Some (Ret resume_result, w1)
                 else if hop = None \<and> \<not> isRegistered
                 then Some (Ret resume_result, w1)
                 else let nextHop = (if hop = None then destination else bytes_of hop)
                       in case IsConnected (i_client i) nextHop w1 of
                            (Inl err, w2) \<Rightarrow>
                              Some (Ret (fail_result FAILURE_TEMPORARY_CHANNEL_FAILURE), w2)
                          | (Inr isConnected, w2) \<Rightarrow>
                              if isProbe \<and> \<not> isConnected
                              then Some (Ret resume_result, w2)
                              else if isProbe \<and> pi_channelPoint info = None
                              then Some (Ret (fail_result FAILURE_INCORRECT_OR_UNKNOWN_PAYMENT_DETAILS), w2)
                              else (case (if isConnected
                                          then Some (snd (i_Notify i (hex_encode nextHop) hashStr w2))
                                          else map_option snd
                                                 (notifyAndWait i hashStr nextHop isRegistered w2)) of
                                      None \<Rightarrow> None
                                    | Some w3 \<Rightarrow>
                                        if \<not> isRegistered then Some (Ret resume_result, w3)
                                        else forward_registered i req info w3)))"

text \<open>The function that \<^verbatim>\<open>Intercept\<close> runs under the payment hash's singleflight key.\<close>

definition intercept_payment :: "'w Interceptor \<Rightarrow> 'w InterceptHandler" where
  "intercept_payment i req w =
     (case PaymentInfo (i_store i) (req_PaymentHash req) w of
        (Panic m, w1) \<Rightarrow> Some (Panic m, w1)
      | (Ret (Inl err), w1) \<Rightarrow> Some (Ret (fail_result FAILURE_TEMPORARY_NODE_FAILURE), w1)
      | (Ret (Inr info), w1) \<Rightarrow> handle_payment i req info w1)"

section \<open>The waiting loop\<close>

text \<open>The loop with a bound on its rounds; it returns when some bound is enough.\<close>

fun wait_rounds ::
  "nat \<Rightarrow> 'w Interceptor \<Rightarrow> InterceptRequest \<Rightarrow> PaymentInfoResult \<Rightarrow> outpoint \<Rightarrow> int \<Rightarrow> time \<Rightarrow> 'w \<Rightarrow>
     (InterceptResult outcome \<times> 'w) option" where
  "wait_rounds 0 i req info cp amt deadline w = None"
| "wait_rounds (Suc n) i req info cp amt deadline w =
     (case GetChannel (i_client i) (bytes_of (pi_destination info)) cp w of
        (Inr chanResult, w1) \<Rightarrow>
          (case ready_scid chanResult of
             None \<Rightarrow> wait_rounds n i req info cp amt deadline (i_sleep i second w1)
           | Some scid \<Rightarrow> Some (channel_ready i req info cp amt chanResult scid w1))
      | (Inl err, w1) \<Rightarrow>
          (case i_now i w1 of
             (t, w2) \<Rightarrow>
               if t > deadline
               then Some (Ret (fail_result FAILURE_TEMPORARY_CHANNEL_FAILURE), w2)
               else wait_rounds n i req info cp amt deadline (i_sleep i second w2)))"

lemma wait_rounds_sound:
  "wait_rounds n i req info cp amt deadline w = Some r \<Longrightarrow>
     wait_channel i req info cp amt deadline w = Some r"
proof (induction n arbitrary: w)
  case (Suc n)
  then show ?case
    by (subst wait_channel.simps) (auto split: prod.splits sum.splits option.splits if_splits)
qed simp

lemma wait_rounds_complete:
  assumes "wait_channel i req info cp amt deadline w = Some r"
  shows "\<exists>n. wait_rounds n i req info cp amt deadline w = Some r"
proof (rule wait_channel.raw_induct [where P = "\<lambda>i req info cp amt deadline w r.
    \<exists>n. wait_rounds n i req info cp amt deadline w = Some r", OF _ assms])
  fix f :: "'a Interceptor \<Rightarrow> InterceptRequest \<Rightarrow> PaymentInfoResult \<Rightarrow> outpoint \<Rightarrow> int \<Rightarrow> time \<Rightarrow> 'a \<Rightarrow>
     (InterceptResult outcome \<times> 'a) option"
    and i req info cp amt deadline w r
  assume IH: "\<And>i req info cp amt deadline w r. f i req info cp amt deadline w = Some r \<Longrightarrow>
      \<exists>n. wait_rounds n i req info cp amt deadline w = Some r"
    and eq: "(case GetChannel (i_client i) (bytes_of (pi_destination info)) cp w of
        (Inr chanResult, w1) \<Rightarrow>
          (case ready_scid chanResult of
             None \<Rightarrow> f i req info cp amt deadline (i_sleep i second w1)
           | Some scid \<Rightarrow> Some (channel_ready i req info cp amt chanResult scid w1))
      | (Inl err, w1) \<Rightarrow>
          (case i_now i w1 of
             (t, w2) \<Rightarrow>
               if t > deadline
               then Some (Ret (fail_result FAILURE_TEMPORARY_CHANNEL_FAILURE), w2)
               else f i req info cp amt deadline (i_sleep i second w2))) = Some r"
  obtain g w1 where g: "GetChannel (i_client i) (bytes_of (pi_destination info)) cp w = (g, w1)"
    by fastforce
  obtain t w2 where t: "i_now i w1 = (t, w2)" by fastforce
  have again: "\<exists>n. wait_rounds n i req info cp amt deadline w = Some r"
    if "f i req info cp amt deadline w3 = Some r"
      and "\<And>k. wait_rounds (Suc k) i req info cp amt deadline w =
        wait_rounds k i req info cp amt deadline w3" for w3
    using IH [OF that(1)] that(2) by metis
  show "\<exists>n. wait_rounds n i req info cp amt deadline w = Some r"
  proof (cases g)
    case (Inl err)
    show ?thesis
    proof (cases "deadline < t")
      case True
      with eq g t Inl have "wait_rounds (Suc 0) i req info cp amt deadline w = Some r" by simp
      then show ?thesis by blast
    next
      case False
      with eq g t Inl show ?thesis by (intro again [of "i_sleep i second w2"]) simp_all
    qed
  next
    case (Inr c)
    show ?thesis
    proof (cases "ready_scid c")
      case None
      with eq g Inr show ?thesis by (intro again [of "i_sleep i second w1"]) simp_all
    next
      case (Some scid)
      with eq g Inr have "wait_rounds (Suc 0) i req info cp amt deadline w = Some r" by simp
      then show ?thesis by blast
    qed
  qed
qed

lemma wait_channel_iff_rounds:
  "wait_channel i req info cp amt deadline w = Some r \<longleftrightarrow>
     (\<exists>n. wait_rounds n i req info cp amt deadline w = Some r)"
  using wait_rounds_sound wait_rounds_complete by metis

end
