(* ===== verification/Deployment.thy ===== *)
theory Deployment
  imports Interceptor Notifications
begin

text \<open>
  A deployed interceptor: the services and the PostgreSQL stores of the program put together as in
  \<^verbatim>\<open>cmd/lspd/run.go\<close>, over one world that holds their tables, the clock, and a simulated
  lightning node behind the client interface. Tables that are kept apart do not disturb each other.
\<close>

section \<open>Tables kept apart\<close>

definition apart :: "('w, 's) cell \<Rightarrow> ('w, 't) cell \<Rightarrow> bool" where
  "apart a b \<longleftrightarrow> (\<forall>s w. cell_get a (cell_put b s w) = cell_get a w)"

lemma apart_fst_snd: "cell_laws c \<Longrightarrow> apart (cell_fst c) (cell_snd c)"
  by (simp add: apart_def cell_fst_def cell_snd_def cell_laws_def)

lemma apart_fst: "apart a b \<Longrightarrow> apart a (cell_fst b)"
  by (simp add: apart_def cell_fst_def)

lemma apart_snd: "apart a b \<Longrightarrow> apart a (cell_snd b)"
  by (simp add: apart_def cell_snd_def)

locale other_table = database table pool now
  for table :: "('w, 's) cell" and pool :: "'w pool" and now :: "'w clock" +
  fixes other :: "('w, 't) cell"
  assumes apart: "apart table other"
begin

lemma put_other [simp]: "cell_get table (cell_put other s w) = cell_get table w"
  using apart by (simp add: apart_def)

lemma exec_other: "cell_get table (snd (exec pool other f w)) = cell_get table w"
  by (auto simp: exec_def pool_step split: prod.split option.split)

lemma query_other: "cell_get table (snd (query pool other f w)) = cell_get table w"
  by (auto simp: query_def pool_step split: prod.split option.split)

end

locale history_apart = other_table table pool now other
  for table :: "('w, 's) cell" and pool :: "'w pool" and now :: "'w clock"
    and other :: "('w, history_tables) cell"
begin

lemma UpdateChannels_other:
  "cell_get table (snd (UpdateChannels (PostgresHistoryStore pool other) us w)) = cell_get table w"
proof -
  have tx: "run_tx pool ls w1 = (e, w2) \<Longrightarrow> cell_get table w2 = cell_get table w1" for ls w1 e w2
    by (rule run_tx_table)
  show ?thesis
    by (auto simp: PostgresHistoryStore_def pg_UpdateChannels_def Let_def dest!: tx
        split: prod.split option.split outcome.split)
qed

lemma AddOpenChannelHtlc_other:
  "cell_get table (snd (AddOpenChannelHtlc (PostgresHistoryStore pool other) h w)) = cell_get table w"
  by (simp add: PostgresHistoryStore_def pg_AddOpenChannelHtlc_def exec_other)

end

locale opening_apart = other_table table pool now other
  for table :: "('w, 's) cell" and pool :: "'w pool" and now :: "'w clock"
    and other :: "('w, new_channel_params_row list) cell"
begin

lemma IsCurrentChainFeeCheaper_other:
  "cell_get table (snd (IsCurrentChainFeeCheaper (PostgresOpeningStore pool other) token params w)) =
     cell_get table w"
  by (auto simp: IsCurrentChainFeeCheaper_def PostgresOpeningStore_def query_def pool_step
      split: prod.split option.split sum.split)

end

text \<open>The notification service uses the subscriptions, its map of recent notifications and HTTP.\<close>

locale notify_apart = subs: other_table table pool now subs + recent: other_table table pool now recent
  for table :: "('w, 's) cell" and pool :: "'w pool" and now :: "'w clock"
    and subs :: "('w, subscription_row list) cell" and recent :: "('w, string \<rightharpoonup> time) cell" +
  fixes post :: "string \<Rightarrow> string \<Rightarrow> 'w \<Rightarrow> (error + int) \<times> 'w"
  assumes post_other: "cell_get table (snd (post url body w)) = cell_get table w"
begin

abbreviation service :: "'w NotificationService" where
  "service \<equiv> \<lparr>recentNotifications = recent, ns_store = PostgresNotificationsStore pool now subs,
     ns_now = now, http_Post = post\<rparr>"

lemma notifyOnce_other: "cell_get table (snd (notifyOnce service body url w)) = cell_get table w"
  using post_other [of url body w] by (auto simp: notifyOnce_def split: prod.split sum.split)

lemma notify_all_other:
  "cell_get table (snd (notify_all service body urls n w)) = cell_get table w"
proof (induction urls arbitrary: n w)
  case (Cons url urls)
  then show ?case using notifyOnce_other [of body url w] by (auto split: prod.split)
qed simp

lemma recently_notified_other:
  "cell_get table (snd (recently_notified service ident w)) = cell_get table w"
  by (auto simp: recently_notified_def subs.now_step split: option.split prod.split)

lemma GetRegistrations_other:
  "cell_get table (snd (GetRegistrations (PostgresNotificationsStore pool now subs) pk w)) =
     cell_get table w"
  by (auto simp: PostgresNotificationsStore_def query_def subs.pool_step
      split: prod.split option.split sum.split)

lemma Notify_other: "cell_get table (snd (Notify service pk h w)) = cell_get table w"
proof -
  obtain b w1 where b: "recently_notified service (paymentIdentifier pk h) w = (b, w1)" by fastforce
  obtain g w2 where g: "GetRegistrations (PostgresNotificationsStore pool now subs) pk w1 = (g, w2)"
    by fastforce
  obtain n w3 where n: "notify_all service (payment_received_payload h) (projr g) False w2 = (n, w3)"
    by fastforce
  obtain t w4 where t: "now w3 = (t, w4)" by fastforce
  have "cell_get table w1 = cell_get table w" "cell_get table w2 = cell_get table w1"
    "cell_get table w3 = cell_get table w2" "cell_get table w4 = cell_get table w3"
    using recently_notified_other [of "paymentIdentifier pk h" w] GetRegistrations_other [of pk w1]
      notify_all_other [of "payment_received_payload h" "projr g" False w2] subs.now_step [OF t]
    by (simp_all add: b g n)
  with b g n t show ?thesis
    by (cases g) (auto simp: Notify_def Let_def recent.put_other split: bool.split)
qed

end

section \<open>A simulated node\<close>

record sim_node =
  sn_online :: "bytes list"
  sn_channels :: "(bytes \<times> outpoint) list"

definition sim_client :: "('w, sim_node) cell \<Rightarrow> 'w Client" where
  "sim_client c = unreachable_client\<lparr>
     IsConnected := (\<lambda>peer w. (Inr (peer \<in> set (sn_online (cell_get c w))), w)),
     OpenChannel := (\<lambda>r w.
       let n = cell_get c w;
           cp = \<lparr>op_hash = replicate 32 0, op_index = word_of_nat (length (sn_channels n))\<rparr>
       in (Inr cp, cell_put c (n\<lparr>sn_channels := (oc_Destination r, cp) # sn_channels n\<rparr>) w)),
     GetChannel := (\<lambda>peer cp w.
       if (peer, cp) \<in> set (sn_channels (cell_get c w))
       then (Inr \<lparr>gc_AliasScid = None, gc_ConfirmedScid = Some (ucast (op_index cp)),
               gc_HtlcMinimumMsat = 0\<rparr>, w)
       else (Inl (Error ''no channel''), w)),
     GetPeerId := (\<lambda>scid w. (Inr None, w))\<rparr>"

section \<open>The deployed interceptor\<close>

type_synonym lsp_tables =
  "payment_row list \<times> history_tables \<times> new_channel_params_row list \<times> subscription_row list \<times>
     (string \<rightharpoonup> time) \<times> sim_node"

type_synonym lsp_world = "lsp_tables std_world"

definition payments_cell :: "(lsp_world, payment_row list) cell" where
  "payments_cell = cell_fst std_table"

definition history_cell :: "(lsp_world, history_tables) cell" where
  "history_cell = cell_fst (cell_snd std_table)"

definition params_cell :: "(lsp_world, new_channel_params_row list) cell" where
  "params_cell = cell_fst (cell_snd (cell_snd std_table))"

definition subs_cell :: "(lsp_world, subscription_row list) cell" where
  "subs_cell = cell_fst (cell_snd (cell_snd (cell_snd std_table)))"

definition recent_cell :: "(lsp_world, string \<rightharpoonup> time) cell" where
  "recent_cell = cell_fst (cell_snd (cell_snd (cell_snd (cell_snd std_table))))"

definition node_cell :: "(lsp_world, sim_node) cell" where
  "node_cell = cell_snd (cell_snd (cell_snd (cell_snd (cell_snd std_table))))"

definition lsp_post :: "string \<Rightarrow> string \<Rightarrow> lsp_world \<Rightarrow> (error + int) \<times> lsp_world" where
  "lsp_post url body w = (Inr 200, w)"

definition lsp_sleep :: "duration \<Rightarrow> lsp_world \<Rightarrow> lsp_world" where
  "lsp_sleep d w = w\<lparr>sw_time := sw_time w + d\<rparr>"

definition deployed :: "NodeConfig \<Rightarrow> lsp_world Interceptor" where
  "deployed cfg = NewInterceptHandler (sim_client node_cell) cfg
     (PostgresInterceptStore std_libs std_pool payments_cell)
     (PostgresHistoryStore std_pool history_cell)
     (NewOpeningService std_libs std_now (PostgresOpeningStore std_pool params_cell))
     (DefaultFeeEstimator_EstimateFeeRate (ConfigTargetConf cfg)) FeeStrategyFastest
     (Notify \<lparr>recentNotifications = recent_cell,
        ns_store = PostgresNotificationsStore std_pool std_now subs_cell,
        ns_now = std_now, http_Post = lsp_post\<rparr>)
     std_now lsp_sleep (\<lambda>_ _ _ _ _ _ w. w)"

lemma payments_apart_rest: "apart payments_cell (cell_snd std_table)"
  unfolding payments_cell_def by (intro apart_fst_snd) (rule std.cell_laws_axioms)

interpretation lsp_payments: payments_db payments_cell std_pool std_now std_libs
  unfolding payments_cell_def by unfold_locales (simp add: libs_okD)

interpretation lsp_history: history_apart payments_cell std_pool std_now history_cell
  by unfold_locales (simp add: history_cell_def apart_fst payments_apart_rest)

interpretation lsp_opening: opening_apart payments_cell std_pool std_now params_cell
  by unfold_locales (simp add: params_cell_def apart_fst apart_snd payments_apart_rest)

interpretation lsp_notify: notify_apart payments_cell std_pool std_now subs_cell recent_cell lsp_post
  by unfold_locales (simp_all add: subs_cell_def recent_cell_def lsp_post_def apart_fst apart_snd
      payments_apart_rest)

interpretation lsp_node: other_table payments_cell std_pool std_now node_cell
  by unfold_locales (simp add: node_cell_def apart_snd payments_apart_rest)

lemma sim_client_simps [simp]:
  "GetPeerId (sim_client c) scid w = (Inr None, w)"
  "IsConnected (sim_client c) peer w = (Inr (peer \<in> set (sn_online (cell_get c w))), w)"
  "GetChannel (sim_client c) peer cp w =
     (if (peer, cp) \<in> set (sn_channels (cell_get c w))
      then (Inr \<lparr>gc_AliasScid = None, gc_ConfirmedScid = Some (ucast (op_index cp)),
              gc_HtlcMinimumMsat = 0\<rparr>, w)
      else (Inl (Error ''no channel''), w))"
  "WaitOnline (sim_client c) peer t w = Some (Some (Error ''unavailable''), w)"
  "WaitChannelActive (sim_client c) peer t w = Some (Some (Error ''unavailable''), w)"
  by (simp_all add: sim_client_def unreachable_client_def)

lemma deployed_simps [simp]:
  "i_client (deployed cfg) = sim_client node_cell"
  "i_config (deployed cfg) = cfg"
  "i_store (deployed cfg) = PostgresInterceptStore std_libs std_pool payments_cell"
  "i_historyStore (deployed cfg) = PostgresHistoryStore std_pool history_cell"
  "os_IsCurrentChainFeeCheaper (i_openingService (deployed cfg)) =
     IsCurrentChainFeeCheaper (PostgresOpeningStore std_pool params_cell)"
  "i_feeEstimator (deployed cfg) = DefaultFeeEstimator_EstimateFeeRate (ConfigTargetConf cfg)"
  "i_feeStrategy (deployed cfg) = FeeStrategyFastest"
  "i_Notify (deployed cfg) = Notify lsp_notify.service"
  "i_now (deployed cfg) = std_now"
  "i_sleep (deployed cfg) = lsp_sleep"
  "i_email (deployed cfg) h a d c cp tag w = w"
  by (simp_all add: deployed_def NewInterceptHandler_def NewOpeningService_def)

section \<open>A sample payment\<close>

text \<open>
  A registered payment, the world before and after its channel is opened, and an htlc for it. The
  argument of the worlds is the time.
\<close>

definition sample_offer :: OpeningFeeParams where
  "sample_offer =
     (let u = unsigned_offer 0 (3600 * second) sample_params
      in u\<lparr>Promise := projr (createPromise std_libs [3] u)\<rparr>)"

definition sample_row :: payment_row where
  "sample_row = new_payment_row ''tok'' sample_offer [2] [3] [4] 5000000 3000000 []"

definition sample_info :: PaymentInfoResult where
  "sample_info = new_payment ''tok'' sample_offer [2] [3] [4] 5000000 3000000 []"

definition sample_outpoint :: outpoint where
  "sample_outpoint = \<lparr>op_hash = replicate 32 0, op_index = 0\<rparr>"

definition world_with :: "payment_row list \<Rightarrow> sim_node \<Rightarrow> time \<Rightarrow> lsp_world" where
  "world_with rows node t = \<lparr>sw_time = t, sw_fates = [],
     sw_table = (rows, \<lparr>tbl_channels = [], tbl_forwards = [], tbl_offsets = [], tbl_htlcs = []\<rparr>,
       [], [], (\<lambda>_. None), node)\<rparr>"

definition sample_world :: "time \<Rightarrow> lsp_world" where
  "sample_world = world_with [sample_row] \<lparr>sn_online = [[2]], sn_channels = []\<rparr>"

definition funded_world :: "time \<Rightarrow> lsp_world" where
  "funded_world = world_with
     [sample_row\<lparr>py_funding_tx_id := Some (op_hash sample_outpoint), py_funding_tx_outnum := Some 0\<rparr>]
     \<lparr>sn_online = [[2]], sn_channels = [([2], sample_outpoint)]\<rparr>"

definition sample_request :: InterceptRequest where
  "sample_request = \<lparr>req_Identifier = ''htlc'', req_Scid = 5, req_PaymentHash = [3],
     req_IncomingAmountMsat = 5001000, req_OutgoingAmountMsat = 5000000, req_IncomingExpiry = 1144,
     req_OutgoingExpiry = 1000\<rparr>"

definition sample_answer :: InterceptResult where
  "sample_answer = \<lparr>Action = INTERCEPT_RESUME_WITH_ONION, FailureCode = 0, Destination = Some [2],
     AmountMsat = 3000000, FeeMsat = None, TotalAmountMsat = 3000000,
     ChannelPoint = Some sample_outpoint, Scid = 0, PaymentSecret = Some [4],
     UseLegacyOnionBlob = False\<rparr>"

lemmas cell_defs = payments_cell_def history_cell_def params_cell_def subs_cell_def recent_cell_def
  node_cell_def cell_fst_def cell_snd_def std_table_def

lemma sample_offer_valid: "time_parse (ValidUntil sample_offer) = Some (3600 * second)"
proof -
  have "0 \<le> year_of (3600 * second) \<and> year_of (3600 * second) \<le> 9999" by code_simp
  from time_parse_time_format [OF this] show ?thesis
    by (simp add: sample_offer_def unsigned_offer_def Let_def second_def millisecond_def)
qed

lemma std_now_world [simp]: "std_now (world_with rows node t) = (t, world_with rows node (t + 1))"
  by (simp add: std_now_def world_with_def)

lemma node_world [simp]: "cell_get node_cell (world_with rows node t) = node"
  by (simp add: world_with_def cell_defs)

lemma payments_world [simp]: "cell_get payments_cell (world_with rows node t) = rows"
  by (simp add: world_with_def cell_defs)

lemma std_pool_world [simp]: "std_pool (world_with rows node t) = (None, world_with rows node t)"
  by (simp add: world_with_def std_pool_def)

lemma Notify_world [simp]: "snd (Notify lsp_notify.service pk h (world_with rows node t)) =
    world_with rows node t"
  by (simp add: Notify_def recently_notified_def PostgresNotificationsStore_def query_def urls_of_def
      Let_def split: sum.split option.split)
    (simp add: world_with_def cell_defs)

lemma sample_PaymentInfo:
  "pg_PaymentInfo std_libs std_pool payments_cell [3] (sample_world t) =
     (Ret (Inr sample_info), sample_world t)"
proof -
  have "py_payment_hash sample_row = [3]" by (simp add: sample_row_def new_payment_row_def)
  then show ?thesis
    by (simp add: pg_PaymentInfo_def query_def select_payment_def sample_world_def)
      (simp add: sample_row_def sample_info_def new_payment_row_info)
qed

lemma sample_openChannel:
  "openChannel (deployed cfg) [3] [2] amt tag (sample_world t) =
     (Inr sample_outpoint, funded_world t)"
proof -
  have "py_payment_hash sample_row = [3]" by (simp add: sample_row_def new_payment_row_def)
  then show ?thesis
    by (simp add: openChannel_def channel_open_fee_def DefaultFeeEstimator_EstimateFeeRate_def
        sim_client_def PostgresInterceptStore_def pg_SetFundingTx_def exec_def open_request_of_def
        sample_world_def sample_outpoint_def Let_def)
      (simp add: funded_world_def sample_outpoint_def world_with_def cell_defs std_pool_def)
qed

lemma sample_open_for_payment:
  assumes "t \<le> 3600 * second"
  shows "open_for_payment (deployed sample_config) sample_request sample_info (sample_world t) =
     (Ret (Inr sample_outpoint), funded_world (t + 1))"
proof -
  have "uint (TimeLockDelta sample_config) = 144" "uint (req_IncomingExpiry sample_request) = 1144"
    "uint (req_OutgoingExpiry sample_request) = 1000" "req_PaymentHash sample_request = [3]"
    "pi_destination sample_info = Some [2]" "pi_params sample_info = Some sample_offer"
    by (simp_all add: sample_config_def sample_request_def sample_info_def new_payment_def)
  then show ?thesis
    using sample_openChannel [of sample_config _ _ "t + 1"] assms
    by (simp add: open_for_payment_def payment_params_def sample_offer_valid bytes_of_def Let_def
        sample_world_def)
qed

lemma UpdateChannels_returns:
  "UpdateChannels (PostgresHistoryStore std_pool history_cell)
     [Some \<lparr>cu_NodeID = n, cu_PeerId = p, cu_AliasScid = a, cu_ConfirmedScid = c,
        cu_ChannelPoint = Some cp, cu_LastUpdate = t\<rparr>] w \<noteq> (Panic m, w')"
  by (auto simp: PostgresHistoryStore_def pg_UpdateChannels_def chan_update_values_def
      split: prod.splits option.splits if_splits)

lemma sample_intercept:
  assumes "t \<le> 3600 * second"
  shows "\<exists>w'. intercept_payment (deployed sample_config) sample_request (sample_world t) =
     Some (Ret sample_answer, w')"
proof -
  let ?i = "deployed sample_config"
  have info: "pi_paymentSecret sample_info = Some [4]" "pi_destination sample_info = Some [2]"
    "pi_paymentHash sample_info = Some [3]" "pi_channelPoint sample_info = None"
    "pi_incomingAmountMsat sample_info = 5000000" "pi_outgoingAmountMsat sample_info = 3000000"
    "req_PaymentHash sample_request = [3]" "req_OutgoingAmountMsat sample_request = 5000000"
    "pi_token sample_info = ''tok''" "LegacyOnionTokens sample_config = []"
    by (simp_all add: sample_info_def new_payment_def sample_request_def sample_config_def)
  let ?ch = "\<lparr>gc_AliasScid = None, gc_ConfirmedScid = Some 0, gc_HtlcMinimumMsat = 0\<rparr>"
  have amt: "forward_amount 3000000 5000000 5000000 = 3000000"
    by code_simp
  have "intercept_payment ?i sample_request (sample_world t) =
      forward_registered ?i sample_request sample_info (sample_world t)"
    using sample_PaymentInfo [of t]
    by (simp add: intercept_payment_def PostgresInterceptStore_def handle_payment_def info
        bytes_of_def) (simp add: sample_world_def)
  also have "\<dots> = wait_channel ?i sample_request sample_info sample_outpoint 3000000
      (t + 1 + 60 * second) (funded_world (2 + t))"
    by (simp add: forward_registered_def sample_open_for_payment [OF assms] info amt funded_world_def)
  also have "\<dots> = Some (channel_ready ?i sample_request sample_info sample_outpoint 3000000 ?ch 0
      (funded_world (2 + t)))"
    by (subst wait_channel.simps)
      (simp add: funded_world_def info bytes_of_def ready_scid_def sample_outpoint_def)
  also have "\<exists>w'. \<dots> = Some (Ret sample_answer, w')"
    by (auto simp: channel_ready_def sample_answer_def info uint64_of_def UpdateChannels_returns
        Let_def split: prod.split outcome.split)
  finally show ?thesis .
qed

end
