(* ===== verification/Interceptor_Safety.thy ===== *)
theory Interceptor_Safety
  imports Deployment
begin

text \<open>
  When the interceptor opens a channel, and what it answers. That a call does not open a channel is
  stated as independence: replacing the client's \<^verbatim>\<open>OpenChannel\<close> by any other function does not
  change what the call does.
\<close>

section \<open>Calls that do not depend on OpenChannel\<close>

definition with_OpenChannel ::
  "(OpenChannelRequest \<Rightarrow> 'w \<Rightarrow> (error + outpoint) \<times> 'w) \<Rightarrow> 'w Interceptor \<Rightarrow> 'w Interceptor" where
  "with_OpenChannel f i = i\<lparr>i_client := (i_client i)\<lparr>OpenChannel := f\<rparr>\<rparr>"

definition opens_channel :: "'w Interceptor \<Rightarrow> InterceptRequest \<Rightarrow> 'w \<Rightarrow> bool" where
  "opens_channel i req w \<longleftrightarrow>
     (\<exists>f. intercept_payment (with_OpenChannel f i) req w \<noteq> intercept_payment i req w)"

lemma bytes_of_simps [simp]: "bytes_of None = []" "bytes_of (Some b) = b"
  by (simp_all add: bytes_of_def)

lemma with_OpenChannel_simps [simp]:
  "i_nodeid (with_OpenChannel f i) = i_nodeid i"
  "i_config (with_OpenChannel f i) = i_config i"
  "i_store (with_OpenChannel f i) = i_store i"
  "i_historyStore (with_OpenChannel f i) = i_historyStore i"
  "i_openingService (with_OpenChannel f i) = i_openingService i"
  "i_Notify (with_OpenChannel f i) = i_Notify i"
  "i_now (with_OpenChannel f i) = i_now i"
  "i_sleep (with_OpenChannel f i) = i_sleep i"
  "GetPeerId (i_client (with_OpenChannel f i)) = GetPeerId (i_client i)"
  "IsConnected (i_client (with_OpenChannel f i)) = IsConnected (i_client i)"
  "GetChannel (i_client (with_OpenChannel f i)) = GetChannel (i_client i)"
  "WaitOnline (i_client (with_OpenChannel f i)) = WaitOnline (i_client i)"
  "WaitChannelActive (i_client (with_OpenChannel f i)) = WaitChannelActive (i_client i)"
  by (simp_all add: with_OpenChannel_def)

lemma channel_ready_indep [simp]:
  "channel_ready (with_OpenChannel f i) = channel_ready i"
  by (intro ext) (simp add: channel_ready_def Let_def split: prod.split outcome.split)

lemma wait_rounds_indep:
  "wait_rounds n (with_OpenChannel f i) req info cp amt deadline w =
     wait_rounds n i req info cp amt deadline w"
  by (induction n arbitrary: w) (auto split: prod.split sum.split option.split)

lemma wait_channel_indep [simp]:
  "wait_channel (with_OpenChannel f i) req info cp amt deadline w =
     wait_channel i req info cp amt deadline w"
proof -
  have "wait_channel (with_OpenChannel f i) req info cp amt deadline w = Some r \<longleftrightarrow>
      wait_channel i req info cp amt deadline w = Some r" for r
    by (simp add: wait_channel_iff_rounds wait_rounds_indep)
  then show ?thesis by (metis option.exhaust)
qed

lemma notifyAndWait_indep [simp]:
  "notifyAndWait (with_OpenChannel f i) h hop reg w = notifyAndWait i h hop reg w"
  by (auto simp: notifyAndWait_def notification_timeout_def Let_def
      split: prod.split sum.split bool.split option.split)

lemma payment_params_indep [simp]:
  "payment_params (with_OpenChannel f i) info w = payment_params i info w"
  by (simp add: payment_params_def split: option.split)

section \<open>The conditions for opening a channel\<close>

text \<open>The next hop of an htlc, and the world after its peer was woken up or found connected.\<close>

definition next_hop ::
  "'w Interceptor \<Rightarrow> InterceptRequest \<Rightarrow> 'w \<Rightarrow> bytes option" where
  "next_hop i req w = (case fst (GetPeerId (i_client i) (req_Scid req) w) of Inl _ \<Rightarrow> None | Inr p \<Rightarrow> p)"

definition peer_awake ::
  "'w Interceptor \<Rightarrow> InterceptRequest \<Rightarrow> PaymentInfoResult \<Rightarrow> 'w \<Rightarrow> 'w option" where
  "peer_awake i req info w =
     (let w1 = snd (GetPeerId (i_client i) (req_Scid req) w);
          hop = (case next_hop i req w of None \<Rightarrow> bytes_of (pi_destination info) | Some p \<Rightarrow> p)
      in case IsConnected (i_client i) hop w1 of
           (Inl err, w2) \<Rightarrow> None
         | (Inr True, w2) \<Rightarrow> Some (snd (i_Notify i (hex_encode hop) (hex_encode (req_PaymentHash req)) w2))
         | (Inr False, w2) \<Rightarrow> map_option snd (notifyAndWait i (hex_encode (req_PaymentHash req)) hop
                                (pi_paymentSecret info \<noteq> None) w2))"

text \<open>
  The payment is registered and the htlc is no probe of it, the htlc leads to its destination, and
  there is no channel for it yet.
\<close>

definition needs_channel ::
  "'w Interceptor \<Rightarrow> InterceptRequest \<Rightarrow> PaymentInfoResult \<Rightarrow> 'w \<Rightarrow> bool" where
  "needs_channel i req info w \<longleftrightarrow>
     pi_paymentSecret info \<noteq> None \<and> bytes_of (pi_paymentHash info) = req_PaymentHash req \<and>
     (\<forall>p. next_hop i req w = Some p \<longrightarrow> p = bytes_of (pi_destination info)) \<and>
     pi_channelPoint info = None"

text \<open>
  There is time enough to claim the htlc, and the fee params are valid, or expired while a fee that
  is not higher is offered now.
\<close>

definition terms_acceptable ::
  "'w Interceptor \<Rightarrow> InterceptRequest \<Rightarrow> PaymentInfoResult \<Rightarrow> 'w \<Rightarrow> bool" where
  "terms_acceptable i req info w \<longleftrightarrow>
     uint (TimeLockDelta (i_config i)) \<le>
       uint (req_IncomingExpiry req) - uint (req_OutgoingExpiry req) \<and>
     (case payment_params i info w of
        (params, w1) \<Rightarrow> (\<exists>validUntil. time_parse (ValidUntil params) = Some validUntil \<and>
          (fst (i_now i w1) \<le> validUntil \<or>
           fst (os_IsCurrentChainFeeCheaper (i_openingService i) (pi_token info) params
                  (snd (i_now i w1))) = Ret True)))"

lemma open_for_payment_indep:
  assumes "\<not> terms_acceptable i req info w"
  shows "open_for_payment (with_OpenChannel f i) req info w = open_for_payment i req info w"
proof -
  obtain params w1 where p: "payment_params i info w = (params, w1)" by fastforce
  obtain t w2 where t: "i_now i w1 = (t, w2)" by fastforce
  obtain c w3 where c: "os_IsCurrentChainFeeCheaper (i_openingService i) (pi_token info) params w2 =
      (c, w3)" by fastforce
  show ?thesis
    using assms
    by (auto simp: open_for_payment_def terms_acceptable_def Let_def p t c
        split: option.split outcome.split bool.split)
qed

lemma forward_registered_indep:
  assumes "pi_channelPoint info \<noteq> None \<or> \<not> terms_acceptable i req info w"
  shows "forward_registered (with_OpenChannel f i) req info w = forward_registered i req info w"
  using assms open_for_payment_indep [of i req info w f]
  by (auto simp: forward_registered_def Let_def
      split: option.split prod.split outcome.split sum.split)

text \<open>The branches of \<open>handle_payment\<close> before a registered payment is forwarded.\<close>

lemma handle_payment_eq:
  assumes "IsConnected (i_client i)
      (case next_hop i req w of None \<Rightarrow> bytes_of (pi_destination info) | Some p \<Rightarrow> p)
      (snd (GetPeerId (i_client i) (req_Scid req) w)) = (Inr conn, w2)"
    and "pi_paymentSecret info \<noteq> None"
    and "\<And>p. next_hop i req w = Some p \<Longrightarrow> p = bytes_of (pi_destination info)"
    and "bytes_of (pi_paymentHash info) = req_PaymentHash req \<or> conn \<and> pi_channelPoint info \<noteq> None"
  shows "handle_payment i req info w =
    (case peer_awake i req info w of None \<Rightarrow> None | Some w3 \<Rightarrow> forward_registered i req info w3)"
proof -
  obtain peer w1 where peer: "GetPeerId (i_client i) (req_Scid req) w = (peer, w1)" by fastforce
  show ?thesis
    using assms
    by (cases peer; cases "next_hop i req w"; cases conn)
      (auto simp: handle_payment_def peer_awake_def next_hop_def peer bytes_of_def comp_def
        split: option.split)
qed

text \<open>What happens otherwise does not depend on the rest of the call.\<close>

definition forwards ::
  "'w Interceptor \<Rightarrow> InterceptRequest \<Rightarrow> PaymentInfoResult \<Rightarrow> 'w \<Rightarrow> bool" where
  "forwards i req info w \<longleftrightarrow>
     pi_paymentSecret info \<noteq> None \<and>
     (\<forall>p. next_hop i req w = Some p \<longrightarrow> p = bytes_of (pi_destination info)) \<and>
     (case fst (IsConnected (i_client i)
          (case next_hop i req w of None \<Rightarrow> bytes_of (pi_destination info) | Some p \<Rightarrow> p)
          (snd (GetPeerId (i_client i) (req_Scid req) w))) of
        Inl _ \<Rightarrow> False
      | Inr conn \<Rightarrow> bytes_of (pi_paymentHash info) = req_PaymentHash req \<or>
          conn \<and> pi_channelPoint info \<noteq> None)"

lemma handle_payment_forwards:
  assumes "forwards i req info w"
  shows "handle_payment i req info w =
    (case peer_awake i req info w of None \<Rightarrow> None | Some w3 \<Rightarrow> forward_registered i req info w3)"
proof -
  obtain conn w2 where conn: "IsConnected (i_client i)
      (case next_hop i req w of None \<Rightarrow> bytes_of (pi_destination info) | Some p \<Rightarrow> p)
      (snd (GetPeerId (i_client i) (req_Scid req) w)) = (conn, w2)" by fastforce
  with assms obtain c where "conn = Inr c" by (cases conn) (auto simp: forwards_def)
  with assms conn show ?thesis
    by (intro handle_payment_eq [of _ _ _ _ c w2]) (auto simp: forwards_def)
qed

lemma handle_payment_unregistered:
  assumes "pi_paymentSecret info = None"
  shows "handle_payment i req info w =
    (case next_hop i req w of
       None \<Rightarrow> Some (Ret resume_result, snd (GetPeerId (i_client i) (req_Scid req) w))
     | Some p \<Rightarrow>
         (case IsConnected (i_client i) p (snd (GetPeerId (i_client i) (req_Scid req) w)) of
            (Inl err, w2) \<Rightarrow> Some (Ret (fail_result FAILURE_TEMPORARY_CHANNEL_FAILURE), w2)
          | (Inr c, w2) \<Rightarrow> map_option (\<lambda>w3. (Ret resume_result, w3)) (peer_awake i req info w)))"
proof -
  obtain peer w1 where peer: "GetPeerId (i_client i) (req_Scid req) w = (peer, w1)" by fastforce
  have hop: "(case peer of Inl err \<Rightarrow> None | Inr p \<Rightarrow> p) = next_hop i req w"
    by (simp add: next_hop_def peer)
  show ?thesis
  proof (cases "next_hop i req w")
    case None
    then show ?thesis using assms by (simp add: handle_payment_def peer hop)
  next
    case (Some p)
    obtain conn w2 where conn: "IsConnected (i_client i) p w1 = (conn, w2)" by fastforce
    show ?thesis
      using assms Some conn
      by (cases conn) (auto simp: handle_payment_def peer_awake_def peer hop bytes_of_def
          split: option.split bool.split)
  qed
qed

lemma handle_payment_stops:
  assumes "pi_paymentSecret info \<noteq> None" and "\<not> forwards i req info w"
  shows "\<exists>res w'. (\<forall>f. handle_payment (with_OpenChannel f i) req info w = Some (Ret res, w')) \<and>
      handle_payment i req info w = Some (Ret res, w') \<and>
      (let w1 = snd (GetPeerId (i_client i) (req_Scid req) w)
       in w' = w1 \<or> (\<exists>p. w' = snd (IsConnected (i_client i) p w1))) \<and>
      (res = resume_result \<or> res = fail_result FAILURE_TEMPORARY_CHANNEL_FAILURE \<or>
       res = fail_result FAILURE_INCORRECT_OR_UNKNOWN_PAYMENT_DETAILS \<and>
         bytes_of (pi_paymentHash info) \<noteq> req_PaymentHash req \<and> pi_channelPoint info = None)"
proof -
  obtain secret where secret: "pi_paymentSecret info = Some secret" using assms(1) by blast
  obtain peer w1 where peer: "GetPeerId (i_client i) (req_Scid req) w = (peer, w1)" by fastforce
  have hop: "(case peer of Inl err \<Rightarrow> None | Inr p \<Rightarrow> p) = next_hop i req w"
    by (simp add: next_hop_def peer)
  show ?thesis
  proof (cases "\<forall>p. next_hop i req w = Some p \<longrightarrow> p = bytes_of (pi_destination info)")
    case False
    then obtain p where p: "peer = Inr (Some p)" "p \<noteq> bytes_of (pi_destination info)"
      unfolding hop [symmetric] by (auto split: sum.splits)
    with secret show ?thesis by (auto simp: handle_payment_def peer)
  next
    case True
    let ?dest = "bytes_of (pi_destination info)"
    obtain conn w2 where conn: "IsConnected (i_client i) ?dest w1 = (conn, w2)" by fastforce
    have dest: "(case next_hop i req w of None \<Rightarrow> ?dest | Some p \<Rightarrow> p) = ?dest"
      using True by (auto split: option.split)
    have w2: "\<exists>p. w2 = snd (IsConnected (i_client i) p w1)"
      by (rule exI [of _ ?dest]) (simp add: conn)
    show ?thesis
    proof (cases conn)
      case (Inl e)
      with secret True w2 show ?thesis
        by (cases "next_hop i req w") (auto simp: handle_payment_def peer hop conn Let_def)
    next
      case (Inr c)
      with assms True have "bytes_of (pi_paymentHash info) \<noteq> req_PaymentHash req"
        "\<not> c \<or> pi_channelPoint info = None"
        by (auto simp: forwards_def dest conn peer)
      with secret True Inr w2 show ?thesis
        by (cases "next_hop i req w") (auto simp: handle_payment_def peer hop conn Let_def)
    qed
  qed
qed

lemma handle_payment_indep:
  assumes "handle_payment (with_OpenChannel f i) req info w \<noteq> handle_payment i req info w"
  shows "needs_channel i req info w \<and>
    (\<exists>w2. peer_awake i req info w = Some w2 \<and> terms_acceptable i req info w2)"
proof -
  have hop: "next_hop (with_OpenChannel f i) req w = next_hop i req w"
    by (simp add: next_hop_def)
  have awake: "peer_awake (with_OpenChannel f i) req info w = peer_awake i req info w"
    by (simp add: peer_awake_def hop Let_def split: prod.split sum.split bool.split)
  have secret: "pi_paymentSecret info \<noteq> None"
  proof
    assume "pi_paymentSecret info = None"
    note u = handle_payment_unregistered [OF this]
    from assms show False
      by (simp add: u awake hop split: option.splits prod.splits sum.splits)
  qed
  with assms handle_payment_stops [of info i req w] have fw: "forwards i req info w" by metis
  moreover have "forwards (with_OpenChannel f i) req info w = forwards i req info w"
    by (simp add: forwards_def hop)
  ultimately obtain w2 where "peer_awake i req info w = Some w2"
    "forward_registered (with_OpenChannel f i) req info w2 \<noteq> forward_registered i req info w2"
    using assms by (auto simp: handle_payment_forwards awake split: option.splits)
  moreover from this(2) have "pi_channelPoint info = None" "terms_acceptable i req info w2"
    using forward_registered_indep by metis+
  ultimately show ?thesis
    using secret fw by (auto simp: needs_channel_def forwards_def split: sum.splits)
qed

lemma opens_channel_handled:
  assumes "opens_channel i req w"
  shows "\<exists>info w1 w2. PaymentInfo (i_store i) (req_PaymentHash req) w = (Ret (Inr info), w1) \<and>
    needs_channel i req info w1 \<and> peer_awake i req info w1 = Some w2 \<and>
    terms_acceptable i req info w2"
proof -
  obtain f where f: "intercept_payment (with_OpenChannel f i) req w \<noteq> intercept_payment i req w"
    using assms by (auto simp: opens_channel_def)
  then obtain info w1 where "PaymentInfo (i_store i) (req_PaymentHash req) w = (Ret (Inr info), w1)"
    "handle_payment (with_OpenChannel f i) req info w1 \<noteq> handle_payment i req info w1"
    by (auto simp: intercept_payment_def split: prod.splits outcome.splits sum.splits)
  with handle_payment_indep show ?thesis by metis
qed

text \<open>
  C1: A channel is opened for an intercepted htlc only if the store knows its payment hash as a
  registered payment (not as a probe of one) that has no channel yet, the htlc's next hop is
  unknown or the payment's destination, the cltv delta is enough, and once the peer is awake the
  fee params are still valid or a fee that is not higher is on offer.
\<close>

theorem opens_channel_only_if:
  assumes "opens_channel i req w"
  shows "\<exists>info w1 w2. PaymentInfo (i_store i) (req_PaymentHash req) w = (Ret (Inr info), w1) \<and>
    needs_channel i req info w1 \<and> peer_awake i req info w1 = Some w2 \<and>
    terms_acceptable i req info w2"
  using assms by (rule opens_channel_handled)

lemma sample_opens_channel: "opens_channel (deployed sample_config) sample_request (sample_world 0)"
proof -
  let ?i = "deployed sample_config" and ?f = "\<lambda>_ w. (Inl (Error ''refused''), w)"
  have info: "pi_paymentSecret sample_info = Some [4]" "pi_destination sample_info = Some [2]"
    "pi_paymentHash sample_info = Some [3]" "pi_channelPoint sample_info = None"
    "pi_params sample_info = Some sample_offer" "req_PaymentHash sample_request = [3]"
    "uint (TimeLockDelta sample_config) = 144" "uint (req_IncomingExpiry sample_request) = 1144"
    "uint (req_OutgoingExpiry sample_request) = 1000"
    by (simp_all add: sample_info_def new_payment_def sample_request_def sample_config_def)
  have refused: "openChannel (with_OpenChannel ?f ?i) h d amt tag w = (Inl (Error ''refused''), w)"
    for h d amt tag w
    by (simp add: openChannel_def with_OpenChannel_def channel_open_fee_def
        DefaultFeeEstimator_EstimateFeeRate_def Let_def)
  have "open_for_payment (with_OpenChannel ?f ?i) sample_request sample_info (sample_world 0) =
      (Ret (Inl (fail_result FAILURE_TEMPORARY_CHANNEL_FAILURE)), sample_world 1)"
    by (simp add: open_for_payment_def refused payment_params_def info sample_offer_valid Let_def
        sample_world_def second_def)
  then have "forward_registered (with_OpenChannel ?f ?i) sample_request sample_info (sample_world 0) =
      Some (Ret (fail_result FAILURE_TEMPORARY_CHANNEL_FAILURE), sample_world 1)"
    by (simp add: forward_registered_def info)
  then have "intercept_payment (with_OpenChannel ?f ?i) sample_request (sample_world 0) =
      Some (Ret (fail_result FAILURE_TEMPORARY_CHANNEL_FAILURE), sample_world 1)"
    using sample_PaymentInfo [of 0]
    by (simp add: intercept_payment_def PostgresInterceptStore_def handle_payment_def info)
      (simp add: sample_world_def)
  moreover have "sample_answer \<noteq> fail_result FAILURE_TEMPORARY_CHANNEL_FAILURE"
    by (simp add: sample_answer_def fail_result_def resume_result_def)
  ultimately show ?thesis
    using sample_intercept [of 0] unfolding opens_channel_def by (intro exI [of _ ?f]) (auto simp: second_def)
qed

theorem opens_channel_only_if_witness:
  "opens_channel (deployed sample_config) sample_request (sample_world 0) \<and>
   (\<exists>info w1 w2. needs_channel (deployed sample_config) sample_request info w1 \<and>
      peer_awake (deployed sample_config) sample_request info w1 = Some w2 \<and>
      terms_acceptable (deployed sample_config) sample_request info w2)"
  using opens_channel_only_if [OF sample_opens_channel] sample_opens_channel by blast

section \<open>The answers\<close>

text \<open>The answer that forwards a part of a payment over the payment's channel.\<close>

definition forward_result ::
  "'w Interceptor \<Rightarrow> InterceptRequest \<Rightarrow> PaymentInfoResult \<Rightarrow> outpoint \<Rightarrow> ShortChannelID \<Rightarrow>
     InterceptResult" where
  "forward_result i req info cp scid = \<lparr>
     Action = INTERCEPT_RESUME_WITH_ONION,
     FailureCode = 0,
     Destination = pi_destination info,
     AmountMsat = uint64_of (forward_amount (pi_outgoingAmountMsat info) (req_OutgoingAmountMsat req)
                               (pi_incomingAmountMsat info)),
     FeeMsat = None,
     TotalAmountMsat = uint64_of (pi_outgoingAmountMsat info),
     ChannelPoint = Some cp,
     Scid = scid,
     PaymentSecret = pi_paymentSecret info,
     UseLegacyOnionBlob = pi_token info \<in> set (LegacyOnionTokens (i_config i))\<rparr>"

definition gives_scid :: "'w Interceptor \<Rightarrow> bytes \<Rightarrow> outpoint \<Rightarrow> ShortChannelID \<Rightarrow> bool" where
  "gives_scid i destination cp scid \<longleftrightarrow>
     (\<exists>w ch w'. GetChannel (i_client i) destination cp w = (Inr ch, w') \<and> ready_scid ch = Some scid)"

lemma channel_ready_result:
  "channel_ready i req info cp (forward_amount (pi_outgoingAmountMsat info)
       (req_OutgoingAmountMsat req) (pi_incomingAmountMsat info)) ch scid w = (Ret res, w') \<Longrightarrow>
     res = forward_result i req info cp scid"
  by (auto simp: channel_ready_def forward_result_def Let_def split: prod.splits outcome.splits)

lemma wait_rounds_result:
  assumes "wait_rounds n i req info cp (forward_amount (pi_outgoingAmountMsat info)
       (req_OutgoingAmountMsat req) (pi_incomingAmountMsat info)) deadline w = Some (Ret res, w')"
  shows "res = fail_result FAILURE_TEMPORARY_CHANNEL_FAILURE \<or>
    (\<exists>scid. res = forward_result i req info cp scid \<and>
       gives_scid i (bytes_of (pi_destination info)) cp scid)"
  using assms
proof (induction n arbitrary: w)
  case (Suc n)
  show ?case
  proof (cases "GetChannel (i_client i) (bytes_of (pi_destination info)) cp w")
    case (Pair g w1)
    show ?thesis
    proof (cases g)
      case (Inl e)
      with Pair Suc show ?thesis by (auto split: prod.splits if_splits)
    next
      case (Inr ch)
      show ?thesis
      proof (cases "ready_scid ch")
        case None
        with Pair Inr Suc show ?thesis by simp
      next
        case (Some scid)
        with Pair Inr have "gives_scid i (bytes_of (pi_destination info)) cp scid"
          unfolding gives_scid_def by blast
        moreover from Pair Inr Some Suc.prems have "res = forward_result i req info cp scid"
          by (intro channel_ready_result) simp
        ultimately show ?thesis by blast
      qed
    qed
  qed
qed simp

lemma open_for_payment_fails:
  assumes "open_for_payment i req info w = (Ret (Inl r), w')"
  shows "r = fail_result FAILURE_TEMPORARY_CHANNEL_FAILURE"
proof -
  obtain params w1 where p: "payment_params i info w = (params, w1)" by fastforce
  obtain t w2 where t: "i_now i w1 = (t, w2)" by fastforce
  obtain c w3 where c: "os_IsCurrentChainFeeCheaper (i_openingService i) (pi_token info) params w2 =
      (c, w3)" by fastforce
  show ?thesis
    using assms
    by (simp add: open_for_payment_def Let_def p t c
        split: option.splits outcome.splits bool.splits sum.splits if_splits prod.splits)
qed

lemma forward_registered_result:
  assumes "forward_registered i req info w = Some (Ret res, w')"
  shows "res = fail_result FAILURE_TEMPORARY_CHANNEL_FAILURE \<or>
    (\<exists>cp scid. res = forward_result i req info cp scid \<and>
       gives_scid i (bytes_of (pi_destination info)) cp scid \<and> pi_incomingAmountMsat info \<noteq> 0 \<and>
       (\<forall>c. pi_channelPoint info = Some c \<longrightarrow> cp = c))"
proof -
  define opened where "opened = (case pi_channelPoint info of
    Some cp \<Rightarrow> (Ret (Inr cp), w) | None \<Rightarrow> open_for_payment i req info w)"
  have eq: "(case opened of
        (Panic m, w1) \<Rightarrow> Some (Panic m, w1)
      | (Ret (Inl res), w1) \<Rightarrow> Some (Ret res, w1)
      | (Ret (Inr cp), w1) \<Rightarrow>
          if pi_incomingAmountMsat info = 0 then Some (Panic ''division by zero'', w1)
          else let amt = forward_amount (pi_outgoingAmountMsat info) (req_OutgoingAmountMsat req)
                           (pi_incomingAmountMsat info)
               in case i_now i w1 of
                    (t, w2) \<Rightarrow> wait_channel i req info cp amt (t + 60 * second) w2) =
      Some (Ret res, w')"
    using assms by (simp add: forward_registered_def opened_def)
  from eq consider (failed) w1 where "opened = (Ret (Inl res), w1)"
    | (waits) cp w1 t w2 where "opened = (Ret (Inr cp), w1)" "pi_incomingAmountMsat info \<noteq> 0"
        "wait_channel i req info cp (forward_amount (pi_outgoingAmountMsat info)
           (req_OutgoingAmountMsat req) (pi_incomingAmountMsat info)) (t + 60 * second) w2 =
         Some (Ret res, w')"
    by (auto simp: Let_def split: prod.splits outcome.splits sum.splits if_splits)
  then show ?thesis
  proof cases
    case failed
    then show ?thesis
      by (auto simp: opened_def dest: open_for_payment_fails split: option.splits)
  next
    case waits
    from waits(1) have "\<forall>c. pi_channelPoint info = Some c \<longrightarrow> cp = c"
      by (auto simp: opened_def)
    moreover obtain n where "wait_rounds n i req info cp (forward_amount (pi_outgoingAmountMsat info)
           (req_OutgoingAmountMsat req) (pi_incomingAmountMsat info)) (t + 60 * second) w2 =
         Some (Ret res, w')"
      using waits(3) wait_channel_iff_rounds by metis
    ultimately show ?thesis using wait_rounds_result waits(2) by metis
  qed
qed

lemma plain_actions [simp]:
  "Action resume_result = INTERCEPT_RESUME"
  "Action (fail_result c) = INTERCEPT_FAIL_HTLC_WITH_CODE"
  by (simp_all add: resume_result_def fail_result_def)

text \<open>An htlc that gets a new onion went all the way.\<close>

lemma intercept_forwarded:
  assumes "intercept_payment i req w = Some (Ret res, w')"
    and "Action res = INTERCEPT_RESUME_WITH_ONION"
  shows "\<exists>info w1 w2. PaymentInfo (i_store i) (req_PaymentHash req) w = (Ret (Inr info), w1) \<and>
    pi_paymentSecret info \<noteq> None \<and> peer_awake i req info w1 = Some w2 \<and>
    forward_registered i req info w2 = Some (Ret res, w')"
proof -
  from assms obtain info w1 where
    info: "PaymentInfo (i_store i) (req_PaymentHash req) w = (Ret (Inr info), w1)"
      "handle_payment i req info w1 = Some (Ret res, w')"
    by (auto simp: intercept_payment_def split: prod.splits outcome.splits sum.splits)
  have secret: "pi_paymentSecret info \<noteq> None"
  proof
    assume "pi_paymentSecret info = None"
    note u = handle_payment_unregistered [OF this]
    from info(2) assms(2) show False
      by (auto simp: u split: option.splits prod.splits sum.splits)
  qed
  have "forwards i req info w1"
    using handle_payment_stops [OF secret] info(2) assms(2) by fastforce
  with info(2) obtain w2 where "peer_awake i req info w1 = Some w2"
    "forward_registered i req info w2 = Some (Ret res, w')"
    by (auto simp: handle_payment_forwards split: option.splits)
  with info(1) secret show ?thesis by blast
qed



end
