(* ===== verification/Interceptor_Once.thy ===== *)
theory Interceptor_Once
  imports Interceptor_Safety
begin

text \<open>
  The interceptor over time: at most one channel is opened for a payment, whatever other payments
  are registered and intercepted in between, and the loop that waits for the channel ends. The
  locale \<open>intercept_frame\<close> is what the first needs of the interceptor's dependencies, on top of the
  contract of the payment store: only the store changes the registered payments. The deployed
  interceptor is an instance.
\<close>

section \<open>What the dependencies leave alone\<close>

definition kept ::
  "('w \<Rightarrow> bytes \<rightharpoonup> PaymentInfoResult) \<Rightarrow> ('w \<Rightarrow> bool) \<Rightarrow> 'w \<Rightarrow> 'w \<Rightarrow> bool" where
  "kept reg ok w w' \<longleftrightarrow> (ok w \<longrightarrow> ok w' \<and> reg w' = reg w)"

lemma kept_refl [simp]: "kept reg ok w w" by (simp add: kept_def)

lemma kept_trans: "kept reg ok w w1 \<Longrightarrow> kept reg ok w1 w2 \<Longrightarrow> kept reg ok w w2"
  by (auto simp: kept_def)

locale intercept_frame = intercept_store L "i_store i" reg ok
  for L :: libs and i :: "'w Interceptor" and reg :: "'w \<Rightarrow> bytes \<rightharpoonup> PaymentInfoResult"
    and ok :: "'w \<Rightarrow> bool" +
  assumes GetPeerId_kept: "kept reg ok w (snd (GetPeerId (i_client i) scid w))"
    and IsConnected_kept: "kept reg ok w (snd (IsConnected (i_client i) peer w))"
    and OpenChannel_kept: "kept reg ok w (snd (OpenChannel (i_client i) r w))"
    and OpenChannel_hash: "OpenChannel (i_client i) r w = (Inr cp, w') \<Longrightarrow> length (op_hash cp) = 32"
    and GetChannel_kept: "kept reg ok w (snd (GetChannel (i_client i) peer cp w))"
    and WaitOnline_kept: "WaitOnline (i_client i) peer t w = Some (e, w') \<Longrightarrow> kept reg ok w w'"
    and WaitChannelActive_kept: "WaitChannelActive (i_client i) peer t w = Some (e, w') \<Longrightarrow> kept reg ok w w'"
    and Notify_kept: "kept reg ok w (snd (i_Notify i pk h w))"
    and now_kept: "kept reg ok w (snd (i_now i w))"
    and sleep_kept: "kept reg ok w (i_sleep i d w)"
    and email_kept: "kept reg ok w (i_email i ph amt dest cap cp tag w)"
    and estimate_kept: "kept reg ok w (snd (i_feeEstimator i strategy w))"
    and cheaper_kept: "kept reg ok w (snd (os_IsCurrentChainFeeCheaper (i_openingService i) token params w))"
    and UpdateChannels_kept: "kept reg ok w (snd (UpdateChannels (i_historyStore i) us w))"
    and AddOpenChannelHtlc_kept: "kept reg ok w (snd (AddOpenChannelHtlc (i_historyStore i) htlc w))"
begin

text \<open>The same facts for a call whose result is given as a pair.\<close>

lemma kept_pair: "kept reg ok w (snd r) \<Longrightarrow> r = (x, w') \<Longrightarrow> kept reg ok w w'"
  by simp

lemmas keeps = GetPeerId_kept [THEN kept_pair] IsConnected_kept [THEN kept_pair]
  OpenChannel_kept [THEN kept_pair] GetChannel_kept [THEN kept_pair] now_kept [THEN kept_pair]
  estimate_kept [THEN kept_pair] cheaper_kept [THEN kept_pair] UpdateChannels_kept [THEN kept_pair]
  AddOpenChannelHtlc_kept [THEN kept_pair] Notify_kept [THEN kept_pair]

lemma channel_ready_kept:
  assumes "channel_ready i req info cp amt ch scid w = (r, w')"
  shows "kept reg ok w w'"
  using assms
  by (auto simp: channel_ready_def Let_def dest!: keeps split: prod.splits outcome.splits
      intro: kept_trans)

lemma wait_rounds_kept:
  assumes "wait_rounds n i req info cp amt deadline w = Some (r, w')"
  shows "kept reg ok w w'"
  using assms
proof (induction n arbitrary: w)
  case (Suc n)
  obtain g w1 where g: "GetChannel (i_client i) (bytes_of (pi_destination info)) cp w = (g, w1)"
    by fastforce
  obtain t w2 where t: "i_now i w1 = (t, w2)" by fastforce
  have k: "kept reg ok w w1" "kept reg ok w1 w2" using g t by (blast dest: keeps)+
  have again: "kept reg ok w3 w'" if "wait_rounds n i req info cp amt deadline (i_sleep i second w3) =
      Some (r, w')" for w3
    by (rule kept_trans [OF sleep_kept Suc.IH [OF that]])
  show ?case
    using Suc.prems g t k again
    by (auto split: sum.splits option.splits if_splits intro: kept_trans dest: channel_ready_kept)
qed simp

lemma wait_channel_kept:
  "wait_channel i req info cp amt deadline w = Some (r, w') \<Longrightarrow> kept reg ok w w'"
  using wait_rounds_kept unfolding wait_channel_iff_rounds by blast

lemma notifyAndWait_kept:
  "notifyAndWait i hs hop isReg w = Some (r, w') \<Longrightarrow> kept reg ok w w'"
  by (auto simp: notifyAndWait_def Let_def dest!: keeps WaitOnline_kept WaitChannelActive_kept
      split: prod.splits sum.splits bool.splits option.splits if_splits intro: kept_trans)

lemma payment_params_kept:
  "payment_params i info w = (params, w') \<Longrightarrow> kept reg ok w w'"
  by (auto simp: payment_params_def dest!: keeps split: option.splits prod.splits)

lemma peer_awake_kept:
  assumes "peer_awake i req info w = Some w'"
  shows "kept reg ok w w'"
proof -
  obtain peer w1 where peer: "GetPeerId (i_client i) (req_Scid req) w = (peer, w1)" by fastforce
  let ?hop = "case next_hop i req w of None \<Rightarrow> bytes_of (pi_destination info) | Some p \<Rightarrow> p"
  obtain conn w2 where conn: "IsConnected (i_client i) ?hop w1 = (conn, w2)" by fastforce
  have "kept reg ok w w1" "kept reg ok w1 w2" using peer conn by (blast dest: keeps)+
  moreover have "kept reg ok w2 w'"
    using assms peer conn Notify_kept
    by (auto simp: peer_awake_def Let_def split: sum.splits bool.splits dest: notifyAndWait_kept)
  ultimately show ?thesis by (blast intro: kept_trans)
qed

section \<open>Channels that are recorded\<close>

text \<open>What a call may do to the registered payments: nothing, or record a channel for its own.\<close>

definition may_fund :: "bytes \<Rightarrow> 'w \<Rightarrow> 'w \<Rightarrow> bool" where
  "may_fund h w w' \<longleftrightarrow> ok w' \<and> (reg w' = reg w \<or> (\<exists>cp. reg w' = set_channel_point h cp (reg w)))"

lemma openChannel_reg:
  assumes "ok w" and "openChannel i h d amt tag w = (r, w')"
  shows "ok w' \<and> (reg w' = reg w \<and> (\<exists>e. r = Inl e) \<or>
    (\<exists>cp. r = Inr cp \<and> reg w' = set_channel_point h cp (reg w)))"
proof -
  obtain fee w1 where fee: "channel_open_fee (i_feeEstimator i) (i_feeStrategy i)
      (ConfigTargetConf (i_config i)) w = (fee, w1)" by fastforce
  have w1: "kept reg ok w w1"
    using fee by (auto simp: channel_open_fee_def dest!: keeps split: prod.splits sum.splits)
  obtain oc w2 where oc: "OpenChannel (i_client i) (open_request_of (i_config i) d
      (channel_capacity (i_config i) amt) fee) w1 = (oc, w2)" by fastforce
  then have w2: "kept reg ok w1 w2" by (blast dest: keeps)
  show ?thesis
  proof (cases oc)
    case (Inl e)
    with assms fee oc w1 w2 show ?thesis by (auto simp: openChannel_def Let_def kept_def)
  next
    case (Inr cp)
    let ?w3 = "i_email i h amt d (channel_capacity (i_config i) amt) cp tag w2"
    obtain s w4 where s: "SetFundingTx (i_store i) h cp ?w3 = (s, w4)" by fastforce
    have w3: "ok ?w3" "reg ?w3 = reg w"
      using assms(1) w1 w2 email_kept [of w2 h amt d "channel_capacity (i_config i) amt" cp tag]
      by (auto simp: kept_def)
    have "length (op_hash cp) = 32" using OpenChannel_hash oc Inr by blast
    from set_funding [OF w3(1) this s] w3(2) assms(2) fee oc Inr s show ?thesis
      by (auto simp: openChannel_def Let_def split: option.splits)
  qed
qed

lemma open_for_payment_reg:
  assumes "ok w" and "open_for_payment i req info w = (r, w')"
  shows "ok w' \<and> (reg w' = reg w \<and> (\<forall>cp. r \<noteq> Ret (Inr cp)) \<or>
    (\<exists>cp. r = Ret (Inr cp) \<and> reg w' = set_channel_point (req_PaymentHash req) cp (reg w)))"
proof -
  obtain params w1 where p: "payment_params i info w = (params, w1)" by fastforce
  obtain t w2 where t: "i_now i w1 = (t, w2)" by fastforce
  obtain c w3 where c: "os_IsCurrentChainFeeCheaper (i_openingService i) (pi_token info) params w2 =
      (c, w3)" by fastforce
  have k: "kept reg ok w w1" "kept reg ok w w2" "kept reg ok w w3"
    using p t c by (blast dest: keeps payment_params_kept intro: kept_trans)+
  let ?open = "\<lambda>v. case openChannel i (req_PaymentHash req) (bytes_of (pi_destination info))
      (pi_incomingAmountMsat info) (pi_tag info) v of
        (Inl err, v') \<Rightarrow> (Ret (Inl (fail_result FAILURE_TEMPORARY_CHANNEL_FAILURE)), v')
      | (Inr cp, v') \<Rightarrow> (Ret (Inr cp), v')"
  consider (stopped) "(\<forall>cp. r \<noteq> Ret (Inr cp)) \<and> kept reg ok w w'"
    | (opened) v where "kept reg ok w v" "?open v = (r, w')"
    using assms(2) k
    by (auto simp: open_for_payment_def p t c Let_def
        split: option.splits outcome.splits bool.splits if_splits)
  then show ?thesis
  proof cases
    case stopped
    with assms(1) show ?thesis by (simp add: kept_def)
  next
    case opened
    then have v: "ok v" "reg v = reg w" using assms(1) by (simp_all add: kept_def)
    obtain x v' where "openChannel i (req_PaymentHash req) (bytes_of (pi_destination info))
      (pi_incomingAmountMsat info) (pi_tag info) v = (x, v')" by fastforce
    with openChannel_reg [OF v(1) this] opened(2) v(2) show ?thesis by (cases x) auto
  qed
qed

lemma forward_registered_reg:
  assumes "ok w" and "forward_registered i req info w = Some (r, w')"
  shows "may_fund (req_PaymentHash req) w w' \<and>
    (\<forall>res. r = Ret res \<and> Action res = INTERCEPT_RESUME_WITH_ONION \<and> pi_channelPoint info = None \<longrightarrow>
      (\<exists>cp. reg w' = set_channel_point (req_PaymentHash req) cp (reg w)))"
proof -
  obtain x w1 where x: "(case pi_channelPoint info of Some cp \<Rightarrow> (Ret (Inr cp), w)
    | None \<Rightarrow> open_for_payment i req info w) = (x, w1)" by fastforce
  from assms(1) x have w1: "may_fund (req_PaymentHash req) w w1 \<and>
      (\<forall>cp. x = Ret (Inr cp) \<and> pi_channelPoint info = None \<longrightarrow>
        reg w1 = set_channel_point (req_PaymentHash req) cp (reg w))"
    by (auto simp: may_fund_def dest: open_for_payment_reg split: option.splits)
  consider (stopped) "w' = w1" "\<And>res. r = Ret res \<Longrightarrow> x = Ret (Inl res)"
    | (waits) cp where "x = Ret (Inr cp)" "kept reg ok w1 w'"
    using assms(2) x
    by (auto simp: forward_registered_def Let_def split: outcome.splits sum.splits if_splits prod.splits
        dest!: wait_channel_kept keeps intro: kept_trans)
  then show ?thesis
  proof cases
    case stopped
    have "Action res \<noteq> INTERCEPT_RESUME_WITH_ONION" if "r = Ret res" "pi_channelPoint info = None" for res
      using stopped(2) [OF that(1)] that(2) x
      by (auto dest!: open_for_payment_fails simp: fail_result_def)
    with stopped(1) w1 show ?thesis by auto
  next
    case waits
    with w1 show ?thesis by (auto simp: may_fund_def kept_def)
  qed
qed

lemma connected_kept:
  "kept reg ok w (snd (IsConnected (i_client i) p (snd (GetPeerId (i_client i) scid w))))"
  by (rule kept_trans [OF GetPeerId_kept IsConnected_kept])

lemma handle_payment_kept:
  assumes "\<not> forwards i req info w" and "handle_payment i req info w = Some (r, w')"
  shows "kept reg ok w w'"
proof (cases "pi_paymentSecret info = None")
  case True
  note u = handle_payment_unregistered [OF True]
  have "kept reg ok w v" if "IsConnected (i_client i) p (snd (GetPeerId (i_client i) (req_Scid req) w)) =
      (c, v)" for p c v
    using connected_kept [of w p "req_Scid req"] that by simp
  then show ?thesis
    using assms(2) GetPeerId_kept
    by (auto simp: u dest: peer_awake_kept split: option.splits prod.splits sum.splits)
next
  case False
  from handle_payment_stops [OF this assms(1)] assms(2) GetPeerId_kept connected_kept show ?thesis
    by (auto simp: Let_def)
qed

lemma intercept_payment_reg:
  assumes "ok w" and "intercept_payment i req w = Some (r, w')"
  shows "may_fund (req_PaymentHash req) w w'"
proof -
  obtain x w1 where x: "PaymentInfo (i_store i) (req_PaymentHash req) w = (x, w1)" by fastforce
  have w1: "ok w1" "reg w1 = reg w" using info_keeps [OF assms(1) x] by simp_all
  consider (stopped) "w' = w1" | (handled) info where "x = Ret (Inr info)"
      "handle_payment i req info w1 = Some (r, w')"
    using assms(2) x by (auto simp: intercept_payment_def split: outcome.splits sum.splits)
  then show ?thesis
  proof cases
    case stopped
    with w1 show ?thesis by (simp add: may_fund_def)
  next
    case handled
    show ?thesis
    proof (cases "forwards i req info w1")
      case True
      with handled(2) obtain w2 where w2: "peer_awake i req info w1 = Some w2"
        "forward_registered i req info w2 = Some (r, w')"
        by (auto simp: handle_payment_forwards split: option.splits)
      from peer_awake_kept [OF w2(1)] w1 have "ok w2" "reg w2 = reg w" by (simp_all add: kept_def)
      with forward_registered_reg [OF _ w2(2)] show ?thesis by (simp add: may_fund_def)
    next
      case False
      from handle_payment_kept [OF False handled(2)] w1 show ?thesis
        by (simp add: may_fund_def kept_def)
    qed
  qed
qed

text \<open>
  An htlc of a registered payment that is forwarded leaves the payment with a recorded channel.
\<close>

definition funded :: "bytes \<Rightarrow> 'w \<Rightarrow> bool" where
  "funded h w \<longleftrightarrow> (\<exists>p. reg w h = Some p \<and> pi_channelPoint p \<noteq> None)"

lemma funded_may_fund: "funded h w \<Longrightarrow> may_fund h' w w' \<Longrightarrow> funded h w'"
  by (auto simp: funded_def may_fund_def set_channel_point_def)

lemma forwarded_funded:
  assumes "ok w" and "intercept_payment i req w = Some (Ret res, w')"
    and "Action res = INTERCEPT_RESUME_WITH_ONION"
    and "\<forall>h'. reg w h' \<noteq> None \<longrightarrow> probe_hash L h' \<noteq> req_PaymentHash req"
  shows "ok w' \<and> funded (req_PaymentHash req) w'"
proof -
  let ?h = "req_PaymentHash req"
  have ok': "ok w'" using intercept_payment_reg [OF assms(1,2)] by (simp add: may_fund_def)
  obtain info w1 w2 where info: "PaymentInfo (i_store i) ?h w = (Ret (Inr info), w1)"
    "pi_paymentSecret info \<noteq> None" and w2: "peer_awake i req info w1 = Some w2"
    "forward_registered i req info w2 = Some (Ret res, w')"
    using intercept_forwarded [OF assms(2,3)] by blast
  have w1: "ok w1" "reg w1 = reg w" using info_keeps [OF assms(1) info(1)] by simp_all
  from peer_awake_kept [OF w2(1)] w1 have ok2: "ok w2" "reg w2 = reg w" by (simp_all add: kept_def)
  have "info \<noteq> no_payment" using info(2) by (auto simp: no_payment_def)
  with info_result [OF assms(1) info(1)] assms(4) have p: "reg w ?h = Some info" by auto
  show ?thesis
  proof (cases "pi_channelPoint info")
    case None
    with forward_registered_reg [OF ok2(1) w2(2)] assms(3)
    obtain cp where "reg w' = set_channel_point ?h cp (reg w2)" by blast
    with ok' ok2(2) p show ?thesis by (simp add: funded_def set_channel_point_def)
  next
    case (Some c)
    with p have "funded ?h w" by (simp add: funded_def)
    with funded_may_fund [OF this intercept_payment_reg [OF assms(1,2)]] ok' show ?thesis by simp
  qed
qed

lemma funded_opens_no_channel:
  assumes "ok w" and "funded (req_PaymentHash req) w"
  shows "\<not> opens_channel i req w"
proof
  assume "opens_channel i req w"
  from opens_channel_handled [OF this] obtain info w1 where
    info: "PaymentInfo (i_store i) (req_PaymentHash req) w = (Ret (Inr info), w1)"
    and n: "needs_channel i req info w1" by blast
  then have "info \<noteq> no_payment" by (auto simp: needs_channel_def no_payment_def)
  with info_result [OF assms(1) info] obtain h where h: "reg w h = Some info" by blast
  with reg_complete [OF assms(1) h] n have "h = req_PaymentHash req" by (simp add: needs_channel_def)
  with h n assms(2) show False by (simp add: funded_def needs_channel_def)
qed

end

section \<open>The program as a sequence of steps\<close>

text \<open>
  The steps that touch the payments: an intercepted htlc, and the registration of a payment. Calls
  for one payment hash never overlap, since \<^verbatim>\<open>Intercept\<close> runs under a singleflight key.
\<close>

inductive lsp_step :: "'w Interceptor \<Rightarrow> 'w \<Rightarrow> 'w \<Rightarrow> bool" for i where
  Intercept: "intercept_payment i req w = Some (r, w') \<Longrightarrow> lsp_step i w w'"
| Register: "RegisterPayment (i_store i) token (Some params) (Some d) (Some h) (Some s) inc out tag w =
    (e, w') \<Longrightarrow> lsp_step i w w'"

context intercept_frame
begin

lemma funded_step:
  assumes "lsp_step i w w'" and "ok w" and "funded h w"
  shows "ok w' \<and> funded h w'"
  using assms
proof cases
  case (Intercept req r)
  from intercept_payment_reg [OF assms(2) Intercept] funded_may_fund [OF assms(3)] show ?thesis
    by (auto simp: may_fund_def)
next
  case (Register token params d h' s inc out tag e)
  from register [OF assms(2) Register] assms(3) show ?thesis
    by (auto simp: funded_def split: if_splits)
qed

lemma funded_run:
  assumes "(lsp_step i)\<^sup>*\<^sup>* w w'" and "ok w" and "funded h w"
  shows "ok w' \<and> funded h w'"
  using assms by (induction rule: rtranclp_induct) (auto dest: funded_step)

lemma forwarded_opens_no_channel:
  assumes "ok w" and "intercept_payment i req w = Some (Ret res, w1)"
    and "Action res = INTERCEPT_RESUME_WITH_ONION"
    and "\<forall>h'. reg w h' \<noteq> None \<longrightarrow> probe_hash L h' \<noteq> req_PaymentHash req"
    and "(lsp_step i)\<^sup>*\<^sup>* w1 w2" and "req_PaymentHash req' = req_PaymentHash req"
  shows "\<not> opens_channel i req' w2"
  using funded_run [OF assms(5)] forwarded_funded [OF assms(1-4)] funded_opens_no_channel [of w2 req']
    assms(6) by auto

end

section \<open>The deployed interceptor\<close>

abbreviation lsp_reg :: "lsp_world \<Rightarrow> bytes \<rightharpoonup> PaymentInfoResult" where
  "lsp_reg w \<equiv> payments_of std_libs (cell_get payments_cell w)"

abbreviation lsp_ok :: "lsp_world \<Rightarrow> bool" where
  "lsp_ok w \<equiv> payments_ok std_libs (cell_get payments_cell w)"

lemma payments_kept:
  "cell_get payments_cell w' = cell_get payments_cell w \<Longrightarrow> kept lsp_reg lsp_ok w w'"
  by (simp add: kept_def)

lemma deployed_OpenChannel:
  "OpenChannel (sim_client node_cell) r w = (x, w') \<Longrightarrow>
     kept lsp_reg lsp_ok w w' \<and> (\<forall>cp. x = Inr cp \<longrightarrow> length (op_hash cp) = 32)"
  by (auto simp: sim_client_def Let_def intro!: payments_kept)

lemma sleep_payments [simp]: "cell_get payments_cell (lsp_sleep d w) = cell_get payments_cell w"
  by (simp add: lsp_sleep_def cell_defs)

interpretation lsp: intercept_frame std_libs "deployed cfg" lsp_reg lsp_ok for cfg
proof (rule intercept_frame.intro)
  show "intercept_store std_libs (i_store (deployed cfg)) lsp_reg lsp_ok"
    using lsp_payments.intercept_store_axioms by simp
  show "intercept_frame_axioms (deployed cfg) lsp_reg lsp_ok"
    using deployed_OpenChannel
    by (unfold_locales)
      (auto intro!: payments_kept simp: lsp_notify.Notify_other lsp_opening.IsCurrentChainFeeCheaper_other
        lsp_history.UpdateChannels_other lsp_history.AddOpenChannelHtlc_other
        DefaultFeeEstimator_EstimateFeeRate_def prod_eq_iff)
qed

text \<open>
  C4: Once an htlc of a payment has been forwarded, no htlc with the same payment hash makes the
  interceptor open a channel again, whatever htlcs are intercepted and whatever payments are
  registered in between: at most one channel is opened per payment. (The payment hash must not be
  the probe hash of another registered payment.)
\<close>

theorem one_channel_per_payment:
  assumes "intercept_frame L i reg ok" and "ok w"
    and "intercept_payment i req w = Some (Ret res, w1)"
    and "Action res = INTERCEPT_RESUME_WITH_ONION"
    and "\<forall>h'. reg w h' \<noteq> None \<longrightarrow> probe_hash L h' \<noteq> req_PaymentHash req"
    and "(lsp_step i)\<^sup>*\<^sup>* w1 w2" and "req_PaymentHash req' = req_PaymentHash req"
  shows "\<not> opens_channel i req' w2"
  by (rule intercept_frame.forwarded_opens_no_channel [OF assms])

theorem one_channel_per_payment_witness:
  "opens_channel (deployed sample_config) sample_request (sample_world 0) \<and>
   (\<exists>w1. intercept_payment (deployed sample_config) sample_request (sample_world 0) =
        Some (Ret sample_answer, w1) \<and>
      \<not> opens_channel (deployed sample_config) (sample_request\<lparr>req_Identifier := ''2''\<rparr>) w1)"
proof -
  obtain w1 where w1: "intercept_payment (deployed sample_config) sample_request (sample_world 0) =
      Some (Ret sample_answer, w1)" using sample_intercept [of 0] by (auto simp: second_def)
  have rows: "cell_get payments_cell (sample_world 0) = [sample_row]" by (simp add: sample_world_def)
  have ok: "lsp_ok (sample_world 0)"
    by (simp add: rows payments_ok_def row_decodes_def sample_row_def new_payment_row_info)
  have key: "py_payment_hash sample_row = [3]" by (simp add: sample_row_def new_payment_row_def)
  have probe: "\<forall>h'. lsp_reg (sample_world 0) h' \<noteq> None \<longrightarrow>
      probe_hash std_libs h' \<noteq> req_PaymentHash sample_request"
    by (simp add: rows payments_of_def row_of_def key probe_hash_def std_libs_def string_bytes_def
        sample_request_def)
  have "Action sample_answer = INTERCEPT_RESUME_WITH_ONION" by (simp add: sample_answer_def)
  from one_channel_per_payment [OF lsp.intercept_frame_axioms ok w1 this probe rtranclp.rtrancl_refl,
      of "sample_request\<lparr>req_Identifier := ''2''\<rparr>"] sample_opens_channel w1
  show ?thesis by auto
qed

section \<open>The waiting loop ends\<close>

text \<open>
  \<open>tm\<close> is the time of the world. The clock does not go back, sleeping takes at least as long as
  asked for, and the node never reports a channel without any short channel id. Waiting for a peer or a channel returns.
\<close>

locale passing_time =
  fixes i :: "'w Interceptor" and tm :: "'w \<Rightarrow> time"
  assumes now_time: "i_now i w = (t, w') \<Longrightarrow> tm w \<le> t \<and> t \<le> tm w'"
    and sleep_time: "tm w + d \<le> tm (i_sleep i d w)"
    and GetChannel_time: "tm w \<le> tm (snd (GetChannel (i_client i) peer cp w))"
    and GetChannel_scid: "GetChannel (i_client i) peer cp w = (Inr ch, w') \<Longrightarrow> ready_scid ch \<noteq> None"
    and WaitOnline_returns: "WaitOnline (i_client i) peer t w \<noteq> None"
    and WaitChannelActive_returns: "WaitChannelActive (i_client i) peer t w \<noteq> None"
begin

text \<open>After \<open>n\<close> rounds the clock has passed the deadline if at most \<open>n\<close> seconds were left.\<close>

lemma wait_rounds_end:
  assumes "deadline - tm w < int n * second"
  shows "\<exists>r. wait_rounds (Suc n) i req info cp amt deadline w = Some r"
  using assms
proof (induction n arbitrary: w)
  case 0
  obtain g w1 where g: "GetChannel (i_client i) (bytes_of (pi_destination info)) cp w = (g, w1)"
    by fastforce
  obtain t w2 where t: "i_now i w1 = (t, w2)" by fastforce
  have "deadline < t"
    using 0 now_time [OF t] GetChannel_time [of w "bytes_of (pi_destination info)" cp] g by simp
  with g t GetChannel_scid [of "bytes_of (pi_destination info)" cp w] show ?case
    by (auto split: sum.split)
next
  case (Suc n)
  obtain g w1 where g: "GetChannel (i_client i) (bytes_of (pi_destination info)) cp w = (g, w1)"
    by fastforce
  obtain t w2 where t: "i_now i w1 = (t, w2)" by fastforce
  have "tm w + second \<le> tm (i_sleep i second w2)"
    using now_time [OF t] GetChannel_time [of w "bytes_of (pi_destination info)" cp]
      sleep_time [of w2 second] g by simp
  then have "\<exists>r. wait_rounds (Suc n) i req info cp amt deadline (i_sleep i second w2) = Some r"
    using Suc.prems by (intro Suc.IH) (simp add: algebra_simps)
  then show ?case
    using g t GetChannel_scid [of "bytes_of (pi_destination info)" cp w]
    by (auto simp del: wait_rounds.simps(2) simp: wait_rounds.simps(2) [of "Suc n"] split: sum.split)
qed

lemma wait_channel_returns:
  assumes "i_now i w = (t, w')"
  shows "\<exists>r. wait_channel i req info cp amt (t + 60 * second) w' = Some r"
proof -
  have "t + 60 * second - tm w' < int 61 * second"
    using now_time [OF assms] by (simp add: second_def)
  from wait_rounds_end [OF this, of req info cp amt] wait_rounds_sound show ?thesis by metis
qed

lemma forward_registered_returns: "\<exists>r. forward_registered i req info w = Some r"
  using wait_channel_returns
  by (auto simp: forward_registered_def Let_def split: prod.split outcome.split sum.split)

lemma notifyAndWait_returns: "notifyAndWait i hs hop isReg w \<noteq> None"
  by (auto simp: notifyAndWait_def Let_def WaitOnline_returns WaitChannelActive_returns
      simp del: not_None_eq split: prod.split sum.split bool.split option.split)

lemma peer_awake_returns:
  assumes "IsConnected (i_client i)
      (case next_hop i req w of None \<Rightarrow> bytes_of (pi_destination info) | Some p \<Rightarrow> p)
      (snd (GetPeerId (i_client i) (req_Scid req) w)) = (Inr conn, w2)"
  shows "peer_awake i req info w \<noteq> None"
  using assms notifyAndWait_returns by (cases conn) (simp_all add: peer_awake_def)

lemma handle_payment_returns: "handle_payment i req info w \<noteq> None"
proof -
  let ?hop = "case next_hop i req w of None \<Rightarrow> bytes_of (pi_destination info) | Some p \<Rightarrow> p"
  let ?c = "IsConnected (i_client i) ?hop (snd (GetPeerId (i_client i) (req_Scid req) w))"
  have awake: "peer_awake i req info w \<noteq> None" if "\<And>e. fst ?c \<noteq> Inl e"
    using that peer_awake_returns [of info req w "projr (fst ?c)" "snd ?c"]
    by (cases "fst ?c") (auto simp: prod_eq_iff)
  consider (unregistered) "pi_paymentSecret info = None"
    | (stops) "pi_paymentSecret info \<noteq> None" "\<not> forwards i req info w"
    | (forwards) "forwards i req info w" by blast
  then show ?thesis
  proof cases
    case unregistered
    note u = handle_payment_unregistered [OF this]
    from awake show ?thesis by (auto simp: u split: option.splits prod.splits sum.splits)
  next
    case stops
    from handle_payment_stops [OF this] show ?thesis by auto
  next
    case forwards
    then have "\<And>e. fst ?c \<noteq> Inl e" by (auto simp: forwards_def)
    with awake forward_registered_returns show ?thesis
      by (fastforce simp: handle_payment_forwards [OF forwards])
  qed
qed

lemma intercept_returns: "\<exists>r w'. intercept_payment i req w = Some (r, w')"
  using handle_payment_returns
  by (auto simp: intercept_payment_def split: prod.split outcome.split sum.split)

end

interpretation lsp_time: passing_time "deployed cfg" sw_time for cfg
  by unfold_locales
    (auto simp: std_now_def lsp_sleep_def ready_scid_def split: if_splits)



text \<open>
  The condition on channel ids is needed: when the node keeps reporting the channel with
  neither a confirmed nor an alias id, the loop never ends, whatever its deadline and the clock.
\<close>

lemma wait_channel_stuck:
  assumes "\<forall>w. \<exists>ch w'. GetChannel (i_client i) (bytes_of (pi_destination info)) cp w = (Inr ch, w') \<and>
    ready_scid ch = None"
  shows "wait_channel i req info cp amt deadline w = None"
proof -
  have "wait_rounds n i req info cp amt deadline w = None" for n
  proof (induction n arbitrary: w)
    case (Suc n)
    from assms obtain ch w' where "GetChannel (i_client i) (bytes_of (pi_destination info)) cp w =
      (Inr ch, w')" "ready_scid ch = None" by blast
    with Suc show ?case by simp
  qed simp
  then show ?thesis
    using wait_channel_iff_rounds by (metis not_Some_eq)
qed

lemma wait_channel_stuck_witness:
  "wait_channel ((deployed sample_config)\<lparr>i_client := unreachable_client\<lparr>GetChannel := (\<lambda>_ _ w.
      (Inr \<lparr>gc_AliasScid = None, gc_ConfirmedScid = None, gc_HtlcMinimumMsat = 0\<rparr>, w))\<rparr>\<rparr>)
     sample_request sample_info sample_outpoint 0 0 (sample_world 0) = None"
  by (rule wait_channel_stuck) (simp add: ready_scid_def)

end
