(* ===== verification/Interceptor_Amounts.thy ===== *)
theory Interceptor_Amounts
  imports Interceptor
begin

text \<open>
  The arithmetic of the interceptor: the amount forwarded for an htlc, the total over the parts of
  a payment, and the capacity of an opened channel. Amounts are 64-bit integers in the code; the
  lemmas say where the wrap-around cannot happen.
\<close>

lemma int64_of_eq_uint:
  assumes "uint x < 2 ^ 63"
  shows "int64_of x = uint x"
proof -
  have "- (2 ^ 63) \<le> uint x" by (rule order_trans [of _ 0]) simp_all
  with assms show ?thesis
    unfolding int64_of_def sint_uint by (intro signed_take_bit_int_eq_self) simp_all
qed

lemma uint_uint64_of: "0 \<le> x \<Longrightarrow> x < 2 ^ 64 \<Longrightarrow> uint (uint64_of x) = x"
  by (simp add: uint64_of_def uint_word_of_int)

section \<open>Forwarded amounts\<close>

text \<open>A registration as the channel opener accepts it: positive amounts and a fee that is not negative.\<close>

definition fair_amounts :: "int \<Rightarrow> int \<Rightarrow> bool" where
  "fair_amounts outgoing incoming \<longleftrightarrow> 0 \<le> outgoing \<and> outgoing \<le> incoming \<and> 0 < incoming \<and> in_int64 incoming"

lemma forward_amount_div:
  assumes "fair_amounts out inc" and "uint a \<le> inc"
  shows "forward_amount out a inc = out * uint a div inc"
    and "0 \<le> forward_amount out a inc" and "forward_amount out a inc \<le> uint a"
proof -
  have inc: "0 < inc" "inc < 2 ^ 63" and out: "0 \<le> out" "out \<le> inc"
    using assms(1) by (auto simp: fair_amounts_def in_int64_def)
  have a: "int64_of a = uint a"
    using assms(2) inc(2) by (intro int64_of_eq_uint) simp
  have "out * uint a \<le> inc * uint a"
    using out by (simp add: mult_right_mono)
  then have "out * uint a div inc \<le> inc * uint a div inc"
    using inc(1) by (rule zdiv_mono1)
  then have le: "out * uint a div inc \<le> uint a"
    using inc(1) by simp
  have ge: "0 \<le> out * uint a div inc"
    using out inc(1) by (simp add: pos_imp_zdiv_nonneg_iff)
  have "in_int64 (out * uint a div inc)"
    using le ge assms(2) inc(2) by (simp add: in_int64_def)
  then show eq: "forward_amount out a inc = out * uint a div inc"
    using inc(1) by (simp add: forward_amount_def a big_div_def)
  show "0 \<le> forward_amount out a inc" "forward_amount out a inc \<le> uint a"
    using le ge by (simp_all add: eq)
qed

lemma sum_div_le:
  fixes q :: int
  assumes "0 < q" and "0 \<le> p"
  shows "(\<Sum>a\<leftarrow>as. p * a div q) \<le> p * sum_list as div q"
proof (induction as)
  case (Cons a as)
  have "p * a div q + p * sum_list as div q \<le> (p * a + p * sum_list as) div q"
  proof -
    have "p * a div q * q \<le> p * a" "p * sum_list as div q * q \<le> p * sum_list as"
      using assms(1) by (simp_all add: minus_mod_eq_div_mult [symmetric])
    then have "(p * a div q + p * sum_list as div q) * q \<le> p * a + p * sum_list as"
      by (simp add: distrib_right)
    then show ?thesis using assms(1) by (metis div_mult_self_is_m less_irrefl nonzero_mult_div_cancel_right zdiv_mono1)
  qed
  with Cons.IH show ?case by (simp add: distrib_left)
qed simp



section \<open>Channel capacity\<close>

lemma int64_succ_neq: "int64 (int64 x + 1) \<noteq> int64 x"
proof (cases "int64 x = 2 ^ 63 - 1")
  case True
  then show ?thesis by (simp add: int64_def)
next
  case False
  moreover have "in_int64 (int64 x)" by simp
  ultimately have "in_int64 (int64 x + 1)" by (auto simp: in_int64_def)
  then show ?thesis by simp
qed

text \<open>Even with a wrap-around the capacity differs from the public amount.\<close>

lemma channel_capacity_neq_public: "channel_capacity cfg inc \<noteq> PublicChannelAmount cfg"
  using int64_succ_neq [of "go_div inc 1000 + AdditionalChannelCapacity cfg"]
  by (auto simp: channel_capacity_def Let_def)

text \<open>
  An opened channel never has the capacity by which public channels are recognised, and for
  amounts that do not overflow it has room for the whole incoming amount and the configured extra
  capacity, with at most one satoshi more.
\<close>

lemma channel_capacity_private:
  assumes "0 \<le> inc" and "in_int64 inc" and "0 \<le> AdditionalChannelCapacity cfg"
    and "AdditionalChannelCapacity cfg \<le> 2 ^ 62"
  shows "channel_capacity cfg inc \<noteq> PublicChannelAmount cfg \<and>
    inc div 1000 + AdditionalChannelCapacity cfg \<le> channel_capacity cfg inc \<and>
    channel_capacity cfg inc \<le> inc div 1000 + AdditionalChannelCapacity cfg + 1"
proof -
  let ?c = "inc div 1000 + AdditionalChannelCapacity cfg"
  have "inc < 2 ^ 63" "0 \<le> inc div 1000" "inc div 1000 \<le> inc"
    using assms(1,2) by (auto simp: in_int64_def)
  then have "inc div 1000 < 2 ^ 54" by auto
  with \<open>0 \<le> inc div 1000\<close> assms(3,4) have c: "in_int64 ?c" "in_int64 (?c + 1)"
    by (auto simp: in_int64_def)
  have "channel_capacity cfg inc = (if ?c = PublicChannelAmount cfg then ?c + 1 else ?c)"
    using c assms(1) int64_id [OF c(2)] by (auto simp: channel_capacity_def go_div_nonneg Let_def)
  then show ?thesis using channel_capacity_neq_public by auto
qed

lemma channel_capacity_private_witness:
  "channel_capacity (sample_config\<lparr>PublicChannelAmount := 105000\<rparr>) 5000000 = 105001 \<and>
   channel_capacity sample_config 5000000 = 105000"
proof -
  let ?cfg = "sample_config\<lparr>PublicChannelAmount := 105000\<rparr>"
  have c: "0 \<le> (5000000 :: int)" "in_int64 5000000" by (simp_all add: in_int64_def)
  have "channel_capacity ?cfg 5000000 \<noteq> 105000" "105000 \<le> channel_capacity ?cfg 5000000"
    "channel_capacity ?cfg 5000000 \<le> 105001"
    using channel_capacity_private [OF c, of ?cfg] by (simp_all add: sample_config_def)
  moreover have "channel_capacity sample_config 5000000 = 105000"
    by (simp add: channel_capacity_def sample_config_def go_div_nonneg in_int64_def Let_def)
  ultimately show ?thesis by simp
qed

end
