(* ===== verification/Json_Scan.thy ===== *)
theory Json_Scan
  imports Json
begin

text \<open>
  The validity check that \<^verbatim>\<open>json.Unmarshal\<close> makes before it decodes: the scanner of \<^verbatim>\<open>encoding/json\<close>, a
  state machine over the bytes of the text with a stack of open objects and arrays. Decoding into
  a \<^verbatim>\<open>json.RawMessage\<close>, which is how the code checks a payment's tag, succeeds exactly on the texts
  it accepts.
\<close>

section \<open>The scanner\<close>

datatype parse_state = parseObjectKey | parseObjectValue | parseArrayValue

datatype scan_state =
    stateBeginValueOrEmpty | stateBeginValue | stateBeginStringOrEmpty | stateBeginString
  | stateEndValue | stateEndTop
  | stateInString | stateInStringEsc | stateInStringEscU nat
  | stateNeg | state1 | state0 | stateDot | stateDot0 | stateE | stateESign | stateE0
  | stateLiteral string

text \<open>\<open>stateLiteral\<close> holds what is left to read of \<^verbatim>\<open>true\<close>, \<^verbatim>\<open>false\<close> or \<^verbatim>\<open>null\<close>.\<close>

record scanner =
  sc_step :: scan_state
  sc_parseState :: "parse_state list"
  sc_endTop :: bool

definition maxNestingDepth :: nat where "maxNestingDepth = 10000"

definition isSpace :: "char \<Rightarrow> bool" where
  "isSpace c \<longleftrightarrow> c = CHR '' '' \<or> c = CHR 0x09 \<or> c = CHR 0x0D \<or> c = CHR 0x0A"

definition is_digit :: "char \<Rightarrow> bool" where
  "is_digit c \<longleftrightarrow> c \<in> set ''0123456789''"

definition goto :: "scan_state \<Rightarrow> scanner \<Rightarrow> scanner option" where
  "goto st s = Some (s\<lparr>sc_step := st\<rparr>)"

definition pushParseState :: "parse_state \<Rightarrow> scan_state \<Rightarrow> scanner \<Rightarrow> scanner option" where
  "pushParseState p st s =
     (if length (sc_parseState s) < maxNestingDepth
      then Some (s\<lparr>sc_parseState := p # sc_parseState s, sc_step := st\<rparr>) else None)"

definition popParseState :: "scanner \<Rightarrow> scanner option" where
  "popParseState s =
     (case tl (sc_parseState s) of
        [] \<Rightarrow> Some (s\<lparr>sc_parseState := [], sc_step := stateEndTop, sc_endTop := True\<rparr>)
      | ps \<Rightarrow> Some (s\<lparr>sc_parseState := ps, sc_step := stateEndValue\<rparr>))"

definition end_top :: "char \<Rightarrow> scanner \<Rightarrow> scanner option" where
  "end_top c s = (if isSpace c then Some s else None)"

definition end_value :: "char \<Rightarrow> scanner \<Rightarrow> scanner option" where
  "end_value c s =
     (case sc_parseState s of
        [] \<Rightarrow> end_top c (s\<lparr>sc_step := stateEndTop, sc_endTop := True\<rparr>)
      | p # ps \<Rightarrow>
          if isSpace c then goto stateEndValue s
          else (case p of
                  parseObjectKey \<Rightarrow>
                    if c = CHR '':''
                    then goto stateBeginValue (s\<lparr>sc_parseState := parseObjectValue # ps\<rparr>) else None
                | parseObjectValue \<Rightarrow>
                    if c = CHR '',''
                    then goto stateBeginString (s\<lparr>sc_parseState := parseObjectKey # ps\<rparr>)
                    else if c = CHR ''}'' then popParseState s else None
                | parseArrayValue \<Rightarrow>
                    if c = CHR '','' then goto stateBeginValue s
                    else if c = CHR '']'' then popParseState s else None))"

definition begin_value :: "char \<Rightarrow> scanner \<Rightarrow> scanner option" where
  "begin_value c s =
     (if isSpace c then Some s
      else if c = CHR ''{'' then pushParseState parseObjectKey stateBeginStringOrEmpty s
      else if c = CHR ''['' then pushParseState parseArrayValue stateBeginValueOrEmpty s
      else if c = CHR 0x22 then goto stateInString s
      else if c = CHR ''-'' then goto stateNeg s
      else if c = CHR ''0'' then goto state0 s
      else if c = CHR ''t'' then goto (stateLiteral ''rue'') s
      else if c = CHR ''f'' then goto (stateLiteral ''alse'') s
      else if c = CHR ''n'' then goto (stateLiteral ''ull'') s
      else if is_digit c then goto state1 s
      else None)"

definition begin_string :: "char \<Rightarrow> scanner \<Rightarrow> scanner option" where
  "begin_string c s =
     (if isSpace c then Some s else if c = CHR 0x22 then goto stateInString s else None)"

definition after_digits :: "char \<Rightarrow> scanner \<Rightarrow> scanner option" where
  "after_digits c s =
     (if c = CHR ''.'' then goto stateDot s
      else if c = CHR ''e'' \<or> c = CHR ''E'' then goto stateE s
      else end_value c s)"

fun scan_char :: "scanner \<Rightarrow> char \<Rightarrow> scanner option" where
  "scan_char s c =
     (case sc_step s of
        stateBeginValueOrEmpty \<Rightarrow>
          if isSpace c then Some s else if c = CHR '']'' then end_value c s else begin_value c s
      | stateBeginValue \<Rightarrow> begin_value c s
      | stateBeginStringOrEmpty \<Rightarrow>
          if isSpace c then Some s
          else if c = CHR ''}''
          then end_value c (s\<lparr>sc_parseState := parseObjectValue # tl (sc_parseState s)\<rparr>)
          else begin_string c s
      | stateBeginString \<Rightarrow> begin_string c s
      | stateEndValue \<Rightarrow> end_value c s
      | stateEndTop \<Rightarrow> end_top c s
      | stateInString \<Rightarrow>
          if c = CHR 0x22 then goto stateEndValue s
          else if c = CHR 0x5C then goto stateInStringEsc s
          else if of_char c < (0x20 :: nat) then None
          else Some s
      | stateInStringEsc \<Rightarrow>
          if c \<in> set ''bfnrt/'' \<or> c = CHR 0x5C \<or> c = CHR 0x22 then goto stateInString s
          else if c = CHR ''u'' then goto (stateInStringEscU 4) s
          else None
      | stateInStringEscU n \<Rightarrow>
          if hex_val c = None then None
          else goto (if n \<le> 1 then stateInString else stateInStringEscU (n - 1)) s
      | stateNeg \<Rightarrow>
          if c = CHR ''0'' then goto state0 s else if is_digit c then goto state1 s else None
      | state1 \<Rightarrow> if is_digit c then goto state1 s else after_digits c s
      | state0 \<Rightarrow> after_digits c s
      | stateDot \<Rightarrow> if is_digit c then goto stateDot0 s else None
      | stateDot0 \<Rightarrow>
          if is_digit c then Some s
          else if c = CHR ''e'' \<or> c = CHR ''E'' then goto stateE s
          else end_value c s
      | stateE \<Rightarrow>
          if c = CHR ''+'' \<or> c = CHR ''-'' then goto stateESign s
          else if is_digit c then goto stateE0 s else None
      | stateESign \<Rightarrow> if is_digit c then goto stateE0 s else None
      | stateE0 \<Rightarrow> if is_digit c then Some s else end_value c s
      | stateLiteral rest \<Rightarrow>
          (case rest of
             [] \<Rightarrow> None
           | d # ds \<Rightarrow>
               if c = d then goto (if ds = [] then stateEndValue else stateLiteral ds) s else None))"

primrec scan :: "string \<Rightarrow> scanner \<Rightarrow> scanner option" where
  "scan [] s = Some s"
| "scan (c # cs) s = (case scan_char s c of None \<Rightarrow> None | Some s' \<Rightarrow> scan cs s')"

definition scan_start :: scanner where
  "scan_start = \<lparr>sc_step = stateBeginValue, sc_parseState = [], sc_endTop = False\<rparr>"

definition json_valid :: "string \<Rightarrow> bool" where
  "json_valid text =
     (case scan text scan_start of
        None \<Rightarrow> False
      | Some s \<Rightarrow> sc_endTop s \<or>
          (case scan_char s (CHR '' '') of None \<Rightarrow> False | Some s' \<Rightarrow> sc_endTop s'))"

end
