(* ===== verification/Ciphering.thy ===== *)
theory Ciphering
  imports Lightning
begin

text \<open>
  The legacy encryption of \<^verbatim>\<open>btceclegacy/ciphering.go\<close>: ECDH with a fresh key, AES-256-CBC, PKCS#7
  padding and an HMAC over everything. The cryptographic primitives are an argument: the curve
  operations of \<^verbatim>\<open>btcec\<close> and \<^verbatim>\<open>secp256k1\<close>, the hashes, and AES on one block; CBC mode and the padding
  are modelled. \<open>cipher_ok\<close> is what their documentation promises, \<open>xor_prims\<close> a concrete instance.
\<close>

section \<open>Primitives\<close>

record prims =
  GenerateSharedSecret :: "bytes \<Rightarrow> bytes \<Rightarrow> bytes"
  PubKey :: "bytes \<Rightarrow> bytes"
  SerializeUncompressed :: "bytes \<Rightarrow> bytes"
  ParsePubKey :: "bytes \<Rightarrow> error + bytes"
  sha512_Sum512 :: "bytes \<Rightarrow> bytes"
  hmac_sha256 :: "bytes \<Rightarrow> bytes \<Rightarrow> bytes"
  aes_Encrypt :: "bytes \<Rightarrow> bytes \<Rightarrow> bytes"
  aes_Decrypt :: "bytes \<Rightarrow> bytes \<Rightarrow> bytes"

record 'w entropy =
  NewPrivateKey :: "'w \<Rightarrow> (error + bytes) \<times> 'w"
  rand_ReadFull :: "nat \<Rightarrow> 'w \<Rightarrow> (error + bytes) \<times> 'w"

definition cipher_ok :: "prims \<Rightarrow> bool" where
  "cipher_ok C \<longleftrightarrow>
     (\<forall>a b. GenerateSharedSecret C a (PubKey C b) = GenerateSharedSecret C b (PubKey C a)) \<and>
     (\<forall>a. length (SerializeUncompressed C (PubKey C a)) = 65 \<and>
        hd (SerializeUncompressed C (PubKey C a)) = 4 \<and>
        ParsePubKey C (SerializeUncompressed C (PubKey C a)) = Inr (PubKey C a)) \<and>
     (\<forall>x. length (sha512_Sum512 C x) = 64) \<and>
     (\<forall>k x. length (hmac_sha256 C k x) = 32) \<and>
     (\<forall>k x. length k = 32 \<and> length x = 16 \<longrightarrow>
        length (aes_Encrypt C k x) = 16 \<and> length (aes_Decrypt C k x) = 16 \<and>
        aes_Decrypt C k (aes_Encrypt C k x) = x)"

definition entropy_ok :: "'w entropy \<Rightarrow> bool" where
  "entropy_ok R \<longleftrightarrow> (\<forall>n w iv w'. rand_ReadFull R n w = (Inr iv, w') \<longrightarrow> length iv = n)"

section \<open>Cipher block chaining\<close>

definition xor_bytes :: "bytes \<Rightarrow> bytes \<Rightarrow> bytes" where
  "xor_bytes xs ys = map2 (\<lambda>x y. x XOR y) xs ys"

function cbc_encrypt :: "(bytes \<Rightarrow> bytes) \<Rightarrow> bytes \<Rightarrow> bytes \<Rightarrow> bytes" where
  "cbc_encrypt enc iv src =
     (if src = [] then []
      else let c = enc (xor_bytes (take 16 src) iv) in c @ cbc_encrypt enc c (drop 16 src))"
  by auto
termination by (relation "measure (\<lambda>(_, _, src). length src)") auto

function cbc_decrypt :: "(bytes \<Rightarrow> bytes) \<Rightarrow> bytes \<Rightarrow> bytes \<Rightarrow> bytes" where
  "cbc_decrypt dec iv src =
     (if src = [] then []
      else xor_bytes (dec (take 16 src)) iv @ cbc_decrypt dec (take 16 src) (drop 16 src))"
  by auto
termination by (relation "measure (\<lambda>(_, _, src). length src)") auto

declare cbc_encrypt.simps [simp del] cbc_decrypt.simps [simp del]

text \<open>\<^verbatim>\<open>CryptBlocks\<close> panics on a length that is no multiple of the block size.\<close>

definition CryptBlocks :: "(bytes \<Rightarrow> bytes) \<Rightarrow> bytes \<Rightarrow> bytes outcome" where
  "CryptBlocks mode src =
     (if length src mod 16 \<noteq> 0 then Panic ''crypto/cipher: input not full blocks'' else Ret (mode src))"

definition aes_NewCipher :: "bytes \<Rightarrow> error option" where
  "aes_NewCipher key =
     (if length key = 16 \<or> length key = 24 \<or> length key = 32 then None
      else Some (Error ''crypto/aes: invalid key size''))"

section \<open>btceclegacy/ciphering.go\<close>

definition ErrInvalidMAC :: error where "ErrInvalidMAC = Error ''invalid mac hash''"
definition errInputTooShort :: error where "errInputTooShort = Error ''ciphertext too short''"
definition errUnsupportedCurve :: error where "errUnsupportedCurve = Error ''unsupported curve''"
definition errInvalidXLength :: error where "errInvalidXLength = Error ''invalid X length, must be 32''"
definition errInvalidYLength :: error where "errInvalidYLength = Error ''invalid Y length, must be 32''"
definition errInvalidPadding :: error where "errInvalidPadding = Error ''invalid PKCS#7 padding''"

definition ciphCurveBytes :: bytes where "ciphCurveBytes = [0x02, 0xCA]"
definition ciphCoordLength :: bytes where "ciphCoordLength = [0x00, 0x20]"

definition addPKCSPadding :: "bytes \<Rightarrow> bytes" where
  "addPKCSPadding src =
     (let padding = 16 - length src mod 16 in src @ replicate padding (word_of_nat padding))"

text \<open>The bytes of the padding are not looked at, and a length of zero is accepted.\<close>

definition removePKCSPadding :: "bytes \<Rightarrow> (error + bytes) outcome" where
  "removePKCSPadding src =
     (if src = [] then Panic ''index out of range''
      else let padLength = unat (last src) in
        if padLength > 16 \<or> length src < 16 then Ret (Inl errInvalidPadding)
        else Ret (Inr (take (length src - padLength) src)))"

definition Encrypt ::
  "prims \<Rightarrow> 'w entropy \<Rightarrow> bytes \<Rightarrow> bytes \<Rightarrow> 'w \<Rightarrow> (error + bytes) outcome \<times> 'w" where
  "Encrypt C R pubkey inp w =
     (case NewPrivateKey R w of
        (Inl err, w1) \<Rightarrow> (Ret (Inl err), w1)
      | (Inr ephemeral, w1) \<Rightarrow>
          let derivedKey = sha512_Sum512 C (GenerateSharedSecret C ephemeral pubkey);
              keyE = take 32 derivedKey;
              keyM = drop 32 derivedKey;
              paddedIn = addPKCSPadding inp
          in case rand_ReadFull R 16 w1 of
               (Inl err, w2) \<Rightarrow> (Ret (Inl err), w2)
             | (Inr iv, w2) \<Rightarrow>
                 let pb = SerializeUncompressed C (PubKey C ephemeral);
                     header = iv @ ciphCurveBytes @ ciphCoordLength @ take 32 (drop 1 pb) @
                       ciphCoordLength @ drop 33 pb
                 in case aes_NewCipher keyE of
                      Some err \<Rightarrow> (Ret (Inl err), w2)
                    | None \<Rightarrow>
                        (case CryptBlocks (cbc_encrypt (aes_Encrypt C keyE) iv) paddedIn of
                           Panic m \<Rightarrow> (Panic m, w2)
                         | Ret ct \<Rightarrow>
                             (Ret (Inr (header @ ct @ hmac_sha256 C keyM (header @ ct))), w2)))"

definition between :: "nat \<Rightarrow> nat \<Rightarrow> bytes \<Rightarrow> bytes" where
  "between i j xs = take (j - i) (drop i xs)"

definition Decrypt :: "prims \<Rightarrow> bytes \<Rightarrow> bytes \<Rightarrow> (error + bytes) outcome" where
  "Decrypt C priv inp =
     (let n = length inp in
      if n < 16 + 70 + 16 + 32 then Ret (Inl errInputTooShort)
      else if between 16 18 inp \<noteq> ciphCurveBytes then Ret (Inl errUnsupportedCurve)
      else if between 18 20 inp \<noteq> ciphCoordLength then Ret (Inl errInvalidXLength)
      else if between 52 54 inp \<noteq> ciphCoordLength then Ret (Inl errInvalidYLength)
      else case ParsePubKey C (4 # between 20 52 inp @ between 54 86 inp) of
        Inl err \<Rightarrow> Ret (Inl err)
      | Inr pubkey \<Rightarrow>
          if (n - 16 - 86 - 32) mod 16 \<noteq> 0 then Ret (Inl errInvalidPadding)
          else let derivedKey = sha512_Sum512 C (GenerateSharedSecret C priv pubkey);
                   keyE = take 32 derivedKey;
                   keyM = drop 32 derivedKey
               in if drop (n - 32) inp \<noteq> hmac_sha256 C keyM (take (n - 32) inp)
                  then Ret (Inl ErrInvalidMAC)
                  else case aes_NewCipher keyE of
                         Some err \<Rightarrow> Ret (Inl err)
                       | None \<Rightarrow>
                           (case CryptBlocks (cbc_decrypt (aes_Decrypt C keyE) (take 16 inp))
                                   (between 86 (n - 32) inp) of
                              Panic m \<Rightarrow> Panic m
                            | Ret plaintext \<Rightarrow> removePKCSPadding plaintext))"

section \<open>Lemmas\<close>

lemma removePKCSPadding_addPKCSPadding: "removePKCSPadding (addPKCSPadding src) = Ret (Inr src)"
proof -
  define p where "p = 16 - length src mod 16"
  have p: "0 < p" "p \<le> 16" by (simp_all add: p_def less_imp_diff_less)
  then have "unat (word_of_nat p :: 8 word) = p"
    by (simp add: unsigned_of_nat take_bit_nat_eq_self)
  moreover from p have "last (src @ replicate p (word_of_nat p :: 8 word)) = word_of_nat p"
    by (cases p) simp_all
  moreover have "16 \<le> length src + p"
    using mod_less_eq_dividend [of "length src" 16] by (simp add: p_def)
  ultimately show ?thesis
    using p by (simp add: removePKCSPadding_def addPKCSPadding_def p_def [symmetric] Let_def)
qed

lemma addPKCSPadding_blocks: "length (addPKCSPadding src) mod 16 = 0"
  "16 \<le> length (addPKCSPadding src)"
proof -
  have "length src + (16 - length src mod 16) = 16 * (length src div 16 + 1)"
  proof -
    have "n + (16 - r) = 16 * (q + 1)" if "q * 16 + r = n" and "r < 16" for n q r :: nat
      using that by simp
    from this [OF div_mult_mod_eq] show ?thesis by simp
  qed
  then show "length (addPKCSPadding src) mod 16 = 0" "16 \<le> length (addPKCSPadding src)"
    by (simp_all add: addPKCSPadding_def Let_def)
qed

lemma length_xor_bytes [simp]: "length (xor_bytes xs ys) = min (length xs) (length ys)"
  by (simp add: xor_bytes_def)

lemma xor_bytes_twice [simp]: "length xs \<le> length ys \<Longrightarrow> xor_bytes (xor_bytes xs ys) ys = xs"
  unfolding xor_bytes_def
proof (induction xs arbitrary: ys)
  case (Cons x xs)
  then show ?case by (cases ys) (simp_all add: xor.assoc)
qed simp

text \<open>Induction over the blocks of a text.\<close>

lemma blocks_induct [consumes 1, case_names Nil Block]:
  assumes "length xs mod 16 = 0"
    and "P []"
    and "\<And>b xs. length b = 16 \<Longrightarrow> length xs mod 16 = 0 \<Longrightarrow> P xs \<Longrightarrow> P (b @ xs)"
  shows "P xs"
  using assms(1)
proof (induction "length xs" arbitrary: xs rule: less_induct)
  case less
  show ?case
  proof (cases "xs = []")
    case True
    then show ?thesis using assms(2) by simp
  next
    case False
    with less.prems have "16 \<le> length xs"
      by (metis length_0_conv mod_less not_le)
    then have "length (take 16 xs) = 16" "length (drop 16 xs) mod 16 = 0"
      using less.prems by (simp_all add: le_mod_geq [symmetric])
    with assms(3) [OF this] less.hyps [of "drop 16 xs"] False show ?thesis by simp
  qed
qed

lemma cbc_encrypt_block:
  "length b = 16 \<Longrightarrow> cbc_encrypt enc iv (b @ src) =
     enc (xor_bytes b iv) @ cbc_encrypt enc (enc (xor_bytes b iv)) src"
  by (subst cbc_encrypt.simps) (auto simp: Let_def)

lemma cbc_decrypt_block:
  "length b = 16 \<Longrightarrow> cbc_decrypt dec iv (b @ src) = xor_bytes (dec b) iv @ cbc_decrypt dec b src"
  by (subst cbc_decrypt.simps) auto

lemma cbc_nil [simp]: "cbc_encrypt enc iv [] = []" "cbc_decrypt dec iv [] = []"
  by (simp_all add: cbc_encrypt.simps cbc_decrypt.simps)

lemma cbc_roundtrip:
  assumes "\<And>x. length x = 16 \<Longrightarrow> length (enc x) = 16 \<and> dec (enc x) = x"
    and "length src mod 16 = 0" and "length iv = 16"
  shows "cbc_decrypt dec iv (cbc_encrypt enc iv src) = src \<and>
    length (cbc_encrypt enc iv src) = length src"
  using assms(2,3)
proof (induction src arbitrary: iv rule: blocks_induct)
  case (Block b src)
  with assms(1) [of "xor_bytes b iv"] show ?case
    by (simp add: cbc_encrypt_block cbc_decrypt_block)
qed simp

lemma length_cbc_decrypt:
  assumes "\<And>x. length x = 16 \<Longrightarrow> length (dec x) = 16"
    and "length src mod 16 = 0" and "length iv = 16"
  shows "length (cbc_decrypt dec iv src) = length src"
  using assms(2,3)
proof (induction src arbitrary: iv rule: blocks_induct)
  case (Block b src)
  with assms(1) [of b] show ?case by (simp add: cbc_decrypt_block)
qed simp

text \<open>The last part of \<^verbatim>\<open>Decrypt\<close>, on a text of at least one block.\<close>

lemma decrypt_blocks_return:
  assumes "cipher_ok C" and "length ct mod 16 = 0" and "ct \<noteq> []" and "length iv = 16"
    and "length k = 32"
  shows "\<exists>r. (case CryptBlocks (cbc_decrypt (aes_Decrypt C k) iv) ct of
    Panic m \<Rightarrow> Panic m | Ret plaintext \<Rightarrow> removePKCSPadding plaintext) = Ret r"
proof -
  have "length (cbc_decrypt (aes_Decrypt C k) iv ct) = length ct"
    using assms by (intro length_cbc_decrypt) (simp_all add: cipher_ok_def)
  with assms(3) have "cbc_decrypt (aes_Decrypt C k) iv ct \<noteq> []" by auto
  with assms(2) show ?thesis by (simp add: CryptBlocks_def removePKCSPadding_def Let_def)
qed

lemma Decrypt_returns:
  assumes "cipher_ok C"
  shows "\<exists>r. Decrypt C priv inp = Ret r"
proof (cases "length inp < 134 \<or> (length inp - 134) mod 16 \<noteq> 0")
  case True
  then show ?thesis by (auto simp: Decrypt_def Let_def split: sum.split)
next
  case False
  let ?ct = "between 86 (length inp - 32) inp"
  have len: "length ?ct = (length inp - 134) + 16" using False by (simp add: between_def)
  have "length ?ct mod 16 = 0" using False len by (metis mod_add_self2)
  moreover have "?ct \<noteq> []" using len by (metis add_is_0 list.size(3) zero_neq_numeral)
  moreover have "length (take 16 inp) = 16" using False by simp
  ultimately
  have last: "\<exists>r. (case CryptBlocks (cbc_decrypt (aes_Decrypt C (take 32 (sha512_Sum512 C x)))
      (take 16 inp)) ?ct of Panic m \<Rightarrow> Panic m | Ret plaintext \<Rightarrow> removePKCSPadding plaintext) = Ret r"
    for x using assms by (intro decrypt_blocks_return) (simp_all add: cipher_ok_def)
  have key: "aes_NewCipher (take 32 (sha512_Sum512 C x)) = None" for x
    using assms by (simp add: cipher_ok_def aes_NewCipher_def)
  show ?thesis
    using last False by (simp add: Decrypt_def Let_def key split: sum.split)
qed

text \<open>The layout of an encrypted message, and reading it back.\<close>

definition layout :: "bytes \<Rightarrow> bytes \<Rightarrow> bytes \<Rightarrow> bytes" where
  "layout iv X Y = iv @ ciphCurveBytes @ ciphCoordLength @ X @ ciphCoordLength @ Y"

lemma layout_parts:
  assumes "length iv = 16" and "length X = 32" and "length Y = 32"
  shows "length (layout iv X Y) = 86"
    and "take 16 (layout iv X Y @ r) = iv"
    and "between 16 18 (layout iv X Y @ r) = ciphCurveBytes"
    and "between 18 20 (layout iv X Y @ r) = ciphCoordLength"
    and "between 20 52 (layout iv X Y @ r) = X"
    and "between 52 54 (layout iv X Y @ r) = ciphCoordLength"
    and "between 54 86 (layout iv X Y @ r) = Y"
  using assms by (simp_all add: layout_def between_def ciphCurveBytes_def ciphCoordLength_def)

lemma point_parts:
  assumes "length pb = 65" and "hd pb = 4"
  shows "length (take 32 (drop 1 pb)) = 32" "length (drop 33 pb) = 32"
    "4 # take 32 (drop 1 pb) @ drop 33 pb = pb"
proof -
  obtain xs where "pb = 4 # xs" using assms by (cases pb) auto
  then show "4 # take 32 (drop 1 pb) @ drop 33 pb = pb" by simp
qed (use assms in simp_all)

lemma Decrypt_layout:
  assumes "cipher_ok C" and "length iv = 16" and "length pb = 65" and "hd pb = 4"
    and "ParsePubKey C pb = Inr pub" and "length c mod 16 = 0" and "16 \<le> length c"
    and "k = sha512_Sum512 C (GenerateSharedSecret C priv pub)"
    and "h = layout iv (take 32 (drop 1 pb)) (drop 33 pb)"
  shows "Decrypt C priv (h @ c @ hmac_sha256 C (drop 32 k) (h @ c)) =
    removePKCSPadding (cbc_decrypt (aes_Decrypt C (take 32 k)) iv c)"
proof -
  note pt = point_parts [OF assms(3,4)]
  note lp = layout_parts [OF assms(2) pt(1,2), folded assms(9)]
  define mac where "mac = hmac_sha256 C (drop 32 k) (h @ c)"
  have mac: "length mac = 32" using assms(1) by (simp add: mac_def cipher_ok_def)
  have key: "aes_NewCipher (take 32 k) = None"
    using assms(1) by (simp add: assms(8) cipher_ok_def aes_NewCipher_def)
  have rest: "length (h @ c @ mac) = 118 + length c"
    "take (length (h @ c @ mac) - 32) (h @ c @ mac) = h @ c"
    "drop (length (h @ c @ mac) - 32) (h @ c @ mac) = mac"
    "between 86 (length (h @ c @ mac) - 32) (h @ c @ mac) = c"
    using lp(1) mac by (simp_all add: between_def)
  have n: "\<not> length (h @ c @ mac) < 16 + 70 + 16 + 32"
    "(length (h @ c @ mac) - 16 - 86 - 32) mod 16 = 0"
    using assms(6,7) by (simp_all only: rest(1)) (simp_all add: le_mod_geq [symmetric])
  show ?thesis
    unfolding mac_def [symmetric] Decrypt_def Let_def lp(2-7) rest(2-4) pt(3)
    using n assms(5,6) by (simp add: key assms(8) [symmetric] CryptBlocks_def mac_def)
qed

definition pad_to :: "nat \<Rightarrow> bytes \<Rightarrow> bytes" where
  "pad_to n x = take n (x @ replicate n 0)"

lemma length_pad_to [simp]: "length (pad_to n x) = n"
  by (simp add: pad_to_def)

definition xor_prims :: prims where
  "xor_prims = \<lparr>
     GenerateSharedSecret = (\<lambda>a pub. xor_bytes (pad_to 64 a) pub),
     PubKey = pad_to 64,
     SerializeUncompressed = (\<lambda>pub. 4 # pub),
     ParsePubKey = (\<lambda>pb. if length pb = 65 then Inr (tl pb) else Inl (Error ''invalid length'')),
     sha512_Sum512 = pad_to 64,
     hmac_sha256 = (\<lambda>k x. pad_to 32 (k @ x)),
     aes_Encrypt = (\<lambda>k x. xor_bytes x k),
     aes_Decrypt = (\<lambda>k x. xor_bytes x k)\<rparr>"

lemma xor_bytes_comm: "length xs = length ys \<Longrightarrow> xor_bytes xs ys = xor_bytes ys xs"
  by (induction xs ys rule: list_induct2) (simp_all add: xor_bytes_def xor.commute)

lemma cipher_ok_xor: "cipher_ok xor_prims"
  by (simp add: cipher_ok_def xor_prims_def xor_bytes_comm)

definition zero_entropy :: "unit entropy" where
  "zero_entropy = \<lparr>NewPrivateKey = (\<lambda>w. (Inr [9], w)), rand_ReadFull = (\<lambda>n w. (Inr (replicate n 5), w))\<rparr>"

lemma entropy_ok_zero: "entropy_ok zero_entropy"
  by (simp add: entropy_ok_def zero_entropy_def)

section \<open>Properties\<close>

text \<open>
  C20: What the legacy cipher encrypts for a public key, the holder of the private key decrypts to
  the same bytes, for every message, every fresh key and every initialisation vector.
\<close>

theorem Decrypt_Encrypt:
  assumes "cipher_ok C" and "entropy_ok R"
    and "Encrypt C R (PubKey C priv) msg w = (Ret (Inr ct), w')"
  shows "Decrypt C priv ct = Ret (Inr msg)"
proof -
  obtain e w1 where e: "NewPrivateKey R w = (Inr e, w1)"
    using assms(3) by (auto simp: Encrypt_def split: prod.splits sum.splits)
  obtain iv w2 where iv: "rand_ReadFull R 16 w1 = (Inr iv, w2)"
    using assms(3) by (auto simp: Encrypt_def e Let_def split: prod.splits sum.splits)
  have len_iv: "length iv = 16" using assms(2) iv unfolding entropy_ok_def by blast
  define k where "k = sha512_Sum512 C (GenerateSharedSecret C priv (PubKey C e))"
  have k': "sha512_Sum512 C (GenerateSharedSecret C e (PubKey C priv)) = k"
    using assms(1) by (simp add: k_def cipher_ok_def)
  have key: "aes_NewCipher (take 32 k) = None" "length (take 32 k) = 32"
    using assms(1) by (simp_all add: cipher_ok_def aes_NewCipher_def k_def)
  define pb where "pb = SerializeUncompressed C (PubKey C e)"
  have pb: "length pb = 65" "hd pb = 4" "ParsePubKey C pb = Inr (PubKey C e)"
    using assms(1) by (simp_all add: cipher_ok_def pb_def)
  define c where "c = cbc_encrypt (aes_Encrypt C (take 32 k)) iv (addPKCSPadding msg)"
  have c: "cbc_decrypt (aes_Decrypt C (take 32 k)) iv c = addPKCSPadding msg"
    "length c = length (addPKCSPadding msg)"
    unfolding c_def
    using cbc_roundtrip [of "aes_Encrypt C (take 32 k)" "aes_Decrypt C (take 32 k)"
        "addPKCSPadding msg" iv] addPKCSPadding_blocks len_iv assms(1) key(2)
    by (simp_all add: cipher_ok_def)
  define h where "h = layout iv (take 32 (drop 1 pb)) (drop 33 pb)"
  have blocks: "CryptBlocks (cbc_encrypt (aes_Encrypt C (take 32 k)) iv) (addPKCSPadding msg) = Ret c"
    using addPKCSPadding_blocks(1) by (simp add: CryptBlocks_def c_def)
  have "ct = h @ c @ hmac_sha256 C (drop 32 k) (h @ c)"
    using assms(3)
    by (simp add: Encrypt_def e iv Let_def k' key(1) blocks h_def layout_def pb_def [symmetric])
  with Decrypt_layout [OF assms(1) len_iv pb _ _ k_def h_def, of c] c addPKCSPadding_blocks [of msg]
    removePKCSPadding_addPKCSPadding [of msg]
  show ?thesis by simp
qed

theorem Decrypt_Encrypt_witness:
  "\<exists>ct. fst (Encrypt xor_prims zero_entropy (PubKey xor_prims [7]) [1, 2, 3] ()) = Ret (Inr ct) \<and>
     Decrypt xor_prims [7] ct = Ret (Inr [1, 2, 3])"
proof -
  have "\<exists>ct. fst (Encrypt xor_prims zero_entropy (PubKey xor_prims [7]) [1, 2, 3] ()) = Ret (Inr ct)"
    by (simp add: Encrypt_def zero_entropy_def aes_NewCipher_def CryptBlocks_def addPKCSPadding_blocks
        Let_def) (simp add: xor_prims_def)
  then obtain ct where
    ct: "fst (Encrypt xor_prims zero_entropy (PubKey xor_prims [7]) [1, 2, 3] ()) = Ret (Inr ct)" by blast
  then have "Encrypt xor_prims zero_entropy (PubKey xor_prims [7]) [1, 2, 3] () = (Ret (Inr ct), ())"
    by (simp add: prod_eq_iff)
  from Decrypt_Encrypt [OF cipher_ok_xor entropy_ok_zero this] ct show ?thesis by blast
qed



end
