(* ===== verification/Channel_Opener.thy ===== *)
theory Channel_Opener
  imports Interceptor_Once Interceptor_Amounts Json_Scan Ciphering
begin

text \<open>
  The gRPC server for clients (\<^verbatim>\<open>cmd/lspd/channel_opener_server.go\<close>): the fee menu, the registration
  of payments and the check of channels. ECIES, the protobuf messages and the signature functions
  are arguments. The locale \<open>opener_frame\<close> puts the server beside the interceptor, over the same
  store of payments.
\<close>

section \<open>Messages\<close>

record PbOpeningFeeParams =
  pb_MinMsat :: u64
  pb_Proportional :: u32
  pb_ValidUntil :: string
  pb_MaxIdleTime :: u32
  pb_MaxClientToSelfDelay :: u32
  pb_Promise :: string

record ChannelInformationReply =
  cir_Name :: string
  cir_Pubkey :: string
  cir_Host :: string
  cir_ChannelCapacity :: int
  cir_TargetConf :: int
  cir_MinHtlcMsat :: int
  cir_BaseFeeMsat :: int
  cir_FeeRate :: float64
  cir_TimeLockDelta :: u32
  cir_ChannelFeePermyriad :: int
  cir_ChannelMinimumFeeMsat :: int
  cir_LspPubkey :: bytes
  cir_MaxInactiveDuration :: int
  cir_OpeningFeeParamsMenu :: "PbOpeningFeeParams list"

text \<open>An absent \<^verbatim>\<open>bytes\<close> field of a message is nil.\<close>

record PaymentInformation =
  pim_PaymentHash :: "bytes option"
  pim_PaymentSecret :: "bytes option"
  pim_Destination :: "bytes option"
  pim_IncomingAmountMsat :: int
  pim_OutgoingAmountMsat :: int
  pim_Tag :: string
  pim_OpeningFeeParams :: "PbOpeningFeeParams option"

record Signed =
  sg_Data :: bytes
  sg_Pubkey :: bytes
  sg_Signature :: bytes

record CheckChannelsRequest =
  ccr_EncryptPubkey :: bytes
  ccr_FakeChannels :: "string \<rightharpoonup> u64"
  ccr_WaitingCloseChannels :: "string \<rightharpoonup> u64"

record CheckChannelsReply =
  ccp_NotFakeChannels :: "string \<rightharpoonup> u64"
  ccp_ClosedChannels :: "string \<rightharpoonup> u64"

record 'w opener_codec =
  co_ecies_Decrypt :: "bytes \<Rightarrow> bytes \<Rightarrow> error + bytes"
  co_ecies_Encrypt :: "bytes \<Rightarrow> bytes \<Rightarrow> 'w \<Rightarrow> (error + bytes) \<times> 'w"
  co_prims :: prims
  co_entropy :: "'w entropy"
  unmarshal_PaymentInformation :: "bytes \<Rightarrow> error + PaymentInformation"
  unmarshal_Signed :: "bytes \<Rightarrow> error + Signed"
  unmarshal_CheckChannelsRequest :: "bytes \<Rightarrow> error + CheckChannelsRequest"
  marshal_CheckChannelsReply :: "CheckChannelsReply \<Rightarrow> error + bytes"
  NewSigFromECDSARawSignature :: "bytes \<Rightarrow> error + bytes"
  ToSignature :: "bytes \<Rightarrow> error + bytes"
  sig_Verify :: "bytes \<Rightarrow> bytes \<Rightarrow> bytes \<Rightarrow> bool"
  chainhash_HashB :: "bytes \<Rightarrow> bytes"

section \<open>cmd/lspd/channel\_opener\_server.go\<close>

record 'w channelOpenerServer =
  cs_store :: "'w InterceptStore"
  cs_openingService :: "'w OpeningService"
  cs_now :: "'w clock"

definition NewChannelOpenerServer ::
  "'w InterceptStore \<Rightarrow> 'w OpeningService \<Rightarrow> 'w clock \<Rightarrow> 'w channelOpenerServer" where
  "NewChannelOpenerServer store openingService now =
     \<lparr>cs_store = store, cs_openingService = openingService, cs_now = now\<rparr>"

definition pb_of_params :: "OpeningFeeParams \<Rightarrow> PbOpeningFeeParams" where
  "pb_of_params p = \<lparr>
     pb_MinMsat = MinFeeMsat p,
     pb_Proportional = Proportional p,
     pb_ValidUntil = ValidUntil p,
     pb_MaxIdleTime = MinLifetime p,
     pb_MaxClientToSelfDelay = MaxClientToSelfDelay p,
     pb_Promise = Promise p\<rparr>"

definition params_of_pb :: "PbOpeningFeeParams \<Rightarrow> OpeningFeeParams" where
  "params_of_pb p = \<lparr>
     MinFeeMsat = pb_MinMsat p,
     Proportional = pb_Proportional p,
     ValidUntil = pb_ValidUntil p,
     MinLifetime = pb_MaxIdleTime p,
     MaxClientToSelfDelay = pb_MaxClientToSelfDelay p,
     Promise = pb_Promise p\<rparr>"

definition ChannelInformation ::
  "'w channelOpenerServer \<Rightarrow> 'w ctx \<Rightarrow> 'w \<Rightarrow> (error + ChannelInformationReply) outcome \<times> 'w" where
  "ChannelInformation s ctx w =
     (case ctx_GetNode ctx of
        Inl err \<Rightarrow> (Ret (Inl err), w)
      | Inr (node, token) \<Rightarrow>
          (case os_GetFeeParamsMenu (cs_openingService s) token (PrivateKey node) w of
             (Panic m, w1) \<Rightarrow> (Panic m, w1)
           | (Ret (Inl err), w1) \<Rightarrow> (Ret (Inl err), w1)
           | (Ret (Inr params), w1) \<Rightarrow>
               (let cfg = Config node in
                (Ret (Inr \<lparr>
                   cir_Name = Name cfg,
                   cir_Pubkey = NodePubkey cfg,
                   cir_Host = Host cfg,
                   cir_ChannelCapacity = PublicChannelAmount cfg,
                   cir_TargetConf = sint (ConfigTargetConf cfg),
                   cir_MinHtlcMsat = int64_of (MinHtlcMsat cfg),
                   cir_BaseFeeMsat = int64_of (BaseFeeMsat cfg),
                   cir_FeeRate = FeeRate cfg,
                   cir_TimeLockDelta = TimeLockDelta cfg,
                   cir_ChannelFeePermyriad = ChannelFeePermyriad cfg,
                   cir_ChannelMinimumFeeMsat = ChannelMinimumFeeMsat cfg,
                   cir_LspPubkey = PublicKey node,
                   cir_MaxInactiveDuration = int64_of (MaxInactiveDuration cfg),
                   cir_OpeningFeeParamsMenu = map pb_of_params params\<rparr>), w1))))"

definition checkPayment :: "PbOpeningFeeParams \<Rightarrow> int \<Rightarrow> int \<Rightarrow> error option" where
  "checkPayment params incomingAmountMsat outgoingAmountMsat =
     (let proportional = int64 (go_div (go_div
            (int64 (incomingAmountMsat * uint (pb_Proportional params))) 1000000) 1000 * 1000);
          fees = (if proportional < int64_of (pb_MinMsat params)
                  then int64_of (pb_MinMsat params) else proportional)
      in if int64 (incomingAmountMsat - outgoingAmountMsat) < fees
         then Some (Error ''not enough fees'') else None)"

text \<open>ECIES first, then the legacy cipher; the flag says which of them was used.\<close>

definition decrypt_blob ::
  "'w opener_codec \<Rightarrow> 'w Node \<Rightarrow> bytes \<Rightarrow> (error + bytes \<times> bool) outcome" where
  "decrypt_blob K node blob =
     (case co_ecies_Decrypt K (EciesPrivateKey node) blob of
        Inr data \<Rightarrow> Ret (Inr (data, True))
      | Inl _ \<Rightarrow>
          (case Decrypt (co_prims K) (PrivateKey node) blob of
             Panic m \<Rightarrow> Panic m
           | Ret (Inl err) \<Rightarrow> Ret (Inl (Wrap ''btcec.Decrypt error'' err))
           | Ret (Inr data) \<Rightarrow> Ret (Inr (data, False))))"

definition check_tag :: "string \<Rightarrow> error option" where
  "check_tag tag =
     (if length tag > 1000 then Some (Error ''tag too long'')
      else if tag \<noteq> [] \<and> \<not> json_valid tag then Some (Error ''tag is not a valid json object'')
      else None)"

definition deprecated_params :: "NodeConfig \<Rightarrow> time \<Rightarrow> PbOpeningFeeParams" where
  "deprecated_params cfg t = \<lparr>
     pb_MinMsat = uint64_of (ChannelMinimumFeeMsat cfg),
     pb_Proportional = word_of_int (int64 (ChannelFeePermyriad cfg * 100)),
     pb_ValidUntil = time_format (t + 24 * 3600 * second),
     pb_MaxIdleTime = ucast (MaxInactiveDuration cfg div 600),
     pb_MaxClientToSelfDelay = 10000,
     pb_Promise = []\<rparr>"

text \<open>The params of a registration: the client's if they are valid, else the deprecated ones.\<close>

definition registration_params ::
  "'w channelOpenerServer \<Rightarrow> 'w Node \<Rightarrow> PaymentInformation \<Rightarrow> 'w \<Rightarrow> (error + PbOpeningFeeParams) \<times> 'w"
  where
  "registration_params s node p w =
     (case pim_OpeningFeeParams p of
        Some q \<Rightarrow>
          (case os_ValidateOpeningFeeParams (cs_openingService s) (Some (params_of_pb q))
                  (PublicKey node) w of
             (valid, w1) \<Rightarrow>
               (if valid then Inr q else Inl (Error ''invalid opening_fee_params''), w1))
      | None \<Rightarrow>
          (case cs_now s w of (t, w1) \<Rightarrow> (Inr (deprecated_params (Config node) t), w1)))"

definition server_RegisterPayment ::
  "'w opener_codec \<Rightarrow> 'w channelOpenerServer \<Rightarrow> 'w ctx \<Rightarrow> bytes \<Rightarrow> 'w \<Rightarrow> error option outcome \<times> 'w" where
  "server_RegisterPayment K s ctx blob w =
     (case ctx_GetNode ctx of
        Inl err \<Rightarrow> (Ret (Some err), w)
      | Inr (node, token) \<Rightarrow>
          (case decrypt_blob K node blob of
             Panic m \<Rightarrow> (Panic m, w)
           | Ret (Inl err) \<Rightarrow> (Ret (Some err), w)
           | Ret (Inr (data, _)) \<Rightarrow>
               (case unmarshal_PaymentInformation K data of
                  Inl err \<Rightarrow> (Ret (Some (Wrap ''proto.Unmarshal error'' err)), w)
                | Inr p \<Rightarrow>
                    (case check_tag (pim_Tag p) of
                       Some err \<Rightarrow> (Ret (Some err), w)
                     | None \<Rightarrow>
                         (case registration_params s node p w of
                            (Inl err, w1) \<Rightarrow> (Ret (Some err), w1)
                          | (Inr q, w1) \<Rightarrow>
                              (case checkPayment q (pim_IncomingAmountMsat p)
                                      (pim_OutgoingAmountMsat p) of
                                 Some err \<Rightarrow> (Ret (Some (Wrap ''checkPayment error'' err)), w1)
                               | None \<Rightarrow>
                                   (case RegisterPayment (cs_store s) token (Some (params_of_pb q))
                                           (pim_Destination p) (pim_PaymentHash p)
                                           (pim_PaymentSecret p) (pim_IncomingAmountMsat p)
                                           (pim_OutgoingAmountMsat p) (pim_Tag p) w1 of
                                      (Some err, w2) \<Rightarrow>
                                        (Ret (Some (Wrap ''RegisterPayment() error'' err)), w2)
                                    | (None, w2) \<Rightarrow> (Ret None, w2))))))))"

definition getSignedEncryptedData ::
  "'w opener_codec \<Rightarrow> 'w Node \<Rightarrow> bytes \<Rightarrow> (error + string \<times> bytes \<times> bool) outcome" where
  "getSignedEncryptedData K n data =
     (case decrypt_blob K n data of
        Panic m \<Rightarrow> Panic m
      | Ret (Inl err) \<Rightarrow> Ret (Inl err)
      | Ret (Inr (signedBlob, usedEcies)) \<Rightarrow>
          (case unmarshal_Signed K signedBlob of
             Inl err \<Rightarrow> Ret (Inl (Wrap ''proto.Unmarshal error'' err))
           | Inr sd \<Rightarrow>
               (case ParsePubKey (co_prims K) (sg_Pubkey sd) of
                  Inl err \<Rightarrow> Ret (Inl (Wrap ''unable to parse pubkey'' err))
                | Inr pubkey \<Rightarrow>
                    (case NewSigFromECDSARawSignature K (sg_Signature sd) of
                       Inl err \<Rightarrow> Ret (Inl (Wrap ''failed to decode signature'' err))
                     | Inr wireSig \<Rightarrow>
                         (case ToSignature K wireSig of
                            Inl err \<Rightarrow> Ret (Inl (Wrap ''failed to convert from wire format'' err))
                          | Inr sig \<Rightarrow>
                              if \<not> sig_Verify K sig (chainhash_HashB K (sg_Data sd)) pubkey
                              then Ret (Inl (Error ''invalid signature''))
                              else Ret (Inr (hex_encode (sg_Pubkey sd), sg_Data sd,
                                     usedEcies)))))))"

text \<open>With ECIES the reply is encrypted for the node's own key, not for the client's.\<close>

definition encrypt_reply ::
  "'w opener_codec \<Rightarrow> 'w Node \<Rightarrow> bytes \<Rightarrow> bool \<Rightarrow> bytes \<Rightarrow> 'w \<Rightarrow> (error + bytes) outcome \<times> 'w" where
  "encrypt_reply K node pubkey usedEcies dataReply w =
     (if usedEcies
      then (case co_ecies_Encrypt K (EciesPublicKey node) dataReply w of
              (Inl err, w1) \<Rightarrow> (Ret (Inl (Wrap ''ecies.Encrypt() error'' err)), w1)
            | (Inr encrypted, w1) \<Rightarrow> (Ret (Inr encrypted), w1))
      else (case Encrypt (co_prims K) (co_entropy K) pubkey dataReply w of
              (Panic m, w1) \<Rightarrow> (Panic m, w1)
            | (Ret (Inl err), w1) \<Rightarrow> (Ret (Inl (Wrap ''btcec.Encrypt() error'' err)), w1)
            | (Ret (Inr encrypted), w1) \<Rightarrow> (Ret (Inr encrypted), w1)))"

definition CheckChannels ::
  "'w opener_codec \<Rightarrow> 'w ctx \<Rightarrow> bytes \<Rightarrow> 'w \<Rightarrow> (error + bytes) outcome \<times> 'w" where
  "CheckChannels K ctx data w =
     (case ctx_GetNode ctx of
        Inl err \<Rightarrow> (Ret (Inl err), w)
      | Inr (node, _) \<Rightarrow>
          (case getSignedEncryptedData K node data of
             Panic m \<Rightarrow> (Panic m, w)
           | Ret (Inl err) \<Rightarrow> (Ret (Inl (Wrap ''getSignedEncryptedData error'' err)), w)
           | Ret (Inr (nodeID, body, usedEcies)) \<Rightarrow>
               (case unmarshal_CheckChannelsRequest K body of
                  Inl err \<Rightarrow> (Ret (Inl (Wrap ''proto.Unmarshal error'' err)), w)
                | Inr request \<Rightarrow>
                    (case GetClosedChannels (NodeClient node) nodeID
                            (ccr_WaitingCloseChannels request) w of
                       (Inl err, w1) \<Rightarrow> (Ret (Inl (Wrap ''GetClosedChannels error'' err)), w1)
                     | (Inr closedChannels, w1) \<Rightarrow>
                         (case marshal_CheckChannelsReply K \<lparr>ccp_NotFakeChannels = Map.empty,
                                  ccp_ClosedChannels = closedChannels\<rparr> of
                            Inl err \<Rightarrow> (Ret (Inl (Wrap ''proto.Marshal() error'' err)), w1)
                          | Inr dataReply \<Rightarrow>
                              (case ParsePubKey (co_prims K) (ccr_EncryptPubkey request) of
                                 Inl err \<Rightarrow> (Ret (Inl (Wrap ''unable to parse pubkey'' err)), w1)
                               | Inr pubkey \<Rightarrow>
                                   encrypt_reply K node pubkey usedEcies dataReply w1))))))"

section \<open>Fees\<close>

lemma go_div_div_bounds:
  assumes "0 \<le> a"
  shows "go_div (go_div a 1000000) 1000 * 1000 = a div 1000000000 * 1000"
  using assms by (simp add: go_div_nonneg zdiv_zmult2_eq [symmetric])

text \<open>
  C12: The fee check of a registration. Without overflow it accepts a payment exactly if the
  difference of its amounts covers the minimum fee and the proportional fee, rounded down to whole
  satoshis.
\<close>

theorem checkPayment_iff:
  assumes "0 \<le> inc" and "inc * uint (pb_Proportional p) < 2 ^ 63" and "in_int64 (inc - out)"
    and "uint (pb_MinMsat p) < 2 ^ 63"
  shows "checkPayment p inc out = None \<longleftrightarrow>
    uint (pb_MinMsat p) \<le> inc - out \<and>
    inc * uint (pb_Proportional p) div 1000000000 * 1000 \<le> inc - out"
proof -
  let ?a = "inc * uint (pb_Proportional p)"
  have a0: "0 \<le> ?a" using assms(1) by simp
  then have a: "0 \<le> ?a" "in_int64 ?a"
    using assms(2) order_trans [OF _ a0, of "- (2 ^ 63)"] by (simp_all add: in_int64_def)
  have "?a div 1000000000 * 1000 \<le> ?a"
  proof -
    have "?a div 1000000000 * 1000 \<le> ?a div 1000000000 * 1000000000"
      using a(1) by (intro mult_left_mono) (simp_all add: pos_imp_zdiv_nonneg_iff)
    also have "\<dots> \<le> ?a" using a(1) by (simp add: minus_mod_eq_div_mult [symmetric])
    finally show ?thesis .
  qed
  moreover have "0 \<le> ?a div 1000000000 * 1000" using a(1) by (simp add: pos_imp_zdiv_nonneg_iff)
  ultimately have b: "in_int64 (?a div 1000000000 * 1000)" using a(2) by (auto simp: in_int64_def)
  have m: "int64_of (pb_MinMsat p) = uint (pb_MinMsat p)"
    using assms(4) by (simp add: int64_of_eq_uint)
  show ?thesis
    using a b assms(3) m by (auto simp: checkPayment_def Let_def go_div_div_bounds)
qed

theorem checkPayment_iff_witness:
  "checkPayment (pb_of_params sample_params) 5000000 3000000 = None \<and>
   checkPayment (pb_of_params sample_params) 5000000 3000001 \<noteq> None"
proof -
  have p: "uint (pb_MinMsat (pb_of_params sample_params)) = 2000000"
    "uint (pb_Proportional (pb_of_params sample_params)) = 4000"
    by (simp_all add: pb_of_params_def sample_params_def)
  show ?thesis
    using checkPayment_iff [of 5000000 "pb_of_params sample_params" 3000000]
      checkPayment_iff [of 5000000 "pb_of_params sample_params" 3000001]
    by (simp add: p in_int64_def)
qed

section \<open>Registrations\<close>

lemma pb_of_params_of_pb [simp]: "pb_of_params (params_of_pb q) = q"
  by (simp add: pb_of_params_def params_of_pb_def)

text \<open>A registration reaches the store, or it fails and changes nothing but clock and codec state.\<close>

lemma server_RegisterPayment_cases:
  assumes "server_RegisterPayment K s ctx blob w = (r, w')"
  obtains (rejected) "r \<noteq> Ret None" "w' = w"
  | (refused) node p x where "registration_params s node p w = (x, w')" "r \<noteq> Ret None"
  | (stored) node token data ecies p q w1 e where "ctx = Some (node, token)"
      "decrypt_blob K node blob = Ret (Inr (data, ecies))"
      "unmarshal_PaymentInformation K data = Inr p" "check_tag (pim_Tag p) = None"
      "registration_params s node p w = (Inr q, w1)"
      "checkPayment q (pim_IncomingAmountMsat p) (pim_OutgoingAmountMsat p) = None"
      "RegisterPayment (cs_store s) token (Some (params_of_pb q)) (pim_Destination p)
         (pim_PaymentHash p) (pim_PaymentSecret p) (pim_IncomingAmountMsat p)
         (pim_OutgoingAmountMsat p) (pim_Tag p) w1 = (e, w')"
      "r = Ret None \<longleftrightarrow> e = None"
proof (cases ctx)
  case None
  with assms rejected show thesis by (auto simp: server_RegisterPayment_def ctx_GetNode_def)
next
  case (Some nt)
  then obtain node token where nt: "ctx = Some (node, token)" by (cases nt) simp
  note d = assms [unfolded server_RegisterPayment_def nt ctx_GetNode_def option.case sum.case prod.case]
  consider (bad) "r \<noteq> Ret None" "w' = w"
    | (ok) data ecies p where "decrypt_blob K node blob = Ret (Inr (data, ecies))"
        "unmarshal_PaymentInformation K data = Inr p" "check_tag (pim_Tag p) = None"
    using d by (auto split: outcome.splits sum.splits option.splits)
  then show thesis
  proof cases
    case bad
    then show thesis by (rule rejected)
  next
    case ok
    obtain x w1 where x: "registration_params s node p w = (x, w1)" by fastforce
    show thesis
    proof (cases x)
      case (Inl e)
      with d ok x refused [of node p x] show thesis by auto
    next
      case (Inr q)
      show thesis
      proof (cases "checkPayment q (pim_IncomingAmountMsat p) (pim_OutgoingAmountMsat p)")
        case (Some e)
        with d ok x Inr refused [of node p x] show thesis by auto
      next
        case None
        with d ok x Inr nt show thesis
          by (auto split: prod.splits option.splits intro!: stored)
      qed
    qed
  qed
qed

text \<open>
  C11: A registration that succeeds came from an authenticated node's client, decrypts and decodes to
  a payment whose tag is empty or at most 1000 bytes of valid JSON, whose fee params are either
  valid as the opening service judges them or the node's own, and whose fee is paid; exactly this
  payment is what the store was given.
\<close>

theorem RegisterPayment_accepts:
  assumes "server_RegisterPayment K s ctx blob w = (Ret None, w')"
  shows "\<exists>node token data ecies p q w1. ctx = Some (node, token) \<and>
    decrypt_blob K node blob = Ret (Inr (data, ecies)) \<and>
    unmarshal_PaymentInformation K data = Inr p \<and>
    length (pim_Tag p) \<le> 1000 \<and> (pim_Tag p = [] \<or> json_valid (pim_Tag p)) \<and>
    (case pim_OpeningFeeParams p of
       Some given \<Rightarrow> q = given \<and>
         os_ValidateOpeningFeeParams (cs_openingService s) (Some (params_of_pb q)) (PublicKey node) w =
           (True, w1)
     | None \<Rightarrow> \<exists>t. cs_now s w = (t, w1) \<and> q = deprecated_params (Config node) t) \<and>
    checkPayment q (pim_IncomingAmountMsat p) (pim_OutgoingAmountMsat p) = None \<and>
    RegisterPayment (cs_store s) token (Some (params_of_pb q)) (pim_Destination p) (pim_PaymentHash p)
      (pim_PaymentSecret p) (pim_IncomingAmountMsat p) (pim_OutgoingAmountMsat p) (pim_Tag p) w1 =
      (None, w')"
  using assms
proof (cases rule: server_RegisterPayment_cases)
  case (stored node token data ecies p q w1 e)
  from stored(4) have tag: "length (pim_Tag p) \<le> 1000" "pim_Tag p = [] \<or> json_valid (pim_Tag p)"
    by (auto simp: check_tag_def split: if_splits)
  from stored(5) have "case pim_OpeningFeeParams p of
       Some given \<Rightarrow> q = given \<and>
         os_ValidateOpeningFeeParams (cs_openingService s) (Some (params_of_pb q)) (PublicKey node) w =
           (True, w1)
     | None \<Rightarrow> \<exists>t. cs_now s w = (t, w1) \<and> q = deprecated_params (Config node) t"
    by (auto simp: registration_params_def split: option.splits prod.splits if_splits)
  with stored tag show ?thesis by blast
qed simp_all

section \<open>Every registered payment pays its fee\<close>

definition pays_fee :: "PaymentInfoResult \<Rightarrow> bool" where
  "pays_fee p \<longleftrightarrow> (\<exists>q. pi_params p = Some q \<and>
     checkPayment (pb_of_params q) (pi_incomingAmountMsat p) (pi_outgoingAmountMsat p) = None)"

text \<open>The server and the interceptor at work on the same store.\<close>

inductive lspd_step ::
  "'w opener_codec \<Rightarrow> 'w Interceptor \<Rightarrow> 'w channelOpenerServer \<Rightarrow> 'w \<Rightarrow> 'w \<Rightarrow> bool"
  for K i s where
  Intercepted: "intercept_payment i req w = Some (r, w') \<Longrightarrow> lspd_step K i s w w'"
| Registered: "server_RegisterPayment K s ctx blob w = (x, w') \<Longrightarrow> lspd_step K i s w w'"

locale opener_frame = intercept_frame L i reg ok
  for L :: libs and i :: "'w Interceptor" and reg :: "'w \<Rightarrow> bytes \<rightharpoonup> PaymentInfoResult"
    and ok :: "'w \<Rightarrow> bool" +
  fixes s :: "'w channelOpenerServer"
  assumes same_store: "cs_store s = i_store i"
    and validate_kept:
      "kept reg ok w (snd (os_ValidateOpeningFeeParams (cs_openingService s) p k w))"
    and clock_kept: "kept reg ok w (snd (cs_now s w))"
begin

lemma registration_params_kept:
  "registration_params s node p w = (x, w') \<Longrightarrow> kept reg ok w w'"
  using validate_kept [of w] clock_kept [of w]
  by (auto simp: registration_params_def split: option.splits prod.splits if_splits) (metis snd_conv)+

definition all_pay :: "'w \<Rightarrow> bool" where
  "all_pay w \<longleftrightarrow> ok w \<and> (\<forall>h p. reg w h = Some p \<longrightarrow> pays_fee p)"

lemma all_pay_kept: "all_pay w \<Longrightarrow> kept reg ok w w' \<Longrightarrow> all_pay w'"
  by (auto simp: all_pay_def kept_def)

lemma all_pay_may_fund: "all_pay w \<Longrightarrow> may_fund h w w' \<Longrightarrow> all_pay w'"
  by (auto simp: all_pay_def may_fund_def set_channel_point_def pays_fee_def split: if_splits)

lemma all_pay_register:
  assumes "server_RegisterPayment K s ctx blob w = (x, w')" and "all_pay w"
  shows "all_pay w'"
  using assms(1)
proof (cases rule: server_RegisterPayment_cases)
  case rejected
  with assms(2) show ?thesis by simp
next
  case (refused node p y)
  with assms(2) show ?thesis by (blast intro: all_pay_kept registration_params_kept)
next
  case (stored node token data ecies p q w1 e)
  have w1: "all_pay w1" using stored(5) assms(2) by (blast intro: all_pay_kept registration_params_kept)
  then have ok1: "ok w1" by (simp add: all_pay_def)
  note r = stored(7) [unfolded same_store]
  show ?thesis
  proof (cases "pim_Destination p = None \<or> pim_PaymentHash p = None \<or> pim_PaymentSecret p = None")
    case True
    then have "ok w' \<and> reg w' = reg w1" using register_nil [OF ok1 _ r] by blast
    with w1 show ?thesis by (simp add: all_pay_def)
  next
    case False
    then obtain d h sec where d: "pim_Destination p = Some d" "pim_PaymentHash p = Some h"
      "pim_PaymentSecret p = Some sec" by auto
    have "pays_fee (new_payment token (params_of_pb q) d h sec (pim_IncomingAmountMsat p)
        (pim_OutgoingAmountMsat p) (pim_Tag p))"
      using stored(6) by (simp add: pays_fee_def new_payment_def)
    with register [OF ok1 r [unfolded d]] w1 show ?thesis by (auto simp: all_pay_def split: if_splits)
  qed
qed

lemma all_pay_run:
  assumes "(lspd_step K i s)\<^sup>*\<^sup>* w w'" and "all_pay w"
  shows "all_pay w'"
  using assms
proof (induction rule: rtranclp_induct)
  case (step w1 w2)
  have w1: "all_pay w1" using step by simp
  then have "ok w1" by (simp add: all_pay_def)
  from step(2) show ?case
  proof cases
    case (Intercepted req r)
    from all_pay_may_fund [OF w1 intercept_payment_reg [OF \<open>ok w1\<close> this]] show ?thesis .
  next
    case (Registered ctx blob x)
    from all_pay_register [OF this w1] show ?thesis .
  qed
qed

lemma forwarded_pays:
  assumes "(lspd_step K i s)\<^sup>*\<^sup>* w0 w" and "ok w0" and "reg w0 = Map.empty"
    and "intercept_payment i req w = Some (Ret res, w')"
    and "Action res = INTERCEPT_RESUME_WITH_ONION"
  shows "\<exists>p w1. PaymentInfo (i_store i) (req_PaymentHash req) w = (Ret (Inr p), w1) \<and> pays_fee p"
proof -
  have "all_pay w0" using assms(2,3) by (simp add: all_pay_def)
  with assms(1) have w: "all_pay w" by (rule all_pay_run)
  obtain info w1 where info: "PaymentInfo (i_store i) (req_PaymentHash req) w = (Ret (Inr info), w1)"
    "pi_paymentSecret info \<noteq> None" using intercept_forwarded [OF assms(4,5)] by blast
  then have "info \<noteq> no_payment" by (auto simp: no_payment_def)
  with info_result [OF _ info(1)] w obtain h where "reg w h = Some info" by (auto simp: all_pay_def)
  with w info(1) show ?thesis by (auto simp: all_pay_def)
qed

end

section \<open>The deployed server\<close>

definition deployed_server :: "lsp_world channelOpenerServer" where
  "deployed_server = NewChannelOpenerServer (PostgresInterceptStore std_libs std_pool payments_cell)
     (NewOpeningService std_libs std_now (PostgresOpeningStore std_pool params_cell)) std_now"

interpretation lspd: opener_frame std_libs "deployed cfg" lsp_reg lsp_ok deployed_server for cfg
  by unfold_locales
    (auto simp: deployed_server_def NewChannelOpenerServer_def NewOpeningService_def
      ValidateOpeningFeeParams_def intro!: payments_kept split: option.split prod.split
      dest: lsp_payments.now_step)

text \<open>
  C2: Starting from an empty store, whatever clients register and whatever htlcs arrive, an htlc is
  only forwarded over an opened channel if the amounts of its payment satisfy the fee check under
  the fee params the payment was registered with.
\<close>

theorem forwarded_payments_pay:
  assumes "opener_frame L i reg ok s" and "(lspd_step K i s)\<^sup>*\<^sup>* w0 w" and "ok w0"
    and "reg w0 = Map.empty"
    and "intercept_payment i req w = Some (Ret res, w')"
    and "Action res = INTERCEPT_RESUME_WITH_ONION"
  shows "\<exists>p w1. PaymentInfo (i_store i) (req_PaymentHash req) w = (Ret (Inr p), w1) \<and> pays_fee p"
  by (rule opener_frame.forwarded_pays [OF assms])

text \<open>A codec for samples: messages are looked up by their first byte, ECIES is the identity.\<close>

definition sample_message :: PaymentInformation where
  "sample_message = \<lparr>pim_PaymentHash = Some [3], pim_PaymentSecret = Some [4],
     pim_Destination = Some [2], pim_IncomingAmountMsat = 5000000, pim_OutgoingAmountMsat = 3000000,
     pim_Tag = [], pim_OpeningFeeParams = Some (pb_of_params sample_offer)\<rparr>"

definition sample_codec :: "'w opener_codec" where
  "sample_codec = \<lparr>co_ecies_Decrypt = (\<lambda>k d. Inr d), co_ecies_Encrypt = (\<lambda>k d w. (Inr (k @ d), w)),
     co_prims = xor_prims,
     co_entropy = \<lparr>NewPrivateKey = (\<lambda>w. (Inr [9], w)), rand_ReadFull = (\<lambda>n w. (Inr (replicate n 5), w))\<rparr>,
     unmarshal_PaymentInformation = (\<lambda>d. Inr sample_message),
     unmarshal_Signed = (\<lambda>d. Inr \<lparr>sg_Data = d, sg_Pubkey = 4 # replicate 64 0, sg_Signature = []\<rparr>),
     unmarshal_CheckChannelsRequest = (\<lambda>d. Inr \<lparr>ccr_EncryptPubkey = 4 # replicate 64 0,
       ccr_FakeChannels = Map.empty, ccr_WaitingCloseChannels = Map.empty\<rparr>),
     marshal_CheckChannelsReply = (\<lambda>r. Inr [8]),
     NewSigFromECDSARawSignature = Inr, ToSignature = Inr, sig_Verify = (\<lambda>_ _ _. True),
     chainhash_HashB = (\<lambda>d. d)\<rparr>"

definition empty_world :: lsp_world where
  "empty_world = world_with [] \<lparr>sn_online = [[2]], sn_channels = []\<rparr> 0"

abbreviation sample_ctx :: "lsp_world ctx" where
  "sample_ctx \<equiv> Some (sample_node, ''tok'')"

lemma sample_offer_accepted:
  "ValidateOpeningFeeParams std_libs std_now (Some sample_offer) [3] empty_world =
     (True, world_with [] \<lparr>sn_online = [[2]], sn_channels = []\<rparr> 1)"
proof -
  let ?u = "unsigned_offer 0 (3600 * second) sample_params"
  obtain promise where p: "createPromise std_libs [3] ?u = Inr promise"
    using createPromise_ok by blast
  have k: "btcec_PubKey std_libs [3] = [3]" by (simp add: std_libs_def)
  have "sample_offer = ?u\<lparr>Promise := promise\<rparr>" by (simp add: sample_offer_def p Let_def)
  with verifyPromise_createPromise [OF recovers_signer_std p] k
  have "verifyPromise std_libs [3] sample_offer = None" by simp
  then show ?thesis
    by (simp add: ValidateOpeningFeeParams_def sample_offer_valid empty_world_def second_def)
qed

lemma sample_codec_simps [simp]:
  "decrypt_blob sample_codec node blob = Ret (Inr (blob, True))"
  "unmarshal_PaymentInformation sample_codec d = Inr sample_message"
  "co_ecies_Encrypt sample_codec k d w = (Inr (k @ d), w)"
  "marshal_CheckChannelsReply sample_codec reply = Inr [8]"
  "PublicKey sample_node = [3]"
  "params_of_pb (pb_of_params p) = p"
  by (simp_all add: decrypt_blob_def sample_codec_def sample_node_def params_of_pb_def pb_of_params_def)

lemma sample_registration:
  "server_RegisterPayment sample_codec deployed_server sample_ctx [] empty_world =
     (Ret None, sample_world 1)"
proof -
  have fee: "checkPayment (pb_of_params sample_offer) 5000000 3000000 = None"
    by (simp add: checkPayment_def pb_of_params_def sample_offer_def unsigned_offer_def
        sample_params_def Let_def) code_simp
  have store: "pg_RegisterPayment std_pool payments_cell ''tok'' (Some sample_offer) (Some [2]) (Some [3])
      (Some [4]) 5000000 3000000 [] (world_with [] n 1) = (None, world_with [sample_row] n 1)" for n
    by (simp add: pg_RegisterPayment_def exec_def)
      (simp add: sample_row_def upsert_def world_with_def cell_defs)
  show ?thesis
    using sample_offer_accepted fee store
    by (simp add: server_RegisterPayment_def ctx_GetNode_def check_tag_def registration_params_def
        sample_message_def deployed_server_def NewChannelOpenerServer_def NewOpeningService_def
        PostgresInterceptStore_def sample_world_def)
qed

theorem RegisterPayment_accepts_witness:
  "server_RegisterPayment sample_codec deployed_server sample_ctx [] empty_world =
     (Ret None, sample_world 1) \<and>
   (\<exists>p q. unmarshal_PaymentInformation (sample_codec :: lsp_world opener_codec) [] = Inr p \<and>
      checkPayment q (pim_IncomingAmountMsat p) (pim_OutgoingAmountMsat p) = None)"
  using RegisterPayment_accepts [OF sample_registration] sample_registration by fastforce

theorem forwarded_payments_pay_witness:
  "\<exists>w'. lspd_step sample_codec (deployed sample_config) deployed_server empty_world (sample_world 1) \<and>
     intercept_payment (deployed sample_config) sample_request (sample_world 1) =
       Some (Ret sample_answer, w') \<and>
     (\<exists>p w1. PaymentInfo (i_store (deployed sample_config)) [3] (sample_world 1) = (Ret (Inr p), w1) \<and>
        pays_fee p)"
proof -
  have step: "lspd_step sample_codec (deployed sample_config) deployed_server empty_world (sample_world 1)"
    by (rule lspd_step.Registered) (rule sample_registration)
  obtain w' where w': "intercept_payment (deployed sample_config) sample_request (sample_world 1) =
      Some (Ret sample_answer, w')" using sample_intercept [of 1] by (auto simp: second_def)
  have "lsp_ok empty_world" "lsp_reg empty_world = Map.empty"
    by (simp_all add: empty_world_def payments_ok_def payments_of_def row_of_def fun_eq_iff)
  from forwarded_payments_pay [OF lspd.opener_frame_axioms r_into_rtranclp this w', OF step]
  have "\<exists>p w1. PaymentInfo (i_store (deployed sample_config)) [3] (sample_world 1) = (Ret (Inr p), w1) \<and>
      pays_fee p"
    by (simp add: sample_answer_def sample_request_def)
  with step w' show ?thesis by blast
qed

text \<open>
  C39: Nothing excludes an incoming amount of zero: for every fee params whose minimum fee is below
  \<open>2\<^sup>63\<close>, the fee check accepts an incoming amount of zero with a negative outgoing amount, and once
  such a payment has a channel, intercepting an htlc for it crashes with a division by zero.
\<close>

theorem zero_amount_crashes:
  assumes "uint (pb_MinMsat q) < 2 ^ 63" and "pi_incomingAmountMsat info = 0"
    and "pi_channelPoint info = Some cp"
  shows "checkPayment q 0 (- uint (pb_MinMsat q)) = None \<and>
    forward_registered i req info w = Some (Panic ''division by zero'', w)"
proof -
  have "in_int64 (uint (pb_MinMsat q))"
    using assms(1) by (simp add: in_int64_def order_trans [of _ 0])
  moreover have "int64 0 = 0" by (simp add: in_int64_def)
  ultimately show ?thesis
    using assms int64_of_eq_uint [of "pb_MinMsat q"]
    by (simp add: checkPayment_def forward_registered_def go_div_nonneg Let_def)
qed

theorem zero_amount_crashes_witness:
  "checkPayment (pb_of_params sample_params) 0 (- 2000000) = None \<and>
   forward_registered (deployed sample_config) sample_request
     (sample_info\<lparr>pi_incomingAmountMsat := 0, pi_channelPoint := Some sample_outpoint\<rparr>) empty_world =
     Some (Panic ''division by zero'', empty_world)"
proof -
  have m: "uint (pb_MinMsat (pb_of_params sample_params)) = 2000000"
    by (simp add: pb_of_params_def sample_params_def)
  let ?p = "sample_info\<lparr>pi_incomingAmountMsat := 0, pi_channelPoint := Some sample_outpoint\<rparr>"
  have "pi_incomingAmountMsat ?p = 0" "pi_channelPoint ?p = Some sample_outpoint" by simp_all
  from zero_amount_crashes [OF _ this, of "pb_of_params sample_params" "deployed sample_config"
      sample_request empty_world]
  show ?thesis by (simp add: m)
qed

section \<open>Checking channels\<close>

lemma getSignedEncryptedData_signed:
  assumes "getSignedEncryptedData K n data = Ret (Inr (nodeID, body, ecies))"
  shows "\<exists>blob sd pub sig. decrypt_blob K n data = Ret (Inr (blob, ecies)) \<and>
    unmarshal_Signed K blob = Inr sd \<and> ParsePubKey (co_prims K) (sg_Pubkey sd) = Inr pub \<and>
    sig_Verify K sig (chainhash_HashB K (sg_Data sd)) pub \<and>
    nodeID = hex_encode (sg_Pubkey sd) \<and> body = sg_Data sd"
  using assms
  by (auto simp: getSignedEncryptedData_def split: outcome.splits sum.splits if_splits)

lemma encrypt_reply_ecies:
  "encrypt_reply K node pub True answer w = (Ret (Inr reply), w') \<Longrightarrow>
     co_ecies_Encrypt K (EciesPublicKey node) answer w = (Inr reply, w')"
  by (auto simp: encrypt_reply_def split: prod.splits sum.splits)



end
