(* ===== verification/Cln_Forwards.thy ===== *)
theory Cln_Forwards
  imports History Go_Float
begin

text \<open>
  The synchronisation of a CLN node's forwards into the history store (\<^verbatim>\<open>cln/forwards_sync.go\<close>). The
  node's \<^verbatim>\<open>ListForwards\<close> call is a field of the synchroniser. Both loops run until a short page is
  read, so they are partial functions; what they rely on of the store is the locale \<open>offset_store\<close>.
\<close>

section \<open>cln/forwards\_sync.go\<close>

record ListforwardsForwards =
  lf_InChannel :: string
  lf_InMsat :: "u64 option"
  lf_OutChannel :: "string option"
  lf_OutMsat :: "u64 option"
  lf_ReceivedTime :: float64
  lf_CreatedIndex :: "u64 option"
  lf_UpdatedIndex :: "u64 option"

datatype ListforwardsIndex = CREATED | UPDATED

record 'w ClnForwardSync =
  createdOffset :: u64
  updatedOffset :: u64
  cfs_nodeid :: bytes
  cfs_ListForwards ::
    "ListforwardsIndex \<Rightarrow> u64 \<Rightarrow> u32 \<Rightarrow> 'w \<Rightarrow> (error + ListforwardsForwards list) \<times> 'w"
  cfs_store :: "'w HistoryStore"

definition NewClnForwardSync ::
  "bytes \<Rightarrow> (ListforwardsIndex \<Rightarrow> u64 \<Rightarrow> u32 \<Rightarrow> 'w \<Rightarrow> (error + ListforwardsForwards list) \<times> 'w) \<Rightarrow>
     'w HistoryStore \<Rightarrow> 'w ClnForwardSync" where
  "NewClnForwardSync nodeid client store = \<lparr>
     createdOffset = 0, updatedOffset = 0, cfs_nodeid = nodeid, cfs_ListForwards = client,
     cfs_store = store\<rparr>"

definition resolved_time :: "float64 \<Rightarrow> time" where
  "resolved_time t =
     (case fl_modf t of (sec, dec) \<Rightarrow>
        int64 sec * second + int64 (fl_trunc (fl_mul dec (Float 1000000000 0))))"

text \<open>
  The loop over the forwards of a page: those without all fields are left out, a channel id that
  does not parse ends it; \<open>lastIndex\<close> is the index of the last forward that was taken.
\<close>

fun convert_forwards ::
  "libs \<Rightarrow> ListforwardsIndex \<Rightarrow> ListforwardsForwards list \<Rightarrow> u64 option \<Rightarrow>
     error + Forward list \<times> u64 option" where
  "convert_forwards L index [] lastIndex = Inr ([], lastIndex)"
| "convert_forwards L index (f # fs) lastIndex =
     (case (lf_OutChannel f, lf_CreatedIndex f, lf_InMsat f, lf_OutMsat f) of
        (Some outChannel, Some created, Some inMsat, Some outMsat) \<Rightarrow>
          (case NewShortChannelIDFromString L (lf_InChannel f) of
             Inl err \<Rightarrow> Inl (Wrap ''NewShortChannelIDFromString error'' err)
           | Inr inScid \<Rightarrow>
               (case NewShortChannelIDFromString L outChannel of
                  Inl err \<Rightarrow> Inl (Wrap ''NewShortChannelIDFromString error'' err)
                | Inr outScid \<Rightarrow>
                    (case convert_forwards L index fs
                            (if index = CREATED then Some created else lf_UpdatedIndex f) of
                       Inl err \<Rightarrow> Inl err
                     | Inr (forwards, lastIdx) \<Rightarrow>
                         Inr (\<lparr>fw_Identifier = format_uint created, fw_InChannel = inScid,
                               fw_OutChannel = outScid, fw_InMsat = inMsat, fw_OutMsat = outMsat,
                               fw_ResolvedTime = resolved_time (lf_ReceivedTime f)\<rparr> # forwards,
                              lastIdx))))
      | _ \<Rightarrow> convert_forwards L index fs lastIndex)"

definition listForwards ::
  "libs \<Rightarrow> 'w ClnForwardSync \<Rightarrow> ListforwardsIndex \<Rightarrow> u64 \<Rightarrow> u32 \<Rightarrow> 'w \<Rightarrow>
     (error + Forward list \<times> u64 \<times> bool) \<times> 'w" where
  "listForwards L s index offset limit w =
     (case cfs_ListForwards s index offset (limit * 2) w of
        (Inl err, w1) \<Rightarrow> (Inl err, w1)
      | (Inr response, w1) \<Rightarrow>
          (case convert_forwards L index response None of
             Inl err \<Rightarrow> (Inl err, w1)
           | Inr (result, lastIndex) \<Rightarrow>
               (Inr (result, (case lastIndex of None \<Rightarrow> 0 | Some i \<Rightarrow> i + 1),
                     length response < unat limit), w1)))"

partial_function (option) forwardCreatedSynchronizeOnce ::
  "libs \<Rightarrow> 'w ClnForwardSync \<Rightarrow> 'w \<Rightarrow> ('w ClnForwardSync \<times> 'w) option" where
  "forwardCreatedSynchronizeOnce L s w =
     (case listForwards L s CREATED (createdOffset s) 10000 w of
        (Inl err, w1) \<Rightarrow> Some (s, w1)
      | (Inr (forwards, newCreatedOffset, endReached), w1) \<Rightarrow>
          if forwards = [] then Some (s, w1)
          else (case InsertForwards (cfs_store s) forwards (cfs_nodeid s) w1 of
                  (Some err, w2) \<Rightarrow> Some (s, w2)
                | (None, w2) \<Rightarrow>
                    (case SetClnForwardOffsets (cfs_store s) (cfs_nodeid s) newCreatedOffset
                            (updatedOffset s) w2 of
                       (Some err, w3) \<Rightarrow> Some (s, w3)
                     | (None, w3) \<Rightarrow>
                         let s' = s\<lparr>createdOffset := newCreatedOffset\<rparr>
                         in if endReached then Some (s', w3)
                            else forwardCreatedSynchronizeOnce L s' w3)))"

partial_function (option) forwardUpdatedSynchronizeOnce ::
  "libs \<Rightarrow> 'w ClnForwardSync \<Rightarrow> 'w \<Rightarrow> ('w ClnForwardSync \<times> 'w) option" where
  "forwardUpdatedSynchronizeOnce L s w =
     (case listForwards L s UPDATED (updatedOffset s) 10000 w of
        (Inl err, w1) \<Rightarrow> Some (s, w1)
      | (Inr (forwards, newUpdatedOffset, endReached), w1) \<Rightarrow>
          if forwards = [] then Some (s, w1)
          else (case UpdateForwards (cfs_store s) forwards (cfs_nodeid s) w1 of
                  (Some err, w2) \<Rightarrow> Some (s, w2)
                | (None, w2) \<Rightarrow>
                    (case SetClnForwardOffsets (cfs_store s) (cfs_nodeid s) (createdOffset s)
                            newUpdatedOffset w2 of
                       (Some err, w3) \<Rightarrow> Some (s, w3)
                     | (None, w3) \<Rightarrow>
                         let s' = s\<lparr>updatedOffset := newUpdatedOffset\<rparr>
                         in if endReached then Some (s', w3)
                            else forwardUpdatedSynchronizeOnce L s' w3)))"

definition cln_forwardsSynchronizeOnce ::
  "libs \<Rightarrow> 'w ClnForwardSync \<Rightarrow> 'w \<Rightarrow> ('w ClnForwardSync \<times> 'w) option" where
  "cln_forwardsSynchronizeOnce L s w =
     (case forwardCreatedSynchronizeOnce L s w of
        None \<Rightarrow> None
      | Some (s1, w1) \<Rightarrow> forwardUpdatedSynchronizeOnce L s1 w1)"

text \<open>The start of the synchronisation, whose error is dropped, and its rounds.\<close>

definition fetch_offsets :: "'w ClnForwardSync \<Rightarrow> 'w \<Rightarrow> 'w ClnForwardSync \<times> 'w" where
  "fetch_offsets s w =
     (case FetchClnForwardOffsets (cfs_store s) (cfs_nodeid s) w of
        (Inl err, w1) \<Rightarrow> (s\<lparr>createdOffset := 0, updatedOffset := 0\<rparr>, w1)
      | (Inr (created, updated), w1) \<Rightarrow>
          (s\<lparr>createdOffset := created, updatedOffset := updated\<rparr>, w1))"

fun sync_rounds ::
  "libs \<Rightarrow> nat \<Rightarrow> 'w ClnForwardSync \<Rightarrow> 'w \<Rightarrow> ('w ClnForwardSync \<times> 'w) option" where
  "sync_rounds L 0 s w = Some (s, w)"
| "sync_rounds L (Suc n) s w =
     (case cln_forwardsSynchronizeOnce L s w of
        None \<Rightarrow> None
      | Some (s1, w1) \<Rightarrow> sync_rounds L n s1 w1)"

definition ForwardsSynchronize ::
  "libs \<Rightarrow> nat \<Rightarrow> 'w ClnForwardSync \<Rightarrow> 'w \<Rightarrow> ('w ClnForwardSync \<times> 'w) option" where
  "ForwardsSynchronize L n s w = (case fetch_offsets s w of (s1, w1) \<Rightarrow> sync_rounds L n s1 w1)"

section \<open>The loops with a bound on their rounds\<close>

text \<open>
  Both loops do the same with another index: \<open>page_step\<close> is one round, which ends the loop (\<open>Inl\<close>) or
  goes on (\<open>Inr\<close>).
\<close>

type_synonym 'w sync_state = "'w ClnForwardSync \<times> 'w"

fun offset_of :: "ListforwardsIndex \<Rightarrow> 'w ClnForwardSync \<Rightarrow> u64" where
  "offset_of CREATED s = createdOffset s"
| "offset_of UPDATED s = updatedOffset s"

fun set_offset :: "ListforwardsIndex \<Rightarrow> u64 \<Rightarrow> 'w ClnForwardSync \<Rightarrow> 'w ClnForwardSync" where
  "set_offset CREATED n s = s\<lparr>createdOffset := n\<rparr>"
| "set_offset UPDATED n s = s\<lparr>updatedOffset := n\<rparr>"

fun put_forwards :: "ListforwardsIndex \<Rightarrow> 'w HistoryStore \<Rightarrow> Forward list \<Rightarrow> bytes \<Rightarrow> 'w \<Rightarrow>
    error option \<times> 'w" where
  "put_forwards CREATED S = InsertForwards S"
| "put_forwards UPDATED S = UpdateForwards S"

definition page_step ::
  "libs \<Rightarrow> ListforwardsIndex \<Rightarrow> 'w sync_state \<Rightarrow> 'w sync_state + 'w sync_state" where
  "page_step L index sw =
     (case sw of (s, w) \<Rightarrow>
        (case listForwards L s index (offset_of index s) 10000 w of
           (Inl err, w1) \<Rightarrow> Inl (s, w1)
         | (Inr (forwards, newOffset, endReached), w1) \<Rightarrow>
             if forwards = [] then Inl (s, w1)
             else (case put_forwards index (cfs_store s) forwards (cfs_nodeid s) w1 of
                     (Some err, w2) \<Rightarrow> Inl (s, w2)
                   | (None, w2) \<Rightarrow>
                       let s' = set_offset index newOffset s
                       in (case SetClnForwardOffsets (cfs_store s) (cfs_nodeid s) (createdOffset s')
                                  (updatedOffset s') w2 of
                             (Some err, w3) \<Rightarrow> Inl (s, w3)
                           | (None, w3) \<Rightarrow> if endReached then Inl (s', w3) else Inr (s', w3)))))"

primrec pages :: "libs \<Rightarrow> ListforwardsIndex \<Rightarrow> nat \<Rightarrow> 'w sync_state \<Rightarrow> 'w sync_state option" where
  "pages L index 0 sw = None"
| "pages L index (Suc n) sw =
     (case page_step L index sw of Inl r \<Rightarrow> Some r | Inr sw' \<Rightarrow> pages L index n sw')"

fun sync_loop :: "libs \<Rightarrow> ListforwardsIndex \<Rightarrow> 'w sync_state \<Rightarrow> 'w sync_state option" where
  "sync_loop L CREATED (s, w) = forwardCreatedSynchronizeOnce L s w"
| "sync_loop L UPDATED (s, w) = forwardUpdatedSynchronizeOnce L s w"

lemma sync_loop_step:
  "sync_loop L index sw =
     (case page_step L index sw of Inl r \<Rightarrow> Some r | Inr sw' \<Rightarrow> sync_loop L index sw')"
proof (cases sw)
  case (Pair s w)
  show ?thesis
  proof (cases index)
    case CREATED
    then show ?thesis
      unfolding Pair
      by (simp add: page_step_def, subst forwardCreatedSynchronizeOnce.simps)
        (auto simp: Let_def split: prod.split sum.split option.split)
  next
    case UPDATED
    then show ?thesis
      unfolding Pair
      by (simp add: page_step_def, subst forwardUpdatedSynchronizeOnce.simps)
        (auto simp: Let_def split: prod.split sum.split option.split)
  qed
qed

lemma pages_sound: "pages L index n sw = Some r \<Longrightarrow> sync_loop L index sw = Some r"
proof (induction n arbitrary: sw)
  case (Suc n)
  then show ?case by (subst sync_loop_step) (auto split: sum.splits)
qed simp

text \<open>If the loop goes on, one round more is enough.\<close>

lemma pages_step:
  assumes "(case page_step L index sw of Inl r \<Rightarrow> Some r | Inr (s', w') \<Rightarrow> f L s' w') = Some r"
    and "\<And>s' w'. f L s' w' = Some r \<Longrightarrow> \<exists>n. pages L index n (s', w') = Some r"
  shows "\<exists>n. pages L index n sw = Some r"
proof (cases "page_step L index sw")
  case (Inl r')
  with assms(1) have "pages L index (Suc 0) sw = Some r" by simp
  then show ?thesis by blast
next
  case (Inr sw')
  then obtain s' w' where sw': "page_step L index sw = Inr (s', w')" by (cases sw') simp
  with assms(1) have "f L s' w' = Some r" by simp
  from assms(2) [OF this] obtain n where "pages L index n (s', w') = Some r" by blast
  with sw' have "pages L index (Suc n) sw = Some r" by simp
  then show ?thesis by blast
qed

lemma created_pages:
  assumes "forwardCreatedSynchronizeOnce L s w = Some r"
  shows "\<exists>n. pages L CREATED n (s, w) = Some r"
proof (rule forwardCreatedSynchronizeOnce.raw_induct
    [where P = "\<lambda>L s w r. \<exists>n. pages L CREATED n (s, w) = Some r", OF _ assms], goal_cases)
  case (1 f L s w r)
  show ?case
    by (rule pages_step [where f = f], rule trans [OF _ 1(2)])
      (auto simp: page_step_def Let_def 1(1) split: prod.split sum.split option.split)
qed

lemma updated_pages:
  assumes "forwardUpdatedSynchronizeOnce L s w = Some r"
  shows "\<exists>n. pages L UPDATED n (s, w) = Some r"
proof (rule forwardUpdatedSynchronizeOnce.raw_induct
    [where P = "\<lambda>L s w r. \<exists>n. pages L UPDATED n (s, w) = Some r", OF _ assms], goal_cases)
  case (1 f L s w r)
  show ?case
    by (rule pages_step [where f = f], rule trans [OF _ 1(2)])
      (auto simp: page_step_def Let_def 1(1) split: prod.split sum.split option.split)
qed

lemma sync_loop_iff_pages: "sync_loop L index sw = Some r \<longleftrightarrow> (\<exists>n. pages L index n sw = Some r)"
proof
  assume "sync_loop L index sw = Some r"
  then show "\<exists>n. pages L index n sw = Some r"
    by (cases sw; cases index) (auto dest: created_pages updated_pages)
qed (blast dest: pages_sound)

section \<open>The offsets in memory are the stored ones\<close>

definition in_sync ::
  "'w HistoryStore \<Rightarrow> (ListforwardsIndex \<Rightarrow> u64 \<Rightarrow> u32 \<Rightarrow> 'w \<Rightarrow> (error + ListforwardsForwards list) \<times> 'w) \<Rightarrow>
     bytes \<Rightarrow> ('w \<Rightarrow> bytes \<Rightarrow> u64 \<times> u64) \<Rightarrow> 'w sync_state \<Rightarrow> bool" where
  "in_sync S rpc nodeid offs sw \<longleftrightarrow> (case sw of (s, w) \<Rightarrow>
     cfs_store s = S \<and> cfs_ListForwards s = rpc \<and> cfs_nodeid s = nodeid \<and>
     offs w nodeid = (createdOffset s, updatedOffset s))"

lemma set_offset_fields [simp]:
  "cfs_store (set_offset index n s) = cfs_store s"
  "cfs_nodeid (set_offset index n s) = cfs_nodeid s"
  "cfs_ListForwards (set_offset index n s) = cfs_ListForwards s"
  by (cases index; simp)+

text \<open>The node's call does not touch the store.\<close>

locale forward_sync = offset_store S offs
  for S :: "'w HistoryStore" and offs :: "'w \<Rightarrow> bytes \<Rightarrow> u64 \<times> u64" +
  fixes list_rpc :: "ListforwardsIndex \<Rightarrow> u64 \<Rightarrow> u32 \<Rightarrow> 'w \<Rightarrow> (error + ListforwardsForwards list) \<times> 'w"
  assumes list_keeps: "list_rpc index start limit w = (r, w') \<Longrightarrow> offs w' = offs w"
begin

lemma put_forwards_keeps: "put_forwards index S fs n w = (e, w') \<Longrightarrow> offs w' = offs w"
  by (cases index) (auto dest: insert_keeps update_keeps)

lemma page_step_sync:
  assumes "in_sync S list_rpc nid offs sw" and "page_step L index sw = r"
  shows "case r of Inl sw' \<Rightarrow> in_sync S list_rpc nid offs sw' | Inr sw' \<Rightarrow> in_sync S list_rpc nid offs sw'"
proof -
  obtain s w where sw: "sw = (s, w)" by fastforce
  have s: "cfs_store s = S" "cfs_ListForwards s = list_rpc" "cfs_nodeid s = nid"
    "offs w nid = (createdOffset s, updatedOffset s)"
    using assms(1) by (simp_all add: in_sync_def sw)
  obtain l w1 where l: "listForwards L s index (offset_of index s) 10000 w = (l, w1)" by fastforce
  have w1: "offs w1 = offs w"
    using l by (auto simp: listForwards_def s(2) dest!: list_keeps split: prod.splits sum.splits)
  show ?thesis
  proof (cases l)
    case (Inl e)
    with assms(2) l s w1 show ?thesis by (auto simp: page_step_def sw in_sync_def)
  next
    case (Inr x)
    obtain fs off fin where x: "x = (fs, off, fin)" by (cases x)
    obtain e w2 where e: "put_forwards index S fs nid w1 = (e, w2)" by fastforce
    obtain e' w3 where e': "SetClnForwardOffsets S nid (createdOffset (set_offset index off s))
      (updatedOffset (set_offset index off s)) w2 = (e', w3)" by fastforce
    have "offs w2 = offs w1" "offs w3 = (if e' = None then (offs w2)(nid :=
        (createdOffset (set_offset index off s), updatedOffset (set_offset index off s))) else offs w2)"
      using put_forwards_keeps [OF e] set_offsets [OF e'] by simp_all
    with assms(2) l Inr x e e' s w1 show ?thesis
      by (auto simp: page_step_def sw in_sync_def Let_def split: option.splits if_splits)
  qed
qed

lemma pages_sync:
  assumes "pages L index n sw = Some sw'" and "in_sync S list_rpc nid offs sw"
  shows "in_sync S list_rpc nid offs sw'"
  using assms
proof (induction n arbitrary: sw)
  case (Suc n)
  then show ?case using page_step_sync [OF Suc.prems(2) refl, of L index] by (auto split: sum.splits)
qed simp

lemma sync_rounds_sync:
  assumes "sync_rounds L n s w = Some sw'" and "in_sync S list_rpc nid offs (s, w)"
  shows "in_sync S list_rpc nid offs sw'"
  using assms
proof (induction n arbitrary: s w)
  case (Suc n)
  obtain s1 w1 s2 w2 where "sync_loop L CREATED (s, w) = Some (s1, w1)"
    "sync_loop L UPDATED (s1, w1) = Some (s2, w2)" "sync_rounds L n s2 w2 = Some sw'"
    using Suc.prems(1) by (auto simp: cln_forwardsSynchronizeOnce_def split: option.splits)
  with Suc pages_sync show ?case by (metis sync_loop_iff_pages)
qed simp

lemma ForwardsSynchronize_sync:
  assumes "FetchClnForwardOffsets S nid w = (Inr x, w0)"
    and "ForwardsSynchronize L n (NewClnForwardSync nid list_rpc S) w = Some (s', w')"
  shows "offs w' nid = (createdOffset s', updatedOffset s')"
proof -
  obtain s1 w1 where s1: "fetch_offsets (NewClnForwardSync nid list_rpc S) w = (s1, w1)"
    "sync_rounds L n s1 w1 = Some (s', w')"
    using assms(2) by (auto simp: ForwardsSynchronize_def split: prod.splits)
  have "in_sync S list_rpc nid offs (s1, w1)"
    using s1(1) assms(1) fetch [OF assms(1)] fetch_keeps [OF assms(1)]
    by (auto simp: in_sync_def fetch_offsets_def NewClnForwardSync_def split: prod.splits)
  from sync_rounds_sync [OF s1(2) this] show ?thesis by (simp add: in_sync_def)
qed

end

text \<open>
  The synchronisation over the PostgreSQL store: an instance for every call of a node that leaves
  the tables alone.
\<close>

locale forward_sync_db = history_db table pool now
  for table :: "('w, history_tables) cell" and pool :: "'w pool" and now :: "'w clock" +
  fixes list_rpc :: "ListforwardsIndex \<Rightarrow> u64 \<Rightarrow> u32 \<Rightarrow> 'w \<Rightarrow> (error + ListforwardsForwards list) \<times> 'w"
  assumes list_table: "cell_get table (snd (list_rpc index start limit w)) = cell_get table w"

sublocale forward_sync_db \<subseteq> cln: forward_sync "PostgresHistoryStore pool table"
  "\<lambda>w. stored_offsets (cell_get table w)" list_rpc
proof
  fix index start limit w r w'
  assume "list_rpc index start limit w = (r, w')"
  with list_table [of index start limit w]
  show "stored_offsets (cell_get table w') = stored_offsets (cell_get table w)" by simp
qed

context forward_sync_db
begin

lemmas pg_ForwardsSynchronize_sync = cln.ForwardsSynchronize_sync

end

section \<open>The loops end\<close>

fun index_of :: "ListforwardsIndex \<Rightarrow> ListforwardsForwards \<Rightarrow> u64 option" where
  "index_of CREATED f = lf_CreatedIndex f"
| "index_of UPDATED f = lf_UpdatedIndex f"

text \<open>
  What a node promises for a listing by index: only forwards with an index, from the start on, and
  none above a bound \<open>m\<close>, the number of forwards the node ever made.
\<close>

definition lists_from_start ::
  "(ListforwardsIndex \<Rightarrow> u64 \<Rightarrow> u32 \<Rightarrow> 'w \<Rightarrow> (error + ListforwardsForwards list) \<times> 'w) \<Rightarrow> u64 \<Rightarrow> bool" where
  "lists_from_start rpc m \<longleftrightarrow> (\<forall>index start limit w fs w' f.
     rpc index start limit w = (Inr fs, w') \<longrightarrow> f \<in> set fs \<longrightarrow>
     (\<exists>i. index_of index f = Some i \<and> start \<le> i \<and> i \<le> m))"

lemma convert_forwards_last:
  assumes "convert_forwards L index fs l = Inr (result, lastIdx)"
    and "\<forall>f\<in>set fs. \<exists>i. index_of index f = Some i \<and> start \<le> i \<and> i \<le> m"
  shows "(result = [] \<and> lastIdx = l) \<or> (\<exists>i. lastIdx = Some i \<and> start \<le> i \<and> i \<le> m)"
  using assms
proof (induction fs arbitrary: l result)
  case (Cons f fs)
  obtain i where i: "index_of index f = Some i" "start \<le> i" "i \<le> m" using Cons.prems(2) by auto
  consider (skip) "convert_forwards L index fs l = Inr (result, lastIdx)"
    | (take) result' where "convert_forwards L index fs (Some i) = Inr (result', lastIdx)"
    using Cons.prems(1) i(1)
    by (cases index) (auto split: option.splits sum.splits prod.splits)
  then show ?case
  proof cases
    case skip
    with Cons show ?thesis by auto
  next
    case take
    from Cons.IH [OF this] Cons.prems(2) i show ?thesis by auto
  qed
qed simp

lemma page_step_progress:
  assumes "lists_from_start (cfs_ListForwards s) m" and "unat m < 2 ^ 64 - 1"
    and "page_step L index (s, w) = Inr (s', w')"
  shows "unat (offset_of index s) < unat (offset_of index s') \<and>
    unat (offset_of index s') \<le> unat m + 1 \<and> cfs_ListForwards s' = cfs_ListForwards s"
proof -
  obtain fs off fin w1 where l: "listForwards L s index (offset_of index s) 10000 w =
      (Inr (fs, off, fin), w1)" "fs \<noteq> []" "s' = set_offset index off s"
    using assms(3)
    by (auto simp: page_step_def Let_def split: prod.splits sum.splits option.splits if_splits)
  then obtain response lastIdx where r: "cfs_ListForwards s index (offset_of index s) (10000 * 2) w =
      (Inr response, w1)" "convert_forwards L index response None = Inr (fs, lastIdx)"
      "off = (case lastIdx of None \<Rightarrow> 0 | Some i \<Rightarrow> i + 1)"
    by (auto simp: listForwards_def split: prod.splits sum.splits)
  have "\<forall>f\<in>set response. \<exists>i. index_of index f = Some i \<and> offset_of index s \<le> i \<and> i \<le> m"
    using assms(1) r(1) unfolding lists_from_start_def by blast
  from convert_forwards_last [OF r(2) this] l(2) obtain i where
    i: "lastIdx = Some i" "offset_of index s \<le> i" "i \<le> m" by auto
  have le: "unat (offset_of index s) \<le> unat i" "unat i \<le> unat m"
    using i(2,3) by (simp_all add: word_le_nat_alt)
  then have "unat i + 1 < 2 ^ 64" using assms(2) by simp
  then have "unat (i + 1) = unat i + 1"
    by (simp add: unat_add_lem [THEN iffD1])
  moreover have "offset_of index s' = i + 1" using i(1) r(3) l(3) by (cases index) auto
  ultimately show ?thesis using le l(3) by simp
qed

lemma pages_end:
  assumes "lists_from_start (cfs_ListForwards s) m" and "unat m < 2 ^ 64 - 1"
    and "unat m + 1 \<le> unat (offset_of index s) + n"
  shows "\<exists>r. pages L index (Suc n) (s, w) = Some r"
  using assms
proof (induction n arbitrary: s w)
  case 0
  then show ?case
    using page_step_progress [OF 0(1,2), of L index w] by (fastforce split: sum.split)
next
  case (Suc n)
  show ?case
  proof (cases "page_step L index (s, w)")
    case (Inr sw')
    obtain s' w' where sw': "sw' = (s', w')" by fastforce
    with Inr page_step_progress [OF Suc.prems(1,2), of L index w s' w']
    have p: "unat (offset_of index s) < unat (offset_of index s')"
      "cfs_ListForwards s' = cfs_ListForwards s" by simp_all
    with Suc have "\<exists>r. pages L index (Suc n) (s', w') = Some r" by (intro Suc.IH) simp_all
    with Inr sw' show ?thesis by simp
  qed simp
qed

lemma page_step_rpc:
  assumes "page_step L index (s, w) = x" and "x = Inl (s', w') \<or> x = Inr (s', w')"
  shows "cfs_ListForwards s' = cfs_ListForwards s"
  using assms
  by (auto simp: page_step_def Let_def split: prod.splits sum.splits option.splits if_splits)

lemma pages_rpc:
  assumes "pages L index n (s, w) = Some (s', w')"
  shows "cfs_ListForwards s' = cfs_ListForwards s"
  using assms
proof (induction n arbitrary: s w)
  case (Suc n)
  show ?case
  proof (cases "page_step L index (s, w)")
    case (Inl r)
    with Suc.prems page_step_rpc [of L index s w] show ?thesis by (cases r) auto
  next
    case (Inr sw)
    obtain s1 w1 where "sw = (s1, w1)" by fastforce
    with Inr Suc page_step_rpc [of L index s w "Inr (s1, w1)" s1 w1] show ?thesis by auto
  qed
qed simp

lemma sync_loop_returns:
  assumes "lists_from_start (cfs_ListForwards s) m" and "unat m < 2 ^ 64 - 1"
  shows "\<exists>s' w'. sync_loop L index (s, w) = Some (s', w') \<and> cfs_ListForwards s' = cfs_ListForwards s"
proof -
  obtain r where r: "pages L index (Suc (unat m + 1)) (s, w) = Some r"
    using pages_end [OF assms, of index "unat m + 1" L w] by auto
  with pages_sound pages_rpc show ?thesis by (metis surj_pair)
qed

lemma sync_rounds_return:
  assumes "lists_from_start (cfs_ListForwards s) m" and "unat m < 2 ^ 64 - 1"
  shows "\<exists>r. sync_rounds L n s w = Some r"
  using assms(1)
proof (induction n arbitrary: s w)
  case (Suc n)
  obtain s1 w1 where s1: "sync_loop L CREATED (s, w) = Some (s1, w1)"
    "cfs_ListForwards s1 = cfs_ListForwards s"
    using sync_loop_returns [OF Suc.prems assms(2)] by blast
  obtain s2 w2 where s2: "sync_loop L UPDATED (s1, w1) = Some (s2, w2)"
    "cfs_ListForwards s2 = cfs_ListForwards s1"
    using sync_loop_returns [of s1 m L UPDATED w1] Suc.prems s1(2) assms(2) by auto
  with s1 Suc show ?case by (simp add: cln_forwardsSynchronizeOnce_def)
qed simp

lemma fetch_offsets_rpc: "cfs_ListForwards (fst (fetch_offsets s w)) = cfs_ListForwards s"
  by (auto simp: fetch_offsets_def split: prod.split sum.split)

text \<open>A node with a fixed list of forwards.\<close>

definition listing_rpc ::
  "ListforwardsForwards list \<Rightarrow> ListforwardsIndex \<Rightarrow> u64 \<Rightarrow> u32 \<Rightarrow> 'w \<Rightarrow>
     (error + ListforwardsForwards list) \<times> 'w" where
  "listing_rpc hist index start limit w =
     (Inr (take (unat limit) (filter (\<lambda>f. case index_of index f of None \<Rightarrow> False | Some i \<Rightarrow> start \<le> i) hist)), w)"

interpretation std_sync: forward_sync_db std_table std_pool std_now "listing_rpc hist" for hist
  by unfold_locales (simp add: listing_rpc_def)

lemma listing_rpc_from_start:
  assumes "\<forall>f\<in>set hist. \<forall>index i. index_of index f = Some i \<longrightarrow> i \<le> m"
  shows "lists_from_start (listing_rpc hist) m"
  using assms
  by (auto simp: lists_from_start_def listing_rpc_def dest!: in_set_takeD split: option.splits)

definition sample_cln_forward :: ListforwardsForwards where
  "sample_cln_forward = \<lparr>lf_InChannel = ''1x2x3'', lf_InMsat = Some 1100, lf_OutChannel = Some ''4x5x6'',
     lf_OutMsat = Some 1000, lf_ReceivedTime = Float 5 0, lf_CreatedIndex = Some 7,
     lf_UpdatedIndex = Some 9\<rparr>"

section \<open>Properties\<close>

text \<open>
  C13: Once the synchronisation of a CLN node has started with the stored offsets, its offsets in
  memory and in the database agree after any number of rounds, whatever errors the node or the
  database return on the way: no forwards are skipped after a restart.
\<close>

theorem cln_offsets_agree:
  assumes "forward_sync_db table pool now rpc"
    and "FetchClnForwardOffsets (PostgresHistoryStore pool table) nodeid w = (Inr x, w0)"
    and "ForwardsSynchronize L n (NewClnForwardSync nodeid rpc (PostgresHistoryStore pool table)) w =
      Some (s', w')"
  shows "stored_offsets (cell_get table w') nodeid = (createdOffset s', updatedOffset s')"
  by (rule forward_sync_db.pg_ForwardsSynchronize_sync [OF assms])

theorem cln_offsets_agree_witness:
  "\<exists>s' w'. ForwardsSynchronize std_libs 2 (NewClnForwardSync [1] (listing_rpc [sample_cln_forward])
       (PostgresHistoryStore std_pool std_table))
       \<lparr>sw_time = 0, sw_fates = [], sw_table = empty_history\<rparr> = Some (s', w') \<and>
     stored_offsets (sw_table w') [1] = (createdOffset s', updatedOffset s')"
proof -
  let ?S = "PostgresHistoryStore std_pool (std_table :: (history_tables std_world, history_tables) cell)"
  let ?w = "\<lparr>sw_time = 0, sw_fates = [], sw_table = empty_history\<rparr>"
  let ?s = "NewClnForwardSync [1] (listing_rpc [sample_cln_forward]) ?S"
  have "\<exists>x. fst (FetchClnForwardOffsets ?S [1] ?w) = Inr x"
    by (simp add: PostgresHistoryStore_def pg_FetchClnForwardOffsets_def db_simps
        split: option.split)
  then obtain x where fetch: "FetchClnForwardOffsets ?S [1] ?w = (Inr x, snd (FetchClnForwardOffsets ?S [1] ?w))"
    by (metis prod.collapse)
  have "\<forall>f\<in>set [sample_cln_forward]. \<forall>index i. index_of index f = Some i \<longrightarrow> i \<le> 9"
    by (auto simp: sample_cln_forward_def elim!: index_of.elims)
  then have "lists_from_start (listing_rpc [sample_cln_forward] :: _ \<Rightarrow> _ \<Rightarrow> _ \<Rightarrow> history_tables std_world \<Rightarrow> _) 9"
    by (rule listing_rpc_from_start)
  moreover obtain s1 w1 where s1: "fetch_offsets ?s ?w = (s1, w1)" by fastforce
  moreover from s1 have "cfs_ListForwards s1 = listing_rpc [sample_cln_forward]"
    using fetch_offsets_rpc [of ?s ?w] by (simp add: NewClnForwardSync_def)
  ultimately obtain s' w' where r: "ForwardsSynchronize std_libs 2 ?s ?w = Some (s', w')"
    using sync_rounds_return [of s1 9 std_libs 2 w1] by (auto simp: ForwardsSynchronize_def)
  from cln_offsets_agree [OF std_sync.forward_sync_db_axioms fetch r] r show ?thesis
    by (simp add: std_table_def)
qed

text \<open>
  C14: One round of the synchronisation ends, for a node that lists forwards from the requested index
  on and has a largest index below \<open>2\<^sup>64 - 1\<close>: every page that is not the last one moves the offset.
\<close>

theorem cln_sync_returns:
  assumes "lists_from_start (cfs_ListForwards s) m" and "unat m < 2 ^ 64 - 1"
  shows "\<exists>r. cln_forwardsSynchronizeOnce L s w = Some r"
proof -
  obtain s1 w1 where s1: "sync_loop L CREATED (s, w) = Some (s1, w1)"
    "cfs_ListForwards s1 = cfs_ListForwards s"
    using sync_loop_returns [OF assms] by blast
  with assms(1) sync_loop_returns [OF _ assms(2), of s1 L UPDATED w1] show ?thesis
    by (auto simp: cln_forwardsSynchronizeOnce_def)
qed

theorem cln_sync_returns_witness:
  "\<exists>r. cln_forwardsSynchronizeOnce std_libs (NewClnForwardSync [1] (listing_rpc [sample_cln_forward])
       (PostgresHistoryStore std_pool std_table))
       \<lparr>sw_time = 0, sw_fates = [], sw_table = empty_history\<rparr> = Some r"
proof -
  have "\<forall>f\<in>set [sample_cln_forward]. \<forall>index i. index_of index f = Some i \<longrightarrow> i \<le> 9"
    by (auto simp: sample_cln_forward_def elim!: index_of.elims)
  then have "lists_from_start (listing_rpc [sample_cln_forward] :: _ \<Rightarrow> _ \<Rightarrow> _ \<Rightarrow> history_tables std_world \<Rightarrow> _) 9"
    by (rule listing_rpc_from_start)
  then show ?thesis by (intro cln_sync_returns [of _ 9]) (simp_all add: NewClnForwardSync_def)
qed

end
