(* ===== verification/Lnd_Forwards.thy ===== *)
theory Lnd_Forwards
  imports History
begin

text \<open>
  The synchronisation of an LND node's forwards into the history store (\<^verbatim>\<open>lnd/forwards_sync.go\<close>). It
  starts from the time of the last stored forward and asks for pages of 10000 events from a start
  time in whole seconds. The node's \<^verbatim>\<open>ForwardingHistory\<close> call is a field of the synchroniser.
\<close>

section \<open>lnd/forwards\_sync.go\<close>

record ForwardingEvent =
  fe_TimestampNs :: u64
  fe_ChanIdIn :: u64
  fe_ChanIdOut :: u64
  fe_AmtInMsat :: u64
  fe_AmtOutMsat :: u64

record 'w LndForwardSync =
  lfs_nodeid :: bytes
  lfs_ForwardingHistory :: "u64 \<Rightarrow> u32 \<Rightarrow> 'w \<Rightarrow> (error + ForwardingEvent list) \<times> 'w"
  lfs_store :: "'w HistoryStore"

definition NewLndForwardSync ::
  "bytes \<Rightarrow> (u64 \<Rightarrow> u32 \<Rightarrow> 'w \<Rightarrow> (error + ForwardingEvent list) \<times> 'w) \<Rightarrow> 'w HistoryStore \<Rightarrow>
     'w LndForwardSync" where
  "NewLndForwardSync nodeid client store =
     \<lparr>lfs_nodeid = nodeid, lfs_ForwardingHistory = client, lfs_store = store\<rparr>"

definition maxEvents :: nat where "maxEvents = 10000"

definition lnd_forward :: "ForwardingEvent \<Rightarrow> Forward" where
  "lnd_forward f = \<lparr>
     fw_Identifier = format_uint (fe_TimestampNs f) @ ''|'' @ format_uint (fe_AmtInMsat f),
     fw_InChannel = fe_ChanIdIn f,
     fw_OutChannel = fe_ChanIdOut f,
     fw_InMsat = fe_AmtInMsat f,
     fw_OutMsat = fe_AmtOutMsat f,
     fw_ResolvedTime = int64_of (fe_TimestampNs f)\<rparr>"

partial_function (option) lnd_sync_loop :: "'w LndForwardSync \<Rightarrow> u64 \<Rightarrow> 'w \<Rightarrow> 'w option" where
  "lnd_sync_loop s startTime w =
     (case lfs_ForwardingHistory s (startTime div 1000000000) (word_of_nat maxEvents) w of
        (Inl err, w1) \<Rightarrow> Some w1
      | (Inr events, w1) \<Rightarrow>
          if events = [] then Some w1
          else (case InsertForwards (lfs_store s) (map lnd_forward events) (lfs_nodeid s) w1 of
                  (Some err, w2) \<Rightarrow> Some w2
                | (None, w2) \<Rightarrow>
                    if length events < maxEvents then Some w2
                    else lnd_sync_loop s (fe_TimestampNs (last events)) w2))"

definition lnd_forwardsSynchronizeOnce :: "'w LndForwardSync \<Rightarrow> 'w \<Rightarrow> 'w option" where
  "lnd_forwardsSynchronizeOnce s w =
     (case FetchLndForwardOffset (lfs_store s) (lfs_nodeid s) w of
        (Inl err, w1) \<Rightarrow> Some w1
      | (Inr lastTime, w1) \<Rightarrow>
          lnd_sync_loop s (case lastTime of None \<Rightarrow> 0 | Some t \<Rightarrow> uint64_of (int64 t)) w1)"

text \<open>The rounds of \<^verbatim>\<open>ForwardsSynchronize\<close> before its context is done; the first starts at once.\<close>

fun lnd_ForwardsSynchronize :: "nat \<Rightarrow> 'w LndForwardSync \<Rightarrow> 'w \<Rightarrow> 'w option" where
  "lnd_ForwardsSynchronize 0 s w = lnd_forwardsSynchronizeOnce s w"
| "lnd_ForwardsSynchronize (Suc n) s w =
     (case lnd_forwardsSynchronizeOnce s w of
        None \<Rightarrow> None
      | Some w1 \<Rightarrow> lnd_ForwardsSynchronize n s w1)"

section \<open>Properties\<close>

text \<open>
  C40: A synchronisation that meets 10000 or more events within one second never ends: the page for
  that second is full, its last event lies in the same second, and the next request is the same
  again. (Stated for a node that answers the request for that second always alike and a store that
  accepts the forwards.)
\<close>

theorem lnd_sync_stuck:
  assumes "\<forall>w. \<exists>w'. lfs_ForwardingHistory s sec (word_of_nat maxEvents) w = (Inr events, w')"
    and "maxEvents \<le> length events" and "fe_TimestampNs (last events) div 1000000000 = sec"
    and "\<forall>w. \<exists>w'. InsertForwards (lfs_store s) (map lnd_forward events) (lfs_nodeid s) w = (None, w')"
    and "startTime div 1000000000 = sec"
  shows "lnd_sync_loop s startTime w = None"
proof -
  have ne: "events \<noteq> []" using assms(2) by (auto simp: maxEvents_def)
  have "s = s \<longrightarrow> startTime div 1000000000 \<noteq> sec" if r: "lnd_sync_loop s startTime w = Some r" for r
  proof (rule lnd_sync_loop.raw_induct
      [where P = "\<lambda>s' t w r. s' = s \<longrightarrow> t div 1000000000 \<noteq> sec", OF _ r], goal_cases)
    case (1 f s' t w r)
    show ?case
    proof (intro impI notI)
      assume s': "s' = s" and t: "t div 1000000000 = sec"
      obtain w1 where w1: "lfs_ForwardingHistory s sec (word_of_nat maxEvents) w = (Inr events, w1)"
        using assms(1) by blast
      obtain w2 where "InsertForwards (lfs_store s) (map lnd_forward events) (lfs_nodeid s) w1 = (None, w2)"
        using assms(4) by blast
      with 1(2) [unfolded s'] w1 t ne assms(2) have "f s (fe_TimestampNs (last events)) w2 = Some r"
        by simp
      from 1(1) [OF this] assms(3) show False by simp
    qed
  qed
  with assms(5) show ?thesis by (cases "lnd_sync_loop s startTime w") auto
qed

definition busy_second :: "ForwardingEvent list" where
  "busy_second = replicate 10000 \<lparr>fe_TimestampNs = 5000000001, fe_ChanIdIn = 1, fe_ChanIdOut = 2,
     fe_AmtInMsat = 1001, fe_AmtOutMsat = 1000\<rparr>"

theorem lnd_sync_stuck_witness:
  "lnd_sync_loop (NewLndForwardSync [1] (\<lambda>start n w. (Inr busy_second, w))
      (PostgresHistoryStore (\<lambda>w. (None, w)) std_table)) 5000000001
      \<lparr>sw_time = 0, sw_fates = [], sw_table = empty_history\<rparr> = None"
proof (rule lnd_sync_stuck [where events = busy_second and sec = 5], goal_cases)
  case 2
  show ?case by (simp add: busy_second_def maxEvents_def)
next
  case 3
  have "last (replicate 10000 x) = x" for x :: ForwardingEvent by (rule last_replicate) simp
  then show ?case by (simp add: busy_second_def)
next
  case 4
  have "run_tx (\<lambda>w. (None, w)) ls w = (None, w)" for ls and w :: "history_tables std_world"
    by (induction ls) simp_all
  then show ?case
    by (auto simp: NewLndForwardSync_def PostgresHistoryStore_def pg_InsertForwards_def)
qed (simp_all add: NewLndForwardSync_def)

end
