(* ===== verification/Plugin_Messages.thy ===== *)
theory Plugin_Messages
  imports Json
begin

text \<open>
  The messages of the CLN plugin: what CLN sends with its \<^verbatim>\<open>htlc_accepted\<close> hook
  (\<^verbatim>\<open>cln_plugin/cln_messages.go\<close>), the gRPC messages between the plugin and lspd (generated from
  \<^verbatim>\<open>cln_plugin.proto\<close>), and the mapping between them that \<^verbatim>\<open>cln_plugin/server.go\<close> makes.
\<close>

section \<open>cln\_plugin/cln\_messages.go: htlc\_accepted\<close>

record Onion =
  on_Payload :: string
  on_ShortChannelId :: "string option"
  on_ForwardMsat :: "u64 option"
  on_OutgoingCltvValue :: "u32 option"
  on_SharedSecret :: "string option"
  on_NextOnion :: "string option"

record Htlc =
  ht_ShortChannelId :: string
  ht_Id :: u64
  ht_AmountMsat :: u64
  ht_CltvExpiry :: u32
  ht_CltvExpiryRelative :: "32 word"
  ht_PaymentHash :: string

record HtlcAccepted =
  ha_Onion :: "Onion option"
  ha_Htlc :: "Htlc option"
  ha_ForwardTo :: string

section \<open>The gRPC messages\<close>

record pb_Onion =
  po_Payload :: string
  po_ShortChannelId :: "string option"
  po_ForwardMsat :: "u64 option"
  po_OutgoingCltvValue :: "u32 option"
  po_SharedSecret :: "string option"
  po_NextOnion :: "string option"

record pb_Htlc =
  ph_ShortChannelId :: string
  ph_Id :: u64
  ph_AmountMsat :: u64
  ph_CltvExpiry :: u32
  ph_CltvExpiryRelative :: "32 word"
  ph_PaymentHash :: string

record pb_HtlcAccepted =
  pa_Correlationid :: string
  pa_Onion :: "pb_Onion option"
  pa_Htlc :: "pb_Htlc option"
  pa_ForwardTo :: string

record HtlcContinue =
  hc_Payload :: "string option"
  hc_ForwardTo :: "string option"

datatype HtlcFail = FailureMessage string | FailureOnion string | NoFailure

datatype resolution = Fail HtlcFail | Continue HtlcContinue | Resolve string | NoOutcome

record HtlcResolution =
  hr_Correlationid :: string
  hr_Outcome :: resolution

section \<open>cln\_plugin/server.go: the messages of its queues\<close>

record htlcAcceptedMsg =
  am_id :: string
  am_htlc :: HtlcAccepted
  am_timeout :: time

text \<open>A result for CLN is a map from member names to strings, here in the order of the names.\<close>

type_synonym htlc_result = "(string \<times> string) list"

record htlcResultMsg =
  rm_id :: string
  rm_result :: htlc_result

definition defaultResult :: htlc_result where
  "defaultResult = [(''result'', ''continue'')]"

definition opt_member :: "string \<Rightarrow> string option \<Rightarrow> htlc_result" where
  "opt_member name v = (case v of None \<Rightarrow> [] | Some s \<Rightarrow> [(name, s)])"

fun mapHtlcResult :: "resolution \<Rightarrow> htlc_result" where
  "mapHtlcResult (Continue c) =
     opt_member ''forward_to'' (hc_ForwardTo c) @ opt_member ''payload'' (hc_Payload c) @
     [(''result'', ''continue'')]"
| "mapHtlcResult (Fail f) =
     (case f of
        FailureMessage m \<Rightarrow> [(''failure_message'', m)]
      | FailureOnion onion \<Rightarrow> [(''failure_onion'', onion)]
      | NoFailure \<Rightarrow> []) @ [(''result'', ''fail'')]"
| "mapHtlcResult (Resolve key) = [(''payment_key'', key), (''result'', ''resolve'')]"
| "mapHtlcResult NoOutcome = defaultResult"

text \<open>What \<^verbatim>\<open>sendHtlcAccepted\<close> puts on the stream; it dereferences the onion and the htlc.\<close>

definition sendHtlcAccepted :: "htlcAcceptedMsg \<Rightarrow> pb_HtlcAccepted outcome" where
  "sendHtlcAccepted msg =
     (case (ha_Onion (am_htlc msg), ha_Htlc (am_htlc msg)) of
        (Some onion, Some htlc) \<Rightarrow>
          Ret \<lparr>pa_Correlationid = am_id msg,
               pa_Onion = Some \<lparr>
                 po_Payload = on_Payload onion,
                 po_ShortChannelId = on_ShortChannelId onion,
                 po_ForwardMsat = on_ForwardMsat onion,
                 po_OutgoingCltvValue = on_OutgoingCltvValue onion,
                 po_SharedSecret = on_SharedSecret onion,
                 po_NextOnion = on_NextOnion onion\<rparr>,
               pa_Htlc = Some \<lparr>
                 ph_ShortChannelId = ht_ShortChannelId htlc,
                 ph_Id = ht_Id htlc,
                 ph_AmountMsat = ht_AmountMsat htlc,
                 ph_CltvExpiry = ht_CltvExpiry htlc,
                 ph_CltvExpiryRelative = ht_CltvExpiryRelative htlc,
                 ph_PaymentHash = ht_PaymentHash htlc\<rparr>,
               pa_ForwardTo = ha_ForwardTo (am_htlc msg)\<rparr>
      | _ \<Rightarrow> Panic ''nil dereference'')"

lemma sendHtlcAccepted_Ret_iff:
  "(\<exists>m. sendHtlcAccepted msg = Ret m) \<longleftrightarrow>
     ha_Onion (am_htlc msg) \<noteq> None \<and> ha_Htlc (am_htlc msg) \<noteq> None"
  by (auto simp: sendHtlcAccepted_def split: option.split)

lemma sendHtlcAccepted_id: "sendHtlcAccepted msg = Ret m \<Longrightarrow> pa_Correlationid m = am_id msg"
  by (auto simp: sendHtlcAccepted_def split: option.splits)

end
