(* ===== verification/Plugin_Server.thy ===== *)
theory Plugin_Server
  imports Plugin_Messages "HOL-Library.Sublist"
begin

text \<open>
  The gRPC server inside the CLN plugin (\<^verbatim>\<open>cln_plugin/server.go\<close>): it hands the htlcs CLN accepted to
  the one subscriber, keeps those that are in flight so that they can be replayed to a new
  subscriber, and returns what the subscriber decides. Its goroutines are processes of a step
  relation, whose steps are the sections the code runs under its mutex and its channel
  operations; sending on and receiving from a stream may fail at any time. The ordered map of the
  in-flight htlcs is a library, an argument of the definitions; its contract is the locale
  \<open>ordered_map\<close>.
\<close>

section \<open>The ordered map\<close>

record ('m, 'v) OrderedMap =
  om_New :: 'm
  om_Set :: "string \<Rightarrow> 'v \<Rightarrow> 'm \<Rightarrow> 'm"
  om_Delete :: "string \<Rightarrow> 'm \<Rightarrow> 'm"
  om_pairs :: "'m \<Rightarrow> (string \<times> 'v) list"

text \<open>\<open>om_pairs\<close> is the iteration from \<^verbatim>\<open>Oldest\<close> with \<^verbatim>\<open>Next\<close>. Setting a key that is there keeps its place.\<close>

definition pairs_set :: "string \<Rightarrow> 'v \<Rightarrow> (string \<times> 'v) list \<Rightarrow> (string \<times> 'v) list" where
  "pairs_set k v ps =
     (if k \<in> fst ` set ps then map (\<lambda>p. if fst p = k then (k, v) else p) ps else ps @ [(k, v)])"

definition pairs_delete :: "string \<Rightarrow> (string \<times> 'v) list \<Rightarrow> (string \<times> 'v) list" where
  "pairs_delete k ps = filter (\<lambda>p. fst p \<noteq> k) ps"

locale ordered_map =
  fixes M :: "('m, 'v) OrderedMap"
  assumes pairs_New [simp]: "om_pairs M (om_New M) = []"
    and pairs_Set [simp]: "om_pairs M (om_Set M k v m) = pairs_set k v (om_pairs M m)"
    and pairs_Delete [simp]: "om_pairs M (om_Delete M k m) = pairs_delete k (om_pairs M m)"

definition list_map :: "((string \<times> 'v) list, 'v) OrderedMap" where
  "list_map = \<lparr>om_New = [], om_Set = pairs_set, om_Delete = pairs_delete, om_pairs = (\<lambda>ps. ps)\<rparr>"

interpretation list_map: ordered_map list_map
  by unfold_locales (simp_all add: list_map_def)

lemma keys_pairs_set:
  "map fst (pairs_set k v ps) = (if k \<in> fst ` set ps then map fst ps else map fst ps @ [k])"
  by (auto simp: pairs_set_def)

lemma keys_pairs_delete: "map fst (pairs_delete k ps) = removeAll k (map fst ps)"
  by (induction ps) (auto simp: pairs_delete_def)

lemma set_keys_delete [simp]: "fst ` set (pairs_delete k ps) = fst ` set ps - {k}"
  by (auto simp: pairs_delete_def)

lemma pairs_delete_set [simp]: "pairs_delete k (pairs_set k v ps) = pairs_delete k ps"
proof -
  have "filter (\<lambda>p. fst p \<noteq> k) (map (\<lambda>p. if fst p = k then (k, v) else p) ps) = filter (\<lambda>p. fst p \<noteq> k) ps"
    by (induction ps) auto
  then show ?thesis by (simp add: pairs_delete_def pairs_set_def)
qed

section \<open>cln\_plugin/server.go\<close>

text \<open>
  The channel \<open>htlcnewSubscriber\<close> is a number that grows when the channel is replaced: channel \<open>n\<close> is
  closed when the current one is greater. Streams are numbers.
\<close>

record 'm server =
  sv_done :: bool
  subscriberTimeout :: duration
  htlcnewSubscriber :: nat
  htlcStream :: "nat option"
  htlcSendQueue :: "htlcAcceptedMsg list"
  htlcRecvQueue :: "htlcResultMsg list"
  inflightHtlcs :: 'm

abbreviation queue_size :: nat where "queue_size \<equiv> 10000"

definition NewServer :: "('m, htlcAcceptedMsg) OrderedMap \<Rightarrow> 'm server" where
  "NewServer M = \<lparr>sv_done = False, subscriberTimeout = 0, htlcnewSubscriber = 0, htlcStream = None,
     htlcSendQueue = [], htlcRecvQueue = [], inflightHtlcs = om_New M\<rparr>"

text \<open>
  \<^verbatim>\<open>Start\<close> tells \<^verbatim>\<open>WaitStarted\<close> over two channels how it went; listening on the address is an argument. If
  more than one channel is ready, \<^verbatim>\<open>WaitStarted\<close> may return either result.
\<close>

datatype startup = Starting | Started | StartError error

definition context_canceled :: error where
  "context_canceled = Error ''context canceled''"

definition initialize ::
  "(string \<Rightarrow> error option) \<Rightarrow> string \<Rightarrow> duration \<Rightarrow> 'm server \<Rightarrow> error option \<times> 'm server" where
  "initialize listen address timeout s =
     (if sv_done s then (Some context_canceled, s)
      else (map_option (Wrap ''grpc server failed to listen'') (listen address),
            s\<lparr>subscriberTimeout := timeout\<rparr>))"

definition server_Start ::
  "(string \<Rightarrow> error option) \<Rightarrow> string \<Rightarrow> duration \<Rightarrow> 'm server \<Rightarrow> startup \<times> 'm server" where
  "server_Start listen address timeout s =
     (case initialize listen address timeout s of
        (Some err, s1) \<Rightarrow> (StartError err, s1)
      | (None, s1) \<Rightarrow> (Started, s1))"

definition WaitStarted :: "startup \<Rightarrow> 'm server \<Rightarrow> error option list" where
  "WaitStarted st s =
     (if sv_done s then [Some context_canceled] else []) @
     (case st of Starting \<Rightarrow> [] | Started \<Rightarrow> [None] | StartError err \<Rightarrow> [Some err])"

definition server_Stop :: "'m server \<Rightarrow> 'm server" where
  "server_Stop s = s\<lparr>sv_done := True\<rparr>"

text \<open>
  The replay to a new stream, of which the first \<open>n\<close> sends succeed: the ids sent, the map with the new
  timeouts, and whether all were sent. A message without onion crashes the process.
\<close>

fun replay ::
  "('m, htlcAcceptedMsg) OrderedMap \<Rightarrow> time \<Rightarrow> nat \<Rightarrow> (string \<times> htlcAcceptedMsg) list \<Rightarrow> 'm \<Rightarrow>
     (string list \<times> 'm \<times> bool) outcome" where
  "replay M newTimeout n [] m = Ret ([], m, True)"
| "replay M newTimeout n ((k, msg) # ps) m =
     (case sendHtlcAccepted msg of
        Panic e \<Rightarrow> Panic e
      | Ret pb \<Rightarrow>
          (case n of
             0 \<Rightarrow> Ret ([], m, False)
           | Suc n' \<Rightarrow>
               (case replay M newTimeout n' ps (om_Set M k (msg\<lparr>am_timeout := newTimeout\<rparr>) m) of
                  Panic e \<Rightarrow> Panic e
                | Ret (ids, m', ok) \<Rightarrow> Ret (pa_Correlationid pb # ids, m', ok))))"

definition newHtlcStream ::
  "('m, htlcAcceptedMsg) OrderedMap \<Rightarrow> time \<Rightarrow> nat \<Rightarrow> nat \<Rightarrow> 'm server \<Rightarrow>
     (string list \<times> error option \<times> 'm server) outcome" where
  "newHtlcStream M now stream n s =
     (case htlcStream s of
        Some st \<Rightarrow> Ret ([], Some (Error ''already subscribed''), s)
      | None \<Rightarrow>
          (case replay M (now + subscriberTimeout s) n (om_pairs M (inflightHtlcs s)) (inflightHtlcs s) of
             Panic e \<Rightarrow> Panic e
           | Ret (ids, m, ok) \<Rightarrow>
               if ok
               then Ret (ids, None, s\<lparr>inflightHtlcs := m, htlcStream := Some stream,
                                      htlcnewSubscriber := htlcnewSubscriber s + 1\<rparr>)
               else Ret (ids, Some (Error ''send''), s\<lparr>inflightHtlcs := m\<rparr>)))"

text \<open>The end of \<^verbatim>\<open>HtlcStream\<close>, once the stream's context is done.\<close>

definition remove_subscriber :: "'m server \<Rightarrow> 'm server" where
  "remove_subscriber s = s\<lparr>htlcStream := None\<rparr>"

text \<open>What \<^verbatim>\<open>logHtlcStates\<close> prints every five minutes: in flight, in the send and in the receive queue.\<close>

definition htlc_states :: "('m, htlcAcceptedMsg) OrderedMap \<Rightarrow> 'm server \<Rightarrow> nat \<times> nat \<times> nat" where
  "htlc_states M s =
     (length (om_pairs M (inflightHtlcs s)), length (htlcSendQueue s), length (htlcRecvQueue s))"

text \<open>Putting a message on the send queue blocks when the queue is full.\<close>

definition SendHtlcAccepted :: "time \<Rightarrow> string \<Rightarrow> HtlcAccepted \<Rightarrow> 'm server \<Rightarrow> 'm server option" where
  "SendHtlcAccepted now id' h s =
     (if length (htlcSendQueue s) < queue_size
      then Some (s\<lparr>htlcSendQueue := htlcSendQueue s @
              [\<lparr>am_id = id', am_htlc = h, am_timeout = now + subscriberTimeout s\<rparr>]\<rparr>)
      else None)"

text \<open>The second part of \<^verbatim>\<open>ReceiveHtlcResolution\<close>, with the message it took from the queue.\<close>

definition receive_delete :: "('m, htlcAcceptedMsg) OrderedMap \<Rightarrow> htlcResultMsg \<Rightarrow> 'm server \<Rightarrow> 'm server" where
  "receive_delete M r s = s\<lparr>inflightHtlcs := om_Delete M (rm_id r) (inflightHtlcs s)\<rparr>"

definition put_result :: "htlcResultMsg \<Rightarrow> 'm server \<Rightarrow> 'm server option" where
  "put_result r s =
     (if length (htlcRecvQueue s) < queue_size
      then Some (s\<lparr>htlcRecvQueue := htlcRecvQueue s @ [r]\<rparr>) else None)"

text \<open>Where the goroutines are: \<^verbatim>\<open>listenHtlcRequests\<close> with \<^verbatim>\<open>handleHtlcAccepted\<close>, \<dots>\<close>

datatype requests =
    ReqIdle
  | ReqLoop htlcAcceptedMsg
  | ReqWait htlcAcceptedMsg nat
  | ReqTimeout htlcAcceptedMsg
  | ReqSend htlcAcceptedMsg nat
  | ReqStopped

text \<open>\<dots> \<^verbatim>\<open>listenHtlcResponses\<close> with \<^verbatim>\<open>recvHtlcResolution\<close>, which waits for the oldest htlc in flight, \<dots>\<close>

datatype responses =
    RespLoop
  | RespWait nat "string option" time
  | RespRecv nat
  | RespPut htlcResultMsg
  | RespStopped

text \<open>\<dots> and the caller of \<^verbatim>\<open>ReceiveHtlcResolution\<close>.\<close>

datatype receiver = RcvIdle | RcvTaken htlcResultMsg

record 'm plugin =
  pl_server :: "'m server"
  pl_requests :: requests
  pl_responses :: responses
  pl_receiver :: receiver
  pl_now :: time
  pl_panic :: bool

text \<open>The first part of \<^verbatim>\<open>handleHtlcAccepted\<close>'s loop, and its second part once there is a stream.\<close>

definition handle_start :: "htlcAcceptedMsg \<Rightarrow> 'm server \<Rightarrow> requests" where
  "handle_start msg s =
     (case htlcStream s of
        None \<Rightarrow> ReqWait msg (htlcnewSubscriber s)
      | Some stream \<Rightarrow> ReqSend msg stream)"

definition handle_send ::
  "('m, htlcAcceptedMsg) OrderedMap \<Rightarrow> htlcAcceptedMsg \<Rightarrow> bool \<Rightarrow> 'm server \<Rightarrow> ('m server \<times> requests) outcome" where
  "handle_send M msg sent s =
     (let inflight = om_Set M (am_id msg) msg (inflightHtlcs s) in
      case sendHtlcAccepted msg of
        Panic e \<Rightarrow> Panic e
      | Ret pb \<Rightarrow>
          if sent then Ret (s\<lparr>inflightHtlcs := inflight\<rparr>, ReqIdle)
          else Ret (s\<lparr>inflightHtlcs := om_Delete M (am_id msg) inflight\<rparr>, ReqLoop msg))"

text \<open>
  The first part of \<^verbatim>\<open>recvHtlcResolution\<close>'s loop: without a stream it waits until the oldest htlc times
  out, for \<open>2\<^sup>62\<close> nanoseconds if there is none.
\<close>

definition recv_start :: "('m, htlcAcceptedMsg) OrderedMap \<Rightarrow> time \<Rightarrow> 'm server \<Rightarrow> responses" where
  "recv_start M now s =
     (case htlcStream s of
        Some stream \<Rightarrow> RespRecv stream
      | None \<Rightarrow>
          (case om_pairs M (inflightHtlcs s) of
             [] \<Rightarrow> RespWait (htlcnewSubscriber s) None (now + 2 ^ 62)
           | (k, oldest) # ps \<Rightarrow>
               RespWait (htlcnewSubscriber s) (Some (am_id oldest)) (am_timeout oldest)))"

definition default_resolution :: "string \<Rightarrow> HtlcResolution" where
  "default_resolution id' =
     \<lparr>hr_Correlationid = id', hr_Outcome = Continue \<lparr>hc_Payload = None, hc_ForwardTo = None\<rparr>\<rparr>"

definition result_msg :: "HtlcResolution \<Rightarrow> htlcResultMsg" where
  "result_msg resp = \<lparr>rm_id = hr_Correlationid resp, rm_result = mapHtlcResult (hr_Outcome resp)\<rparr>"

text \<open>What can be seen from outside: CLN's htlcs and the answers to them, and the subscriber's stream.\<close>

datatype event =
    Accepted string
  | Subscribed nat "string list"
  | Sent nat string
  | Resolved string htlc_result
  | Answered string htlc_result
  | Internal

inductive server_step ::
  "('m, htlcAcceptedMsg) OrderedMap \<Rightarrow> 'm plugin \<Rightarrow> event \<Rightarrow> 'm plugin \<Rightarrow> bool" for M where
  accept: "SendHtlcAccepted (pl_now p) id' h (pl_server p) = Some s \<Longrightarrow> \<not> pl_panic p \<Longrightarrow>
    server_step M p (Accepted id') (p\<lparr>pl_server := s\<rparr>)"
| stop: "\<not> pl_panic p \<Longrightarrow> server_step M p Internal (p\<lparr>pl_server := server_Stop (pl_server p)\<rparr>)"
| tick: "0 < d \<Longrightarrow> \<not> pl_panic p \<Longrightarrow> server_step M p Internal (p\<lparr>pl_now := pl_now p + d\<rparr>)"
| subscribe: "newHtlcStream M (pl_now p) st n (pl_server p) = Ret (ids, err, s) \<Longrightarrow> \<not> pl_panic p \<Longrightarrow>
    server_step M p (Subscribed st ids) (p\<lparr>pl_server := s\<rparr>)"
| subscribe_panic: "newHtlcStream M (pl_now p) st n (pl_server p) = Panic e \<Longrightarrow> \<not> pl_panic p \<Longrightarrow>
    server_step M p Internal (p\<lparr>pl_panic := True\<rparr>)"
| unsubscribe: "htlcStream (pl_server p) = Some st \<Longrightarrow> \<not> pl_panic p \<Longrightarrow>
    server_step M p Internal (p\<lparr>pl_server := remove_subscriber (pl_server p)\<rparr>)"
| take: "pl_requests p = ReqIdle \<Longrightarrow> htlcSendQueue (pl_server p) = msg # msgs \<Longrightarrow> \<not> pl_panic p \<Longrightarrow>
    server_step M p Internal
      (p\<lparr>pl_server := (pl_server p)\<lparr>htlcSendQueue := msgs\<rparr>, pl_requests := ReqLoop msg\<rparr>)"
| handle: "pl_requests p = ReqLoop msg \<Longrightarrow> \<not> pl_panic p \<Longrightarrow>
    server_step M p Internal (p\<lparr>pl_requests := handle_start msg (pl_server p)\<rparr>)"
| handle_wake: "pl_requests p = ReqWait msg ns \<Longrightarrow> ns < htlcnewSubscriber (pl_server p) \<Longrightarrow> \<not> pl_panic p \<Longrightarrow>
    server_step M p Internal (p\<lparr>pl_requests := ReqLoop msg\<rparr>)"
| handle_timeout: "pl_requests p = ReqWait msg ns \<Longrightarrow> am_timeout msg \<le> pl_now p \<Longrightarrow> \<not> pl_panic p \<Longrightarrow>
    server_step M p Internal (p\<lparr>pl_requests := ReqTimeout msg\<rparr>)"
| handle_default: "pl_requests p = ReqTimeout msg \<Longrightarrow>
    put_result \<lparr>rm_id = am_id msg, rm_result = defaultResult\<rparr> (pl_server p) = Some s \<Longrightarrow> \<not> pl_panic p \<Longrightarrow>
    server_step M p Internal (p\<lparr>pl_server := s, pl_requests := ReqIdle\<rparr>)"
| handle_sent: "pl_requests p = ReqSend msg st \<Longrightarrow>
    handle_send M msg True (pl_server p) = Ret (s, req) \<Longrightarrow> \<not> pl_panic p \<Longrightarrow>
    server_step M p (Sent st (am_id msg)) (p\<lparr>pl_server := s, pl_requests := req\<rparr>)"
| handle_error: "pl_requests p = ReqSend msg st \<Longrightarrow>
    handle_send M msg False (pl_server p) = Ret (s, req) \<Longrightarrow> \<not> pl_panic p \<Longrightarrow>
    server_step M p Internal (p\<lparr>pl_server := s, pl_requests := req\<rparr>)"
| handle_panic: "pl_requests p = ReqSend msg st \<Longrightarrow> handle_send M msg sent (pl_server p) = Panic e \<Longrightarrow> \<not> pl_panic p \<Longrightarrow>
    server_step M p Internal (p\<lparr>pl_panic := True\<rparr>)"
| handle_done: "pl_requests p = ReqIdle \<or> pl_requests p = ReqWait msg ns \<Longrightarrow> sv_done (pl_server p) \<Longrightarrow> \<not> pl_panic p \<Longrightarrow>
    server_step M p Internal (p\<lparr>pl_requests := ReqStopped\<rparr>)"
| recv: "pl_responses p = RespLoop \<Longrightarrow> \<not> sv_done (pl_server p) \<Longrightarrow> \<not> pl_panic p \<Longrightarrow>
    server_step M p Internal (p\<lparr>pl_responses := recv_start M (pl_now p) (pl_server p)\<rparr>)"
| recv_wake: "pl_responses p = RespWait ns oldest t \<Longrightarrow> ns < htlcnewSubscriber (pl_server p) \<Longrightarrow> \<not> pl_panic p \<Longrightarrow>
    server_step M p Internal (p\<lparr>pl_responses := RespLoop\<rparr>)"
| recv_timeout: "pl_responses p = RespWait ns (Some id') t \<Longrightarrow> t \<le> pl_now p \<Longrightarrow> \<not> pl_panic p \<Longrightarrow>
    server_step M p Internal (p\<lparr>pl_responses := RespPut (result_msg (default_resolution id'))\<rparr>)"
| recv_panic: "pl_responses p = RespWait ns None t \<Longrightarrow> t \<le> pl_now p \<Longrightarrow> \<not> pl_panic p \<Longrightarrow>
    server_step M p Internal (p\<lparr>pl_panic := True\<rparr>)"
| recv_message: "pl_responses p = RespRecv st \<Longrightarrow> \<not> pl_panic p \<Longrightarrow>
    server_step M p (Resolved (hr_Correlationid r) (mapHtlcResult (hr_Outcome r)))
      (p\<lparr>pl_responses := RespPut (result_msg r)\<rparr>)"
| recv_error: "pl_responses p = RespRecv st \<Longrightarrow> \<not> pl_panic p \<Longrightarrow>
    server_step M p Internal (p\<lparr>pl_responses := RespLoop\<rparr>)"
| recv_put: "pl_responses p = RespPut r \<Longrightarrow> put_result r (pl_server p) = Some s \<Longrightarrow> \<not> pl_panic p \<Longrightarrow>
    server_step M p Internal (p\<lparr>pl_server := s, pl_responses := RespLoop\<rparr>)"
| recv_done: "pl_responses p = RespLoop \<or> pl_responses p = RespWait ns oldest t \<Longrightarrow>
    sv_done (pl_server p) \<Longrightarrow> \<not> pl_panic p \<Longrightarrow>
    server_step M p Internal (p\<lparr>pl_responses := RespStopped\<rparr>)"
| receive: "pl_receiver p = RcvIdle \<Longrightarrow> htlcRecvQueue (pl_server p) = r # rs \<Longrightarrow> \<not> pl_panic p \<Longrightarrow>
    server_step M p Internal
      (p\<lparr>pl_server := (pl_server p)\<lparr>htlcRecvQueue := rs\<rparr>, pl_receiver := RcvTaken r\<rparr>)"
| receive_return: "pl_receiver p = RcvTaken r \<Longrightarrow> \<not> pl_panic p \<Longrightarrow>
    server_step M p (Answered (rm_id r) (rm_result r))
      (p\<lparr>pl_server := receive_delete M r (pl_server p), pl_receiver := RcvIdle\<rparr>)"

inductive server_run ::
  "('m, htlcAcceptedMsg) OrderedMap \<Rightarrow> 'm plugin \<Rightarrow> event list \<Rightarrow> 'm plugin \<Rightarrow> bool" for M where
  run_Nil: "server_run M p [] p"
| run_snoc: "server_run M p es q \<Longrightarrow> server_step M q e q' \<Longrightarrow> server_run M p (es @ [e]) q'"

text \<open>The server as \<^verbatim>\<open>Start\<close> leaves it: the goroutines run, there is no subscriber.\<close>

definition server_start :: "('m, htlcAcceptedMsg) OrderedMap \<Rightarrow> duration \<Rightarrow> time \<Rightarrow> 'm plugin" where
  "server_start M timeout now = \<lparr>
     pl_server = (NewServer M)\<lparr>subscriberTimeout := timeout\<rparr>,
     pl_requests = ReqIdle, pl_responses = RespLoop, pl_receiver = RcvIdle, pl_now = now,
     pl_panic = False\<rparr>"

lemma server_Start_state:
  "listen address = None \<Longrightarrow>
     server_Start listen address timeout (NewServer M) = (Started, pl_server (server_start M timeout now))"
  by (simp add: server_Start_def initialize_def server_start_def NewServer_def)

lemmas server_updates = server_Stop_def remove_subscriber_def receive_delete_def

section \<open>Well-formed states\<close>

text \<open>The messages the goroutines hold.\<close>

fun held :: "requests \<Rightarrow> htlcAcceptedMsg list" where
  "held ReqIdle = []"
| "held (ReqLoop msg) = [msg]"
| "held (ReqWait msg ns) = [msg]"
| "held (ReqTimeout msg) = [msg]"
| "held (ReqSend msg st) = [msg]"
| "held ReqStopped = []"

fun putting :: "responses \<Rightarrow> htlcResultMsg list" where
  "putting (RespPut r) = [r]"
| "putting _ = []"

fun waiting_for :: "responses \<Rightarrow> string list" where
  "waiting_for (RespWait ns (Some id') t) = [id']"
| "waiting_for _ = []"

fun taken :: "receiver \<Rightarrow> htlcResultMsg list" where
  "taken RcvIdle = []"
| "taken (RcvTaken r) = [r]"

text \<open>Everything that is on its way back to CLN.\<close>

definition results :: "'m plugin \<Rightarrow> htlcResultMsg list" where
  "results p = taken (pl_receiver p) @ htlcRecvQueue (pl_server p) @ putting (pl_responses p)"

abbreviation pairs_of :: "('m, htlcAcceptedMsg) OrderedMap \<Rightarrow> 'm plugin \<Rightarrow> (string \<times> htlcAcceptedMsg) list" where
  "pairs_of M p \<equiv> om_pairs M (inflightHtlcs (pl_server p))"

text \<open>
  The queues are within their bounds, the map has every id once and under that id a message with that
  id, which has an onion and an htlc.
\<close>

definition wf_msg :: "string \<times> htlcAcceptedMsg \<Rightarrow> bool" where
  "wf_msg kv \<longleftrightarrow> am_id (snd kv) = fst kv \<and> (\<exists>pb. sendHtlcAccepted (snd kv) = Ret pb)"

definition server_wf :: "('m, htlcAcceptedMsg) OrderedMap \<Rightarrow> 'm plugin \<Rightarrow> bool" where
  "server_wf M p \<longleftrightarrow>
     length (htlcSendQueue (pl_server p)) \<le> queue_size \<and>
     length (htlcRecvQueue (pl_server p)) \<le> queue_size \<and>
     distinct (map fst (pairs_of M p)) \<and> list_all wf_msg (pairs_of M p)"

lemma wf_msg_timeout [simp]: "wf_msg (k, msg\<lparr>am_timeout := t\<rparr>) = wf_msg (k, msg)"
  by (simp add: wf_msg_def sendHtlcAccepted_Ret_iff)

lemma wf_pairs_set:
  "list_all wf_msg ps \<Longrightarrow> wf_msg (k, msg) \<Longrightarrow> list_all wf_msg (pairs_set k msg ps)"
  by (auto simp: pairs_set_def list_all_iff)

lemma wf_pairs_delete: "list_all wf_msg ps \<Longrightarrow> list_all wf_msg (pairs_delete k ps)"
  by (auto simp: pairs_delete_def list_all_iff)

lemma distinct_pairs_set: "distinct (map fst ps) \<Longrightarrow> distinct (map fst (pairs_set k v ps))"
  by (auto simp: keys_pairs_set)

lemma distinct_pairs_delete: "distinct (map fst ps) \<Longrightarrow> distinct (map fst (pairs_delete k ps))"
  by (simp add: keys_pairs_delete distinct_removeAll)

lemmas pairs_wf = wf_pairs_set wf_pairs_delete distinct_pairs_set distinct_pairs_delete

text \<open>The maps the server uses: their values are messages.\<close>

locale htlc_map = ordered_map M
  for M :: "('m, htlcAcceptedMsg) OrderedMap"
begin

lemma replay_wf:
  assumes "list_all wf_msg ps" and "set (map fst ps) \<subseteq> set (map fst (om_pairs M m))"
    and "list_all wf_msg (om_pairs M m)"
  shows "\<exists>ids m' ok. replay M t n ps m = Ret (ids, m', ok) \<and> subseq ids (map fst ps) \<and>
    map fst (om_pairs M m') = map fst (om_pairs M m) \<and> list_all wf_msg (om_pairs M m')"
  using assms
proof (induction ps arbitrary: n m)
  case (Cons p ps)
  obtain k msg where p: "p = (k, msg)" by fastforce
  obtain pb where pb: "sendHtlcAccepted msg = Ret pb" "am_id msg = k"
    using Cons.prems(1) by (auto simp: p wf_msg_def)
  have id: "pa_Correlationid pb = k" using sendHtlcAccepted_id [OF pb(1)] pb(2) by simp
  show ?case
  proof (cases n)
    case 0
    with Cons.prems(3) pb show ?thesis by (auto simp: p intro: exI [of _ False])
  next
    case (Suc n')
    let ?m = "om_Set M k (msg\<lparr>am_timeout := t\<rparr>) m"
    have keys: "map fst (om_pairs M ?m) = map fst (om_pairs M m)"
      using Cons.prems(2) by (auto simp: p keys_pairs_set)
    have "list_all wf_msg (om_pairs M ?m)"
      using Cons.prems by (simp add: p wf_pairs_set)
    moreover have "set (map fst ps) \<subseteq> set (map fst (om_pairs M ?m))"
      using Cons.prems(2) unfolding keys by simp
    ultimately obtain ids m' ok where "replay M t n' ps ?m = Ret (ids, m', ok)" "subseq ids (map fst ps)"
      "map fst (om_pairs M m') = map fst (om_pairs M m)" "list_all wf_msg (om_pairs M m')"
      using Cons.IH [of ?m n'] Cons.prems(1) unfolding keys by fastforce
    with pb id Suc show ?thesis by (simp add: p)
  qed
qed (auto intro: exI [of _ True])

lemma newHtlcStream_wf:
  assumes "list_all wf_msg (om_pairs M (inflightHtlcs s))"
  shows "\<exists>ids err m st ns. newHtlcStream M now stream n s =
      Ret (ids, err, s\<lparr>inflightHtlcs := m, htlcStream := st, htlcnewSubscriber := ns\<rparr>) \<and>
    subseq ids (map fst (om_pairs M (inflightHtlcs s))) \<and>
    map fst (om_pairs M m) = map fst (om_pairs M (inflightHtlcs s)) \<and> list_all wf_msg (om_pairs M m)"
proof (cases "htlcStream s")
  case (Some st)
  have "newHtlcStream M now stream n s = Ret ([], Some (Error ''already subscribed''),
      s\<lparr>inflightHtlcs := inflightHtlcs s, htlcStream := htlcStream s, htlcnewSubscriber := htlcnewSubscriber s\<rparr>)"
    by (simp add: newHtlcStream_def) (simp add: Some)
  with assms show ?thesis by blast
next
  case None
  from replay_wf [OF assms subset_refl assms]
  obtain ids m' ok where r: "replay M (now + subscriberTimeout s) n (om_pairs M (inflightHtlcs s))
      (inflightHtlcs s) = Ret (ids, m', ok)" "subseq ids (map fst (om_pairs M (inflightHtlcs s)))"
    "map fst (om_pairs M m') = map fst (om_pairs M (inflightHtlcs s))" "list_all wf_msg (om_pairs M m')"
    by blast
  have "newHtlcStream M now stream n s =
      Ret (ids, if ok then None else Some (Error ''send''),
        s\<lparr>inflightHtlcs := m', htlcStream := if ok then Some stream else None,
          htlcnewSubscriber := if ok then htlcnewSubscriber s + 1 else htlcnewSubscriber s\<rparr>)"
    using None r(1) by (simp add: newHtlcStream_def)
  with r show ?thesis by blast
qed

lemma server_wf_step:
  assumes "server_step M p e p'" and "server_wf M p"
  shows "server_wf M p'"
  using assms
proof (cases rule: server_step.cases)
  case (subscribe st n ids err s)
  with assms(2) newHtlcStream_wf [of "pl_server p" "pl_now p" st n] show ?thesis
    by (auto simp: server_wf_def)
next
  case (handle_sent msg st s req)
  with assms(2) show ?thesis
    by (auto simp: server_wf_def handle_send_def wf_msg_def Let_def intro!: pairs_wf split: outcome.splits)
next
  case (handle_error msg st s req)
  with assms(2) show ?thesis
    by (auto simp: server_wf_def handle_send_def Let_def intro!: pairs_wf split: outcome.splits)
qed (auto simp: server_wf_def server_updates SendHtlcAccepted_def put_result_def intro!: pairs_wf split: if_splits)

lemma server_wf_start: "server_wf M (server_start M timeout now)"
  by (simp add: server_wf_def server_start_def NewServer_def)

lemma server_wf_run: "server_run M p es p' \<Longrightarrow> server_wf M p \<Longrightarrow> server_wf M p'"
  by (induction rule: server_run.induct) (auto intro: server_wf_step)

end

interpretation list_map: htlc_map list_map ..


end
