(* ===== verification/Plugin_Refinement.thy ===== *)
theory Plugin_Refinement
  imports Plugin_Server
begin

text \<open>
  The server of the CLN plugin refines a specification of what CLN and the subscriber can rely on:
  htlcs are sent in the order of their arrival, are replayed in that order, stay pending until they
  are answered, and every answer is either what a subscriber said or the default result. The
  simulation relation also says where in the server a pending htlc is.
\<close>

section \<open>What the server promises\<close>

text \<open>
  The specification keeps the ids in the order of their arrival, those that were sent when they
  arrived, those not answered yet, and what the subscribers said. An htlc is sent for the first time
  in the order of arrival, a replay is in that order, and an answer is what a subscriber said, or the
  default result for an htlc that was accepted.
\<close>

record spec =
  sp_accepted :: "string list"
  sp_sent :: "string list"
  sp_pending :: "string set"
  sp_resolved :: "(string \<times> htlc_result) set"

definition spec_start :: spec where
  "spec_start = \<lparr>sp_accepted = [], sp_sent = [], sp_pending = {}, sp_resolved = {}\<rparr>"

definition may_answer :: "spec \<Rightarrow> string \<Rightarrow> htlc_result \<Rightarrow> bool" where
  "may_answer a id' r \<longleftrightarrow>
     (id', r) \<in> sp_resolved a \<or> id' \<in> set (sp_accepted a) \<and> r = defaultResult"

fun spec_step :: "spec \<Rightarrow> event \<Rightarrow> spec option" where
  "spec_step a (Accepted id') =
     Some (a\<lparr>sp_accepted := sp_accepted a @ [id'], sp_pending := insert id' (sp_pending a)\<rparr>)"
| "spec_step a (Sent st id') =
     (if subseq (sp_sent a @ [id']) (sp_accepted a)
      then Some (a\<lparr>sp_sent := sp_sent a @ [id']\<rparr>) else None)"
| "spec_step a (Subscribed st ids) = (if subseq ids (sp_accepted a) then Some a else None)"
| "spec_step a (Resolved id' r) = Some (a\<lparr>sp_resolved := insert (id', r) (sp_resolved a)\<rparr>)"
| "spec_step a (Answered id' r) =
     (if may_answer a id' r then Some (a\<lparr>sp_pending := sp_pending a - {id'}\<rparr>) else None)"
| "spec_step a Internal = Some a"

fun spec_run :: "spec \<Rightarrow> event list \<Rightarrow> spec option" where
  "spec_run a [] = Some a"
| "spec_run a (e # es) = (case spec_step a e of None \<Rightarrow> None | Some a' \<Rightarrow> spec_run a' es)"

lemma spec_run_append:
  "spec_run a (es @ fs) = (case spec_run a es of None \<Rightarrow> None | Some a' \<Rightarrow> spec_run a' fs)"
  by (induction es arbitrary: a) (auto split: option.split)

section \<open>Simulation\<close>

lemma subseq_prefix: "subseq (xs @ ys) zs \<Longrightarrow> subseq xs zs"
  by (meson prefixI prefix_imp_subseq subseq_order.trans)

lemma subseq_set: "subseq xs ys \<Longrightarrow> set xs \<subseteq> set ys"
  by (induction rule: list_emb.induct) auto

lemma subseq_drop_front: "subseq xs' xs \<Longrightarrow> subseq (xs @ ys) zs \<Longrightarrow> subseq (xs' @ ys) zs"
  by (meson list_emb_append_mono subseq_order.refl subseq_order.trans)

lemma subseq_drop_mid: "subseq (xs @ y # ys) zs \<Longrightarrow> subseq (xs @ ys) zs"
  by (meson list_emb_append_mono list_emb_Cons subseq_order.refl subseq_order.trans)

lemma subseq_snoc: "subseq xs zs \<Longrightarrow> subseq (xs @ [z]) (zs @ [z])"
  by (simp add: list_emb_append_mono)

lemma subseq_removeAll: "subseq (xs @ ys) zs \<Longrightarrow> subseq (removeAll k xs @ ys) zs"
  by (rule subseq_drop_front [of _ xs]) (simp_all add: removeAll_filter_not_eq)

lemma subseq_pairs_set:
  "subseq (map fst ps @ k # ys) zs \<Longrightarrow> subseq (map fst (pairs_set k v ps) @ ys) zs"
  by (auto simp: keys_pairs_set dest!: subseq_drop_mid)

lemma set_keys_set [simp]: "fst ` set (pairs_set k v ps) = insert k (fst ` set ps)"
proof -
  have "set (map fst (pairs_set k v ps)) = insert k (set (map fst ps))"
    by (simp only: keys_pairs_set) auto
  then show ?thesis by simp
qed

definition in_order :: "string list \<Rightarrow> 'm plugin \<Rightarrow> spec \<Rightarrow> bool" where
  "in_order ids p a \<longleftrightarrow>
     subseq (ids @ map am_id (held (pl_requests p)) @ map am_id (htlcSendQueue (pl_server p))) (sp_accepted a)"

text \<open>Where an htlc can be that CLN waits for.\<close>

definition located :: "('m, htlcAcceptedMsg) OrderedMap \<Rightarrow> 'm plugin \<Rightarrow> string set" where
  "located M p = set (map am_id (htlcSendQueue (pl_server p))) \<union> set (map am_id (held (pl_requests p))) \<union>
     set (map fst (pairs_of M p)) \<union> set (map rm_id (results p))"

definition simulates :: "('m, htlcAcceptedMsg) OrderedMap \<Rightarrow> spec \<Rightarrow> 'm plugin \<Rightarrow> bool" where
  "simulates M a p \<longleftrightarrow>
     in_order (sp_sent a) p a \<and> in_order (map fst (pairs_of M p)) p a \<and>
     (\<forall>r\<in>set (results p). may_answer a (rm_id r) (rm_result r)) \<and>
     set (waiting_for (pl_responses p)) \<subseteq> set (sp_accepted a) \<and>
     (\<not> sv_done (pl_server p) \<longrightarrow> sp_pending a \<subseteq> located M p)"

lemmas simulates_defs = simulates_def in_order_def located_def results_def server_updates

lemma default_result [simp]:
  "rm_id (result_msg (default_resolution id')) = id'"
  "rm_result (result_msg (default_resolution id')) = defaultResult"
  by (simp_all add: result_msg_def default_resolution_def defaultResult_def opt_member_def)

lemma may_answer_update [simp]:
  "may_answer (a\<lparr>sp_pending := x\<rparr>) = may_answer a" "may_answer (a\<lparr>sp_sent := y\<rparr>) = may_answer a"
  by (simp_all add: may_answer_def fun_eq_iff)

context htlc_map
begin

lemma simulates_step:
  assumes "server_step M p e p'" and "server_wf M p" and "simulates M a p"
  shows "\<exists>a'. spec_step a e = Some a' \<and> simulates M a' p'"
  using assms
proof (cases rule: server_step.cases)
  case (accept id' h s)
  with assms(3) show ?thesis
    by (auto simp: simulates_defs SendHtlcAccepted_def may_answer_def subseq_snoc split: if_splits
        simp flip: append_assoc)
next
  case (subscribe st n ids err s)
  then obtain m st' ns where s: "s = (pl_server p)\<lparr>inflightHtlcs := m, htlcStream := st', htlcnewSubscriber := ns\<rparr>"
    and ids: "subseq ids (map fst (pairs_of M p))" and keys: "map fst (om_pairs M m) = map fst (pairs_of M p)"
    using assms(2) newHtlcStream_wf [of "pl_server p" "pl_now p" st n] by (auto simp: server_wf_def)
  from keys have "fst ` set (om_pairs M m) = fst ` set (pairs_of M p)" by (metis set_map)
  with subscribe assms(3) keys subseq_order.trans [OF ids] show ?thesis
    by (auto simp: simulates_defs s dest: subseq_prefix)
next
  case (take msg msgs)
  with assms(3) show ?thesis
    by (auto simp: simulates_defs)
next
  case (handle msg)
  with assms(3) show ?thesis
    by (auto simp: simulates_defs handle_start_def split: option.split)
next
  case (handle_default msg s)
  then have q: "map am_id (held (pl_requests p)) @ map am_id (htlcSendQueue (pl_server p)) =
      am_id msg # map am_id (htlcSendQueue s)" and s: "s = (pl_server p)\<lparr>htlcRecvQueue := htlcRecvQueue s\<rparr>"
    by (auto simp: put_result_def split: if_splits)
  have sub: "subseq (sp_sent a @ am_id msg # map am_id (htlcSendQueue s)) (sp_accepted a)"
    "subseq (map fst (pairs_of M p) @ am_id msg # map am_id (htlcSendQueue s)) (sp_accepted a)"
    using assms(3) by (simp_all add: simulates_def in_order_def q)
  have "am_id msg \<in> set (sp_accepted a)"
    using list_emb_set [OF sub(1)] by auto
  with handle_default assms(3) sub [THEN subseq_drop_mid] show ?thesis
    by (auto simp: simulates_defs put_result_def may_answer_def split: if_splits)
next
  case (handle_sent msg st s req)
  then have sub: "subseq ((sp_sent a @ [am_id msg]) @ map am_id (htlcSendQueue (pl_server p))) (sp_accepted a)"
    "subseq (map fst (pairs_of M p) @ am_id msg # map am_id (htlcSendQueue (pl_server p))) (sp_accepted a)"
    using assms(3) by (simp_all add: simulates_def in_order_def)
  with handle_sent assms(3) subseq_prefix [OF sub(1)] subseq_pairs_set [OF sub(2)] show ?thesis
    by (auto simp: simulates_defs handle_send_def Let_def split: outcome.splits if_splits)
next
  case (handle_error msg st s req)
  with assms(3) show ?thesis
    by (auto simp: simulates_defs handle_send_def keys_pairs_delete Let_def
        intro: subseq_removeAll split: outcome.splits if_splits)
next
  case (recv)
  have "subseq (map fst (pairs_of M p)) (sp_accepted a)"
    using assms(3) by (auto simp: simulates_def in_order_def dest: subseq_prefix)
  then have "set (map fst (pairs_of M p)) \<subseteq> set (sp_accepted a)"
    by (rule subseq_set)
  with recv assms(2,3) show ?thesis
    by (auto simp: simulates_defs recv_start_def server_wf_def wf_msg_def split: option.splits list.splits)
next
  case (recv_message st r)
  with assms(3) show ?thesis
    by (auto simp: simulates_defs result_msg_def may_answer_def)
next
  case (receive_return r)
  with assms(3) show ?thesis
    by (auto simp: simulates_defs keys_pairs_delete intro: subseq_removeAll)
next
  case (handle_done msg ns)
  with assms(3) show ?thesis
    by (auto simp: simulates_defs dest!: subseq_drop_mid)
qed (auto simp: simulates_defs put_result_def may_answer_def split: if_splits)

lemma simulates_start: "simulates M spec_start (server_start M timeout now)"
  by (simp add: simulates_defs spec_start_def server_start_def NewServer_def)

lemma simulates_run:
  assumes "server_run M (server_start M timeout now) es p"
  shows "server_wf M p \<and> (\<exists>a. spec_run spec_start es = Some a \<and> simulates M a p)"
  using assms
proof (induction "server_start M timeout now" es p rule: server_run.induct)
  case run_Nil
  show ?case using server_wf_start simulates_start by (metis spec_run.simps(1))
next
  case (run_snoc es q e q')
  then obtain a where a: "spec_run spec_start es = Some a" "simulates M a q" by blast
  with run_snoc simulates_step obtain a' where "spec_step a e = Some a'" "simulates M a' q'" by blast
  with a run_snoc server_wf_step show ?case by (auto simp: spec_run_append)
qed

end

text \<open>The pending htlcs of the specification are those of the trace that were not answered.\<close>

fun pending_after :: "event list \<Rightarrow> string set \<Rightarrow> string set" where
  "pending_after [] ids = ids"
| "pending_after (Accepted id' # es) ids = pending_after es (insert id' ids)"
| "pending_after (Answered id' r # es) ids = pending_after es (ids - {id'})"
| "pending_after (e # es) ids = pending_after es ids"

lemma spec_run_pending: "spec_run a es = Some a' \<Longrightarrow> sp_pending a' = pending_after es (sp_pending a)"
proof (induction es arbitrary: a)
  case (Cons e es)
  then show ?case by (cases e) (auto split: if_splits option.splits)
qed simp

section \<open>A run\<close>

text \<open>
  A run in which an htlc is sent, the subscriber leaves, and the htlc times out twice before the
  first default result is taken from the queue.
\<close>

lemma run_Cons:
  assumes "server_step M p e q" and "server_run M q es r"
  shows "server_run M p (e # es) r"
  using assms(2,1)
proof (induction rule: server_run.induct)
  case (run_Nil q)
  from server_run.run_snoc [OF server_run.run_Nil run_Nil] show ?case by simp
next
  case (run_snoc q es q' e' r)
  from server_run.run_snoc [OF run_snoc.IH [OF run_snoc.prems] run_snoc.hyps(2)] show ?case by simp
qed

lemma run_Cons':
  "server_step M p e q \<Longrightarrow> e = e' \<Longrightarrow> server_run M q es r \<Longrightarrow> server_run M p (e' # es) r"
  by (simp add: run_Cons)

definition sample_htlc :: HtlcAccepted where
  "sample_htlc = \<lparr>ha_Onion = Some \<lparr>on_Payload = ''00'', on_ShortChannelId = None, on_ForwardMsat = None,
       on_OutgoingCltvValue = None, on_SharedSecret = None, on_NextOnion = None\<rparr>,
     ha_Htlc = Some \<lparr>ht_ShortChannelId = ''1x1x1'', ht_Id = 1, ht_AmountMsat = 1000, ht_CltvExpiry = 144,
       ht_CltvExpiryRelative = 10, ht_PaymentHash = ''00''\<rparr>,
     ha_ForwardTo = []\<rparr>"

definition twice_trace :: "event list" where
  "twice_trace = [Subscribed 1 [], Accepted ''7'', Internal, Internal, Sent 1 ''7'', Internal, Internal,
     Internal, Internal, Internal, Internal, Internal, Internal, Internal,
     Answered ''7'' defaultResult, Internal, Answered ''7'' defaultResult]"

lemmas run_evals = server_updates server_start_def NewServer_def newHtlcStream_def SendHtlcAccepted_def handle_start_def
  handle_send_def recv_start_def put_result_def list_map_def pairs_set_def pairs_delete_def
  sendHtlcAccepted_def sample_htlc_def

lemma twice_run: "\<exists>p. server_run list_map (server_start list_map 60 0) twice_trace p"
  unfolding twice_trace_def
  apply (rule exI)
  apply (rule run_Cons [OF server_step.subscribe [where n = 0]], (simp add: run_evals)+)
  apply (rule run_Cons [OF server_step.accept [where h = sample_htlc]], (simp add: run_evals)+)
  apply (rule run_Cons [OF server_step.take], (simp add: run_evals)+)
  apply (rule run_Cons [OF server_step.handle], (simp add: run_evals)+)
  apply (rule run_Cons' [OF server_step.handle_sent], (simp add: run_evals)+)
  apply (rule run_Cons [OF server_step.unsubscribe], (simp add: run_evals)+)
  apply (rule run_Cons [OF server_step.recv], (simp add: run_evals)+)
  apply (rule run_Cons [OF server_step.tick [where d = 100]], (simp add: run_evals)+)
  apply (rule run_Cons [OF server_step.recv_timeout], (simp add: run_evals)+)
  apply (rule run_Cons [OF server_step.recv_put], (simp add: run_evals)+)
  apply (rule run_Cons [OF server_step.recv], (simp add: run_evals)+)
  apply (rule run_Cons [OF server_step.recv_timeout], (simp add: run_evals)+)
  apply (rule run_Cons [OF server_step.recv_put], (simp add: run_evals)+)
  apply (rule run_Cons [OF server_step.receive], (simp add: run_evals)+)
  apply (rule run_Cons' [OF server_step.receive_return], (simp add: run_evals)+)
  apply (rule run_Cons [OF server_step.receive], (simp add: run_evals)+)
  apply (rule run_Cons' [OF server_step.receive_return], (simp add: run_evals)+)
  apply (rule server_run.run_Nil)
  done

section \<open>Properties\<close>

text \<open>
  C3: The server of the CLN plugin refines its specification. Every run from the start is a run of the
  specification: htlcs are sent in the order in which CLN accepted them, a new subscriber gets the
  htlcs in flight in that order, and CLN gets for an htlc only what a subscriber said about it, or the
  default result if CLN had accepted it. And no htlc is lost: until the server is stopped, every htlc
  that was accepted and not answered is in one of its queues, held by its goroutine or in flight.
\<close>

theorem server_refines_spec:
  assumes "ordered_map M" and "server_run M (server_start M timeout now) es p"
  shows "\<exists>a. spec_run spec_start es = Some a \<and>
    (\<not> sv_done (pl_server p) \<longrightarrow> pending_after es {} \<subseteq> located M p)"
proof -
  obtain a where a: "spec_run spec_start es = Some a" "simulates M a p"
    using htlc_map.simulates_run [OF htlc_map.intro [OF assms(1)] assms(2)] by blast
  with spec_run_pending [OF a(1)] show ?thesis
    by (auto simp: simulates_def spec_start_def)
qed

theorem server_refines_spec_witness:
  "\<exists>p a. server_run list_map (server_start list_map 60 0) twice_trace p \<and>
     spec_run spec_start twice_trace = Some a \<and>
     (\<not> sv_done (pl_server p) \<longrightarrow> pending_after twice_trace {} \<subseteq> located list_map p)"
  using twice_run server_refines_spec [OF list_map.ordered_map_axioms] by meson

text \<open>
  C5: Every reachable state of the plugin's server is well formed: its queues are within their bounds,
  and every id is in flight at most once, with the message that has this id and that can be replayed
  to a new subscriber without a nil dereference.
\<close>

theorem server_states_wf:
  assumes "ordered_map M" and "server_run M (server_start M timeout now) es p"
  shows "server_wf M p"
  using htlc_map.simulates_run [OF htlc_map.intro [OF assms(1)] assms(2)] by blast

theorem server_states_wf_witness:
  "\<exists>p. server_run list_map (server_start list_map 60 0) twice_trace p \<and> server_wf list_map p"
  using twice_run server_states_wf [OF list_map.ordered_map_axioms] by meson

text \<open>
  C38: An htlc can be answered twice although CLN sent it once: when it times out without a subscriber,
  it stays in flight until its default result is taken from the receive queue, and until then it times
  out again.
\<close>

theorem htlc_answered_twice:
  "\<exists>es p. server_run list_map (server_start list_map 60 0) es p \<and>
     count_list es (Accepted ''7'') = 1 \<and> count_list es (Answered ''7'' defaultResult) = 2 \<and>
     (\<forall>id' r. Resolved id' r \<notin> set es)"
proof -
  have "count_list twice_trace (Accepted ''7'') = 1"
    "count_list twice_trace (Answered ''7'' defaultResult) = 2"
    "\<forall>id' r. Resolved id' r \<notin> set twice_trace"
    by (simp_all add: twice_trace_def)
  with twice_run show ?thesis by blast
qed

end
