(* ===== verification/Htlc_Loop.thy ===== *)
theory Htlc_Loop
  imports Lspd_Prelude
begin

text \<open>
  The loop in which both htlc interceptors receive htlcs from their node: \<^verbatim>\<open>intercept\<close>, \<^verbatim>\<open>Stop\<close> and
  \<^verbatim>\<open>WaitStarted\<close> of \<^verbatim>\<open>cln/cln_interceptor.go\<close> and \<^verbatim>\<open>lnd/interceptor.go\<close>, which differ in nothing but the
  stream they read and the goroutine they start for an htlc. The steps are those of the goroutine
  that runs the loop, of the goroutines that handle htlcs, and of the caller of \<^verbatim>\<open>Stop\<close>. A handler
  runs on the world when it completes.
\<close>

section \<open>The loop\<close>

datatype loop_pc = Connect | Receive | Sleep | Draining "error option" | Returned "error option"

datatype stop_pc = StopIdle | StopWaiting | StopDone

text \<open>
  \<open>lp_working\<close> are the htlcs whose goroutine has not called \<^verbatim>\<open>doneWg.Done\<close>, \<open>lp_initWg\<close> is the counter that
  \<^verbatim>\<open>WaitStarted\<close> waits for; \<open>lp_received\<close> and \<open>lp_handled\<close> record what came in and what was handled.
\<close>

record ('r, 'w) intercept_loop =
  lp_cancelled :: bool
  stopRequested :: bool
  lp_inited :: bool
  lp_initWg :: nat
  lp_pc :: loop_pc
  lp_stop :: stop_pc
  lp_working :: "'r list"
  lp_received :: "'r list"
  lp_handled :: "'r list"
  lp_world :: 'w

text \<open>The state when \<^verbatim>\<open>Start\<close> calls \<^verbatim>\<open>intercept\<close>; the constructor has added one to \<^verbatim>\<open>initWg\<close>.\<close>

definition loop_start :: "'w \<Rightarrow> ('r, 'w) intercept_loop" where
  "loop_start w = \<lparr>lp_cancelled = False, stopRequested = False, lp_inited = False, lp_initWg = 1,
     lp_pc = Connect, lp_stop = StopIdle, lp_working = [], lp_received = [], lp_handled = [],
     lp_world = w\<rparr>"

text \<open>Returning runs the deferred function: \<^verbatim>\<open>initWg.Done\<close> unless it was called, then \<^verbatim>\<open>doneWg.Wait\<close>.\<close>

definition leave :: "error option \<Rightarrow> ('r, 'w) intercept_loop \<Rightarrow> ('r, 'w) intercept_loop" where
  "leave err l = l\<lparr>lp_pc := Draining err,
     lp_initWg := (if lp_inited l then lp_initWg l else lp_initWg l - 1)\<rparr>"

definition canceled :: error where
  "canceled = Error ''context canceled''"

text \<open>The part of the inner loop before \<^verbatim>\<open>Recv\<close>, which may return.\<close>

definition before_recv :: "('r, 'w) intercept_loop \<Rightarrow> ('r, 'w) intercept_loop" where
  "before_recv l =
     (if lp_cancelled l then leave (Some canceled) l
      else let l1 = l\<lparr>lp_inited := True, lp_initWg := (if lp_inited l then lp_initWg l else lp_initWg l - 1)\<rparr>
           in if stopRequested l1 then leave None l1 else l1\<lparr>lp_pc := Receive\<rparr>)"

inductive loop_step ::
  "('r \<Rightarrow> 'w \<Rightarrow> ('a outcome \<times> 'w) option) \<Rightarrow> ('r, 'w) intercept_loop \<Rightarrow> ('r, 'w) intercept_loop \<Rightarrow> bool"
  for handle where
  connect_cancelled: "lp_pc l = Connect \<Longrightarrow> lp_cancelled l \<Longrightarrow> loop_step handle l (leave (Some canceled) l)"
| connect: "lp_pc l = Connect \<Longrightarrow> \<not> lp_cancelled l \<Longrightarrow> loop_step handle l (before_recv l)"
| connect_error: "lp_pc l = Connect \<Longrightarrow> \<not> lp_cancelled l \<Longrightarrow> loop_step handle l (l\<lparr>lp_pc := Sleep\<rparr>)"
| slept: "lp_pc l = Sleep \<Longrightarrow> loop_step handle l (l\<lparr>lp_pc := Connect\<rparr>)"
| received: "lp_pc l = Receive \<Longrightarrow>
    loop_step handle l
      (before_recv (l\<lparr>lp_working := r # lp_working l, lp_received := r # lp_received l\<rparr>))"
| recv_error: "lp_pc l = Receive \<Longrightarrow> loop_step handle l (l\<lparr>lp_pc := Sleep\<rparr>)"
| handled: "lp_working l = rs @ r # rs' \<Longrightarrow> handle r (lp_world l) = Some (Ret a, w) \<Longrightarrow>
    loop_step handle l
      (l\<lparr>lp_working := rs @ rs', lp_handled := r # lp_handled l, lp_world := w\<rparr>)"
| drained: "lp_pc l = Draining err \<Longrightarrow> lp_working l = [] \<Longrightarrow> loop_step handle l (l\<lparr>lp_pc := Returned err\<rparr>)"
| stop: "lp_stop l = StopIdle \<Longrightarrow> loop_step handle l (l\<lparr>stopRequested := True, lp_stop := StopWaiting\<rparr>)"
| stopped: "lp_stop l = StopWaiting \<Longrightarrow> lp_working l = [] \<Longrightarrow>
    loop_step handle l (l\<lparr>lp_cancelled := True, lp_stop := StopDone\<rparr>)"

definition WaitStarted_returns :: "('r, 'w) intercept_loop \<Rightarrow> bool" where
  "WaitStarted_returns l \<longleftrightarrow> lp_initWg l = 0"

inductive loop_reachable ::
  "('r \<Rightarrow> 'w \<Rightarrow> ('a outcome \<times> 'w) option) \<Rightarrow> ('r, 'w) intercept_loop \<Rightarrow> bool"
  for handle where
  loop_init: "loop_reachable handle (loop_start w)"
| loop_next: "loop_reachable handle l \<Longrightarrow> loop_step handle l l' \<Longrightarrow> loop_reachable handle l'"

section \<open>Its invariant\<close>

fun returning :: "loop_pc \<Rightarrow> bool" where
  "returning (Draining e) \<longleftrightarrow> True"
| "returning (Returned e) \<longleftrightarrow> True"
| "returning _ \<longleftrightarrow> False"

text \<open>
  Every htlc that was received is being handled or was handled once; the counter is zero from the
  first \<^verbatim>\<open>Recv\<close> on; no htlc is being handled when \<^verbatim>\<open>intercept\<close> has returned.
\<close>

definition loop_inv :: "('r, 'w) intercept_loop \<Rightarrow> bool" where
  "loop_inv l \<longleftrightarrow>
     (\<forall>r. count_list (lp_received l) r = count_list (lp_working l) r + count_list (lp_handled l) r) \<and>
     lp_initWg l = (if lp_inited l \<or> returning (lp_pc l) then 0 else 1) \<and>
     (lp_pc l = Receive \<longrightarrow> lp_inited l) \<and>
     (\<forall>err. lp_pc l = Returned err \<longrightarrow> lp_working l = [])"

lemma loop_inv_before_recv: "loop_inv l \<Longrightarrow> \<not> returning (lp_pc l) \<Longrightarrow> loop_inv (before_recv l)"
  by (auto simp: loop_inv_def before_recv_def leave_def Let_def)

lemma loop_inv_step:
  assumes "loop_step handle l l'" and "loop_inv l"
  shows "loop_inv l'"
  using assms
proof (cases rule: loop_step.cases)
  case (received r)
  with assms(2) show ?thesis
    unfolding received(1)
    by (intro loop_inv_before_recv) (auto simp: loop_inv_def)
next
  case connect
  with assms(2) show ?thesis by (simp add: loop_inv_before_recv)
qed (auto simp: loop_inv_def leave_def)

lemma loop_inv_start: "loop_inv (loop_start w)"
  by (simp add: loop_inv_def loop_start_def)

lemma loop_reachable_inv: "loop_reachable handle l \<Longrightarrow> loop_inv l"
  by (induction rule: loop_reachable.induct) (auto intro: loop_inv_start loop_inv_step)

text \<open>Once \<^verbatim>\<open>intercept\<close> has returned, \<^verbatim>\<open>WaitStarted\<close> returns and all received htlcs were handled, each once.\<close>

lemma loop_returned:
  assumes "loop_reachable handle l" and "lp_pc l = Returned err"
  shows "WaitStarted_returns l \<and> (\<forall>r. count_list (lp_handled l) r = count_list (lp_received l) r)"
  using loop_reachable_inv [OF assms(1)] assms(2) by (auto simp: loop_inv_def WaitStarted_returns_def)

end
