(* ===== verification/Cln_Interceptor.thy ===== *)
theory Cln_Interceptor
  imports Intercept_Types Plugin_Messages Htlc_Loop
begin

text \<open>
  The htlc interceptor of a CLN node (\<^verbatim>\<open>cln/cln_interceptor.go\<close>): it turns the htlcs the plugin streams
  into requests for the intercept handler and the handler's results into resolutions for the plugin.
  When an htlc is forwarded over a new channel, the next hop and the amount in its onion payload are
  replaced. The TLV and record codecs of lnd are arguments, with their contract in the locale
  \<open>tlv_codec\<close>.
\<close>

section \<open>The codecs\<close>

text \<open>
  A TLV map is the list of its records in the order of their types. \<open>ReadVarInt\<close> also returns the rest of
  its input.
\<close>

type_synonym tlv_map = "(u64 \<times> bytes) list"

record onion_libs =
  sphinx_ReadVarInt :: "bytes \<Rightarrow> error + u64 \<times> bytes"
  tlv_DecodeWithParsedTypes :: "bytes \<Rightarrow> error + tlv_map"
  tlv_NewStream :: "tlv_map \<Rightarrow> error option"
  tlv_Encode :: "tlv_map \<Rightarrow> error + bytes"
  record_NextHopID :: "u64 \<Rightarrow> error + bytes"
  record_AmtToFwd :: "u64 \<Rightarrow> error + bytes"
  record_NextHopOnionType :: u64
  record_AmtOnionType :: u64
  lnwire_ChanID :: "outpoint \<Rightarrow> string"

section \<open>cln/cln\_interceptor.go\<close>

record 'w ClnHtlcInterceptor =
  ci_interceptor :: "'w InterceptHandler"
  ci_pluginAddress :: string

definition NewClnHtlcInterceptor :: "string \<Rightarrow> 'w InterceptHandler \<Rightarrow> 'w ClnHtlcInterceptor" where
  "NewClnHtlcInterceptor pluginAddress interceptor =
     \<lparr>ci_interceptor = interceptor, ci_pluginAddress = pluginAddress\<rparr>"

definition cln_mapFailureCode :: "InterceptFailureCode \<Rightarrow> string" where
  "cln_mapFailureCode original =
     (if original = FAILURE_TEMPORARY_CHANNEL_FAILURE then ''1007''
      else if original = FAILURE_AMOUNT_BELOW_MINIMUM then ''100B''
      else if original = FAILURE_INCORRECT_CLTV_EXPIRY then ''100D''
      else if original = FAILURE_TEMPORARY_NODE_FAILURE then ''2002''
      else if original = FAILURE_UNKNOWN_NEXT_PEER then ''400A''
      else if original = FAILURE_INCORRECT_OR_UNKNOWN_PAYMENT_DETAILS then ''400F''
      else ''1007'')"

definition defaultResolution :: "pb_HtlcAccepted \<Rightarrow> HtlcResolution" where
  "defaultResolution request =
     \<lparr>hr_Correlationid = pa_Correlationid request,
      hr_Outcome = Continue \<lparr>hc_Payload = None, hc_ForwardTo = None\<rparr>\<rparr>"

definition failWithCode :: "pb_HtlcAccepted \<Rightarrow> InterceptFailureCode \<Rightarrow> HtlcResolution" where
  "failWithCode request code =
     \<lparr>hr_Correlationid = pa_Correlationid request,
      hr_Outcome = Fail (FailureMessage (cln_mapFailureCode code))\<rparr>"

text \<open>Allocating more memory than can be addressed (\<open>2\<^sup>48\<close> bytes) is a panic.\<close>

definition replace_hop :: "onion_libs \<Rightarrow> bytes \<Rightarrow> bytes \<Rightarrow> tlv_map \<Rightarrow> tlv_map" where
  "replace_hop K nexthop amt tlvMap =
     map (\<lambda>(t, b). (t, if t = record_NextHopOnionType K then nexthop
                       else if t = record_AmtOnionType K then amt else b)) tlvMap"

definition encodePayloadWithNextHop ::
  "onion_libs \<Rightarrow> bytes \<Rightarrow> ShortChannelID \<Rightarrow> u64 \<Rightarrow> u64 option \<Rightarrow> (error + bytes) outcome" where
  "encodePayloadWithNextHop K payload scid amountToForward feeMsat =
     (case sphinx_ReadVarInt K payload of
        Inl err \<Rightarrow> Ret (Inl (Wrap ''failed to read payload length'' err))
      | Inr (varInt, rest) \<Rightarrow>
          if 2 ^ 48 < unat varInt then Panic ''makeslice: len out of range''
          else if length rest < unat varInt
          then Ret (Inl (Wrap ''failed to decode payload'' (Error ''unexpected EOF'')))
          else
            (case tlv_DecodeWithParsedTypes K (take (unat varInt) rest) of
               Inl err \<Rightarrow> Ret (Inl (Wrap ''DecodeWithParsedTypes failed'' err))
             | Inr tlvMap \<Rightarrow>
                 (case record_NextHopID K scid of
                    Inl err \<Rightarrow> Ret (Inl (Wrap ''failed to encode nexthop'' err))
                  | Inr tt \<Rightarrow>
                      (case record_AmtToFwd K amountToForward of
                         Inl err \<Rightarrow> Ret (Inl (Wrap ''failed to encode AmtToFwd'' err))
                       | Inr amt \<Rightarrow>
                           (let uTlvMap = replace_hop K tt amt tlvMap in
                            case tlv_NewStream K uTlvMap of
                              Some err \<Rightarrow> Ret (Inl (Wrap ''tlv.NewStream error'' err))
                            | None \<Rightarrow>
                                (case tlv_Encode K uTlvMap of
                                   Inl err \<Rightarrow> Ret (Inl (Wrap ''encode error'' err))
                                 | Inr newPayload \<Rightarrow> Ret (Inr newPayload)))))))"

text \<open>\<open>resumeWithOnion\<close> is called for a request with an onion.\<close>

definition resumeWithOnion ::
  "onion_libs \<Rightarrow> pb_HtlcAccepted \<Rightarrow> pb_Onion \<Rightarrow> InterceptResult \<Rightarrow> HtlcResolution outcome" where
  "resumeWithOnion K request onion interceptResult =
     (case hex_decode (po_Payload onion) of
        None \<Rightarrow> Ret (failWithCode request FAILURE_TEMPORARY_CHANNEL_FAILURE)
      | Some payload \<Rightarrow>
          (case encodePayloadWithNextHop K payload (Scid interceptResult) (AmountMsat interceptResult)
                  (FeeMsat interceptResult) of
             Panic m \<Rightarrow> Panic m
           | Ret (Inl err) \<Rightarrow> Ret (failWithCode request FAILURE_TEMPORARY_CHANNEL_FAILURE)
           | Ret (Inr newPayload) \<Rightarrow>
               (case ChannelPoint interceptResult of
                  None \<Rightarrow> Ret (failWithCode request FAILURE_TEMPORARY_CHANNEL_FAILURE)
                | Some channelPoint \<Rightarrow>
                    Ret \<lparr>hr_Correlationid = pa_Correlationid request,
                         hr_Outcome = Continue
                           \<lparr>hc_Payload = Some (hex_encode newPayload),
                            hc_ForwardTo = Some (lnwire_ChanID K channelPoint)\<rparr>\<rparr>)))"

text \<open>
  The goroutine for an htlc: the resolution it sends (\<open>None\<close> if it sends nothing). It dereferences the
  htlc of the message.
\<close>

definition cln_request :: "libs \<Rightarrow> pb_HtlcAccepted \<Rightarrow> pb_Htlc \<Rightarrow> (pb_Onion \<times> InterceptRequest) option" where
  "cln_request L request htlc =
     (case (hex_decode (ph_PaymentHash htlc), pa_Onion request) of
        (Some paymentHash, Some onion) \<Rightarrow>
          (case (po_ShortChannelId onion, po_SharedSecret onion, po_ForwardMsat onion,
                 po_OutgoingCltvValue onion) of
             (Some scidStr, Some sharedSecret, Some forwardMsat, Some outgoingCltv) \<Rightarrow>
               if scidStr = [] then None
               else (case NewShortChannelIDFromString L scidStr of
                       Inl err \<Rightarrow> None
                     | Inr scid \<Rightarrow>
                         Some (onion,
                           \<lparr>req_Identifier = sharedSecret,
                            req_Scid = scid,
                            req_PaymentHash = paymentHash,
                            req_IncomingAmountMsat = ph_AmountMsat htlc,
                            req_OutgoingAmountMsat = forwardMsat,
                            req_IncomingExpiry = ph_CltvExpiry htlc,
                            req_OutgoingExpiry = outgoingCltv\<rparr>))
           | _ \<Rightarrow> None)
      | _ \<Rightarrow> None)"

definition cln_handle ::
  "libs \<Rightarrow> onion_libs \<Rightarrow> 'w ClnHtlcInterceptor \<Rightarrow> pb_HtlcAccepted \<Rightarrow> 'w \<Rightarrow>
     (HtlcResolution option outcome \<times> 'w) option" where
  "cln_handle L K i request w =
     (case pa_Htlc request of
        None \<Rightarrow> Some (Panic ''nil dereference'', w)
      | Some htlc \<Rightarrow>
          (case cln_request L request htlc of
             None \<Rightarrow> Some (Ret (Some (defaultResolution request)), w)
           | Some (onion, req) \<Rightarrow>
               (case ci_interceptor i req w of
                  None \<Rightarrow> None
                | Some (Panic m, w1) \<Rightarrow> Some (Panic m, w1)
                | Some (Ret interceptResult, w1) \<Rightarrow>
                    (case Action interceptResult of
                       INTERCEPT_RESUME_WITH_ONION \<Rightarrow>
                         (case resumeWithOnion K request onion interceptResult of
                            Panic m \<Rightarrow> Some (Panic m, w1)
                          | Ret r \<Rightarrow> Some (Ret (Some r), w1))
                     | INTERCEPT_FAIL_HTLC_WITH_CODE \<Rightarrow>
                         Some (Ret (Some (failWithCode request (FailureCode interceptResult))), w1)
                     | INTERCEPT_IGNORE \<Rightarrow> Some (Ret None, w1)
                     | INTERCEPT_RESUME \<Rightarrow> Some (Ret (Some (defaultResolution request)), w1)))))"

definition cln_intercept_step ::
  "libs \<Rightarrow> onion_libs \<Rightarrow> 'w ClnHtlcInterceptor \<Rightarrow> (pb_HtlcAccepted, 'w) intercept_loop \<Rightarrow>
     (pb_HtlcAccepted, 'w) intercept_loop \<Rightarrow> bool" where
  "cln_intercept_step L K i = loop_step (cln_handle L K i)"

section \<open>The contract of the codecs\<close>

text \<open>Documented behaviour: what a stream encodes is decoded to the same records.\<close>

locale tlv_codec =
  fixes K :: onion_libs
  assumes decode_encode: "tlv_NewStream K m = None \<Longrightarrow> tlv_Encode K m = Inr b \<Longrightarrow>
    tlv_DecodeWithParsedTypes K b = Inr m"

text \<open>The records of an onion payload, which starts with its length.\<close>

definition payload_records :: "onion_libs \<Rightarrow> string \<Rightarrow> tlv_map option" where
  "payload_records K payload =
     (case hex_decode payload of
        None \<Rightarrow> None
      | Some bs \<Rightarrow>
          (case sphinx_ReadVarInt K bs of
             Inl err \<Rightarrow> None
           | Inr (n, rest) \<Rightarrow>
               if length rest < unat n then None
               else (case tlv_DecodeWithParsedTypes K (take (unat n) rest) of
                       Inl err \<Rightarrow> None
                     | Inr m \<Rightarrow> Some m)))"

text \<open>
  An htlc is forwarded over a channel with a payload that has the records of the onion, but the id of
  that channel and the amount to forward.
\<close>

definition forwarded_as :: "onion_libs \<Rightarrow> pb_Onion \<Rightarrow> InterceptResult \<Rightarrow> HtlcContinue \<Rightarrow> bool" where
  "forwarded_as K onion res c \<longleftrightarrow>
     (\<exists>channelPoint records nexthop amt payload.
        ChannelPoint res = Some channelPoint \<and> hc_ForwardTo c = Some (lnwire_ChanID K channelPoint) \<and>
        payload_records K (po_Payload onion) = Some records \<and>
        record_NextHopID K (Scid res) = Inr nexthop \<and> record_AmtToFwd K (AmountMsat res) = Inr amt \<and>
        hc_Payload c = Some (hex_encode payload) \<and>
        tlv_DecodeWithParsedTypes K payload = Inr (replace_hop K nexthop amt records))"

context tlv_codec
begin

lemma encodePayloadWithNextHop_records:
  assumes "hex_decode payload = Some bs"
    and "encodePayloadWithNextHop K bs scid amount fee = Ret (Inr new)"
  shows "\<exists>records nexthop amt. payload_records K payload = Some records \<and>
    record_NextHopID K scid = Inr nexthop \<and> record_AmtToFwd K amount = Inr amt \<and>
    tlv_DecodeWithParsedTypes K new = Inr (replace_hop K nexthop amt records)"
  using assms
  by (auto simp: encodePayloadWithNextHop_def payload_records_def Let_def decode_encode
      split: sum.splits prod.splits if_splits option.splits)

lemma resumeWithOnion_cases:
  assumes "resumeWithOnion K request onion res = Ret r"
  shows "r = failWithCode request FAILURE_TEMPORARY_CHANNEL_FAILURE \<or>
    (\<exists>c. hr_Correlationid r = pa_Correlationid request \<and> hr_Outcome r = Continue c \<and>
       forwarded_as K onion res c)"
proof (cases "hex_decode (po_Payload onion)")
  case None
  with assms show ?thesis by (simp add: resumeWithOnion_def)
next
  case (Some bs)
  show ?thesis
  proof (cases "encodePayloadWithNextHop K bs (Scid res) (AmountMsat res) (FeeMsat res)")
    case (Ret x)
    with Some assms encodePayloadWithNextHop_records [OF Some] show ?thesis
      by (cases x) (fastforce simp: resumeWithOnion_def forwarded_as_def split: option.splits)+
  next
    case (Panic m)
    with Some assms show ?thesis by (simp add: resumeWithOnion_def)
  qed
qed

end

lemma cln_request_onion: "cln_request L request htlc = Some (onion, req) \<Longrightarrow> pa_Onion request = Some onion"
  by (auto simp: cln_request_def split: option.splits if_splits sum.splits)

section \<open>A concrete codec\<close>

text \<open>The TLV format for types and lengths of one byte (below 253).\<close>

fun small_records :: "tlv_map \<Rightarrow> bool" where
  "small_records [] \<longleftrightarrow> True"
| "small_records ((t, b) # m) \<longleftrightarrow> unat t < 253 \<and> length b < 253 \<and> small_records m"

fun write_records :: "tlv_map \<Rightarrow> bytes" where
  "write_records [] = []"
| "write_records ((t, b) # m) = ucast t # word_of_nat (length b) # b @ write_records m"

fun read_records :: "bytes \<Rightarrow> tlv_map option" where
  "read_records [] = Some []"
| "read_records [t] = None"
| "read_records (t # n # bs) =
     (if length bs < unat n then None
      else map_option ((#) (ucast t, take (unat n) bs)) (read_records (drop (unat n) bs)))"

definition big_endian :: "u64 \<Rightarrow> bytes" where
  "big_endian w = map (\<lambda>k. ucast (drop_bit (8 * k) w)) [7, 6, 5, 4, 3, 2, 1, 0]"

definition small_onion :: onion_libs where
  "small_onion = \<lparr>
     sphinx_ReadVarInt = (\<lambda>bs. case bs of
         b # rest \<Rightarrow> if unat b < 253 then Inr (ucast b, rest) else Inl (Error ''too long'')
       | [] \<Rightarrow> Inl (Error ''EOF'')),
     tlv_DecodeWithParsedTypes = (\<lambda>bs. case read_records bs of
         None \<Rightarrow> Inl (Error ''unexpected EOF'') | Some m \<Rightarrow> Inr m),
     tlv_NewStream = (\<lambda>m. if sorted_wrt (<) (map fst m) then None else Some (Error ''not canonical'')),
     tlv_Encode = (\<lambda>m. if small_records m then Inr (write_records m) else Inl (Error ''too long'')),
     record_NextHopID = (\<lambda>scid. Inr (big_endian scid)),
     record_AmtToFwd = (\<lambda>amt. Inr (dropWhile ((=) 0) (big_endian amt))),
     record_NextHopOnionType = 6,
     record_AmtOnionType = 2,
     lnwire_ChanID = (\<lambda>op. hex_encode (op_hash op))\<rparr>"

lemma ucast_u8_u64:
  assumes "unat t < 253"
  shows "(ucast (ucast t :: u8) :: u64) = t"
proof -
  have "unat (ucast (ucast t :: u8) :: u64) = unat t"
    using assms by (simp add: unsigned_ucast_eq take_bit_eq_mod unat_mod)
  then show ?thesis by (simp only: word_unat_eq_iff)
qed

lemma read_write_records: "small_records m \<Longrightarrow> read_records (write_records m) = Some m"
proof (induction m)
  case (Cons r m)
  obtain t b where r: "r = (t, b)" by fastforce
  from Cons.prems have "unat (word_of_nat (length b) :: u8) = length b"
    by (simp add: r unat_of_nat)
  with Cons show ?case by (simp add: r ucast_u8_u64)
qed simp

interpretation small_onion: tlv_codec small_onion
  by unfold_locales (auto simp: small_onion_def read_write_records split: if_splits)

text \<open>An htlc with the records 2, 4 and 6 in its onion, and a handler that forwards over a channel.\<close>

definition sample_onion_payload :: string where
  "sample_onion_payload = hex_encode [9, 2, 1, 100, 4, 1, 7, 6, 1, 5]"

definition sample_cln_request :: pb_HtlcAccepted where
  "sample_cln_request = \<lparr>pa_Correlationid = ''cln:1'',
     pa_Onion = Some \<lparr>po_Payload = sample_onion_payload, po_ShortChannelId = Some ''1x2x3'',
       po_ForwardMsat = Some 100, po_OutgoingCltvValue = Some 144, po_SharedSecret = Some ''aa'',
       po_NextOnion = None\<rparr>,
     pa_Htlc = Some \<lparr>ph_ShortChannelId = ''4x5x6'', ph_Id = 1, ph_AmountMsat = 101,
       ph_CltvExpiry = 288, ph_CltvExpiryRelative = 144, ph_PaymentHash = ''00ff''\<rparr>,
     pa_ForwardTo = []\<rparr>"

definition sample_forwarding :: InterceptResult where
  "sample_forwarding = resume_result\<lparr>Action := INTERCEPT_RESUME_WITH_ONION, AmountMsat := 90,
     ChannelPoint := Some \<lparr>op_hash = [1, 2], op_index = 0\<rparr>, Scid := 8\<rparr>"

lemma sample_scid: "\<exists>scid. NewShortChannelIDFromString std_libs ''1x2x3'' = Inr scid"
  by (simp add: NewShortChannelIDFromString_def parse_int64_def parse_uint_def digit_val_def std_libs_def)

lemma sample_payload:
  "encodePayloadWithNextHop small_onion [9, 2, 1, 100, 4, 1, 7, 6, 1, 5] 8 90 None =
     Ret (Inr [2, 1, 90, 4, 1, 7, 6, 8, 0, 0, 0, 0, 0, 0, 0, 8])"
  by (simp add: encodePayloadWithNextHop_def small_onion_def replace_hop_def big_endian_def)

lemma sample_cln_handle:
  "cln_handle std_libs small_onion (NewClnHtlcInterceptor [] (\<lambda>req w. Some (Ret sample_forwarding, w)))
     sample_cln_request () =
   Some (Ret (Some \<lparr>hr_Correlationid = ''cln:1'',
     hr_Outcome = Continue \<lparr>hc_Payload = Some (hex_encode [2, 1, 90, 4, 1, 7, 6, 8, 0, 0, 0, 0, 0, 0, 0, 8]),
       hc_ForwardTo = Some (hex_encode [1, 2])\<rparr>\<rparr>), ())"
proof -
  obtain scid where "NewShortChannelIDFromString std_libs ''1x2x3'' = Inr scid"
    using sample_scid by blast
  moreover have "hex_decode ''00ff'' = Some [0, 255]" by (simp add: hex_val_def)
  moreover have "lnwire_ChanID small_onion \<lparr>op_hash = [1, 2], op_index = 0\<rparr> = hex_encode [1, 2]"
    by (simp add: small_onion_def)
  ultimately show ?thesis
    by (simp add: cln_handle_def cln_request_def sample_cln_request_def NewClnHtlcInterceptor_def
        sample_forwarding_def resume_result_def resumeWithOnion_def sample_onion_payload_def sample_payload)
qed

section \<open>Properties\<close>



end
