(* ===== verification/Lnd_Interceptor.thy ===== *)
theory Lnd_Interceptor
  imports Intercept_Types Htlc_Loop
begin

text \<open>
  The htlc interceptor of an LND node (\<^verbatim>\<open>lnd/interceptor.go\<close>): it turns the htlcs of LND's interceptor
  stream into requests for the intercept handler and the handler's results into responses. For clients
  that need it, it builds a new onion for the destination. LND's and the sphinx library's encoders
  are arguments, with the contract of an onion in the locale \<open>onion_packets\<close>.
\<close>

section \<open>The libraries\<close>

text \<open>The last hop of a route, with the record for a payment in parts.\<close>

record Hop =
  AmtToForward :: u64
  OutgoingTimeLock :: u32
  MPP_total :: u64
  MPP_addr :: bytes

record CircuitKey =
  ck_ChanId :: u64
  ck_HtlcId :: u64

text \<open>Creating a session key draws random bytes from the world.\<close>

record 'w sphinx_libs =
  CircuitKey_String :: "CircuitKey option \<Rightarrow> string"
  btcec_ParsePubKey :: "bytes \<Rightarrow> error + bytes"
  btcec_NewPrivateKey :: "'w \<Rightarrow> (error + bytes) \<times> 'w"
  hop_PackHopPayload :: "Hop \<Rightarrow> error + bytes"
  sphinx_NewTLVHopPayload :: "bytes \<Rightarrow> error + bytes"
  sphinx_NewOnionPacket :: "bytes \<Rightarrow> bytes \<Rightarrow> bytes \<Rightarrow> bytes \<Rightarrow> error + bytes"
  sphinx_Encode :: "bytes \<Rightarrow> error + bytes"

record ForwardHtlcInterceptRequest =
  fq_IncomingCircuitKey :: "CircuitKey option"
  fq_IncomingAmountMsat :: u64
  fq_IncomingExpiry :: u32
  fq_PaymentHash :: bytes
  fq_OutgoingRequestedChanId :: u64
  fq_OutgoingAmountMsat :: u64
  fq_OutgoingExpiry :: u32
  fq_OnionBlob :: bytes

datatype ResolveHoldForwardAction = SETTLE | FAIL | RESUME

datatype Failure_FailureCode =
    Failure_RESERVED
  | Failure_TEMPORARY_CHANNEL_FAILURE
  | Failure_TEMPORARY_NODE_FAILURE
  | Failure_INCORRECT_OR_UNKNOWN_PAYMENT_DETAILS

record ForwardHtlcInterceptResponse =
  fp_IncomingCircuitKey :: "CircuitKey option"
  fp_Action :: ResolveHoldForwardAction
  fp_FailureCode :: Failure_FailureCode
  fp_OutgoingAmountMsat :: u64
  fp_OutgoingRequestedChanId :: u64
  fp_OnionBlob :: bytes

section \<open>lnd/interceptor.go\<close>

record 'w LndHtlcInterceptor =
  li_interceptor :: "'w InterceptHandler"

definition NewLndHtlcInterceptor :: "'w InterceptHandler \<Rightarrow> 'w LndHtlcInterceptor" where
  "NewLndHtlcInterceptor interceptor = \<lparr>li_interceptor = interceptor\<rparr>"

definition lnd_mapFailureCode :: "InterceptFailureCode \<Rightarrow> Failure_FailureCode" where
  "lnd_mapFailureCode original =
     (if original = FAILURE_TEMPORARY_CHANNEL_FAILURE then Failure_TEMPORARY_CHANNEL_FAILURE
      else if original = FAILURE_TEMPORARY_NODE_FAILURE then Failure_TEMPORARY_NODE_FAILURE
      else if original = FAILURE_INCORRECT_OR_UNKNOWN_PAYMENT_DETAILS
      then Failure_INCORRECT_OR_UNKNOWN_PAYMENT_DETAILS
      else Failure_TEMPORARY_CHANNEL_FAILURE)"

text \<open>\<^verbatim>\<open>copy(addr[:], secret)\<close> into an array of 32 zero bytes; a nil slice has no bytes.\<close>

definition secret_addr :: "bytes option \<Rightarrow> bytes" where
  "secret_addr secret =
     (let s = take 32 (case secret of None \<Rightarrow> [] | Some s \<Rightarrow> s) in s @ replicate (32 - length s) 0)"

definition legacy_hop :: "InterceptResult \<Rightarrow> u32 \<Rightarrow> Hop" where
  "legacy_hop interceptResult reqOutgoingExpiry =
     \<lparr>AmtToForward = AmountMsat interceptResult,
      OutgoingTimeLock = reqOutgoingExpiry,
      MPP_total = TotalAmountMsat interceptResult,
      MPP_addr = secret_addr (PaymentSecret interceptResult)\<rparr>"

definition constructOnion ::
  "'w sphinx_libs \<Rightarrow> InterceptResult \<Rightarrow> u32 \<Rightarrow> bytes \<Rightarrow> 'w \<Rightarrow> (error + bytes) \<times> 'w" where
  "constructOnion X interceptResult reqOutgoingExpiry reqPaymentHash w =
     (case btcec_ParsePubKey X (case Destination interceptResult of None \<Rightarrow> [] | Some d \<Rightarrow> d) of
        Inl err \<Rightarrow> (Inl err, w)
      | Inr pubKey \<Rightarrow>
          (case btcec_NewPrivateKey X w of
             (Inl err, w1) \<Rightarrow> (Inl err, w1)
           | (Inr sessionKey, w1) \<Rightarrow>
               (case hop_PackHopPayload X (legacy_hop interceptResult reqOutgoingExpiry) of
                  Inl err \<Rightarrow> (Inl err, w1)
                | Inr b \<Rightarrow>
                    (case sphinx_NewTLVHopPayload X b of
                       Inl err \<Rightarrow> (Inl err, w1)
                     | Inr payload \<Rightarrow>
                         (case sphinx_NewOnionPacket X pubKey payload sessionKey reqPaymentHash of
                            Inl err \<Rightarrow> (Inl err, w1)
                          | Inr sphinxPacket \<Rightarrow> (sphinx_Encode X sphinxPacket, w1))))))"

definition fail_response ::
  "ForwardHtlcInterceptRequest \<Rightarrow> Failure_FailureCode \<Rightarrow> ForwardHtlcInterceptResponse" where
  "fail_response request code =
     \<lparr>fp_IncomingCircuitKey = fq_IncomingCircuitKey request, fp_Action = FAIL, fp_FailureCode = code,
      fp_OutgoingAmountMsat = 0, fp_OutgoingRequestedChanId = 0, fp_OnionBlob = []\<rparr>"

definition resume_response ::
  "ForwardHtlcInterceptRequest \<Rightarrow> u64 \<Rightarrow> u64 \<Rightarrow> bytes \<Rightarrow> ForwardHtlcInterceptResponse" where
  "resume_response request amount chanId onion =
     \<lparr>fp_IncomingCircuitKey = fq_IncomingCircuitKey request, fp_Action = RESUME,
      fp_FailureCode = Failure_RESERVED, fp_OutgoingAmountMsat = amount,
      fp_OutgoingRequestedChanId = chanId, fp_OnionBlob = onion\<rparr>"

definition createOnionResponse ::
  "'w sphinx_libs \<Rightarrow> InterceptResult \<Rightarrow> ForwardHtlcInterceptRequest \<Rightarrow> 'w \<Rightarrow>
     ForwardHtlcInterceptResponse \<times> 'w" where
  "createOnionResponse X interceptResult request w =
     (let forward = resume_response request (AmountMsat interceptResult) (Scid interceptResult) in
      if UseLegacyOnionBlob interceptResult
      then (case constructOnion X interceptResult (fq_OutgoingExpiry request) (fq_PaymentHash request) w of
              (Inl err, w1) \<Rightarrow> (fail_response request Failure_TEMPORARY_CHANNEL_FAILURE, w1)
            | (Inr onionBlob, w1) \<Rightarrow> (forward onionBlob, w1))
      else (forward (fq_OnionBlob request), w))"

definition lnd_request :: "'w sphinx_libs \<Rightarrow> ForwardHtlcInterceptRequest \<Rightarrow> InterceptRequest" where
  "lnd_request X request =
     \<lparr>req_Identifier = CircuitKey_String X (fq_IncomingCircuitKey request),
      req_Scid = fq_OutgoingRequestedChanId request,
      req_PaymentHash = fq_PaymentHash request,
      req_IncomingAmountMsat = fq_IncomingAmountMsat request,
      req_OutgoingAmountMsat = fq_OutgoingAmountMsat request,
      req_IncomingExpiry = fq_IncomingExpiry request,
      req_OutgoingExpiry = fq_OutgoingExpiry request\<rparr>"

text \<open>The goroutine for an htlc and the response it sends.\<close>

definition lnd_handle ::
  "'w sphinx_libs \<Rightarrow> 'w LndHtlcInterceptor \<Rightarrow> ForwardHtlcInterceptRequest \<Rightarrow> 'w \<Rightarrow>
     (ForwardHtlcInterceptResponse outcome \<times> 'w) option" where
  "lnd_handle X i request w =
     (case li_interceptor i (lnd_request X request) w of
        None \<Rightarrow> None
      | Some (Panic m, w1) \<Rightarrow> Some (Panic m, w1)
      | Some (Ret interceptResult, w1) \<Rightarrow>
          (case Action interceptResult of
             INTERCEPT_RESUME_WITH_ONION \<Rightarrow>
               (case createOnionResponse X interceptResult request w1 of (r, w2) \<Rightarrow> Some (Ret r, w2))
           | INTERCEPT_FAIL_HTLC_WITH_CODE \<Rightarrow>
               Some (Ret (fail_response request (lnd_mapFailureCode (FailureCode interceptResult))), w1)
           | _ \<Rightarrow>
               Some (Ret (resume_response request (fq_OutgoingAmountMsat request)
                      (fq_OutgoingRequestedChanId request) (fq_OnionBlob request)), w1)))"

definition lnd_intercept_step ::
  "'w sphinx_libs \<Rightarrow> 'w LndHtlcInterceptor \<Rightarrow> (ForwardHtlcInterceptRequest, 'w) intercept_loop \<Rightarrow>
     (ForwardHtlcInterceptRequest, 'w) intercept_loop \<Rightarrow> bool" where
  "lnd_intercept_step X i = loop_step (lnd_handle X i)"

section \<open>The contract of an onion\<close>

text \<open>
  Documented behaviour: the node with the private key can peel an onion that was made for its public
  key, and finds the payload of its hop.
\<close>

locale onion_packets =
  fixes X :: "'w sphinx_libs" and peel :: "bytes \<Rightarrow> bytes \<Rightarrow> bytes \<Rightarrow> bytes option"
    and pubkey_of :: "bytes \<Rightarrow> bytes"
  assumes peel_packet: "sphinx_NewOnionPacket X (pubkey_of priv) payload sessionKey hash = Inr packet \<Longrightarrow>
      sphinx_Encode X packet = Inr onion \<Longrightarrow> peel priv hash onion = Some payload"
begin

text \<open>What the destination of a forwarded htlc reads.\<close>

lemma constructOnion_peel:
  assumes "constructOnion X res expiry hash w = (Inr onion, w')"
    and "btcec_ParsePubKey X dest = Inr (pubkey_of priv)" and "Destination res = Some dest"
  shows "\<exists>b payload. hop_PackHopPayload X (legacy_hop res expiry) = Inr b \<and>
    sphinx_NewTLVHopPayload X b = Inr payload \<and> peel priv hash onion = Some payload"
  using assms
  by (auto simp: constructOnion_def intro: peel_packet split: sum.splits prod.splits)

end

section \<open>A concrete library\<close>

text \<open>Onions without encryption: the key of the hop, then its payload.\<close>

definition plain_sphinx :: "'w sphinx_libs" where
  "plain_sphinx = \<lparr>
     CircuitKey_String = (\<lambda>k. case k of None \<Rightarrow> [] | Some c \<Rightarrow>
       format_uint (ck_ChanId c) @ '':'' @ format_uint (ck_HtlcId c)),
     btcec_ParsePubKey = (\<lambda>k. if length k = 33 then Inr k else Inl (Error ''malformed public key'')),
     btcec_NewPrivateKey = (\<lambda>w. (Inr [1], w)),
     hop_PackHopPayload = (\<lambda>hop. Inr (MPP_addr hop @ string_bytes (format_uint (AmtToForward hop)))),
     sphinx_NewTLVHopPayload = Inr,
     sphinx_NewOnionPacket = (\<lambda>pub payload key hash. Inr (pub @ payload)),
     sphinx_Encode = Inr\<rparr>"

definition plain_peel :: "bytes \<Rightarrow> bytes \<Rightarrow> bytes \<Rightarrow> bytes option" where
  "plain_peel priv hash onion = Some (drop (length priv) onion)"

interpretation plain_sphinx: onion_packets plain_sphinx plain_peel "\<lambda>k. k"
  by unfold_locales (auto simp: plain_sphinx_def plain_peel_def)

section \<open>Properties\<close>


definition sample_lnd_request :: ForwardHtlcInterceptRequest where
  "sample_lnd_request = \<lparr>fq_IncomingCircuitKey = Some \<lparr>ck_ChanId = 3, ck_HtlcId = 4\<rparr>,
     fq_IncomingAmountMsat = 101, fq_IncomingExpiry = 288, fq_PaymentHash = [7],
     fq_OutgoingRequestedChanId = 5, fq_OutgoingAmountMsat = 100, fq_OutgoingExpiry = 144, fq_OnionBlob = [9]\<rparr>"

definition sample_legacy :: InterceptResult where
  "sample_legacy = resume_result\<lparr>Action := INTERCEPT_RESUME_WITH_ONION, Destination := Some (replicate 33 2),
     AmountMsat := 90, TotalAmountMsat := 180, Scid := 8, PaymentSecret := Some [1], UseLegacyOnionBlob := True\<rparr>"


end
