(* ===== verification/Json_Text.thy ===== *)
theory Json_Text
  imports Json_Scan
begin

text \<open>
  What the CLN plugin uses of \<^verbatim>\<open>encoding/json\<close> beyond string literals: the raw texts of the members of an
  object and of the elements of an array (\<^verbatim>\<open>json.RawMessage\<close>), decoding literals into strings and
  numbers, encoding values, and the compacting of raw messages when they are written. The functions
  that take a text apart are used on texts that the scanner of \<open>Json_Scan\<close> has accepted.
\<close>

section \<open>Raw values\<close>

text \<open>The rest of a string literal, up to and including its closing quote.\<close>

fun string_end :: "string \<Rightarrow> string \<times> string" where
  "string_end [] = ([], [])"
| "string_end [c] = ([c], [])"
| "string_end (c # d # s) =
     (if c = quote_char then ([c], d # s)
      else if c = backslash then (case string_end s of (t, r) \<Rightarrow> (c # d # t, r))
      else (case string_end (d # s) of (t, r) \<Rightarrow> (c # t, r)))"

text \<open>
  The rest of an object or array at depth \<open>d\<close>, up to the bracket that closes it; \<open>q\<close> says whether the text
  is inside a string and \<open>e\<close> whether its next character is escaped.
\<close>

fun nested_end :: "nat \<Rightarrow> bool \<Rightarrow> bool \<Rightarrow> string \<Rightarrow> string \<times> string" where
  "nested_end d q e [] = ([], [])"
| "nested_end d q e (c # s) =
     (if \<not> q \<and> (c = CHR ''}'' \<or> c = CHR '']'') \<and> d \<le> 1 then ([c], s)
      else
        (case (if q then nested_end d (e \<or> c \<noteq> quote_char) (\<not> e \<and> c = backslash) s
               else if c = quote_char then nested_end d True False s
               else if c = CHR ''{'' \<or> c = CHR ''['' then nested_end (d + 1) False False s
               else if c = CHR ''}'' \<or> c = CHR '']'' then nested_end (d - 1) False False s
               else nested_end d False False s) of
           (t, r) \<Rightarrow> (c # t, r)))"

definition value_delimiter :: "char \<Rightarrow> bool" where
  "value_delimiter c \<longleftrightarrow> isSpace c \<or> c = CHR '','' \<or> c = CHR ''}'' \<or> c = CHR '']'' \<or> c = CHR '':''"

definition raw_value :: "string \<Rightarrow> string \<times> string" where
  "raw_value s =
     (case s of
        [] \<Rightarrow> ([], [])
      | c # s' \<Rightarrow>
          if c = quote_char then (case string_end s' of (t, r) \<Rightarrow> (c # t, r))
          else if c = CHR ''{'' \<or> c = CHR ''['' then (case nested_end 1 False False s' of (t, r) \<Rightarrow> (c # t, r))
          else (takeWhile (\<lambda>c. \<not> value_delimiter c) s, dropWhile (\<lambda>c. \<not> value_delimiter c) s))"

definition skip_space :: "string \<Rightarrow> string" where
  "skip_space s = dropWhile isSpace s"

text \<open>
  The members of an object and the elements of an array from after the opening bracket on. Every round
  consumes part of the text, whose length bounds the rounds.
\<close>

fun raw_members :: "nat \<Rightarrow> string \<Rightarrow> (string \<times> string) list" where
  "raw_members 0 s = []"
| "raw_members (Suc n) s =
     (case raw_value (skip_space s) of
        (key, s1) \<Rightarrow>
          if key = [] then []
          else case raw_value (skip_space (tl (skip_space s1))) of
            (v, s2) \<Rightarrow> (key, v) # raw_members n (tl (skip_space s2)))"

fun raw_elements :: "nat \<Rightarrow> string \<Rightarrow> string list" where
  "raw_elements 0 s = []"
| "raw_elements (Suc n) s =
     (case raw_value (skip_space s) of
        (v, s1) \<Rightarrow> if v = [] then [] else v # raw_elements n (tl (skip_space s1)))"

section \<open>Decoding literals\<close>

text \<open>UTF-8, for code points outside the surrogates.\<close>

definition utf8 :: "nat \<Rightarrow> string" where
  "utf8 n =
     (if n < 0x80 then [char_of n]
      else if n < 0x800 then [char_of (0xC0 + n div 64), char_of (0x80 + n mod 64)]
      else if n < 0x10000
      then [char_of (0xE0 + n div 4096), char_of (0x80 + n div 64 mod 64), char_of (0x80 + n mod 64)]
      else [char_of (0xF0 + n div 262144), char_of (0x80 + n div 4096 mod 64),
            char_of (0x80 + n div 64 mod 64), char_of (0x80 + n mod 64)])"

definition hex4 :: "string \<Rightarrow> nat option" where
  "hex4 s =
     (case map hex_val (take 4 s) of
        [Some a, Some b, Some c, Some d] \<Rightarrow> Some (4096 * a + 256 * b + 16 * c + d)
      | _ \<Rightarrow> None)"

text \<open>A surrogate that is not the first of a pair is replaced by U+FFFD.\<close>

definition low_surrogate :: "string \<Rightarrow> nat option" where
  "low_surrogate s =
     (case s of
        c # d # s' \<Rightarrow>
          if c = backslash \<and> d = CHR ''u''
          then (case hex4 s' of Some n \<Rightarrow> if 0xDC00 \<le> n \<and> n < 0xE000 then Some n else None | None \<Rightarrow> None)
          else None
      | _ \<Rightarrow> None)"

definition escaped_char :: "char \<Rightarrow> char" where
  "escaped_char d =
     (if d = CHR ''b'' then CHR 0x08 else if d = CHR ''f'' then CHR 0x0C
      else if d = CHR ''n'' then CHR 0x0A else if d = CHR ''r'' then CHR 0x0D
      else if d = CHR ''t'' then CHR 0x09 else d)"

function unquote_body :: "string \<Rightarrow> string" where
  "unquote_body [] = []"
| "unquote_body [c] = []"
| "unquote_body (c # d # s) =
     (if c = quote_char then []
      else if c \<noteq> backslash then c # unquote_body (d # s)
      else if d \<noteq> CHR ''u'' then escaped_char d # unquote_body s
      else
        (case hex4 s of
           None \<Rightarrow> []
         | Some n \<Rightarrow>
             if n < 0xD800 \<or> 0xE000 \<le> n then utf8 n @ unquote_body (drop 4 s)
             else if n < 0xDC00
             then (case low_surrogate (drop 4 s) of
                     Some m \<Rightarrow> utf8 (0x10000 + 1024 * (n - 0xD800) + (m - 0xDC00)) @ unquote_body (drop 10 s)
                   | None \<Rightarrow> utf8 0xFFFD @ unquote_body (drop 4 s))
             else utf8 0xFFFD @ unquote_body (drop 4 s)))"
  by pat_completeness auto
termination
  by (relation "measure length") auto

definition unquote :: "string \<Rightarrow> string" where
  "unquote raw = unquote_body (tl raw)"

text \<open>
  Decoding a value into a field. \<open>Inl\<close> is a value of the wrong type, which leaves the field as it is and
  makes the call return an error in the end; \<^verbatim>\<open>null\<close> leaves the field as it is.
\<close>

definition decode_str :: "string \<Rightarrow> string \<Rightarrow> string \<times> bool" where
  "decode_str old raw =
     (if raw = ''null'' then (old, True)
      else if raw \<noteq> [] \<and> hd raw = quote_char then (unquote raw, True)
      else (old, False))"

definition decode_str_opt :: "string option \<Rightarrow> string \<Rightarrow> string option \<times> bool" where
  "decode_str_opt old raw =
     (if raw = ''null'' then (None, True)
      else case decode_str (case old of None \<Rightarrow> [] | Some s \<Rightarrow> s) raw of (s, ok) \<Rightarrow> (Some s, ok))"

definition decode_word :: "('a::len) word \<Rightarrow> string \<Rightarrow> 'a word \<times> bool" where
  "decode_word old raw =
     (if raw = ''null'' then (old, True)
      else case parse_uint LENGTH('a) raw of None \<Rightarrow> (old, False) | Some n \<Rightarrow> (word_of_nat n, True))"

definition decode_word_opt :: "('a::len) word option \<Rightarrow> string \<Rightarrow> 'a word option \<times> bool" where
  "decode_word_opt old raw =
     (if raw = ''null'' then (None, True)
      else case decode_word (case old of None \<Rightarrow> 0 | Some w \<Rightarrow> w) raw of (w, ok) \<Rightarrow> (Some w, ok))"

text \<open>A signed integer of 32 bits.\<close>

definition decode_int32 :: "32 word \<Rightarrow> string \<Rightarrow> 32 word \<times> bool" where
  "decode_int32 old raw =
     (if raw = ''null'' then (old, True)
      else case parse_int64 raw of
        None \<Rightarrow> (old, False)
      | Some n \<Rightarrow> if - (2 ^ 31) \<le> n \<and> n < 2 ^ 31 then (word_of_int n, True) else (old, False))"

text \<open>The members of an object go into a struct one after the other; all of them are tried.\<close>

fun decode_struct :: "('s \<Rightarrow> string \<Rightarrow> string \<Rightarrow> 's \<times> bool) \<Rightarrow> 's \<Rightarrow> (string \<times> string) list \<Rightarrow> 's \<times> bool" where
  "decode_struct f s [] = (s, True)"
| "decode_struct f s ((k, v) # kvs) =
     (case f s (unquote k) v of
        (s1, ok1) \<Rightarrow> (case decode_struct f s1 kvs of (s2, ok2) \<Rightarrow> (s2, ok1 \<and> ok2)))"

definition decode_object :: "('s \<Rightarrow> string \<Rightarrow> string \<Rightarrow> 's \<times> bool) \<Rightarrow> 's \<Rightarrow> string \<Rightarrow> 's \<times> bool" where
  "decode_object f s raw =
     (if raw = ''null'' then (s, True)
      else if raw \<noteq> [] \<and> hd raw = CHR ''{'' then decode_struct f s (raw_members (length raw) (tl raw))
      else (s, False))"

text \<open>A pointer to a struct: \<^verbatim>\<open>null\<close> makes it nil, otherwise it is allocated unless it was before.\<close>

definition decode_pointer ::
  "('s \<Rightarrow> string \<Rightarrow> string \<Rightarrow> 's \<times> bool) \<Rightarrow> 's \<Rightarrow> 's option \<Rightarrow> string \<Rightarrow> 's option \<times> bool" where
  "decode_pointer f zero old raw =
     (if raw = ''null'' then (None, True)
      else case decode_object f (case old of None \<Rightarrow> zero | Some s \<Rightarrow> s) raw of (s, ok) \<Rightarrow> (Some s, ok))"

text \<open>A text as \<^verbatim>\<open>json.Unmarshal\<close> gets it: it is checked, then decoded without the space around it.\<close>

definition trim_space :: "string \<Rightarrow> string" where
  "trim_space s = rev (skip_space (rev (skip_space s)))"

definition unmarshal :: "('s \<Rightarrow> string \<Rightarrow> 's \<times> bool) \<Rightarrow> 's \<Rightarrow> string \<Rightarrow> 's \<times> bool" where
  "unmarshal f s text = (if json_valid text then f s (trim_space text) else (s, False))"

section \<open>Encoding\<close>

definition comma_separated :: "string list \<Rightarrow> string" where
  "comma_separated ts =
     (case ts of [] \<Rightarrow> [] | t # ts' \<Rightarrow> t @ concat (map (\<lambda>x. CHR '','' # x) ts'))"

fun json_text :: "json \<Rightarrow> string" where
  "json_text JNull = ''null''"
| "json_text (JBool b) = (if b then ''true'' else ''false'')"
| "json_text (JNum s) = s"
| "json_text (JStr s) = json_string s"
| "json_text (JArr js) = ''['' @ comma_separated (map json_text js) @ '']''"
| "json_text (JObj kvs) =
     ''{'' @ comma_separated (map (\<lambda>kv. json_string (fst kv) @ '':'' @ json_text (snd kv)) kvs) @ ''}''"

text \<open>
  A raw message is written without the space outside of its strings, and with the same characters
  escaped in them as in other strings.
\<close>

fun json_compact :: "bool \<Rightarrow> bool \<Rightarrow> string \<Rightarrow> string" where
  "json_compact q e [] = []"
| "json_compact q e (c # s) =
     (if \<not> q \<and> isSpace c then json_compact q e s
      else if line_separator (take 3 (c # s))
      then backslash # ''u202'' @ [if s ! 1 = CHR 0xA8 then CHR ''8'' else CHR ''9''] @
           json_compact q False (drop 2 s)
      else
        (if html_char c
         then (let n = of_char c :: nat in backslash # ''u00'' @ [hex_char (n div 16), hex_char (n mod 16)])
         else [c]) @
        (if q then json_compact (e \<or> c \<noteq> quote_char) (\<not> e \<and> c = backslash) s
         else json_compact (c = quote_char) False s))"

text \<open>\<^verbatim>\<open>json.Marshal\<close> of a raw message: \<^verbatim>\<open>null\<close> if it is nil, an error if it is no JSON.\<close>

definition marshal_raw :: "string option \<Rightarrow> string option" where
  "marshal_raw raw =
     (case raw of
        None \<Rightarrow> Some ''null''
      | Some text \<Rightarrow> if json_valid text then Some (json_compact False False text) else None)"

section \<open>Written texts have no newline\<close>

abbreviation newline :: char where "newline \<equiv> CHR 0x0A"

lemma hex_char_not_newline [simp]:
  assumes "d < 16"
  shows "hex_char d \<noteq> newline" and "newline \<noteq> hex_char d"
  using hex_char_in [OF assms] by auto

lemma of_char_div_16 [simp]: "of_char c div 16 < (16 :: nat)"
proof -
  have "(of_char c :: nat) < 256" by (metis nat_of_char_less_256)
  then show ?thesis by linarith
qed

lemma escape_char_no_newline: "newline \<notin> set (escape_char c)"
  by (auto simp: escape_char_def Let_def backslash_def quote_char_def)

lemma json_escape_no_newline: "newline \<notin> set (json_escape s)"
proof (induction s rule: json_escape.induct)
  case (2 c s)
  then show ?case
    using escape_char_no_newline [of c] by (auto simp: backslash_def)
qed simp

lemma json_string_no_newline [simp]: "newline \<notin> set (json_string s)"
  using json_escape_no_newline by (simp add: json_string_def quote_char_def)

lemma comma_separated_no_newline:
  "(\<And>t. t \<in> set ts \<Longrightarrow> newline \<notin> set t) \<Longrightarrow> newline \<notin> set (comma_separated ts)"
  by (auto simp: comma_separated_def split: list.split)

text \<open>The state of \<open>json_compact\<close> is that of the scanner.\<close>

fun in_string :: "scan_state \<Rightarrow> bool" where
  "in_string stateInString \<longleftrightarrow> True"
| "in_string stateInStringEsc \<longleftrightarrow> True"
| "in_string (stateInStringEscU n) \<longleftrightarrow> True"
| "in_string _ \<longleftrightarrow> False"

lemma end_value_step: "end_value c s = Some s' \<Longrightarrow> \<not> in_string (sc_step s') \<and> c \<noteq> CHR 0x22"
  by (auto simp: end_value_def end_top_def goto_def popParseState_def isSpace_def
      split: list.splits parse_state.splits if_splits)

lemma after_digits_step: "after_digits c s = Some s' \<Longrightarrow> \<not> in_string (sc_step s') \<and> c \<noteq> CHR 0x22"
  by (auto simp: after_digits_def goto_def dest: end_value_step split: if_splits)

lemma begin_value_step:
  "begin_value c s = Some s' \<Longrightarrow> \<not> in_string (sc_step s) \<Longrightarrow>
     in_string (sc_step s') = (c = CHR 0x22) \<and> sc_step s' \<noteq> stateInStringEsc"
  by (auto simp: begin_value_def goto_def pushParseState_def isSpace_def split: if_splits)

lemma begin_string_step:
  "begin_string c s = Some s' \<Longrightarrow> \<not> in_string (sc_step s) \<Longrightarrow>
     in_string (sc_step s') = (c = CHR 0x22) \<and> sc_step s' \<noteq> stateInStringEsc"
  by (auto simp: begin_string_def goto_def isSpace_def split: if_splits)

lemmas step_states = end_value_step after_digits_step begin_value_step begin_string_step

lemma not_quote:
  "is_digit c \<Longrightarrow> c \<noteq> CHR 0x22" "isSpace c \<Longrightarrow> c \<noteq> CHR 0x22"
  by (auto simp: is_digit_def isSpace_def)

lemma hex_not_special:
  "hex_val c = Some n \<Longrightarrow> c \<noteq> newline \<and> c \<noteq> CHR 0x22 \<and> c \<noteq> CHR 0x5C"
  by (auto simp: hex_val_def)

text \<open>What is left of a literal is a suffix of \<^verbatim>\<open>true\<close>, \<^verbatim>\<open>false\<close> or \<^verbatim>\<open>null\<close>, without a quote.\<close>

fun plain_literal :: "scan_state \<Rightarrow> bool" where
  "plain_literal (stateLiteral rest) \<longleftrightarrow> CHR 0x22 \<notin> set rest"
| "plain_literal _ \<longleftrightarrow> True"

lemma end_value_plain: "end_value c s = Some s' \<Longrightarrow> plain_literal (sc_step s')"
  by (auto simp: end_value_def end_top_def goto_def popParseState_def
      split: list.splits parse_state.splits if_splits)

lemma after_digits_plain: "after_digits c s = Some s' \<Longrightarrow> plain_literal (sc_step s')"
  by (auto simp: after_digits_def goto_def dest: end_value_plain split: if_splits)

lemma begin_value_plain: "begin_value c s = Some s' \<Longrightarrow> plain_literal (sc_step s) \<Longrightarrow> plain_literal (sc_step s')"
  by (auto simp: begin_value_def goto_def pushParseState_def split: if_splits)

lemma begin_string_plain: "begin_string c s = Some s' \<Longrightarrow> plain_literal (sc_step s) \<Longrightarrow> plain_literal (sc_step s')"
  by (auto simp: begin_string_def goto_def split: if_splits)

lemmas step_plain = end_value_plain after_digits_plain begin_value_plain begin_string_plain

lemma scan_char_plain:
  assumes "scan_char s c = Some s'" and "plain_literal (sc_step s)"
  shows "plain_literal (sc_step s')"
  using assms by (cases "sc_step s") (auto simp: goto_def end_top_def dest: step_plain split: if_splits list.splits)

lemma scan_char_outside:
  assumes "scan_char s c = Some s'" and "\<not> in_string (sc_step s)" and "plain_literal (sc_step s)"
  shows "in_string (sc_step s') = (c = CHR 0x22) \<and> sc_step s' \<noteq> stateInStringEsc"
proof (cases "sc_step s")
  case stateBeginValueOrEmpty
  with assms show ?thesis
    by (auto dest: end_value_step begin_value_step not_quote split: if_splits)
next
  case stateBeginStringOrEmpty
  with assms show ?thesis
    by (auto dest: end_value_step begin_string_step not_quote split: if_splits)
next
  case (stateLiteral rest)
  with assms show ?thesis by (auto simp: goto_def split: list.splits if_splits)
qed (use assms in \<open>auto simp: goto_def end_top_def dest: step_states not_quote split: if_splits\<close>)

lemma scan_char_inside:
  assumes "scan_char s c = Some s'" and "in_string (sc_step s)"
  shows "c \<noteq> newline \<and>
    in_string (sc_step s') = (sc_step s = stateInStringEsc \<or> c \<noteq> CHR 0x22) \<and>
    (sc_step s' = stateInStringEsc) = (sc_step s \<noteq> stateInStringEsc \<and> c = CHR 0x5C)"
proof (cases "sc_step s")
  case (stateInStringEscU n)
  with assms show ?thesis by (auto simp: goto_def dest: hex_not_special split: if_splits)
qed (use assms in \<open>auto simp: goto_def split: if_splits\<close>)

definition compact_state :: "bool \<Rightarrow> bool \<Rightarrow> scanner \<Rightarrow> bool" where
  "compact_state q e s \<longleftrightarrow>
     (q \<longleftrightarrow> in_string (sc_step s)) \<and> (e \<longleftrightarrow> sc_step s = stateInStringEsc) \<and> plain_literal (sc_step s)"

lemma compact_state_step:
  assumes "compact_state q e s" and "scan_char s c = Some s'"
  shows "compact_state (if q then e \<or> c \<noteq> quote_char else c = quote_char) (q \<and> \<not> e \<and> c = backslash) s'"
    and "q \<Longrightarrow> c \<noteq> newline"
  using assms scan_char_outside [OF assms(2)] scan_char_inside [OF assms(2)] scan_char_plain [OF assms(2)]
  by (auto simp: compact_state_def quote_char_def backslash_def)

lemma json_compact_no_newline:
  assumes "scan cs s = Some s'" and "compact_state q e s"
  shows "newline \<notin> set (json_compact q e cs)"
  using assms
proof (induction q e cs arbitrary: s rule: json_compact.induct)
  case (2 q e c cs)
  obtain s1 where s1: "scan_char s c = Some s1" "scan cs s1 = Some s'"
    using "2.prems"(1) by (auto split: option.splits)
  note st = compact_state_step [OF "2.prems"(2) s1(1)]
  show ?case
  proof (cases "\<not> q \<and> isSpace c")
    case True
    then have "compact_state q e s1"
      using st(1) "2.prems"(2) by (auto simp: compact_state_def isSpace_def quote_char_def)
    with True "2.IH"(1) s1(2) show ?thesis by simp
  next
    case False
    show ?thesis
    proof (cases "line_separator (take 3 (c # cs))")
      case sep: True
      then obtain d cs' where c: "c = CHR 0xE2" "cs = CHR 0x80 # d # cs'" "d = CHR 0xA8 \<or> d = CHR 0xA9"
        by (cases cs; cases "tl cs") (auto simp: line_separator_def numeral_3_eq_3)
      obtain s2 s3 where s3: "scan_char s1 (CHR 0x80) = Some s2" "scan_char s2 d = Some s3" "scan cs' s3 = Some s'"
        using s1(2) by (auto simp: c(2) split: option.splits)
      have "compact_state q False s1"
        using st(1) c(1) by (cases q) (simp_all add: quote_char_def backslash_def)
      from compact_state_step(1) [OF this s3(1)] have "compact_state q False s2"
        by (cases q) (simp_all add: quote_char_def backslash_def)
      from compact_state_step(1) [OF this s3(2)] c(3) have "compact_state q False s3"
        by (cases q) (auto simp: quote_char_def backslash_def)
      with False sep "2.IH"(2) s3(3) c show ?thesis by (auto simp: backslash_def)
    next
      case nosep: False
      have "c \<noteq> newline" using st(2) False by (auto simp: isSpace_def)
      moreover have "newline \<notin> set (if q then json_compact (e \<or> c \<noteq> quote_char) (\<not> e \<and> c = backslash) cs
          else json_compact (c = quote_char) False cs)"
        using "2.IH"(3,4) False nosep st(1) s1(2) by (cases q) auto
      ultimately show ?thesis
        using False nosep by (cases q) (simp_all add: Let_def backslash_def)
    qed
  qed
qed simp

lemma marshal_raw_no_newline: "marshal_raw raw = Some t \<Longrightarrow> newline \<notin> set t"
proof -
  have "compact_state False False scan_start" by (simp add: compact_state_def scan_start_def)
  then show "marshal_raw raw = Some t \<Longrightarrow> newline \<notin> set t"
    by (auto simp: marshal_raw_def json_valid_def dest: json_compact_no_newline split: option.splits if_splits)
qed

end
