(* ===== verification/Plugin_Io.thy ===== *)
theory Plugin_Io
  imports Plugin_Messages Json_Text
begin

text \<open>
  How the CLN plugin talks to CLN: JSON-RPC messages on stdin and stdout, separated by two newlines
  (\<^verbatim>\<open>cln_plugin/reader.go\<close>, \<^verbatim>\<open>cln_plugin/writer.go\<close> and the message types of
  \<^verbatim>\<open>cln_plugin/cln_messages.go\<close>). The reader's input is the list of chunks that reads return; the
  \<^verbatim>\<open>bufio.Scanner\<close> is modelled as far as the reader uses it.
\<close>

section \<open>cln\_plugin/cln\_messages.go: requests and responses\<close>

text \<open>A raw message that is absent is empty.\<close>

record Request =
  rq_Id :: string
  rq_Method :: string
  rq_JsonRpc :: string
  rq_Params :: string

definition zero_request :: Request where
  "zero_request = \<lparr>rq_Id = [], rq_Method = [], rq_JsonRpc = [], rq_Params = []\<rparr>"

record RpcError =
  er_Code :: int
  er_Message :: string

text \<open>The results the plugin sends: nothing, a value, or a raw message.\<close>

datatype Result = NoResult | Value json | Raw string

record Response =
  rs_Id :: string
  rs_JsonRpc :: string
  rs_Result :: Result
  rs_Error :: "RpcError option"

definition request_field :: "Request \<Rightarrow> string \<Rightarrow> string \<Rightarrow> Request \<times> bool" where
  "request_field r key raw =
     (if field_matches ''id'' key then (r\<lparr>rq_Id := raw\<rparr>, True)
      else if field_matches ''method'' key
      then (case decode_str (rq_Method r) raw of (s, ok) \<Rightarrow> (r\<lparr>rq_Method := s\<rparr>, ok))
      else if field_matches ''jsonrpc'' key
      then (case decode_str (rq_JsonRpc r) raw of (s, ok) \<Rightarrow> (r\<lparr>rq_JsonRpc := s\<rparr>, ok))
      else if field_matches ''params'' key then (r\<lparr>rq_Params := raw\<rparr>, True)
      else (r, True))"

text \<open>A batch decodes into a list of pointers, nil for \<^verbatim>\<open>null\<close>.\<close>

fun decode_batch :: "string list \<Rightarrow> Request option list \<times> bool" where
  "decode_batch [] = ([], True)"
| "decode_batch (raw # raws) =
     (case decode_pointer request_field zero_request None raw of
        (r, ok1) \<Rightarrow> (case decode_batch raws of (rs, ok2) \<Rightarrow> (r # rs, ok1 \<and> ok2)))"

definition member :: "string \<Rightarrow> string \<Rightarrow> string" where
  "member name text = json_string name @ '':'' @ text"

definition object_text :: "string list \<Rightarrow> string" where
  "object_text members = ''{'' @ comma_separated members @ ''}''"

definition format_int :: "int \<Rightarrow> string" where
  "format_int n = (if n < 0 then ''-'' else []) @ format_nat (nat \<bar>n\<bar>)"

text \<open>\<^verbatim>\<open>json.Marshal\<close> of a response and of a request, \<open>None\<close> if a raw message in it is no JSON.\<close>

definition result_member :: "Result \<Rightarrow> string list option" where
  "result_member r =
     (case r of
        NoResult \<Rightarrow> Some []
      | Value j \<Rightarrow> Some [member ''result'' (json_text j)]
      | Raw text \<Rightarrow> map_option (\<lambda>t. [member ''result'' t]) (marshal_raw (Some text)))"

definition error_member :: "RpcError option \<Rightarrow> string list" where
  "error_member err =
     (case err of
        None \<Rightarrow> []
      | Some e \<Rightarrow>
          [member ''error'' (object_text
             [member ''code'' (format_int (er_Code e)), member ''message'' (json_string (er_Message e))])])"

definition raw_option :: "string \<Rightarrow> string option" where
  "raw_option raw = (if raw = [] then None else Some raw)"

definition marshal_response :: "Response \<Rightarrow> string option" where
  "marshal_response r =
     (case (marshal_raw (raw_option (rs_Id r)), result_member (rs_Result r)) of
        (Some i, Some res) \<Rightarrow>
          Some (object_text ([member ''id'' i, member ''jsonrpc'' (json_string (rs_JsonRpc r))] @ res @
                  error_member (rs_Error r)))
      | _ \<Rightarrow> None)"

definition marshal_request :: "Request \<Rightarrow> string option" where
  "marshal_request r =
     (case (marshal_raw (raw_option (rq_Id r)), marshal_raw (raw_option (rq_Params r))) of
        (Some i, Some ps) \<Rightarrow>
          Some (object_text ((if rq_Id r = [] then [] else [member ''id'' i]) @
                  [member ''method'' (json_string (rq_Method r)),
                   member ''jsonrpc'' (json_string (rq_JsonRpc r))] @
                  (if rq_Params r = [] then [] else [member ''params'' ps])))
      | _ \<Rightarrow> None)"

section \<open>cln\_plugin/writer.go\<close>

definition TwoNewLines :: string where
  "TwoNewLines = [CHR 0x0A, CHR 0x0A]"

text \<open>What \<^verbatim>\<open>Write\<close> hands to the output for a marshalled message.\<close>

definition frame :: "string \<Rightarrow> string" where
  "frame data = data @ TwoNewLines"

section \<open>cln\_plugin/reader.go\<close>

definition maxIntakeBuffer :: nat where
  "maxIntakeBuffer = 500 * 1024 * 1023"

text \<open>The split function: how far to advance and the token, if the data has one. It ignores \<^verbatim>\<open>atEOF\<close>.\<close>

fun scanDoubleNewline :: "string \<Rightarrow> nat \<times> string option" where
  "scanDoubleNewline [] = (0, None)"
| "scanDoubleNewline (c # s) =
     (if c = CHR 0x0A \<and> s \<noteq> [] \<and> hd s = CHR 0x0A then (2, Some [])
      else case scanDoubleNewline s of
        (n, None) \<Rightarrow> (0, None)
      | (n, Some t) \<Rightarrow> (n + 1, Some (c # t)))"

datatype scan_result = Token string | Ended | TooLong

text \<open>\<^verbatim>\<open>Scan\<close> reads until the split function finds a token, the input ends or the buffer is full.\<close>

fun scan_token :: "string \<Rightarrow> string list \<Rightarrow> scan_result \<times> string \<times> string list" where
  "scan_token buf chunks =
     (case scanDoubleNewline buf of
        (n, Some t) \<Rightarrow> (Token t, drop n buf, chunks)
      | (n, None) \<Rightarrow>
          if maxIntakeBuffer \<le> length buf then (TooLong, buf, chunks)
          else (case chunks of
                  [] \<Rightarrow> (Ended, buf, [])
                | chunk # chunks' \<Rightarrow> scan_token (buf @ chunk) chunks'))"

declare scan_token.simps [simp del]

text \<open>\<open>rd_error\<close> is the error with which the input ends, if not with the end of file.\<close>

record reader =
  rd_buffer :: string
  rd_chunks :: "string list"
  rd_error :: "error option"
  rd_buffered :: "Request option list"

definition newReader :: "string list \<Rightarrow> error option \<Rightarrow> reader" where
  "newReader chunks err = \<lparr>rd_buffer = [], rd_chunks = chunks, rd_error = err, rd_buffered = []\<rparr>"

definition takeFromBuffer :: "reader \<Rightarrow> Request option \<times> reader" where
  "takeFromBuffer r =
     (case rd_buffered r of
        [] \<Rightarrow> (None, r)
      | req # reqs \<Rightarrow> (req, r\<lparr>rd_buffered := reqs\<rparr>))"

definition EOF :: error where "EOF = Error ''EOF''"

text \<open>
  \<^verbatim>\<open>Next\<close>: a request, which is nil (\<open>None\<close>) for an empty batch or a \<^verbatim>\<open>null\<close> in one.
\<close>

definition read_next :: "reader \<Rightarrow> (error + Request option) \<times> reader" where
  "read_next r =
     (case scan_token (rd_buffer r) (rd_chunks r) of
        (res, buf, chunks) \<Rightarrow>
          let r1 = r\<lparr>rd_buffer := buf, rd_chunks := chunks\<rparr> in
          (case res of
             Ended \<Rightarrow> (Inl (case rd_error r of Some err \<Rightarrow> err | None \<Rightarrow> EOF), r1)
           | TooLong \<Rightarrow> (Inl (Error ''bufio.Scanner: token too long''), r1)
           | Token msg \<Rightarrow>
               if msg = [] then (Inl (Error ''got invalid zero length message''), r1)
               else if hd msg = CHR ''['' then
                 (if json_valid msg
                  then (case decode_batch (raw_elements (length msg) (tl msg)) of
                          (reqs, ok) \<Rightarrow>
                            if ok then (case takeFromBuffer (r1\<lparr>rd_buffered := reqs\<rparr>) of
                                          (req, r2) \<Rightarrow> (Inr req, r2))
                            else (Inl (Error ''failed to unmarshal request batch''), r1\<lparr>rd_buffered := reqs\<rparr>))
                  else (Inl (Error ''failed to unmarshal request batch''), r1))
               else (case unmarshal (decode_object request_field) zero_request msg of
                       (req, ok) \<Rightarrow>
                         if ok then (Inr (Some req), r1)
                         else (Inl (Error ''failed to unmarshal request''), r1))))"

definition Next :: "reader \<Rightarrow> (error + Request option) \<times> reader" where
  "Next r =
     (case takeFromBuffer r of
        (Some req, r1) \<Rightarrow> (Inr (Some req), r1)
      | (None, r1) \<Rightarrow> read_next r1)"

section \<open>Framing\<close>

text \<open>A message without newlines is found at its double newline, and not before.\<close>

lemma scan_frame: "newline \<notin> set m \<Longrightarrow> scanDoubleNewline (frame m @ rest) = (length m + 2, Some m)"
  by (induction m) (auto simp: frame_def TwoNewLines_def)

lemma scan_prefix:
  "newline \<notin> set m \<Longrightarrow> buf @ rest = m @ [newline] \<Longrightarrow> snd (scanDoubleNewline buf) = None"
proof (induction buf arbitrary: m)
  case (Cons c buf)
  show ?case
  proof (cases m)
    case Nil
    with Cons.prems show ?thesis by simp
  next
    case (Cons d m')
    with Cons.prems Cons.IH [of m'] show ?thesis by (auto split: prod.split)
  qed
qed simp

lemma scan_token_frame:
  assumes "newline \<notin> set m" and "length m + 1 < maxIntakeBuffer"
    and "buf @ concat chunks = frame m @ rest"
  shows "\<exists>buf' chunks'. scan_token buf chunks = (Token m, buf', chunks') \<and> buf' @ concat chunks' = rest"
  using assms(3)
proof (induction chunks arbitrary: buf)
  case Nil
  with scan_frame [OF assms(1)] show ?case
    by (subst scan_token.simps) (simp add: frame_def TwoNewLines_def)
next
  case (Cons chunk chunks)
  show ?case
  proof (cases "length buf < length m + 2")
    case True
    have "buf @ drop (length buf) (m @ [newline]) = m @ [newline]"
      using Cons.prems True by (auto simp: frame_def TwoNewLines_def append_eq_append_conv2 append_eq_Cons_conv)
    with assms(1) have "snd (scanDoubleNewline buf) = None" by (rule scan_prefix)
    then show ?thesis
      using Cons.IH [of "buf @ chunk"] Cons.prems True assms(2)
      by (subst scan_token.simps) (auto split: prod.split)
  next
    case False
    then have "length (frame m) \<le> length buf" by (simp add: frame_def TwoNewLines_def)
    with arg_cong [OF Cons.prems, of "take (length (frame m))"]
    have "buf = frame m @ drop (length (frame m)) buf"
      by (metis append_take_drop_id append_eq_conv_conj take_append take_all_iff diff_is_0_eq take0 append_Nil2)
    then obtain rest' where "buf = frame m @ rest'" ..
    with scan_frame [OF assms(1)] Cons.prems show ?thesis
      by (subst scan_token.simps) (auto simp: frame_def TwoNewLines_def)
  qed
qed

text \<open>The first \<open>n\<close> results of the scanner on a fresh input.\<close>

fun scan_tokens :: "nat \<Rightarrow> string \<Rightarrow> string list \<Rightarrow> scan_result list" where
  "scan_tokens 0 buf chunks = []"
| "scan_tokens (Suc n) buf chunks =
     (case scan_token buf chunks of (res, buf', chunks') \<Rightarrow> res # scan_tokens n buf' chunks')"

lemma scan_tokens_frames:
  assumes "\<forall>m\<in>set msgs. newline \<notin> set m \<and> length m + 1 < maxIntakeBuffer"
    and "buf @ concat chunks = concat (map frame msgs)"
  shows "scan_tokens (length msgs) buf chunks = map Token msgs"
  using assms
proof (induction msgs arbitrary: buf chunks)
  case (Cons m msgs)
  then obtain buf' chunks' where "scan_token buf chunks = (Token m, buf', chunks')"
    "buf' @ concat chunks' = concat (map frame msgs)"
    using scan_token_frame [of m buf chunks "concat (map frame msgs)"] by auto
  with Cons show ?case by simp
qed simp

text \<open>What is written has no newline, apart from numbers that are given as such.\<close>

fun plain_numbers :: "json \<Rightarrow> bool" where
  "plain_numbers (JNum s) \<longleftrightarrow> newline \<notin> set s"
| "plain_numbers (JArr js) \<longleftrightarrow> (\<forall>j\<in>set js. plain_numbers j)"
| "plain_numbers (JObj kvs) \<longleftrightarrow> (\<forall>kv\<in>set kvs. plain_numbers (snd kv))"
| "plain_numbers _ \<longleftrightarrow> True"

lemma json_text_no_newline: "plain_numbers j \<Longrightarrow> newline \<notin> set (json_text j)"
proof (induction j)
  case (JObj kvs)
  then have "\<forall>a b. (a, b) \<in> set kvs \<longrightarrow> newline \<notin> set (json_text b)"
    by (fastforce simp: prod_set_defs)
  then show ?case by (auto intro!: comma_separated_no_newline)
qed (auto intro!: comma_separated_no_newline)

lemma member_no_newline [simp]: "newline \<notin> set t \<Longrightarrow> newline \<notin> set (member name t)"
  by (simp add: member_def)

lemma object_no_newline [simp]: "\<forall>t\<in>set ts. newline \<notin> set t \<Longrightarrow> newline \<notin> set (object_text ts)"
  using comma_separated_no_newline [of ts] by (auto simp: object_text_def)

lemma format_int_no_newline [simp]: "newline \<notin> set (format_int n)"
  using set_format_nat [of "nat \<bar>n\<bar>"] by (auto simp: format_int_def)

definition plain_result :: "Result \<Rightarrow> bool" where
  "plain_result r = (case r of Value j \<Rightarrow> plain_numbers j | _ \<Rightarrow> True)"

lemma marshal_response_no_newline:
  assumes "marshal_response r = Some t" and "plain_result (rs_Result r)"
  shows "newline \<notin> set t"
proof -
  obtain i res where i: "marshal_raw (raw_option (rs_Id r)) = Some i" "result_member (rs_Result r) = Some res"
    "t = object_text ([member ''id'' i, member ''jsonrpc'' (json_string (rs_JsonRpc r))] @ res @
           error_member (rs_Error r))"
    using assms(1) by (auto simp: marshal_response_def split: option.splits)
  have "\<forall>t\<in>set res. newline \<notin> set t"
    using i(2) assms(2) by (auto simp: result_member_def plain_result_def json_text_no_newline
        dest: marshal_raw_no_newline split: Result.splits)
  moreover have "\<forall>t\<in>set (error_member (rs_Error r)). newline \<notin> set t"
    by (auto simp: error_member_def split: option.splits)
  ultimately show ?thesis
    using marshal_raw_no_newline [OF i(1)] unfolding i(3) by (intro object_no_newline) auto
qed

section \<open>Properties\<close>

text \<open>
  C32: The responses the plugin writes can be told apart on the wire: however the bytes of the written
  messages are cut into chunks, splitting them at double newlines gives exactly the marshalled
  responses, in the order in which they were written.
\<close>

theorem responses_read_back:
  assumes "list_all2 (\<lambda>r t. marshal_response r = Some t \<and> plain_result (rs_Result r) \<and>
      length t + 1 < maxIntakeBuffer) rs ts"
    and "concat chunks = concat (map frame ts)"
  shows "scan_tokens (length ts) [] chunks = map Token ts"
proof (rule scan_tokens_frames)
  show "\<forall>m\<in>set ts. newline \<notin> set m \<and> length m + 1 < maxIntakeBuffer"
    using assms(1) by (induction rule: list_all2_induct) (auto dest: marshal_response_no_newline)
qed (simp add: assms(2))

definition sample_response :: Response where
  "sample_response = \<lparr>rs_Id = json_string ''cln:7'', rs_JsonRpc = ''2.0'',
     rs_Result = Value (JObj [(''result'', JStr ''continue'')]), rs_Error = None\<rparr>"

lemma sample_response_text:
  "(case marshal_response sample_response of None \<Rightarrow> False | Some t \<Rightarrow> length t < 100)"
  by code_simp

theorem responses_read_back_witness:
  "\<exists>t. marshal_response sample_response = Some t \<and>
     scan_tokens 2 [] [take 5 (frame t), drop 5 (frame t) @ frame t] = [Token t, Token t]"
proof -
  obtain t where t: "marshal_response sample_response = Some t" "length t + 1 < maxIntakeBuffer"
    using sample_response_text by (auto simp: maxIntakeBuffer_def split: option.splits)
  have "scan_tokens (length [t, t]) [] [take 5 (frame t), drop 5 (frame t) @ frame t] = map Token [t, t]"
    by (rule responses_read_back [where rs = "[sample_response, sample_response]"])
      (use t in \<open>simp_all add: sample_response_def plain_result_def\<close>)
  with t show ?thesis by (auto simp: numeral_2_eq_2)
qed

end
