(* ===== verification/Cln_Plugin.thy ===== *)
theory Cln_Plugin
  imports Plugin_Server Plugin_Io Go_Duration
begin

text \<open>
  The CLN plugin (\<^verbatim>\<open>cln_plugin/cln_plugin.go\<close> and \<^verbatim>\<open>cln_plugin/channel_acceptor.go\<close>): it answers CLN's
  requests, hands accepted htlcs to the gRPC server and writes back what the server returns for them.
  Writing to CLN, listening on an address and evaluating a Starlark script are arguments. The texts of
  errors are kept without their details. Requests to open a channel, which the code handles in
  goroutines, are handled at once.
\<close>

section \<open>cln\_plugin/cln\_messages.go: the messages of requests\<close>

text \<open>A struct whose values are not used: only whether they have the right types matters.\<close>

datatype kind = KStr | KBool | KInt | KPtr "(string \<times> kind) list"

definition bool_literal :: "string \<Rightarrow> bool" where
  "bool_literal raw \<longleftrightarrow> raw = ''true'' \<or> raw = ''false'' \<or> raw = ''null''"

fun kind_ok :: "nat \<Rightarrow> kind \<Rightarrow> string \<Rightarrow> bool" where
  "kind_ok n KStr raw \<longleftrightarrow> snd (decode_str [] raw)"
| "kind_ok n KBool raw \<longleftrightarrow> bool_literal raw"
| "kind_ok n KInt raw \<longleftrightarrow> raw = ''null'' \<or> parse_int64 raw \<noteq> None"
| "kind_ok 0 (KPtr fs) raw \<longleftrightarrow> False"
| "kind_ok (Suc n) (KPtr fs) raw \<longleftrightarrow>
     raw = ''null'' \<or>
     raw \<noteq> [] \<and> hd raw = CHR ''{'' \<and>
     (\<forall>kv\<in>set (raw_members (length raw) (tl raw)).
        case find (\<lambda>f. field_matches (fst f) (unquote (fst kv))) fs of
          None \<Rightarrow> True
        | Some f \<Rightarrow> kind_ok n (snd f) (snd kv))"

definition FeatureBits :: kind where
  "FeatureBits = KPtr [(''node'', KStr), (''init'', KStr), (''channel'', KStr), (''invoice'', KStr)]"

definition Proxy :: kind where
  "Proxy = KPtr [(''type'', KStr), (''address'', KStr), (''port'', KInt)]"

definition InitConfiguration :: kind where
  "InitConfiguration = KPtr [(''lightning-dir'', KStr), (''rpc-file'', KStr), (''startup'', KBool),
     (''network'', KStr), (''feature_set'', FeatureBits), (''proxy'', Proxy), (''torv3-enabled'', KBool),
     (''always_use_proxy'', KBool)]"

text \<open>The options of an init message: the raw values by name, the last of several with one name.\<close>

record InitMessage =
  im_Options :: "(string \<times> string) list"

definition init_field :: "InitMessage \<Rightarrow> string \<Rightarrow> string \<Rightarrow> InitMessage \<times> bool" where
  "init_field m key raw =
     (if field_matches ''options'' key
      then if raw = ''null'' then (m\<lparr>im_Options := []\<rparr>, True)
           else if raw \<noteq> [] \<and> hd raw = CHR ''{''
           then (m\<lparr>im_Options := rev (map (\<lambda>kv. (unquote (fst kv), snd kv))
                    (raw_members (length raw) (tl raw))) @ im_Options m\<rparr>, True)
           else (m, False)
      else if field_matches ''configuration'' key then (m, kind_ok 3 InitConfiguration raw)
      else (m, True))"

definition option_value :: "string \<Rightarrow> InitMessage \<Rightarrow> string option" where
  "option_value name m = map_of (im_Options m) name"

text \<open>The type assertion \<^verbatim>\<open>v.(string)\<close>.\<close>

definition as_string :: "string \<Rightarrow> string option" where
  "as_string raw = (if raw \<noteq> [] \<and> hd raw = quote_char then Some (unquote raw) else None)"

definition onion_field :: "Onion \<Rightarrow> string \<Rightarrow> string \<Rightarrow> Onion \<times> bool" where
  "onion_field o' key raw =
     (if field_matches ''payload'' key
      then (case decode_str (on_Payload o') raw of (s, ok) \<Rightarrow> (o'\<lparr>on_Payload := s\<rparr>, ok))
      else if field_matches ''short_channel_id'' key
      then (case decode_str_opt (on_ShortChannelId o') raw of (s, ok) \<Rightarrow> (o'\<lparr>on_ShortChannelId := s\<rparr>, ok))
      else if field_matches ''forward_msat'' key
      then (case decode_word_opt (on_ForwardMsat o') raw of (n, ok) \<Rightarrow> (o'\<lparr>on_ForwardMsat := n\<rparr>, ok))
      else if field_matches ''outgoing_cltv_value'' key
      then (case decode_word_opt (on_OutgoingCltvValue o') raw of
              (n, ok) \<Rightarrow> (o'\<lparr>on_OutgoingCltvValue := n\<rparr>, ok))
      else if field_matches ''shared_secret'' key
      then (case decode_str_opt (on_SharedSecret o') raw of (s, ok) \<Rightarrow> (o'\<lparr>on_SharedSecret := s\<rparr>, ok))
      else if field_matches ''next_onion'' key
      then (case decode_str_opt (on_NextOnion o') raw of (s, ok) \<Rightarrow> (o'\<lparr>on_NextOnion := s\<rparr>, ok))
      else (o', True))"

definition zero_onion :: Onion where
  "zero_onion = \<lparr>on_Payload = [], on_ShortChannelId = None, on_ForwardMsat = None,
     on_OutgoingCltvValue = None, on_SharedSecret = None, on_NextOnion = None\<rparr>"

definition htlc_field :: "Htlc \<Rightarrow> string \<Rightarrow> string \<Rightarrow> Htlc \<times> bool" where
  "htlc_field h key raw =
     (if field_matches ''short_channel_id'' key
      then (case decode_str (ht_ShortChannelId h) raw of (s, ok) \<Rightarrow> (h\<lparr>ht_ShortChannelId := s\<rparr>, ok))
      else if field_matches ''id'' key
      then (case decode_word (ht_Id h) raw of (n, ok) \<Rightarrow> (h\<lparr>ht_Id := n\<rparr>, ok))
      else if field_matches ''amount_msat'' key
      then (case decode_word (ht_AmountMsat h) raw of (n, ok) \<Rightarrow> (h\<lparr>ht_AmountMsat := n\<rparr>, ok))
      else if field_matches ''cltv_expiry'' key
      then (case decode_word (ht_CltvExpiry h) raw of (n, ok) \<Rightarrow> (h\<lparr>ht_CltvExpiry := n\<rparr>, ok))
      else if field_matches ''cltv_expiry_relative'' key
      then (case decode_int32 (ht_CltvExpiryRelative h) raw of
              (n, ok) \<Rightarrow> (h\<lparr>ht_CltvExpiryRelative := n\<rparr>, ok))
      else if field_matches ''payment_hash'' key
      then (case decode_str (ht_PaymentHash h) raw of (s, ok) \<Rightarrow> (h\<lparr>ht_PaymentHash := s\<rparr>, ok))
      else (h, True))"

definition zero_htlc :: Htlc where
  "zero_htlc = \<lparr>ht_ShortChannelId = [], ht_Id = 0, ht_AmountMsat = 0, ht_CltvExpiry = 0,
     ht_CltvExpiryRelative = 0, ht_PaymentHash = []\<rparr>"

definition accepted_field :: "HtlcAccepted \<Rightarrow> string \<Rightarrow> string \<Rightarrow> HtlcAccepted \<times> bool" where
  "accepted_field a key raw =
     (if field_matches ''onion'' key
      then (case decode_pointer onion_field zero_onion (ha_Onion a) raw of (o', ok) \<Rightarrow> (a\<lparr>ha_Onion := o'\<rparr>, ok))
      else if field_matches ''htlc'' key
      then (case decode_pointer htlc_field zero_htlc (ha_Htlc a) raw of (h, ok) \<Rightarrow> (a\<lparr>ha_Htlc := h\<rparr>, ok))
      else if field_matches ''forward_to'' key
      then (case decode_str (ha_ForwardTo a) raw of (s, ok) \<Rightarrow> (a\<lparr>ha_ForwardTo := s\<rparr>, ok))
      else (a, True))"

definition zero_accepted :: HtlcAccepted where
  "zero_accepted = \<lparr>ha_Onion = None, ha_Htlc = None, ha_ForwardTo = []\<rparr>"

section \<open>The environment of the plugin\<close>

datatype starlark_value = StarString string | StarOther

record plugin_env =
  env_Write :: "string \<Rightarrow> error option"
  env_Listen :: "string \<Rightarrow> error option"
  starlark_Eval :: "string \<Rightarrow> string \<Rightarrow> string \<Rightarrow> error + starlark_value"

section \<open>cln\_plugin/channel\_acceptor.go\<close>

definition result_text :: "string \<Rightarrow> string" where
  "result_text r = object_text [member ''result'' (json_string r)]"

definition channelAcceptor :: "plugin_env \<Rightarrow> string \<Rightarrow> string \<Rightarrow> string \<Rightarrow> string \<times> error option" where
  "channelAcceptor E acceptScript meth openChannel =
     (if acceptScript = [] then (result_text ''continue'', None)
      else case starlark_Eval E acceptScript meth openChannel of
        Inl err \<Rightarrow> (result_text ''reject'', Some err)
      | Inr StarOther \<Rightarrow> (result_text ''reject'', Some (Error ''not a string''))
      | Inr (StarString s) \<Rightarrow> (s, None))"

section \<open>cln\_plugin/cln\_plugin.go\<close>

definition SubscriberTimeoutOption :: string where
  "SubscriberTimeoutOption = ''lsp-subscribertimeout''"

definition ListenAddressOption :: string where
  "ListenAddressOption = ''lsp-listen''"

definition channelAcceptScriptOption :: string where
  "channelAcceptScriptOption = ''lsp-channel-accept-script''"

definition SpecVersion :: string where "SpecVersion = ''2.0''"

definition ParseError :: int where "ParseError = -32700"
definition InvalidRequest :: int where "InvalidRequest = -32600"
definition MethodNotFound :: int where "MethodNotFound = -32601"
definition InvalidParams :: int where "InvalidParams = -32603"
definition InternalErr :: int where "InternalErr = -32603"

text \<open>\<open>cp_written\<close> is what was written to CLN, in order; \<open>cp_stopped\<close> is the context.\<close>

record 'm ClnPlugin =
  cp_stopped :: bool
  cp_server :: "'m server"
  channelAcceptScript :: string
  cp_written :: "string list"

definition NewClnPlugin :: "('m, htlcAcceptedMsg) OrderedMap \<Rightarrow> 'm ClnPlugin" where
  "NewClnPlugin M =
     \<lparr>cp_stopped = False, cp_server = NewServer M, channelAcceptScript = [], cp_written = []\<rparr>"

definition plugin_Stop :: "'m ClnPlugin \<Rightarrow> 'm ClnPlugin" where
  "plugin_Stop c = c\<lparr>cp_stopped := True\<rparr>"

text \<open>\<^verbatim>\<open>writer.Write\<close>; a message that does not marshal or cannot be written stops the plugin.\<close>

definition writer_Write :: "plugin_env \<Rightarrow> string option \<Rightarrow> error option" where
  "writer_Write E msg =
     (case msg of
        None \<Rightarrow> Some (Error ''failed to marshal to json'')
      | Some data \<Rightarrow> map_option (Wrap ''failed to write to rpc socket'') (env_Write E (frame data)))"

definition sendToCln :: "plugin_env \<Rightarrow> string option \<Rightarrow> 'm ClnPlugin \<Rightarrow> error option \<times> 'm ClnPlugin" where
  "sendToCln E msg c =
     (case writer_Write E msg of
        Some err \<Rightarrow> (Some (Wrap ''failed to send message to cln'' err), plugin_Stop c)
      | None \<Rightarrow> (None, c\<lparr>cp_written := cp_written c @ [the msg]\<rparr>))"

definition send_response :: "plugin_env \<Rightarrow> Response \<Rightarrow> 'm ClnPlugin \<Rightarrow> 'm ClnPlugin" where
  "send_response E r c = snd (sendToCln E (marshal_response r) c)"

definition plugin_log :: "plugin_env \<Rightarrow> string \<Rightarrow> string \<Rightarrow> 'm ClnPlugin \<Rightarrow> error option \<times> 'm ClnPlugin" where
  "plugin_log E level message c =
     sendToCln E (marshal_request \<lparr>rq_Id = [], rq_Method = ''log'', rq_JsonRpc = SpecVersion,
       rq_Params = object_text [member ''level'' (json_string level), member ''message'' (json_string message)]\<rparr>) c"

definition sendError :: "plugin_env \<Rightarrow> string \<Rightarrow> int \<Rightarrow> string \<Rightarrow> 'm ClnPlugin \<Rightarrow> 'm ClnPlugin" where
  "sendError E id' code message c =
     send_response E \<lparr>rs_Id = id', rs_JsonRpc = SpecVersion, rs_Result = NoResult,
         rs_Error = Some \<lparr>er_Code = code, er_Message = message\<rparr>\<rparr>
       (snd (plugin_log E ''error'' message c))"

definition value_response :: "string \<Rightarrow> Result \<Rightarrow> Response" where
  "value_response id' r = \<lparr>rs_Id = id', rs_JsonRpc = SpecVersion, rs_Result = r, rs_Error = None\<rparr>"

text \<open>\<^verbatim>\<open>strings.TrimSpace\<close> on ASCII text and \<^verbatim>\<open>strings.Trim\<close> with one character.\<close>

definition unicode_space :: "char \<Rightarrow> bool" where
  "unicode_space c \<longleftrightarrow> isSpace c \<or> c = CHR 0x0B \<or> c = CHR 0x0C"

definition trim_by :: "(char \<Rightarrow> bool) \<Rightarrow> string \<Rightarrow> string" where
  "trim_by P s = rev (dropWhile P (rev (dropWhile P s)))"

definition idToString :: "string \<Rightarrow> string" where
  "idToString id' = trim_by ((=) (CHR 0x27)) (trim_by ((=) quote_char) (trim_by unicode_space id'))"

definition option_json :: "string \<Rightarrow> string \<Rightarrow> string option \<Rightarrow> json" where
  "option_json name desc dflt =
     JObj ([(''name'', JStr name), (''type'', JStr ''string''), (''description'', JStr desc)] @
           (case dflt of None \<Rightarrow> [] | Some d \<Rightarrow> [(''default'', JStr d)]))"

definition method_json :: "string \<Rightarrow> string \<Rightarrow> json" where
  "method_json name desc = JObj [(''name'', JStr name), (''usage'', JStr []), (''description'', JStr desc)]"

definition Manifest :: json where
  "Manifest = JObj [
     (''options'', JArr [
        option_json ListenAddressOption ''listen address for the htlc_accepted lsp grpc server'' None,
        option_json SubscriberTimeoutOption
          ''the maximum duration we will hold a htlc if no subscriber is active. golang duration string.''
          (Some ''1m''),
        option_json channelAcceptScriptOption ''starlark script for channel acceptor.'' (Some [])]),
     (''rpcmethods'', JArr [
        method_json ''getchannelacceptscript'' ''Get the startlark channel acceptor script'',
        method_json ''setchannelacceptscript'' ''Set the startlark channel acceptor script'']),
     (''dynamic'', JBool False),
     (''subscriptions'', JArr [JStr ''shutdown'']),
     (''hooks'', JArr [JObj [(''name'', JStr ''htlc_accepted'')], JObj [(''name'', JStr ''openchannel'')],
        JObj [(''name'', JStr ''openchannel2'')]]),
     (''nonnumericids'', JBool True)]"

definition handleGetManifest :: "plugin_env \<Rightarrow> Request \<Rightarrow> 'm ClnPlugin \<Rightarrow> 'm ClnPlugin" where
  "handleGetManifest E request = send_response E (value_response (rq_Id request) (Value Manifest))"

text \<open>
  The options of the init message: \<open>Inl\<close> is the complaint about one of them. The script is assigned
  before the other options are looked at, and the empty string if it is not a string.
\<close>

definition init_options ::
  "InitMessage \<Rightarrow> 'm ClnPlugin \<Rightarrow> (string + string \<times> duration) \<times> 'm ClnPlugin" where
  "init_options m c =
     (case option_value channelAcceptScriptOption m of
        None \<Rightarrow> (Inl (''Missing option '' @ channelAcceptScriptOption), c)
      | Some sc \<Rightarrow>
          (case as_string sc of
             None \<Rightarrow> (Inl (''Invalid value for option '' @ channelAcceptScriptOption),
                      c\<lparr>channelAcceptScript := []\<rparr>)
           | Some script \<Rightarrow>
               (let c1 = c\<lparr>channelAcceptScript := script\<rparr> in
                case option_value ListenAddressOption m of
                  None \<Rightarrow> (Inl (''Missing option '' @ ListenAddressOption), c1)
                | Some l \<Rightarrow>
                    (case as_string l of
                       None \<Rightarrow> (Inl (''Invalid value for option '' @ ListenAddressOption), c1)
                     | Some addr \<Rightarrow>
                         if addr = [] then (Inl (''Invalid value for option '' @ ListenAddressOption), c1)
                         else (case option_value SubscriberTimeoutOption m of
                                 None \<Rightarrow> (Inl (''Missing option '' @ SubscriberTimeoutOption), c1)
                               | Some t \<Rightarrow>
                                   (case as_string t of
                                      None \<Rightarrow> (Inl (''Invalid value for option '' @ SubscriberTimeoutOption), c1)
                                    | Some s \<Rightarrow>
                                        (case ParseDuration s of
                                           None \<Rightarrow> (Inl (''Invalid value for option '' @ SubscriberTimeoutOption), c1)
                                         | Some timeout \<Rightarrow> (Inr (addr, timeout), c1))))))))"

text \<open>If the server cannot start, its goroutine stops the plugin.\<close>

definition handleInit :: "plugin_env \<Rightarrow> Request \<Rightarrow> 'm ClnPlugin \<Rightarrow> 'm ClnPlugin" where
  "handleInit E request c =
     (case unmarshal (decode_object init_field) \<lparr>im_Options = []\<rparr> (rq_Params request) of
        (m, False) \<Rightarrow> sendError E (rq_Id request) ParseError ''Failed to unmarshal init params'' c
      | (m, True) \<Rightarrow>
          (case init_options m c of
             (Inl complaint, c1) \<Rightarrow> sendError E (rq_Id request) InvalidParams complaint c1
           | (Inr (addr, timeout), c1) \<Rightarrow>
               (case server_Start (env_Listen E) addr timeout (cp_server c1) of
                  (StartError err, s) \<Rightarrow>
                    plugin_Stop (sendError E (rq_Id request) InternalErr ''Failed to start server''
                      (c1\<lparr>cp_server := s\<rparr>))
                | (_, s) \<Rightarrow>
                    send_response E (value_response (rq_Id request) NoResult) (c1\<lparr>cp_server := s\<rparr>))))"

text \<open>Handing an htlc to the server blocks (\<open>None\<close>) while its queue is full, unless it is stopped.\<close>

definition handleHtlcAccepted :: "plugin_env \<Rightarrow> time \<Rightarrow> Request \<Rightarrow> 'm ClnPlugin \<Rightarrow> 'm ClnPlugin option" where
  "handleHtlcAccepted E now request c =
     (case unmarshal (decode_object accepted_field) zero_accepted (rq_Params request) of
        (htlc, False) \<Rightarrow>
          Some (sendError E (rq_Id request) ParseError ''Failed to unmarshal htlc_accepted params'' c)
      | (htlc, True) \<Rightarrow>
          (case SendHtlcAccepted now (idToString (rq_Id request)) htlc (cp_server c) of
             Some s \<Rightarrow> Some (c\<lparr>cp_server := s\<rparr>)
           | None \<Rightarrow> if sv_done (cp_server c) then Some c else None))"

text \<open>The parameters of \<^verbatim>\<open>setchannelacceptscript\<close> are a list of strings.\<close>

definition decode_strings :: "string list \<Rightarrow> string \<Rightarrow> string list \<times> bool" where
  "decode_strings old raw =
     (if raw = ''null'' then ([], True)
      else if raw \<noteq> [] \<and> hd raw = CHR ''[''
      then (let ds = map (decode_str []) (raw_elements (length raw) (tl raw)) in (map fst ds, list_all snd ds))
      else (old, False))"

definition handleSetChannelAcceptScript :: "plugin_env \<Rightarrow> Request \<Rightarrow> 'm ClnPlugin \<Rightarrow> 'm ClnPlugin" where
  "handleSetChannelAcceptScript E request c =
     (case unmarshal decode_strings [] (rq_Params request) of
        (params, False) \<Rightarrow>
          sendError E (rq_Id request) ParseError ''Failed to unmarshal setchannelacceptscript params'' c
      | (params, True) \<Rightarrow>
          (let c1 = (case params of [] \<Rightarrow> c | script # _ \<Rightarrow> c\<lparr>channelAcceptScript := script\<rparr>) in
           send_response E (value_response (rq_Id request) (Value (JStr (channelAcceptScript c1)))) c1))"

definition unmarshalOpenChannel :: "Request \<Rightarrow> string \<times> bool" where
  "unmarshalOpenChannel request =
     unmarshal (decode_object (\<lambda>r key raw. if field_matches (rq_Method request) key then (raw, True) else (r, True)))
       [] (rq_Params request)"

definition handleOpenChannel :: "plugin_env \<Rightarrow> Request \<Rightarrow> 'm ClnPlugin \<Rightarrow> 'm ClnPlugin" where
  "handleOpenChannel E request c =
     (case unmarshalOpenChannel request of
        (p, False) \<Rightarrow> sendError E (rq_Id request) ParseError ''Failed to unmarshal openchannel params'' c
      | (p, True) \<Rightarrow>
          send_response E (value_response (rq_Id request)
            (Raw (fst (channelAcceptor E (channelAcceptScript c) (rq_Method request) p)))) c)"

definition processRequest ::
  "plugin_env \<Rightarrow> time \<Rightarrow> Request \<Rightarrow> 'm ClnPlugin \<Rightarrow> 'm ClnPlugin option" where
  "processRequest E now request c =
     (if rq_JsonRpc request \<noteq> SpecVersion
      then Some (sendError E (rq_Id request) InvalidRequest ''Invalid jsonrpc'' c)
      else if rq_Method request = ''getmanifest'' then Some (handleGetManifest E request c)
      else if rq_Method request = ''init'' then Some (handleInit E request c)
      else if rq_Method request = ''shutdown'' then Some (plugin_Stop c)
      else if rq_Method request = ''htlc_accepted'' then handleHtlcAccepted E now request c
      else if rq_Method request = ''openchannel'' \<or> rq_Method request = ''openchannel2''
      then Some (handleOpenChannel E request c)
      else if rq_Method request = ''getchannelacceptscript''
      then Some (send_response E (value_response (rq_Id request) (Value (JStr (channelAcceptScript c)))) c)
      else if rq_Method request = ''setchannelacceptscript''
      then Some (handleSetChannelAcceptScript E request c)
      else Some (sendError E (rq_Id request) MethodNotFound ''Method not found'' c))"

text \<open>
  One round of \<^verbatim>\<open>listenRequests\<close>: it stops the plugin on a read error, and crashes on a nil request.
\<close>

definition listen_round ::
  "plugin_env \<Rightarrow> time \<Rightarrow> reader \<Rightarrow> 'm ClnPlugin \<Rightarrow> (reader \<times> 'm ClnPlugin) outcome option" where
  "listen_round E now r c =
     (case Next r of
        (Inl err, r1) \<Rightarrow> Some (Ret (r1, plugin_Stop c))
      | (Inr None, r1) \<Rightarrow> Some (Panic ''nil dereference'')
      | (Inr (Some request), r1) \<Rightarrow> map_option (\<lambda>c1. Ret (r1, c1)) (processRequest E now request c))"

text \<open>One round of \<^verbatim>\<open>htlcListenServer\<close> with a result of the server.\<close>

definition htlc_response :: "string \<Rightarrow> htlc_result \<Rightarrow> Response" where
  "htlc_response id' result =
     value_response (json_string id') (Value (JObj (map (\<lambda>kv. (fst kv, JStr (snd kv))) result)))"

definition htlcListenServer :: "plugin_env \<Rightarrow> string \<Rightarrow> htlc_result \<Rightarrow> 'm ClnPlugin \<Rightarrow> 'm ClnPlugin" where
  "htlcListenServer E id' result = send_response E (htlc_response id' result)"

section \<open>Ids\<close>

text \<open>Ids of ASCII characters that JSON does not escape, without quotes at their ends.\<close>

definition plain_id :: "string \<Rightarrow> bool" where
  "plain_id s \<longleftrightarrow> (\<forall>c\<in>set s. escape_char c = [c] \<and> of_char c < (128 :: nat)) \<and>
     (s \<noteq> [] \<longrightarrow> hd s \<noteq> CHR 0x27 \<and> last s \<noteq> CHR 0x27)"

lemma json_escape_plain:
  "\<forall>c\<in>set s. escape_char c = [c] \<and> of_char c < (128 :: nat) \<Longrightarrow> json_escape s = s"
  by (induction s rule: json_escape.induct) (auto simp: line_separator_def)

lemma trim_by_id: "s = [] \<or> \<not> P (hd s) \<and> \<not> P (last s) \<Longrightarrow> trim_by P s = s"
  by (auto simp: trim_by_def dropWhile_eq_self_iff [THEN iffD2] hd_rev)

lemma trim_quotes:
  assumes "\<forall>c\<in>set s. escape_char c = [c]"
  shows "trim_by ((=) quote_char) (quote_char # s @ [quote_char]) = s"
proof -
  have "\<forall>c\<in>set s. c \<noteq> quote_char"
    using assms by (auto simp: escape_char_def Let_def)
  then have "s \<noteq> [] \<Longrightarrow> hd s \<noteq> quote_char \<and> last s \<noteq> quote_char"
    by auto
  then have "dropWhile ((=) quote_char) (s @ [quote_char]) = (if s = [] then [] else s @ [quote_char])"
    and "dropWhile ((=) quote_char) (rev s) = rev s"
    by (auto simp: dropWhile_eq_self_iff hd_append hd_rev)
  then show ?thesis by (simp add: trim_by_def)
qed

lemma idToString_plain:
  assumes "plain_id s"
  shows "idToString (json_string s) = s"
proof -
  have "json_string s = quote_char # s @ [quote_char]"
    using assms by (simp add: json_string_def plain_id_def json_escape_plain)
  moreover have "trim_by unicode_space (quote_char # s @ [quote_char]) = quote_char # s @ [quote_char]"
    by (rule trim_by_id) (simp add: unicode_space_def isSpace_def quote_char_def)
  moreover have "trim_by ((=) (CHR 0x27)) s = s"
    using assms by (intro trim_by_id) (auto simp: plain_id_def)
  moreover have "trim_by ((=) quote_char) (quote_char # s @ [quote_char]) = s"
    using assms by (intro trim_quotes) (simp add: plain_id_def)
  ultimately show ?thesis by (simp add: idToString_def)
qed

section \<open>Properties\<close>

text \<open>
  C30: The answer to an htlc carries the id of CLN's request: for a request whose id is a string of
  plain characters, the message put on the server's queue has an id for which the response that is
  written with the server's result has exactly the id of the request.
\<close>

theorem htlc_answer_has_request_id:
  assumes "plain_id s" and "rq_Id request = json_string s"
    and "handleHtlcAccepted E now request c = Some c'" and "htlcSendQueue (cp_server c') \<noteq> htlcSendQueue (cp_server c)"
  shows "\<exists>msg. htlcSendQueue (cp_server c') = htlcSendQueue (cp_server c) @ [msg] \<and>
    (\<forall>result. rs_Id (htlc_response (am_id msg) result) = rq_Id request)"
proof -
  have same: "cp_server (sendError E i code m c) = cp_server c" for i code m
    by (simp add: sendError_def send_response_def sendToCln_def plugin_log_def plugin_Stop_def split: option.split)
  obtain htlc ok where "unmarshal (decode_object accepted_field) zero_accepted (rq_Params request) = (htlc, ok)"
    by fastforce
  with assms(2-4) same show ?thesis
    by (cases ok)
      (auto simp: handleHtlcAccepted_def SendHtlcAccepted_def idToString_plain [OF assms(1)]
        htlc_response_def value_response_def split: if_splits option.splits)
qed

definition quiet_env :: plugin_env where
  "quiet_env = \<lparr>env_Write = (\<lambda>_. None), env_Listen = (\<lambda>_. None),
     starlark_Eval = (\<lambda>script meth p. Inr (StarString (result_text ''continue'')))\<rparr>"

definition sample_htlc_request :: Request where
  "sample_htlc_request = \<lparr>rq_Id = json_string ''cln:htlc_accepted#7'', rq_Method = ''htlc_accepted'',
     rq_JsonRpc = ''2.0'',
     rq_Params = object_text
       [member ''onion'' (object_text [member ''payload'' (json_string ''00'')]),
        member ''htlc'' (object_text [member ''payment_hash'' (json_string ''ff'')])]\<rparr>"

lemma sample_htlc_decoded:
  "unmarshal (decode_object accepted_field) zero_accepted (rq_Params sample_htlc_request) =
     (\<lparr>ha_Onion = Some (zero_onion\<lparr>on_Payload := ''00''\<rparr>),
       ha_Htlc = Some (zero_htlc\<lparr>ht_PaymentHash := ''ff''\<rparr>), ha_ForwardTo = []\<rparr>, True)"
  by code_simp

theorem htlc_answer_has_request_id_witness:
  "\<exists>c' msg. handleHtlcAccepted quiet_env 0 sample_htlc_request (NewClnPlugin list_map) = Some c' \<and>
     htlcSendQueue (cp_server c') = [msg] \<and>
     (\<forall>result. rs_Id (htlc_response (am_id msg) result) = rq_Id sample_htlc_request)"
proof -
  let ?c = "NewClnPlugin list_map"
  have "plain_id ''cln:htlc_accepted#7''" by code_simp
  moreover have "rq_Id sample_htlc_request = json_string ''cln:htlc_accepted#7''"
    by (simp add: sample_htlc_request_def)
  moreover obtain c' where c': "handleHtlcAccepted quiet_env 0 sample_htlc_request ?c = Some c'"
    "htlcSendQueue (cp_server c') \<noteq> htlcSendQueue (cp_server ?c)"
    by (simp add: handleHtlcAccepted_def sample_htlc_decoded SendHtlcAccepted_def NewClnPlugin_def NewServer_def)
  ultimately have "\<exists>msg. htlcSendQueue (cp_server c') = htlcSendQueue (cp_server ?c) @ [msg] \<and>
      (\<forall>result. rs_Id (htlc_response (am_id msg) result) = rq_Id sample_htlc_request)"
    by (intro htlc_answer_has_request_id)
  with c' show ?thesis by (simp add: NewClnPlugin_def NewServer_def)
qed

end
