(* ===== verification/Cln_Client.thy ===== *)
theory Cln_Client
  imports Nodes World
begin

text \<open>
  The client of a CLN node (\<^verbatim>\<open>cln/cln_client.go\<close>), which implements the interface \<open>Client\<close> on top of the
  node's gRPC calls. The calls, generated code, are fields of the client, as are the clock and
  sleeping. The loops that wait for a peer are partial functions; they are shown to return once time
  passes.
\<close>

section \<open>The node's calls\<close>

datatype ChannelState =
    OPENINGD | CHANNELD_AWAITING_LOCKIN | CHANNELD_NORMAL | CHANNELD_SHUTTING_DOWN
  | CLOSINGD_SIGEXCHANGE | CLOSINGD_COMPLETE | AWAITING_UNILATERAL | FUNDING_SPEND_SEEN | ONCHAIN
  | DUALOPEND_OPEN_INIT | DUALOPEND_AWAITING_LOCKIN | CHANNELD_AWAITING_SPLICE
  | DUALOPEND_OPEN_COMMITTED | DUALOPEND_OPEN_COMMIT_READY

text \<open>An alias may be nil, and so may its local part. An absent funding transaction has no bytes.\<close>

record ListpeerchannelsChannels =
  lc_PeerId :: bytes
  lc_State :: "ChannelState option"
  lc_ShortChannelId :: "string option"
  lc_Alias :: "string option option"
  lc_FundingTxid :: bytes
  lc_FundingOutnum :: "u32 option"
  lc_MinimumHtlcOutMsat :: "u64 option"

datatype Feerate = Perkb u32 | Urgent | Normal | Slow

record FundchannelRequest =
  fc_Id :: bytes
  fc_AmountMsat :: u64
  fc_Feerate :: "Feerate option"
  fc_Announce :: bool
  fc_Minconf :: "u32 option"
  fc_Mindepth :: u32
  fc_ReserveMsat :: u64

record FundchannelResponse =
  fr_Txid :: bytes
  fr_Outnum :: u32
  fr_ChannelId :: bytes

record SetchannelRequest =
  sc_Id :: string
  sc_FeebaseMsat :: u64
  sc_Feeppm :: u32
  sc_Enforcedelay :: u32

text \<open>\<open>status_Message\<close> is the message of an error that is a gRPC status.\<close>

record 'w NodeClient =
  rpc_Getinfo :: "'w \<Rightarrow> (error + string option \<times> bytes) \<times> 'w"
  rpc_ListPeers :: "bytes \<Rightarrow> 'w \<Rightarrow> (error + bool list) \<times> 'w"
  rpc_FundChannel :: "FundchannelRequest \<Rightarrow> 'w \<Rightarrow> (error + FundchannelResponse) \<times> 'w"
  rpc_SetChannel :: "SetchannelRequest \<Rightarrow> 'w \<Rightarrow> error option \<times> 'w"
  rpc_ListPeerChannels :: "bytes option \<Rightarrow> 'w \<Rightarrow> (error + ListpeerchannelsChannels list) \<times> 'w"
  status_Message :: "error \<Rightarrow> string option"

section \<open>cln/cln\_client.go\<close>

record 'w ClnClient =
  cc_client :: "'w NodeClient"
  cc_now :: "'w clock"
  cc_sleep :: "duration \<Rightarrow> 'w \<Rightarrow> 'w"

definition OPEN_STATUSES :: "ChannelState list" where
  "OPEN_STATUSES = [CHANNELD_NORMAL]"

definition PENDING_STATUSES :: "ChannelState list" where
  "PENDING_STATUSES = [OPENINGD, CHANNELD_AWAITING_LOCKIN, DUALOPEND_OPEN_INIT, DUALOPEND_AWAITING_LOCKIN,
     CHANNELD_AWAITING_SPLICE, DUALOPEND_OPEN_COMMITTED, DUALOPEND_OPEN_COMMIT_READY]"

definition CLOSING_STATUSES :: "ChannelState list" where
  "CLOSING_STATUSES = [CHANNELD_SHUTTING_DOWN, CLOSINGD_SIGEXCHANGE, CLOSINGD_COMPLETE, AWAITING_UNILATERAL,
     FUNDING_SPEND_SEEN, ONCHAIN]"

definition reverseBytes :: "bytes \<Rightarrow> bytes" where
  "reverseBytes b = rev b"

text \<open>\<^verbatim>\<open>NewClnClient\<close>; reading the certificates and dialling are arguments.\<close>

definition NewClnClient ::
  "(string \<Rightarrow> bool) \<Rightarrow> (string \<Rightarrow> string \<Rightarrow> error + 'cert) \<Rightarrow> (string \<Rightarrow> string \<Rightarrow> 'cert \<Rightarrow> error + 'w NodeClient) \<Rightarrow>
     ClnConfig \<Rightarrow> error + 'w NodeClient" where
  "NewClnClient append_certs key_pair dial config =
     (if \<not> append_certs (cln_CaCert config) then Inl (Error ''failed to add grpc server CA's certificate'')
      else case key_pair (cln_ClientCert config) (cln_ClientKey config) of
        Inl err \<Rightarrow> Inl (Wrap ''failed to create X509 key pair'' err)
      | Inr clientCert \<Rightarrow>
          (case dial (cln_GrpcAddress config) (cln_CaCert config) clientCert of
             Inl err \<Rightarrow> Inl (Wrap ''failed to connect to CLN gRPC'' err)
           | Inr client \<Rightarrow> Inr client))"

definition cln_GetInfo :: "'w ClnClient \<Rightarrow> 'w \<Rightarrow> (error + GetInfoResult) \<times> 'w" where
  "cln_GetInfo c w =
     (case rpc_Getinfo (cc_client c) w of
        (Inl err, w1) \<Rightarrow> (Inl err, w1)
      | (Inr (alias, id'), w1) \<Rightarrow>
          (Inr \<lparr>Alias = (case alias of None \<Rightarrow> [] | Some a \<Rightarrow> a), Pubkey = hex_encode id'\<rparr>, w1))"

definition cln_IsConnected :: "'w ClnClient \<Rightarrow> bytes \<Rightarrow> 'w \<Rightarrow> (error + bool) \<times> 'w" where
  "cln_IsConnected c destination w =
     (case rpc_ListPeers (cc_client c) destination w of
        (Inl err, w1) \<Rightarrow> (Inl (Wrap ''CLN: client.ListPeers error'' err), w1)
      | (Inr peers, w1) \<Rightarrow> (Inr (case peers of [] \<Rightarrow> False | connected # _ \<Rightarrow> connected), w1))"

text \<open>\<^verbatim>\<open>strings.Contains\<close>\<close>

definition contains :: "string \<Rightarrow> string \<Rightarrow> bool" where
  "contains s sub = list_ex (\<lambda>n. take (length sub) (drop n s) = sub) [0..<Suc (length s)]"

definition feerate :: "OpenChannelRequest \<Rightarrow> Feerate option" where
  "feerate req =
     (case oc_FeeSatPerVByte req of
        Some fee \<Rightarrow> Some (Perkb (fl_uint32 (fl_mul fee (Float 1000 0))))
      | None \<Rightarrow>
          (case oc_TargetConf req of
             None \<Rightarrow> None
           | Some target \<Rightarrow> Some (if target < 3 then Urgent else if target < 30 then Normal else Slow)))"

definition cln_OpenChannel ::
  "libs \<Rightarrow> 'w ClnClient \<Rightarrow> OpenChannelRequest \<Rightarrow> 'w \<Rightarrow> (error + outpoint) \<times> 'w" where
  "cln_OpenChannel L c req w =
     (case rpc_FundChannel (cc_client c)
             \<lparr>fc_Id = oc_Destination req, fc_AmountMsat = oc_CapacitySat req * 1000, fc_Feerate = feerate req,
              fc_Announce = False, fc_Minconf = oc_MinConfs req, fc_Mindepth = 0, fc_ReserveMsat = 0\<rparr> w of
        (Inl err, w1) \<Rightarrow>
          (Inl (case status_Message (cc_client c) err of
                  Some m \<Rightarrow> if contains m ''code: Some(301)'' then Wrap ''not enough funds'' err else err
                | None \<Rightarrow> err), w1)
      | (Inr fundResult, w1) \<Rightarrow>
          (case NewOutPoint L (reverseBytes (fr_Txid fundResult)) (fr_Outnum fundResult) of
             Inl err \<Rightarrow> (Inl err, w1)
           | Inr channelPoint \<Rightarrow>
               (case oc_RoutingPolicy req of
                  None \<Rightarrow> (Inr channelPoint, w1)
                | Some policy \<Rightarrow>
                    (case rpc_SetChannel (cc_client c)
                            \<lparr>sc_Id = hex_encode (fr_ChannelId fundResult), sc_FeebaseMsat = BaseMsat policy,
                             sc_Feeppm = Ppm policy, sc_Enforcedelay = 0\<rparr> w1 of
                       (ignored, w2) \<Rightarrow> (Inr channelPoint, w2)))))"

definition mapScidsFromChannel ::
  "libs \<Rightarrow> ListpeerchannelsChannels \<Rightarrow> error + ShortChannelID option \<times> ShortChannelID option" where
  "mapScidsFromChannel L c =
     (case (case lc_ShortChannelId c of
              None \<Rightarrow> Inr None
            | Some s \<Rightarrow> (case NewShortChannelIDFromString L s of Inl err \<Rightarrow> Inl err | Inr scid \<Rightarrow> Inr (Some scid))) of
        Inl err \<Rightarrow> Inl (Wrap ''failed to parse scid'' err)
      | Inr confirmedScid \<Rightarrow>
          (case lc_Alias c of
             Some (Some local) \<Rightarrow>
               (case NewShortChannelIDFromString L local of
                  Inl err \<Rightarrow> Inl (Wrap ''failed to parse scid'' err)
                | Inr scid \<Rightarrow> Inr (Some scid, confirmedScid))
           | _ \<Rightarrow> Inr (None, confirmedScid)))"

text \<open>
  The loop of \<^verbatim>\<open>GetChannel\<close>: for every channel with a state it logs the local alias, and the one that is
  found must have a minimum htlc amount; both are dereferenced.
\<close>

fun find_channel ::
  "libs \<Rightarrow> outpoint \<Rightarrow> ListpeerchannelsChannels list \<Rightarrow> (error + GetChannelResult) outcome" where
  "find_channel L channelPoint [] = Ret (Inl (Error ''no channel found''))"
| "find_channel L channelPoint (c # cs) =
     (case lc_State c of
        None \<Rightarrow> find_channel L channelPoint cs
      | Some state \<Rightarrow>
          if lc_Alias c = None then Panic ''nil dereference''
          else if state \<in> set OPEN_STATUSES \<and> reverseBytes (lc_FundingTxid c) = op_hash channelPoint
          then (case mapScidsFromChannel L c of
                  Inl err \<Rightarrow> Ret (Inl err)
                | Inr (aliasScid, confirmedScid) \<Rightarrow>
                    (case lc_MinimumHtlcOutMsat c of
                       None \<Rightarrow> Panic ''nil dereference''
                     | Some msat \<Rightarrow>
                         Ret (Inr \<lparr>gc_AliasScid = aliasScid, gc_ConfirmedScid = confirmedScid,
                                   gc_HtlcMinimumMsat = msat\<rparr>)))
          else find_channel L channelPoint cs)"

definition cln_GetChannel ::
  "libs \<Rightarrow> 'w ClnClient \<Rightarrow> bytes \<Rightarrow> outpoint \<Rightarrow> 'w \<Rightarrow> (error + GetChannelResult) outcome \<times> 'w" where
  "cln_GetChannel L c peerID channelPoint w =
     (case rpc_ListPeerChannels (cc_client c) (Some peerID) w of
        (Inl err, w1) \<Rightarrow> (Ret (Inl err), w1)
      | (Inr channels, w1) \<Rightarrow> (find_channel L channelPoint channels, w1))"

text \<open>The outpoint of a channel that is closing, if it has all fields that are needed.\<close>

definition closing_point :: "libs \<Rightarrow> ListpeerchannelsChannels \<Rightarrow> string option" where
  "closing_point L c =
     (case lc_State c of
        None \<Rightarrow> None
      | Some state \<Rightarrow>
          if state \<in> set CLOSING_STATUSES
          then (case (lc_ShortChannelId c, lc_FundingOutnum c) of
                  (Some s, Some outnum) \<Rightarrow>
                    (case NewShortChannelIDFromString L s of
                       Inl err \<Rightarrow> None
                     | Inr scid \<Rightarrow>
                         (case NewOutPoint L (reverseBytes (lc_FundingTxid c)) outnum of
                            Inl err \<Rightarrow> None
                          | Inr cp \<Rightarrow> Some (outpoint_String L cp)))
                | _ \<Rightarrow> None)
          else None)"

definition cln_GetClosedChannels ::
  "libs \<Rightarrow> 'w ClnClient \<Rightarrow> string \<Rightarrow> (string \<rightharpoonup> u64) \<Rightarrow> 'w \<Rightarrow> (error + (string \<rightharpoonup> u64)) \<times> 'w" where
  "cln_GetClosedChannels L c nodeID channelPoints w =
     (if channelPoints = Map.empty then (Inr Map.empty, w)
      else case hex_decode nodeID of
        None \<Rightarrow> (Inl (Error ''failed to decode nodeid''), w)
      | Some nodeIDBytes \<Rightarrow>
          (case rpc_ListPeerChannels (cc_client c) (Some nodeIDBytes) w of
             (Inl err, w1) \<Rightarrow> (Inl err, w1)
           | (Inr channels, w1) \<Rightarrow>
               let lookup = List.map_filter (closing_point L) channels
               in (Inr (\<lambda>cp. if cp \<in> set lookup then None else channelPoints cp), w1)))"

definition has_scid :: "string \<Rightarrow> ListpeerchannelsChannels \<Rightarrow> bool" where
  "has_scid scidStr ch \<longleftrightarrow> lc_ShortChannelId ch = Some scidStr \<or> lc_Alias ch = Some (Some scidStr)"

definition cln_GetPeerId ::
  "'w ClnClient \<Rightarrow> ShortChannelID \<Rightarrow> 'w \<Rightarrow> (error + bytes option) \<times> 'w" where
  "cln_GetPeerId c scid w =
     (case rpc_ListPeerChannels (cc_client c) None w of
        (Inl err, w1) \<Rightarrow> (Inl err, w1)
      | (Inr channels, w1) \<Rightarrow>
          (Inr (map_option lc_PeerId (find (has_scid (scid_ToString (Some scid))) channels)), w1))"

definition pollingInterval :: duration where
  "pollingInterval = 400 * millisecond"

text \<open>
  Both waiting loops poll until the deadline. The two timers race: the one that fires first decides,
  at the same time the polling interval.
\<close>

partial_function (option) poll ::
  "'w ClnClient \<Rightarrow> ('w \<Rightarrow> bool \<times> 'w) \<Rightarrow> time \<Rightarrow> 'w \<Rightarrow> (error option \<times> 'w) option" where
  "poll c check deadline w =
     (case check w of
        (ok, w1) \<Rightarrow>
          if ok then Some (None, w1)
          else (case cc_now c w1 of
                  (t, w2) \<Rightarrow>
                    if deadline - t < pollingInterval
                    then Some (Some (Error ''timeout''), cc_sleep c (max 0 (deadline - t)) w2)
                    else poll c check deadline (cc_sleep c pollingInterval w2)))"

definition is_online :: "'w ClnClient \<Rightarrow> bytes \<Rightarrow> 'w \<Rightarrow> bool \<times> 'w" where
  "is_online c peerID w =
     (case cln_IsConnected c peerID w of (r, w1) \<Rightarrow> (r = Inr True, w1))"

definition cln_WaitOnline :: "'w ClnClient \<Rightarrow> bytes \<Rightarrow> time \<Rightarrow> 'w \<Rightarrow> (error option \<times> 'w) option" where
  "cln_WaitOnline c peerID = poll c (is_online c peerID)"

definition has_active_channel :: "'w ClnClient \<Rightarrow> bytes \<Rightarrow> 'w \<Rightarrow> bool \<times> 'w" where
  "has_active_channel c peerID w =
     (case rpc_ListPeerChannels (cc_client c) (Some peerID) w of
        (Inl err, w1) \<Rightarrow> (False, w1)
      | (Inr channels, w1) \<Rightarrow>
          (list_ex (\<lambda>ch. case lc_State ch of None \<Rightarrow> False | Some s \<Rightarrow> s \<in> set OPEN_STATUSES) channels, w1))"

definition cln_WaitChannelActive ::
  "'w ClnClient \<Rightarrow> bytes \<Rightarrow> time \<Rightarrow> 'w \<Rightarrow> (error option \<times> 'w) option" where
  "cln_WaitChannelActive c peerID = poll c (has_active_channel c peerID)"

text \<open>A channel without outpoint leaves nil in its place.\<close>

definition listed_channel :: "libs \<Rightarrow> ListpeerchannelsChannels \<Rightarrow> error + Channel option" where
  "listed_channel L channel =
     (case mapScidsFromChannel L channel of
        Inl err \<Rightarrow> Inl err
      | Inr (aliasScid, confirmedScid) \<Rightarrow>
          (let outp = (if lc_FundingTxid channel = [] then None
                       else case lc_FundingOutnum channel of
                         None \<Rightarrow> None
                       | Some outnum \<Rightarrow>
                           (case NewOutPoint L (reverseBytes (lc_FundingTxid channel)) outnum of
                              Inl err \<Rightarrow> None
                            | Inr op \<Rightarrow> Some op))
           in Inr (case outp of
                     None \<Rightarrow> None
                   | Some op \<Rightarrow>
                       Some \<lparr>ch_AliasScid = aliasScid, ch_ConfirmedScid = confirmedScid,
                             ch_ChannelPoint = Some op, ch_PeerId = lc_PeerId channel\<rparr>)))"

fun listed_channels :: "libs \<Rightarrow> ListpeerchannelsChannels list \<Rightarrow> error + Channel option list" where
  "listed_channels L [] = Inr []"
| "listed_channels L (c # cs) =
     (case listed_channel L c of
        Inl err \<Rightarrow> Inl err
      | Inr ch \<Rightarrow> (case listed_channels L cs of Inl err \<Rightarrow> Inl err | Inr chs \<Rightarrow> Inr (ch # chs)))"

definition cln_ListChannels ::
  "libs \<Rightarrow> 'w ClnClient \<Rightarrow> 'w \<Rightarrow> (error + Channel option list) \<times> 'w" where
  "cln_ListChannels L c w =
     (case rpc_ListPeerChannels (cc_client c) None w of
        (Inl err, w1) \<Rightarrow> (Inl err, w1)
      | (Inr channels, w1) \<Rightarrow> (listed_channels L channels, w1))"

section \<open>Waiting\<close>

text \<open>\<open>tm\<close> is the time of the world: the clock and the node's calls do not turn it back, sleeping takes its time.\<close>

locale cln_time =
  fixes c :: "'w ClnClient" and tm :: "'w \<Rightarrow> time"
  assumes now_time: "cc_now c w = (t, w') \<Longrightarrow> tm w \<le> t \<and> t \<le> tm w'"
    and sleep_time: "tm w + d \<le> tm (cc_sleep c d w)"
    and ListPeers_time: "tm w \<le> tm (snd (rpc_ListPeers (cc_client c) peer w))"
    and ListPeerChannels_time: "tm w \<le> tm (snd (rpc_ListPeerChannels (cc_client c) p w))"
begin

definition waited :: "('w \<Rightarrow> bool \<times> 'w) \<Rightarrow> time \<Rightarrow> 'w \<Rightarrow> bool" where
  "waited check deadline w \<longleftrightarrow> (\<exists>r w'. poll c check deadline w = Some (r, w') \<and>
     (if r = None then \<exists>w0. check w0 = (True, w') else r = Some (Error ''timeout'') \<and> deadline \<le> tm w'))"

lemma poll_step:
  assumes "\<And>w. tm w \<le> tm (snd (check w))" and "deadline - tm w < int (Suc n) * pollingInterval"
    and "\<And>w. n \<noteq> 0 \<Longrightarrow> deadline - tm w < int n * pollingInterval \<Longrightarrow> waited check deadline w"
  shows "waited check deadline w"
proof -
  obtain ok w1 where ok: "check w = (ok, w1)" by fastforce
  obtain t w2 where t: "cc_now c w1 = (t, w2)" by fastforce
  have times: "tm w \<le> t" "t \<le> tm w2"
    using assms(1) [of w] ok now_time [OF t] by simp_all
  show ?thesis
  proof (cases "ok \<or> deadline - t < pollingInterval")
    case True
    have "deadline \<le> tm (cc_sleep c (max 0 (deadline - t)) w2)"
      using sleep_time [of w2 "max 0 (deadline - t)"] times by (simp add: max_def split: if_splits)
    with True ok t show ?thesis unfolding waited_def by (subst poll.simps) auto
  next
    case False
    then have "n \<noteq> 0" using assms(2) times by (intro notI) simp
    moreover have "deadline - tm (cc_sleep c pollingInterval w2) < int n * pollingInterval"
      using assms(2) sleep_time [of w2 pollingInterval] times by (simp add: algebra_simps)
    ultimately have "waited check deadline (cc_sleep c pollingInterval w2)" by (rule assms(3))
    with False ok t show ?thesis unfolding waited_def by (subst poll.simps) simp
  qed
qed

lemma poll_returns:
  assumes "\<And>w. tm w \<le> tm (snd (check w))"
  shows "waited check deadline w"
proof -
  have "deadline - tm w < int (Suc n) * pollingInterval \<Longrightarrow> waited check deadline w" for n
  proof (induction n arbitrary: w)
    case 0
    then show ?case by (rule poll_step [OF assms]) simp
  next
    case (Suc n)
    show ?case by (rule poll_step [OF assms Suc.prems Suc.IH])
  qed
  moreover have "deadline - tm w < int (Suc (nat (deadline - tm w))) * pollingInterval"
    by (simp add: pollingInterval_def millisecond_def algebra_simps)
  ultimately show ?thesis by blast
qed

lemma is_online_time: "tm w \<le> tm (snd (is_online c peer w))"
  using ListPeers_time [of w peer]
  by (auto simp: is_online_def cln_IsConnected_def split: prod.split sum.split)

lemma has_active_channel_time: "tm w \<le> tm (snd (has_active_channel c peer w))"
  using ListPeerChannels_time [of w "Some peer"]
  by (auto simp: has_active_channel_def split: prod.split sum.split)

lemma online_waited: "waited (is_online c peer) deadline w"
  by (rule poll_returns) (rule is_online_time)

lemma active_waited: "waited (has_active_channel c peer) deadline w"
  by (rule poll_returns) (rule has_active_channel_time)

end

section \<open>Opened channels are found\<close>

lemma find_channel_found:
  assumes "find_channel L cp cs = Ret (Inr r)"
  shows "\<exists>c\<in>set cs. lc_State c = Some CHANNELD_NORMAL \<and> rev (lc_FundingTxid c) = op_hash cp \<and>
    mapScidsFromChannel L c = Inr (gc_AliasScid r, gc_ConfirmedScid r) \<and>
    lc_MinimumHtlcOutMsat c = Some (gc_HtlcMinimumMsat r)"
  using assms
  by (induction cs)
    (auto simp: OPEN_STATUSES_def reverseBytes_def split: option.splits if_splits sum.splits prod.splits)

text \<open>
  The channel that \<^verbatim>\<open>GetChannel\<close> finds for an outpoint of \<^verbatim>\<open>OpenChannel\<close> is funded by the transaction the
  node reported; the number of the output is not compared.
\<close>

lemma open_then_get:
  assumes "hash_bytes L" and "cln_OpenChannel L c req w = (Inr cp, w')"
    and "cln_GetChannel L c peer cp w1 = (Ret (Inr r), w2)"
  shows "\<exists>fund ch w3 channels. rpc_FundChannel (cc_client c)
      \<lparr>fc_Id = oc_Destination req, fc_AmountMsat = oc_CapacitySat req * 1000, fc_Feerate = feerate req,
       fc_Announce = False, fc_Minconf = oc_MinConfs req, fc_Mindepth = 0, fc_ReserveMsat = 0\<rparr> w = (Inr fund, w3) \<and>
    rpc_ListPeerChannels (cc_client c) (Some peer) w1 = (Inr channels, w2) \<and> ch \<in> set channels \<and>
    lc_State ch = Some CHANNELD_NORMAL \<and> lc_FundingTxid ch = fr_Txid fund \<and>
    mapScidsFromChannel L ch = Inr (gc_AliasScid r, gc_ConfirmedScid r)"
proof -
  obtain fund w3 where f: "rpc_FundChannel (cc_client c)
      \<lparr>fc_Id = oc_Destination req, fc_AmountMsat = oc_CapacitySat req * 1000, fc_Feerate = feerate req,
       fc_Announce = False, fc_Minconf = oc_MinConfs req, fc_Mindepth = 0, fc_ReserveMsat = 0\<rparr> w = (Inr fund, w3)"
    and "NewOutPoint L (reverseBytes (fr_Txid fund)) (fr_Outnum fund) = Inr cp"
    using assms(2) by (auto simp: cln_OpenChannel_def split: prod.splits sum.splits option.splits)
  then have cp: "op_hash cp = rev (fr_Txid fund)"
    using assms(1) by (auto simp: NewOutPoint_def hash_bytes_def reverseBytes_def split: if_splits)
  obtain channels where l: "rpc_ListPeerChannels (cc_client c) (Some peer) w1 = (Inr channels, w2)"
    "find_channel L cp channels = Ret (Inr r)"
    using assms(3) by (auto simp: cln_GetChannel_def split: prod.splits sum.splits)
  from find_channel_found [OF l(2)] f cp l(1) show ?thesis by auto
qed

section \<open>A concrete node\<close>

text \<open>A node with a clock and a list of channels, whose peers are all connected from some time on.\<close>

record cln_world =
  cw_time :: time
  cw_online :: time
  cw_channels :: "ListpeerchannelsChannels list"

definition sim_cln :: "cln_world ClnClient" where
  "sim_cln = \<lparr>
     cc_client = \<lparr>
       rpc_Getinfo = (\<lambda>w. (Inr (None, [2]), w)),
       rpc_ListPeers = (\<lambda>peer w. (Inr [cw_online w \<le> cw_time w], w)),
       rpc_FundChannel = (\<lambda>req w. (Inr \<lparr>fr_Txid = replicate 32 1, fr_Outnum = 0, fr_ChannelId = [1]\<rparr>, w)),
       rpc_SetChannel = (\<lambda>req w. (None, w)),
       rpc_ListPeerChannels = (\<lambda>peer w. (Inr (cw_channels w), w)),
       status_Message = (\<lambda>err. None)\<rparr>,
     cc_now = (\<lambda>w. (cw_time w, w)),
     cc_sleep = (\<lambda>d w. w\<lparr>cw_time := cw_time w + \<bar>d\<bar>\<rparr>)\<rparr>"

interpretation sim_cln: cln_time sim_cln cw_time
  by unfold_locales (auto simp: sim_cln_def)

section \<open>Properties\<close>

text \<open>
  C15: Waiting for a peer or for an active channel on a CLN node returns: with success only after the
  node reported the peer connected or a channel in normal state, and otherwise with a timeout, not
  before the deadline.
\<close>

theorem cln_waits_return:
  assumes "cln_time c tm"
  shows "(\<exists>r w'. cln_WaitOnline c peer deadline w = Some (r, w') \<and>
      (if r = None then \<exists>w0. cln_IsConnected c peer w0 = (Inr True, w')
       else r = Some (Error ''timeout'') \<and> deadline \<le> tm w')) \<and>
    (\<exists>r w'. cln_WaitChannelActive c peer deadline w = Some (r, w') \<and>
      (if r = None then \<exists>w0. has_active_channel c peer w0 = (True, w')
       else r = Some (Error ''timeout'') \<and> deadline \<le> tm w'))"
proof -
  have online: "is_online c peer w0 = (True, w') \<longleftrightarrow> cln_IsConnected c peer w0 = (Inr True, w')" for w0 w'
    by (auto simp: is_online_def split: prod.splits)
  show ?thesis
    using cln_time.online_waited [OF assms, of peer deadline w] cln_time.active_waited [OF assms, of peer deadline w]
    unfolding cln_WaitOnline_def cln_WaitChannelActive_def cln_time.waited_def [OF assms] online
    by (rule conjI)
qed

theorem cln_waits_return_witness:
  "\<exists>r w'. cln_WaitOnline sim_cln [2] (3 * second) \<lparr>cw_time = 0, cw_online = second, cw_channels = []\<rparr> =
     Some (r, w') \<and>
   (if r = None then \<exists>w0. cln_IsConnected sim_cln [2] w0 = (Inr True, w')
    else r = Some (Error ''timeout'') \<and> 3 * second \<le> cw_time w')"
  using cln_waits_return [OF sim_cln.cln_time_axioms] by blast

end
