(* ===== verification/Lnd_Client.thy ===== *)
theory Lnd_Client
  imports Nodes World "HOL-Library.AList"
begin

text \<open>
  The client of an LND node (\<^verbatim>\<open>lnd/client.go\<close>), which implements the interface \<open>Client\<close> on top of the
  node's gRPC calls. The calls, generated code, are fields of the client. Waiting for a peer or a
  channel goes through subscriptions that the goroutines listening to the node's events signal; the
  tables of subscriptions are cells of the world. That a signal arrives before the deadline is up to
  the world (\<open>ll_await\<close>).
\<close>

section \<open>The node's calls\<close>

record lnrpc_Channel =
  nc_Active :: bool
  nc_RemotePubkey :: string
  nc_ChannelPoint :: string
  nc_ChanId :: u64
  nc_ZeroConf :: bool
  nc_ZeroConfConfirmedScid :: u64
  nc_AliasScids :: "u64 list"
  nc_MinHtlcMsat :: "u64 option"

record lnrpc_PendingChannel =
  np_RemoteNodePub :: string
  np_ChannelPoint :: string

record lnrpc_ChannelPoint =
  cp_FundingTxidStr :: string
  cp_FundingTxidBytes :: bytes
  cp_OutputIndex :: u32

record lnrpc_OpenChannelRequest =
  no_NodePubkey :: bytes
  no_LocalFundingAmount :: int
  no_PushSat :: int
  no_Private :: bool
  no_Anchors :: bool
  no_ZeroConf :: bool
  no_BaseFee :: u64
  no_UseBaseFee :: bool
  no_FeeRate :: u64
  no_UseFeeRate :: bool
  no_MinConfs :: "32 word"
  no_SpendUnconfirmed :: bool
  no_SatPerVbyte :: u64
  no_TargetConf :: "32 word"

record 'w LightningClient =
  lr_GetInfo :: "'w \<Rightarrow> (error + string \<times> string) \<times> 'w"
  lr_GetPeerConnected :: "string \<Rightarrow> 'w \<Rightarrow> (error + bool) \<times> 'w"
  lr_OpenChannelSync :: "lnrpc_OpenChannelRequest \<Rightarrow> 'w \<Rightarrow> (error + lnrpc_ChannelPoint) \<times> 'w"
  lr_ListChannels :: "bytes option \<Rightarrow> 'w \<Rightarrow> (error + lnrpc_Channel list) \<times> 'w"
  lr_PendingChannels :: "'w \<Rightarrow> (error + lnrpc_PendingChannel list \<times> lnrpc_PendingChannel list) \<times> 'w"
  lr_GetPeerIdByScid :: "u64 \<Rightarrow> 'w \<Rightarrow> (error + string) \<times> 'w"

section \<open>Subscriptions\<close>

text \<open>
  A table of subscriptions: for a peer or a channel, the subscribers by number, each with the number
  of signals in its channel, which holds ten. Peers and channels have a table each; the numbers are
  given out by one counter.
\<close>

type_synonym sub_table = "(string \<times> (u64 \<times> nat) list) list"

record subs =
  sb_index :: u64
  sb_peersubs :: sub_table
  sb_chansubs :: sub_table

definition signal_capacity :: nat where
  "signal_capacity = 10"

definition table_insert :: "string \<Rightarrow> u64 \<Rightarrow> sub_table \<Rightarrow> sub_table" where
  "table_insert key subid t =
     AList.update key (AList.update subid 0 (case map_of t key of None \<Rightarrow> [] | Some subs \<Rightarrow> subs)) t"

definition table_delete :: "string \<Rightarrow> u64 \<Rightarrow> sub_table \<Rightarrow> sub_table" where
  "table_delete key subid t =
     (case map_of t key of
        None \<Rightarrow> t
      | Some subs \<Rightarrow>
          (let rest = AList.delete subid subs
           in if rest = [] then AList.delete key t else AList.update key rest t))"

text \<open>An event signals all subscribers of a key; it blocks (\<open>None\<close>) if the channel of one is full.\<close>

definition table_signal :: "string \<Rightarrow> sub_table \<Rightarrow> sub_table option" where
  "table_signal key t =
     (case map_of t key of
        None \<Rightarrow> Some t
      | Some subs \<Rightarrow>
          if list_ex (\<lambda>(subid, n). n \<ge> signal_capacity) subs then None
          else Some (AList.update key (map (map_prod id Suc) subs) t))"

section \<open>lnd/client.go\<close>

record 'w LndClient =
  ll_client :: "'w LightningClient"
  ll_subs :: "('w, subs) cell"
  ll_await :: "(string \<times> u64) list \<Rightarrow> time \<Rightarrow> 'w \<Rightarrow> bool \<times> 'w"

text \<open>\<^verbatim>\<open>lnd/macaroon_credential.go\<close>: what a call sends along, over encrypted connections only.\<close>

definition RequireTransportSecurity :: bool where
  "RequireTransportSecurity = True"

definition GetRequestMetadata :: "string \<Rightarrow> (string \<times> string) list" where
  "GetRequestMetadata macaroonHex = [(''macaroon'', macaroonHex)]"

text \<open>
  \<^verbatim>\<open>NewLndClient\<close>: the calls of the node and the first state of the subscriptions. Reading
  certificates and dialling are arguments; if dialling fails, the process exits.
\<close>

definition no_subs :: subs where
  "no_subs = \<lparr>sb_index = 0, sb_peersubs = [], sb_chansubs = []\<rparr>"

definition NewLndClient ::
  "(string \<Rightarrow> bool) \<Rightarrow> (string \<Rightarrow> (string \<times> string) list \<Rightarrow> error + 'w LightningClient) \<Rightarrow> LndConfig \<Rightarrow>
     (error + 'w LightningClient \<times> subs) outcome" where
  "NewLndClient append_certs dial conf =
     (case hex_decode (lnd_Macaroon conf) of
        None \<Rightarrow> Ret (Inl (Error ''failed to decode macaroon''))
      | Some _ \<Rightarrow>
          if \<not> append_certs (lnd_Cert conf) then Ret (Inl (Error ''credentials: failed to append certificates''))
          else case dial (lnd_Address conf) (GetRequestMetadata (lnd_Macaroon conf)) of
            Inl err \<Rightarrow> Panic ''Failed to connect to LND gRPC''
          | Inr client \<Rightarrow> Ret (Inr (client, no_subs)))"

definition modify :: "('w, 's) cell \<Rightarrow> ('s \<Rightarrow> 's) \<Rightarrow> 'w \<Rightarrow> 'w" where
  "modify cl f w = cell_put cl (f (cell_get cl w)) w"

text \<open>A message that \<^verbatim>\<open>listenPeerEvents\<close> receives, with whether it is of the type \<^verbatim>\<open>PEER_ONLINE\<close>.\<close>

definition peer_event :: "'w LndClient \<Rightarrow> bool \<Rightarrow> string \<Rightarrow> 'w \<Rightarrow> 'w option" where
  "peer_event c online pubkey w =
     (if \<not> online then Some w
      else map_option (\<lambda>t. modify (ll_subs c) (sb_peersubs_update (\<lambda>_. t)) w)
             (table_signal pubkey (sb_peersubs (cell_get (ll_subs c) w))))"

definition extractChannelPoint :: "libs \<Rightarrow> lnrpc_ChannelPoint \<Rightarrow> error + string" where
  "extractChannelPoint L cp =
     (if cp_FundingTxidStr cp = []
      then (case chainhash_SetBytes L (cp_FundingTxidBytes cp) of
              Inl err \<Rightarrow> Inl err
            | Inr h \<Rightarrow> Inr (outpoint_String L \<lparr>op_hash = h, op_index = cp_OutputIndex cp\<rparr>))
      else Inr (cp_FundingTxidStr cp @ '':'' @ format_uint (cp_OutputIndex cp)))"

text \<open>A message that \<^verbatim>\<open>listenChannelEvents\<close> receives, with whether its type is \<^verbatim>\<open>ACTIVE_CHANNEL\<close>.\<close>

definition channel_event :: "libs \<Rightarrow> 'w LndClient \<Rightarrow> bool \<Rightarrow> lnrpc_ChannelPoint \<Rightarrow> 'w \<Rightarrow> 'w option" where
  "channel_event L c active cp w =
     (if \<not> active then Some w
      else case extractChannelPoint L cp of
        Inl err \<Rightarrow> Some w
      | Inr point \<Rightarrow>
          map_option (\<lambda>t. modify (ll_subs c) (sb_chansubs_update (\<lambda>_. t)) w)
            (table_signal point (sb_chansubs (cell_get (ll_subs c) w))))"

text \<open>
  The listeners: what a subscription and its stream return, one after the other, until the context is
  done. After an error they wait a second and subscribe again. A listener that waits for
  room in a subscriber's channel is \<open>None\<close>.
\<close>

datatype 'm recv = SubscribeError | RecvError | Msg 'm

fun listen :: "('m \<Rightarrow> 'w \<Rightarrow> 'w option) \<Rightarrow> 'm recv list \<Rightarrow> 'w \<Rightarrow> 'w option" where
  "listen handle [] w = Some w"
| "listen handle (Msg m # rs) w = Option.bind (handle m w) (listen handle rs)"
| "listen handle (SubscribeError # rs) w = listen handle rs w"
| "listen handle (RecvError # rs) w = listen handle rs w"

definition listenPeerEvents :: "'w LndClient \<Rightarrow> (bool \<times> string) recv list \<Rightarrow> 'w \<Rightarrow> 'w option" where
  "listenPeerEvents c = listen (\<lambda>(online, pubkey). peer_event c online pubkey)"

definition listenChannelEvents :: "libs \<Rightarrow> 'w LndClient \<Rightarrow> (bool \<times> lnrpc_ChannelPoint) recv list \<Rightarrow> 'w \<Rightarrow> 'w option" where
  "listenChannelEvents L c = listen (\<lambda>(active, cp). channel_event L c active cp)"

definition lnd_GetInfo :: "'w LndClient \<Rightarrow> 'w \<Rightarrow> (error + GetInfoResult) \<times> 'w" where
  "lnd_GetInfo c w =
     (case lr_GetInfo (ll_client c) w of
        (Inl err, w1) \<Rightarrow> (Inl err, w1)
      | (Inr (alias, pubkey), w1) \<Rightarrow> (Inr \<lparr>Alias = alias, Pubkey = pubkey\<rparr>, w1))"

definition lnd_IsConnected :: "'w LndClient \<Rightarrow> bytes \<Rightarrow> 'w \<Rightarrow> (error + bool) \<times> 'w" where
  "lnd_IsConnected c destination w =
     (case lr_GetPeerConnected (ll_client c) (hex_encode destination) w of
        (Inl err, w1) \<Rightarrow> (Inl (Wrap ''LND: client.GetPeerConnected() error'' err), w1)
      | (Inr connected, w1) \<Rightarrow> (Inr connected, w1))"

definition lnd_open_request :: "OpenChannelRequest \<Rightarrow> lnrpc_OpenChannelRequest" where
  "lnd_open_request req =
     \<lparr>no_NodePubkey = oc_Destination req,
      no_LocalFundingAmount = int64_of (oc_CapacitySat req),
      no_PushSat = 0,
      no_Private = True,
      no_Anchors = True,
      no_ZeroConf = True,
      no_BaseFee = (case oc_RoutingPolicy req of None \<Rightarrow> 0 | Some p \<Rightarrow> BaseMsat p),
      no_UseBaseFee = (oc_RoutingPolicy req \<noteq> None),
      no_FeeRate = (case oc_RoutingPolicy req of None \<Rightarrow> 0 | Some p \<Rightarrow> ucast (Ppm p)),
      no_UseFeeRate = (oc_RoutingPolicy req \<noteq> None),
      no_MinConfs = (case oc_MinConfs req of None \<Rightarrow> 0 | Some n \<Rightarrow> n),
      no_SpendUnconfirmed = (oc_MinConfs req = Some 0),
      no_SatPerVbyte = (case oc_FeeSatPerVByte req of None \<Rightarrow> 0 | Some fee \<Rightarrow> word_of_int (fl_ceil fee)),
      no_TargetConf = (if oc_FeeSatPerVByte req \<noteq> None then 0
                       else case oc_TargetConf req of None \<Rightarrow> 0 | Some n \<Rightarrow> n)\<rparr>"

definition lnd_OpenChannel ::
  "libs \<Rightarrow> 'w LndClient \<Rightarrow> OpenChannelRequest \<Rightarrow> 'w \<Rightarrow> (error + outpoint) \<times> 'w" where
  "lnd_OpenChannel L c req w =
     (case lr_OpenChannelSync (ll_client c) (lnd_open_request req) w of
        (Inl err, w1) \<Rightarrow> (Inl (Wrap ''LND: OpenChannel() error'' err), w1)
      | (Inr channelPoint, w1) \<Rightarrow>
          (NewOutPoint L (cp_FundingTxidBytes channelPoint) (cp_OutputIndex channelPoint), w1))"

text \<open>The alias and the confirmed id of a channel.\<close>

definition lnd_mapScids :: "lnrpc_Channel \<Rightarrow> ShortChannelID option \<times> ShortChannelID option" where
  "lnd_mapScids c =
     (if nc_ZeroConf c
      then (Some (nc_ChanId c),
            if nc_ZeroConfConfirmedScid c \<noteq> 0 then Some (nc_ZeroConfConfirmedScid c) else None)
      else (case nc_AliasScids c of [] \<Rightarrow> None | a # _ \<Rightarrow> Some a, Some (nc_ChanId c)))"

text \<open>\<^verbatim>\<open>GetChannel\<close> dereferences the local constraints of the channel it finds.\<close>

definition lnd_GetChannel ::
  "libs \<Rightarrow> 'w LndClient \<Rightarrow> bytes \<Rightarrow> outpoint \<Rightarrow> 'w \<Rightarrow> (error + GetChannelResult) outcome \<times> 'w" where
  "lnd_GetChannel L c peerID channelPoint w =
     (case lr_ListChannels (ll_client c) (Some peerID) w of
        (Inl err, w1) \<Rightarrow> (Ret (Inl err), w1)
      | (Inr channels, w1) \<Rightarrow>
          (case find (\<lambda>ch. nc_ChannelPoint ch = outpoint_String L channelPoint \<and> nc_Active ch) channels of
             None \<Rightarrow> (Ret (Inl (Error ''no channel found'')), w1)
           | Some ch \<Rightarrow>
               (case nc_MinHtlcMsat ch of
                  None \<Rightarrow> (Panic ''nil dereference'', w1)
                | Some msat \<Rightarrow>
                    (Ret (Inr \<lparr>gc_AliasScid = fst (lnd_mapScids ch), gc_ConfirmedScid = snd (lnd_mapScids ch),
                               gc_HtlcMinimumMsat = msat\<rparr>), w1))))"

text \<open>The pending channels are those being opened and those waiting to be closed.\<close>

definition getWaitingCloseChannels ::
  "'w LndClient \<Rightarrow> string \<Rightarrow> 'w \<Rightarrow> (error + lnrpc_PendingChannel list) \<times> 'w" where
  "getWaitingCloseChannels c nodeID w =
     (case lr_PendingChannels (ll_client c) w of
        (Inl err, w1) \<Rightarrow> (Inl err, w1)
      | (Inr (opening, closing), w1) \<Rightarrow> (Inr (filter (\<lambda>p. np_RemoteNodePub p = nodeID) closing), w1))"

definition lnd_GetClosedChannels ::
  "'w LndClient \<Rightarrow> string \<Rightarrow> (string \<rightharpoonup> u64) \<Rightarrow> 'w \<Rightarrow> (error + (string \<rightharpoonup> u64)) \<times> 'w" where
  "lnd_GetClosedChannels c nodeID channelPoints w =
     (if channelPoints = Map.empty then (Inr Map.empty, w)
      else case getWaitingCloseChannels c nodeID w of
        (Inl err, w1) \<Rightarrow> (Inl err, w1)
      | (Inr waiting, w1) \<Rightarrow>
          (Inr (\<lambda>cp. if cp \<in> np_ChannelPoint ` set waiting then None else channelPoints cp), w1))"

text \<open>\<^verbatim>\<open>hex.DecodeString\<close> returns with its error the bytes before it, which \<^verbatim>\<open>GetPeerId\<close> uses.\<close>

definition lnd_GetPeerId ::
  "'w LndClient \<Rightarrow> ShortChannelID \<Rightarrow> 'w \<Rightarrow> (error + bytes option) \<times> 'w" where
  "lnd_GetPeerId c scid w =
     (case lr_GetPeerIdByScid (ll_client c) scid w of
        (Inl err, w1) \<Rightarrow> (Inl err, w1)
      | (Inr peerId, w1) \<Rightarrow> (Inr (if peerId = [] then None else Some (hex_decode_prefix peerId)), w1))"

definition await_result :: "bool \<times> 'w \<Rightarrow> error option \<times> 'w" where
  "await_result r = (case r of (signalled, w) \<Rightarrow> (if signalled then None else Some (Error ''deadline exceeded''), w))"

definition subscribe_peer :: "string \<Rightarrow> subs \<Rightarrow> subs" where
  "subscribe_peer key s =
     s\<lparr>sb_index := sb_index s + 1, sb_peersubs := table_insert key (sb_index s) (sb_peersubs s)\<rparr>"

definition lnd_WaitOnline :: "'w LndClient \<Rightarrow> bytes \<Rightarrow> time \<Rightarrow> 'w \<Rightarrow> error option \<times> 'w" where
  "lnd_WaitOnline c peerID deadline w =
     (let pkStr = hex_encode peerID;
          subid = sb_index (cell_get (ll_subs c) w);
          w1 = modify (ll_subs c) (subscribe_peer pkStr) w
      in case (case lnd_IsConnected c peerID w1 of
                 (Inl err, w2) \<Rightarrow> (Some err, w2)
               | (Inr connected, w2) \<Rightarrow>
                   if connected then (None, w2)
                   else await_result (ll_await c [(pkStr, subid)] deadline w2)) of
           (r, w3) \<Rightarrow> (r, modify (ll_subs c) (sb_peersubs_update (table_delete pkStr subid)) w3))"

text \<open>
  \<^verbatim>\<open>WaitChannelActive\<close> has a subscription for every channel of the peer; the deferred calls end them
  in reverse order.
\<close>

fun subscribe_channels :: "string list \<Rightarrow> subs \<Rightarrow> (string \<times> u64) list \<times> subs" where
  "subscribe_channels [] s = ([], s)"
| "subscribe_channels (outpoint # outpoints) s =
     (let subid = sb_index s;
          s1 = s\<lparr>sb_index := subid + 1, sb_chansubs := table_insert outpoint subid (sb_chansubs s)\<rparr>
      in case subscribe_channels outpoints s1 of (ids, s2) \<Rightarrow> ((outpoint, subid) # ids, s2))"

definition unsubscribe_channels :: "(string \<times> u64) list \<Rightarrow> subs \<Rightarrow> subs" where
  "unsubscribe_channels ids s = foldr (\<lambda>(outpoint, subid). sb_chansubs_update (table_delete outpoint subid)) ids s"

definition lnd_WaitChannelActive :: "'w LndClient \<Rightarrow> bytes \<Rightarrow> time \<Rightarrow> 'w \<Rightarrow> error option \<times> 'w" where
  "lnd_WaitChannelActive c peerID deadline w =
     (case lr_ListChannels (ll_client c) (Some peerID) w of
        (Inl err, w1) \<Rightarrow> (Some err, w1)
      | (Inr chans, w1) \<Rightarrow>
          if chans = [] then (Some (Error ''no channels with peer''), w1)
          else if list_ex nc_Active chans then (None, w1)
          else
            (let outpoints = map nc_ChannelPoint chans;
                 ids = fst (subscribe_channels outpoints (cell_get (ll_subs c) w1));
                 w2 = modify (ll_subs c) (\<lambda>s. snd (subscribe_channels outpoints s)) w1
             in case (case lr_ListChannels (ll_client c) (Some peerID) w2 of
                        (Inl err, w3) \<Rightarrow> (Some err, w3)
                      | (Inr chans', w3) \<Rightarrow>
                          if list_ex nc_Active chans' then (None, w3)
                          else await_result (ll_await c ids deadline w3)) of
                  (r, w4) \<Rightarrow> (r, modify (ll_subs c) (unsubscribe_channels ids) w4)))"

text \<open>
  A channel with a public key that is no hex leaves nil in its place, a pending one is left out. A
  channel point that does not parse is nil.
\<close>

definition opt_outpoint :: "libs \<Rightarrow> string \<Rightarrow> outpoint option" where
  "opt_outpoint L s = (case NewOutPointFromString L s of Inl err \<Rightarrow> None | Inr op \<Rightarrow> Some op)"

definition open_channel :: "libs \<Rightarrow> lnrpc_Channel \<Rightarrow> Channel option" where
  "open_channel L c =
     (case hex_decode (nc_RemotePubkey c) of
        None \<Rightarrow> None
      | Some peerId \<Rightarrow>
          Some \<lparr>ch_AliasScid = fst (lnd_mapScids c), ch_ConfirmedScid = snd (lnd_mapScids c),
                ch_ChannelPoint = opt_outpoint L (nc_ChannelPoint c), ch_PeerId = peerId\<rparr>)"

definition pending_channel :: "libs \<Rightarrow> lnrpc_PendingChannel \<Rightarrow> Channel option" where
  "pending_channel L c =
     (case hex_decode (np_RemoteNodePub c) of
        None \<Rightarrow> None
      | Some peerId \<Rightarrow>
          Some \<lparr>ch_AliasScid = None, ch_ConfirmedScid = None,
                ch_ChannelPoint = opt_outpoint L (np_ChannelPoint c), ch_PeerId = peerId\<rparr>)"

definition lnd_ListChannels ::
  "libs \<Rightarrow> 'w LndClient \<Rightarrow> 'w \<Rightarrow> (error + Channel option list) \<times> 'w" where
  "lnd_ListChannels L c w =
     (case lr_ListChannels (ll_client c) None w of
        (Inl err, w1) \<Rightarrow> (Inl err, w1)
      | (Inr channels, w1) \<Rightarrow>
          (case lr_PendingChannels (ll_client c) w1 of
             (Inl err, w2) \<Rightarrow> (Inl err, w2)
           | (Inr (opening, closing), w2) \<Rightarrow>
               (Inr (map (open_channel L) channels @ map Some (List.map_filter (pending_channel L) opening)), w2)))"

section \<open>Subscriptions end with the call\<close>

text \<open>The signals waiting for a subscriber.\<close>

definition pending :: "sub_table \<Rightarrow> string \<Rightarrow> u64 \<Rightarrow> nat option" where
  "pending t key subid = (case map_of t key of None \<Rightarrow> None | Some subs \<Rightarrow> map_of subs subid)"

lemma pending_insert:
  "pending (table_insert key subid t) = (pending t)(key := (pending t key)(subid \<mapsto> 0))"
  by (auto simp: fun_eq_iff pending_def table_insert_def update_conv' split: option.split)

lemma pending_delete:
  "pending (table_delete key subid t) = (pending t)(key := (pending t key)(subid := None))"
proof -
  have "map_of subs i = (if i = subid then map_of subs i else None)"
    if "AList.delete subid subs = []" for subs :: "(u64 \<times> nat) list" and i
    using that delete_conv' [of subid subs] by (metis fun_upd_other map_of.simps(1))
  then show ?thesis
    by (auto simp: fun_eq_iff pending_def table_delete_def update_conv' delete_conv' Let_def
             split: option.split) metis+
qed

text \<open>The numbers of a table's subscribers are below the counter, until the counter wraps around.\<close>

definition subs_ok :: "subs \<Rightarrow> bool" where
  "subs_ok s \<longleftrightarrow>
     (\<forall>key subid. pending (sb_chansubs s) key subid \<noteq> None \<longrightarrow> subid < sb_index s) \<and>
     (\<forall>key subid. pending (sb_peersubs s) key subid \<noteq> None \<longrightarrow> subid < sb_index s)"

lemma subs_ok_new: "subs_ok no_subs"
  by (simp add: subs_ok_def no_subs_def pending_def)

lemma subs_ok_fresh:
  assumes "subs_ok s"
  shows "pending (sb_peersubs s) key (sb_index s) = None"
    and "pending (sb_chansubs s) key (sb_index s) = None"
  using assms unfolding subs_ok_def by (metis order.irrefl)+

lemma unsubscribe_peer:
  assumes "subs_ok s"
  shows "pending (table_delete key (sb_index s) (sb_peersubs (subscribe_peer key s))) = pending (sb_peersubs s)"
  using subs_ok_fresh(1) [OF assms, of key]
  by (auto simp: subscribe_peer_def pending_insert pending_delete fun_eq_iff)

lemma unsubscribe_subscribe_channels:
  assumes "subs_ok s" and "unat (sb_index s) + length keys < 2 ^ 64"
  shows "pending (sb_chansubs (unsubscribe_channels (fst (subscribe_channels keys s))
                                (snd (subscribe_channels keys s)))) = pending (sb_chansubs s)"
  using assms
proof (induction keys arbitrary: s)
  case Nil
  then show ?case by (simp add: unsubscribe_channels_def)
next
  case (Cons key keys)
  let ?s1 = "s\<lparr>sb_index := sb_index s + 1, sb_chansubs := table_insert key (sb_index s) (sb_chansubs s)\<rparr>"
  have i: "unat (sb_index s + 1) = unat (sb_index s) + 1"
    using Cons.prems(2) by (simp add: unat_word_ariths(1))
  have ok: "subs_ok ?s1"
    using Cons.prems(1) i unfolding subs_ok_def
    by (auto simp: pending_insert word_less_nat_alt less_Suc_eq split: if_splits)
  have "pending (sb_chansubs (unsubscribe_channels (fst (subscribe_channels keys ?s1))
          (snd (subscribe_channels keys ?s1)))) = pending (sb_chansubs ?s1)"
    using Cons.prems(2) i by (intro Cons.IH [OF ok]) simp
  then show ?case
    using subs_ok_fresh(2) [OF Cons.prems(1), of key]
    by (auto simp: unsubscribe_channels_def pending_insert pending_delete fun_eq_iff Let_def
             split: prod.split)
qed

text \<open>Without subscribers left for a key, its entry is gone.\<close>

lemma table_delete_last: "map_of t key = Some [(subid, n)] \<Longrightarrow> map_of (table_delete key subid t) key = None"
  by (simp add: table_delete_def delete_conv')

section \<open>Events reach the subscribers\<close>

lemma pending_signal:
  assumes "table_signal key t = Some t'"
  shows "pending t' = (\<lambda>k subid. if k = key then map_option Suc (pending t k subid) else pending t k subid)"
proof -
  have "map_of (map (map_prod id Suc) subs) subid = map_option Suc (map_of subs subid)"
    for subs :: "(u64 \<times> nat) list" and subid
    by (induction subs) auto
  then show ?thesis
    using assms by (auto simp: table_signal_def pending_def fun_eq_iff update_conv' split: option.splits if_splits)
qed

lemma table_signal_blocks:
  "table_signal key t = None \<longleftrightarrow>
     (\<exists>subs. map_of t key = Some subs \<and> (\<exists>(subid, n) \<in> set subs. n \<ge> signal_capacity))"
  by (auto simp: table_signal_def list_ex_iff split: option.split)

text \<open>
  Unless the listener blocks, a subscriber of a peer gets one signal for each time the peer comes
  online, however often the stream is interrupted.
\<close>

lemma listenPeerEvents_signals:
  assumes "cell_laws (ll_subs c)" and "listenPeerEvents c rs w = Some w'"
  shows "pending (sb_peersubs (cell_get (ll_subs c) w')) key subid =
    map_option (\<lambda>n. n + length (filter (\<lambda>r. r = Msg (True, key)) rs)) (pending (sb_peersubs (cell_get (ll_subs c) w)) key subid)"
  using assms(2)
proof (induction rs arbitrary: w)
  case Nil
  then show ?case by (simp add: listenPeerEvents_def option.map_ident)
next
  case (Cons r rs)
  note get_put = cell_laws.get_put [OF assms(1)]
  show ?case
  proof (cases r)
    case (Msg m)
    obtain online pk where m: "m = (online, pk)" by (cases m)
    obtain w1 where w1: "peer_event c online pk w = Some w1" "listenPeerEvents c rs w1 = Some w'"
      using Cons.prems Msg m by (auto simp: listenPeerEvents_def bind_eq_Some_conv)
    have "pending (sb_peersubs (cell_get (ll_subs c) w1)) key subid =
        (if online \<and> pk = key then map_option Suc else id) (pending (sb_peersubs (cell_get (ll_subs c) w)) key subid)"
      using w1(1) by (auto simp: peer_event_def modify_def get_put pending_signal split: if_splits)
    with Cons.IH [OF w1(2)] Msg m show ?thesis
      by (auto simp: option.map_comp comp_def)
  qed (use Cons in \<open>simp_all add: listenPeerEvents_def\<close>)
qed

section \<open>The goroutines of a wait for a channel\<close>

text \<open>
  \<^verbatim>\<open>WaitChannelActive\<close> starts a goroutine per channel of the peer, which forwards the signals of that
  channel's subscription to the channel \<^verbatim>\<open>signal\<close> of the call. Of a goroutine the state has the signals
  waiting in its subscription and whether it holds one that it has taken from there and not sent on.
  When the call returns, for whatever reason, its deferred calls end the subscriptions and close
  \<^verbatim>\<open>signal\<close>. A send on a closed channel panics.
\<close>

record wait_state =
  ws_forwarders :: "(nat \<times> bool) list"
  ws_signal :: nat
  ws_closed :: bool
  ws_panicked :: bool

definition start_wait :: "nat \<Rightarrow> wait_state" where
  "start_wait n =
     \<lparr>ws_forwarders = replicate n (0, False), ws_signal = 0, ws_closed = False, ws_panicked = False\<rparr>"

inductive wait_step :: "wait_state \<Rightarrow> wait_state \<Rightarrow> bool" where
  active: "\<not> ws_panicked s \<Longrightarrow> \<not> ws_closed s \<Longrightarrow> i < length (ws_forwarders s) \<Longrightarrow>
    ws_forwarders s ! i = (n, held) \<Longrightarrow> n < signal_capacity \<Longrightarrow>
    wait_step s (s\<lparr>ws_forwarders := (ws_forwarders s)[i := (Suc n, held)]\<rparr>)"
| receive: "\<not> ws_panicked s \<Longrightarrow> i < length (ws_forwarders s) \<Longrightarrow> ws_forwarders s ! i = (Suc n, False) \<Longrightarrow>
    wait_step s (s\<lparr>ws_forwarders := (ws_forwarders s)[i := (n, True)]\<rparr>)"
| send: "\<not> ws_panicked s \<Longrightarrow> \<not> ws_closed s \<Longrightarrow> i < length (ws_forwarders s) \<Longrightarrow>
    ws_forwarders s ! i = (n, True) \<Longrightarrow> ws_signal s < signal_capacity \<Longrightarrow>
    wait_step s (s\<lparr>ws_forwarders := (ws_forwarders s)[i := (n, False)], ws_signal := Suc (ws_signal s)\<rparr>)"
| send_closed: "\<not> ws_panicked s \<Longrightarrow> ws_closed s \<Longrightarrow> i < length (ws_forwarders s) \<Longrightarrow>
    ws_forwarders s ! i = (n, True) \<Longrightarrow> wait_step s (s\<lparr>ws_panicked := True\<rparr>)"
| signalled: "\<not> ws_panicked s \<Longrightarrow> \<not> ws_closed s \<Longrightarrow> ws_signal s = Suc n \<Longrightarrow>
    wait_step s (s\<lparr>ws_signal := n, ws_closed := True\<rparr>)"
| timeout: "\<not> ws_panicked s \<Longrightarrow> \<not> ws_closed s \<Longrightarrow> wait_step s (s\<lparr>ws_closed := True\<rparr>)"

inductive_cases wait_stepE: "wait_step s s'"

text \<open>A signal that a goroutine has still to send on.\<close>

definition in_flight :: "wait_state \<Rightarrow> bool" where
  "in_flight s \<longleftrightarrow> list_ex (\<lambda>(n, held). n > 0 \<or> held) (ws_forwarders s)"

lemma not_in_flight_nth:
  "\<not> in_flight s \<Longrightarrow> i < length (ws_forwarders s) \<Longrightarrow> ws_forwarders s ! i = (0, False)"
  unfolding in_flight_def list_ex_iff by (metis (mono_tags, lifting) case_prod_beta nth_mem old.prod.exhaust
      fst_conv gr0I snd_conv)

lemma quiet_stays:
  assumes "wait_step\<^sup>*\<^sup>* s s'" and "ws_closed s" and "\<not> in_flight s"
  shows "s' = s"
  using assms
proof (induction rule: rtranclp_induct)
  case (step s1 s2)
  then have "wait_step s s2" by simp
  then show ?case
    using step.prems not_in_flight_nth [OF step.prems(2)] by (auto elim!: wait_stepE)
qed simp

lemma in_flight_panics:
  assumes "\<not> ws_panicked s" and "ws_closed s" and "in_flight s"
  shows "\<exists>s'. wait_step\<^sup>*\<^sup>* s s' \<and> ws_panicked s'"
proof -
  obtain i n held where i: "i < length (ws_forwarders s)" "ws_forwarders s ! i = (n, held)" "n > 0 \<or> held"
    using assms(3) unfolding in_flight_def list_ex_iff by (auto simp: in_set_conv_nth)
  show ?thesis
  proof (cases held)
    case True
    with i assms have "wait_step s (s\<lparr>ws_panicked := True\<rparr>)"
      by (auto intro: wait_step.send_closed)
    then show ?thesis by (intro exI [of _ "s\<lparr>ws_panicked := True\<rparr>"]) auto
  next
    case False
    with i obtain m where m: "n = Suc m" by (auto simp: gr0_conv_Suc)
    let ?s1 = "s\<lparr>ws_forwarders := (ws_forwarders s)[i := (m, True)]\<rparr>"
    have "wait_step s ?s1"
      using i m False assms by (auto intro: wait_step.receive)
    moreover have "wait_step ?s1 (?s1\<lparr>ws_panicked := True\<rparr>)"
      using i assms by (intro wait_step.send_closed [where i = i and n = m]) auto
    ultimately have "wait_step\<^sup>*\<^sup>* s (?s1\<lparr>ws_panicked := True\<rparr>)"
      by (meson converse_rtranclp_into_rtranclp r_into_rtranclp)
    then show ?thesis by (intro exI [of _ "?s1\<lparr>ws_panicked := True\<rparr>"]) simp
  qed
qed

lemma wait_panic_iff:
  assumes "\<not> ws_panicked s" and "ws_closed s"
  shows "(\<exists>s'. wait_step\<^sup>*\<^sup>* s s' \<and> ws_panicked s') \<longleftrightarrow> in_flight s"
  using assms in_flight_panics quiet_stays by blast

text \<open>
  C37: Before \<^verbatim>\<open>WaitChannelActive\<close> returns none of its goroutines panics. But it may return while one of
  them has a signal to send on: for a peer with at least one channel, an activation just before the
  deadline, or before the second listing shows it, makes the process crash.
\<close>

theorem WaitChannelActive_panics:
  "(wait_step\<^sup>*\<^sup>* (start_wait n) s \<and> \<not> ws_closed s \<longrightarrow> \<not> ws_panicked s) \<and>
   (\<exists>s'. wait_step\<^sup>*\<^sup>* (start_wait (Suc n)) s' \<and> ws_panicked s')"
proof
  have "ws_panicked s \<longrightarrow> ws_closed s" if "wait_step\<^sup>*\<^sup>* (start_wait n) s"
    using that by (induction rule: rtranclp_induct) (auto simp: start_wait_def elim: wait_stepE)
  then show "wait_step\<^sup>*\<^sup>* (start_wait n) s \<and> \<not> ws_closed s \<longrightarrow> \<not> ws_panicked s" by blast
next
  let ?s1 = "(start_wait (Suc n))\<lparr>ws_forwarders := (1, False) # replicate n (0, False)\<rparr>"
  let ?s2 = "?s1\<lparr>ws_closed := True\<rparr>"
  have "wait_step (start_wait (Suc n)) ?s1"
    using wait_step.active [of "start_wait (Suc n)" 0 0 False]
    by (simp add: start_wait_def signal_capacity_def)
  moreover have "wait_step ?s1 ?s2"
    by (rule wait_step.timeout) (simp_all add: start_wait_def)
  moreover have "\<exists>s'. wait_step\<^sup>*\<^sup>* ?s2 s' \<and> ws_panicked s'"
    by (rule in_flight_panics) (simp_all add: start_wait_def in_flight_def)
  ultimately show "\<exists>s'. wait_step\<^sup>*\<^sup>* (start_wait (Suc n)) s' \<and> ws_panicked s'"
    by (meson converse_rtranclp_into_rtranclp)
qed

theorem WaitChannelActive_panics_witness:
  "\<not> ws_panicked (start_wait 1) \<and> (\<exists>s'. wait_step\<^sup>*\<^sup>* (start_wait 1) s' \<and> ws_panicked s')"
  using WaitChannelActive_panics [of 1 "start_wait 1"] WaitChannelActive_panics [of 0]
  by (simp add: start_wait_def)

end
