(* ===== verification/Revenue_Store.thy ===== *)
theory Revenue_Store
  imports History Intercept_Store Go_Sort
begin

text \<open>
  The queries of the revenue tool (\<^verbatim>\<open>postgresql/revenue_cli_store.go\<close>) over the history tables and the
  payments. The joins are list comprehensions over the tables' rows. \<^verbatim>\<open>forwarding_history\<close> as the
  migrations create it has no columns for the peers, which two of the queries select; the schema of
  the database is therefore an argument of them.
\<close>

section \<open>The database\<close>

record revenue_tables =
  rt_history :: history_tables
  rt_payments :: "payment_row list"

text \<open>The tables of the history store as a part of them.\<close>

definition history_cell :: "('w, revenue_tables) cell \<Rightarrow> ('w, history_tables) cell" where
  "history_cell c =
     \<lparr>cell_get = (\<lambda>w. rt_history (cell_get c w)),
      cell_put = (\<lambda>t w. cell_put c ((cell_get c w)\<lparr>rt_history := t\<rparr>) w)\<rparr>"

text \<open>The columns \<^verbatim>\<open>peerid_in\<close> and \<^verbatim>\<open>peerid_out\<close>, and \<^verbatim>\<open>peerid\<close>, of \<^verbatim>\<open>forwarding_history\<close>, if it has them.\<close>

record schema =
  peer_columns :: "(forward_row \<Rightarrow> bytes \<times> bytes) option"
  peer_column :: "(forward_row \<Rightarrow> bytes) option"

definition migrated_schema :: schema where
  "migrated_schema = \<lparr>peer_columns = None, peer_column = None\<rparr>"

text \<open>
  \<open>api_key\<close> is the member \<^verbatim>\<open>apiKeyHash\<close> of a tag, as the database's JSON functions give it. A tag
  that is not JSON fails the statement, as any other failure of the pool does.
\<close>

record 'w RevenueCliStore =
  rs_pool :: "'w pool"
  rs_table :: "('w, revenue_tables) cell"
  rs_schema :: schema
  rs_api_key :: "string \<Rightarrow> string option"

section \<open>Joins\<close>

definition on_channel :: "bytes \<Rightarrow> int \<Rightarrow> channel_row \<Rightarrow> bool" where
  "on_channel nodeid chanid c \<longleftrightarrow>
     cr_nodeid c = nodeid \<and> (cr_confirmed_scid c = Some chanid \<or> cr_alias_scid c = Some chanid)"

definition channels_in :: "history_tables \<Rightarrow> forward_row \<Rightarrow> channel_row list" where
  "channels_in t h = filter (on_channel (fr_nodeid h) (fr_chanid_in h)) (tbl_channels t)"

definition channels_out :: "history_tables \<Rightarrow> forward_row \<Rightarrow> channel_row list" where
  "channels_out t h = filter (on_channel (fr_nodeid h) (fr_chanid_out h)) (tbl_channels t)"

definition resolved_between :: "int \<Rightarrow> int \<Rightarrow> history_tables \<Rightarrow> forward_row list" where
  "resolved_between start end t =
     filter (\<lambda>h. start \<le> fr_resolved_time h \<and> fr_resolved_time h < end) (tbl_forwards t)"

text \<open>A left join has a row with NULLs where nothing joins.\<close>

definition left_join :: "'r list \<Rightarrow> 'r option list" where
  "left_join rs = (if rs = [] then [None] else map Some rs)"

text \<open>The rows of \<^verbatim>\<open>tokenChannelsCte\<close>: a token, which may be NULL, with its channel.\<close>

definition token_channels ::
  "(string \<Rightarrow> string option) \<Rightarrow> revenue_tables \<Rightarrow> (string option \<times> channel_row) list" where
  "token_channels api_key t =
     [(api_key tag, c).
        p \<leftarrow> rt_payments t, c \<leftarrow> tbl_channels (rt_history t),
        tag \<leftarrow> (case py_tag p of None \<Rightarrow> [] | Some tag \<Rightarrow> [tag]),
        py_funding_tx_id p = Some (cr_funding_tx_id c) \<and>
        py_funding_tx_outnum p = Some (cr_funding_tx_outnum c)]"

section \<open>Arguments and results\<close>

text \<open>The driver refuses an unsigned argument above the largest bigint.\<close>

definition bigint_arg :: "u64 \<Rightarrow> error + int" where
  "bigint_arg x =
     (if uint x < 2 ^ 63 then Inr (uint x)
      else Inl (Error ''is greater than maximum value for int8''))"

definition scan_uint32 :: "int \<Rightarrow> error + u32" where
  "scan_uint32 x =
     (if 0 \<le> x \<and> x < 2 ^ 32 then Inr (word_of_int x) else Inl (Error ''is out of range for uint32''))"

text \<open>A query with the time range as arguments.\<close>

definition range_query ::
  "'w RevenueCliStore \<Rightarrow> u64 \<Rightarrow> u64 \<Rightarrow> (int \<Rightarrow> int \<Rightarrow> revenue_tables \<Rightarrow> 'r) \<Rightarrow> 'w \<Rightarrow> (error + 'r) \<times> 'w" where
  "range_query s startNs endNs f w =
     (case (bigint_arg startNs, bigint_arg endNs) of
        (Inr start, Inr end) \<Rightarrow> query (rs_pool s) (rs_table s) (f start end) w
      | (Inl err, _) \<Rightarrow> (Inl err, w)
      | (_, Inl err) \<Rightarrow> (Inl err, w))"

fun scan_rows :: "('r \<Rightarrow> error + 'a) \<Rightarrow> 'r list \<Rightarrow> error + 'a list" where
  "scan_rows f [] = Inr []"
| "scan_rows f (r # rs) =
     (case f r of
        Inl err \<Rightarrow> Inl err
      | Inr x \<Rightarrow> (case scan_rows f rs of Inl err \<Rightarrow> Inl err | Inr xs \<Rightarrow> Inr (x # xs)))"

definition funding_outpoint :: "libs \<Rightarrow> bytes \<Rightarrow> u32 \<Rightarrow> error + outpoint" where
  "funding_outpoint L txid outnum =
     (case NewOutPoint L txid outnum of Inl err \<Rightarrow> Inl (Wrap ''invalid funding outpoint'' err) | Inr op \<Rightarrow> Inr op)"

section \<open>postgresql/revenue\_cli\_store.go\<close>

record ExportedForward =
  ef_Token :: string
  ef_NodeId :: bytes
  ef_ExternalNodeId :: bytes
  ef_ResolvedTime :: time
  ef_Direction :: string
  ef_AmountMsat :: u64

record rev_OpenChannelHtlc =
  ro_Nodeid :: bytes
  ro_Peerid :: bytes
  ro_ForwardAmountMsat :: u64
  ro_OriginalAmountMsat :: u64
  ro_IncomingAmountMsat :: u64
  ro_ChannelPoint :: outpoint

record RevenueForward =
  rf_Identifier :: string
  rf_Nodeid :: bytes
  rf_PeeridIn :: bytes
  rf_PeeridOut :: bytes
  rf_AmtMsatIn :: u64
  rf_AmtMsatOut :: u64
  rf_ResolvedTime :: u64
  rf_ChannelPointIn :: outpoint
  rf_ChannelPointOut :: outpoint
  rf_SendToken :: "string option"
  rf_ReceiveToken :: "string option"
  rf_OpenChannelHtlc :: "rev_OpenChannelHtlc option"

definition unassociated :: "int \<Rightarrow> int \<Rightarrow> revenue_tables \<Rightarrow> nat" where
  "unassociated start end t =
     length [(h, c_in, c_out).
       h \<leftarrow> resolved_between start end (rt_history t),
       c_in \<leftarrow> left_join (channels_in (rt_history t) h),
       c_out \<leftarrow> left_join (channels_out (rt_history t) h),
       c_in = None \<or> c_out = None]"

definition sanityCheck :: "'w RevenueCliStore \<Rightarrow> u64 \<Rightarrow> u64 \<Rightarrow> 'w \<Rightarrow> error option \<times> 'w" where
  "sanityCheck s startNs endNs w =
     (case range_query s startNs endNs unassociated w of
        (Inl err, w1) \<Rightarrow> (Some (Wrap ''failed to do sanity check'' err), w1)
      | (Inr n, w1) \<Rightarrow>
          (if n > 0 then Some (Error ''local forwards could not be associated to their channels'') else None, w1))"

text \<open>The rows of the export: direction, token, time and amount.\<close>

definition export_rows ::
  "(string \<Rightarrow> string option) \<Rightarrow> bytes \<Rightarrow> bytes \<Rightarrow> int \<Rightarrow> int \<Rightarrow> revenue_tables \<Rightarrow>
     (string \<times> string option \<times> int \<times> int) list" where
  "export_rows api_key node externalNode start end t =
     (let hs = filter (\<lambda>h. fr_nodeid h = node) (resolved_between start end (rt_history t));
          tcs = token_channels api_key t
      in go_sort (\<lambda>(_, _, time, _) (_, _, time', _). time > time')
           ([(''send'', token, fr_resolved_time h, fr_amt_msat_out h).
               h \<leftarrow> hs, c_out \<leftarrow> channels_out (rt_history t) h, (token, c_in) \<leftarrow> tcs,
               on_channel (fr_nodeid h) (fr_chanid_in h) c_in \<and> cr_peerid c_out = externalNode] @
            [(''receive'', token, fr_resolved_time h, fr_amt_msat_in h).
               h \<leftarrow> hs, (token, c_out) \<leftarrow> tcs, c_in \<leftarrow> channels_in (rt_history t) h,
               on_channel (fr_nodeid h) (fr_chanid_out h) c_out \<and> cr_peerid c_in = externalNode]))"

definition scan_export ::
  "bytes \<Rightarrow> bytes \<Rightarrow> string \<times> string option \<times> int \<times> int \<Rightarrow> error + ExportedForward" where
  "scan_export node externalNode row =
     (case row of
        (direction, None, _) \<Rightarrow> Inl (Wrap ''rows.Scan err'' (Error ''cannot scan NULL into *string''))
      | (direction, Some token, resolved_time, amt_msat) \<Rightarrow>
          Inr \<lparr>ef_Token = token, ef_NodeId = node, ef_ExternalNodeId = externalNode,
               ef_ResolvedTime = resolved_time, ef_Direction = direction,
               ef_AmountMsat = uint64_of amt_msat\<rparr>)"

text \<open>Before the rows are read the number of affected rows is zero, so that the result starts empty.\<close>

definition ExportTokenForwardsForExternalNode ::
  "'w RevenueCliStore \<Rightarrow> u64 \<Rightarrow> u64 \<Rightarrow> bytes \<Rightarrow> bytes \<Rightarrow> 'w \<Rightarrow> (error + ExportedForward list) \<times> 'w" where
  "ExportTokenForwardsForExternalNode s startNs endNs node externalNode w =
     (case sanityCheck s startNs endNs w of
        (Some err, w1) \<Rightarrow> (Inl err, w1)
      | (None, w1) \<Rightarrow>
          (case range_query s startNs endNs (export_rows (rs_api_key s) node externalNode) w1 of
             (Inl err, w2) \<Rightarrow> (Inl err, w2)
           | (Inr rows, w2) \<Rightarrow> (scan_rows (scan_export node externalNode) rows, w2)))"

text \<open>A query that selects a column the table does not have fails.\<close>

definition no_column :: error where
  "no_column = Error ''column does not exist''"

definition htlc_lt :: "htlc_row \<Rightarrow> htlc_row \<Rightarrow> bool" where
  "htlc_lt a b \<longleftrightarrow>
     hr_nodeid a < hr_nodeid b \<or> hr_nodeid a = hr_nodeid b \<and>
     (hr_peerid a < hr_peerid b \<or> hr_peerid a = hr_peerid b \<and>
     (hr_funding_tx_id a < hr_funding_tx_id b \<or> hr_funding_tx_id a = hr_funding_tx_id b \<and>
      hr_funding_tx_outnum a < hr_funding_tx_outnum b))"

text \<open>The inner query is distinct in the columns that are joined, so that an htlc has one row at most.\<close>

definition htlc_rows :: "(forward_row \<Rightarrow> bytes) \<Rightarrow> int \<Rightarrow> int \<Rightarrow> revenue_tables \<Rightarrow> htlc_row list" where
  "htlc_rows peerid start end t =
     (let a = [(fr_nodeid h, peerid h, cr_funding_tx_id c, cr_funding_tx_outnum c).
                 h \<leftarrow> resolved_between start end (rt_history t), c \<leftarrow> channels_out (rt_history t) h]
      in go_sort htlc_lt
           (filter (\<lambda>r. (hr_nodeid r, hr_peerid r, hr_funding_tx_id r, hr_funding_tx_outnum r) \<in> set a)
              (tbl_htlcs (rt_history t))))"

definition scan_htlc :: "libs \<Rightarrow> htlc_row \<Rightarrow> error + rev_OpenChannelHtlc" where
  "scan_htlc L r =
     (case scan_uint32 (hr_funding_tx_outnum r) of
        Inl err \<Rightarrow> Inl (Wrap ''failed to scan open channel htlc'' err)
      | Inr outnum \<Rightarrow>
          (case funding_outpoint L (hr_funding_tx_id r) outnum of
             Inl err \<Rightarrow> Inl err
           | Inr cp \<Rightarrow>
               Inr \<lparr>ro_Nodeid = hr_nodeid r, ro_Peerid = hr_peerid r,
                    ro_ForwardAmountMsat = uint64_of (hr_forward_amt_msat r),
                    ro_OriginalAmountMsat = uint64_of (hr_original_amt_msat r),
                    ro_IncomingAmountMsat = uint64_of (hr_incoming_amt_msat r),
                    ro_ChannelPoint = cp\<rparr>))"

definition GetOpenChannelHtlcs ::
  "libs \<Rightarrow> 'w RevenueCliStore \<Rightarrow> u64 \<Rightarrow> u64 \<Rightarrow> 'w \<Rightarrow> (error + rev_OpenChannelHtlc list) \<times> 'w" where
  "GetOpenChannelHtlcs L s startNs endNs w =
     (case peer_column (rs_schema s) of
        None \<Rightarrow> (Inl (Wrap ''failed to query open channel htlcs'' no_column), snd (rs_pool s w))
      | Some peerid \<Rightarrow>
          (case range_query s startNs endNs (htlc_rows peerid) w of
             (Inl err, w1) \<Rightarrow> (Inl (Wrap ''failed to query open channel htlcs'' err), w1)
           | (Inr rows, w1) \<Rightarrow> (scan_rows (scan_htlc L) rows, w1)))"

text \<open>The rows of \<^verbatim>\<open>GetForwards\<close>: a forward with its two channels and their tokens.\<close>

type_synonym our_forward = "forward_row \<times> channel_row \<times> channel_row \<times> string option \<times> string option"

definition tokens_of :: "(string option \<times> channel_row) list \<Rightarrow> channel_row \<Rightarrow> string option list" where
  "tokens_of tcs c =
     map (\<lambda>x. Option.bind x fst)
       (left_join (filter (\<lambda>(token, tc). channel_key tc = channel_key c) tcs))"

definition forward_lt :: "(forward_row \<Rightarrow> bytes \<times> bytes) \<Rightarrow> our_forward \<Rightarrow> our_forward \<Rightarrow> bool" where
  "forward_lt peers a b \<longleftrightarrow>
     (case (a, b) of
        ((h, _), (k, _)) \<Rightarrow>
          fr_nodeid h < fr_nodeid k \<or> fr_nodeid h = fr_nodeid k \<and>
          (fst (peers h) < fst (peers k) \<or> fst (peers h) = fst (peers k) \<and>
          (fr_amt_msat_in h < fr_amt_msat_in k \<or> fr_amt_msat_in h = fr_amt_msat_in k \<and>
           fr_resolved_time h < fr_resolved_time k)))"

definition our_forwards ::
  "(string \<Rightarrow> string option) \<Rightarrow> (forward_row \<Rightarrow> bytes \<times> bytes) \<Rightarrow> int \<Rightarrow> int \<Rightarrow> revenue_tables \<Rightarrow>
     our_forward list" where
  "our_forwards api_key peers start end t =
     (let tcs = token_channels api_key t
      in go_sort (forward_lt peers)
           [(h, c_in, c_out, send_token, receive_token).
              h \<leftarrow> resolved_between start end (rt_history t),
              c_in \<leftarrow> channels_in (rt_history t) h, c_out \<leftarrow> channels_out (rt_history t) h,
              send_token \<leftarrow> tokens_of tcs c_in, receive_token \<leftarrow> tokens_of tcs c_out])"

definition scan_forward ::
  "libs \<Rightarrow> (forward_row \<Rightarrow> bytes \<times> bytes) \<Rightarrow> our_forward \<Rightarrow> error + RevenueForward" where
  "scan_forward L peers row =
     (case row of
        (h, c_in, c_out, send_token, receive_token) \<Rightarrow>
          (case (scan_uint32 (cr_funding_tx_outnum c_in), scan_uint32 (cr_funding_tx_outnum c_out)) of
             (Inl err, _) \<Rightarrow> Inl (Wrap ''failed to scan our forward'' err)
           | (_, Inl err) \<Rightarrow> Inl (Wrap ''failed to scan our forward'' err)
           | (Inr outnum_in, Inr outnum_out) \<Rightarrow>
               (case (funding_outpoint L (cr_funding_tx_id c_in) outnum_in,
                      funding_outpoint L (cr_funding_tx_id c_out) outnum_out) of
                  (Inl err, _) \<Rightarrow> Inl err
                | (_, Inl err) \<Rightarrow> Inl err
                | (Inr cpIn, Inr cpOut) \<Rightarrow>
                    Inr \<lparr>rf_Identifier = fr_identifier h, rf_Nodeid = fr_nodeid h,
                         rf_PeeridIn = fst (peers h), rf_PeeridOut = snd (peers h),
                         rf_AmtMsatIn = uint64_of (fr_amt_msat_in h), rf_AmtMsatOut = uint64_of (fr_amt_msat_out h),
                         rf_ResolvedTime = uint64_of (fr_resolved_time h),
                         rf_ChannelPointIn = cpIn, rf_ChannelPointOut = cpOut,
                         rf_SendToken = send_token, rf_ReceiveToken = receive_token,
                         rf_OpenChannelHtlc = None\<rparr>)))"

definition GetForwards ::
  "libs \<Rightarrow> 'w RevenueCliStore \<Rightarrow> u64 \<Rightarrow> u64 \<Rightarrow> 'w \<Rightarrow> (error + RevenueForward list) \<times> 'w" where
  "GetForwards L s startNs endNs w =
     (case sanityCheck s startNs endNs w of
        (Some err, w1) \<Rightarrow> (Inl err, w1)
      | (None, w1) \<Rightarrow>
          (case peer_columns (rs_schema s) of
             None \<Rightarrow> (Inl (Wrap ''failed to query our forwards'' no_column), snd (rs_pool s w1))
           | Some peers \<Rightarrow>
               (case range_query s startNs endNs (our_forwards (rs_api_key s) peers) w1 of
                  (Inl err, w2) \<Rightarrow> (Inl (Wrap ''failed to query our forwards'' err), w2)
                | (Inr rows, w2) \<Rightarrow> (scan_rows (scan_forward L peers) rows, w2))))"

section \<open>No forward is lost\<close>

lemma history_db_cell:
  "database c pool now \<Longrightarrow> history_db (history_cell c) pool now"
  by (simp add: history_db_def database_def database_axioms_def cell_laws_def history_cell_def)

lemma empty_iff_no_member: "xs = [] \<longleftrightarrow> (\<forall>x. x \<notin> set xs)"
  by (cases xs) auto

lemma left_join_None: "None \<in> set (left_join rs) \<longleftrightarrow> rs = []"
  by (auto simp: left_join_def)

lemma left_join_nonempty: "set (left_join rs) \<noteq> {}"
  by (simp add: left_join_def)

text \<open>The sanity check passes exactly if both channels of every forward in the range are known.\<close>

lemma unassociated_0:
  "unassociated start end t = 0 \<longleftrightarrow>
     (\<forall>h \<in> set (resolved_between start end (rt_history t)).
        channels_in (rt_history t) h \<noteq> [] \<and> channels_out (rt_history t) h \<noteq> [])"
proof -
  have "unassociated start end t = 0 \<longleftrightarrow>
      (\<forall>h \<in> set (resolved_between start end (rt_history t)).
        \<forall>c_in \<in> set (left_join (channels_in (rt_history t) h)).
        \<forall>c_out \<in> set (left_join (channels_out (rt_history t) h)). c_in \<noteq> None \<and> c_out \<noteq> None)"
    unfolding unassociated_def length_0_conv concat_eq_Nil_conv set_map ball_simps(9) by simp
  also have "\<dots> \<longleftrightarrow> (\<forall>h \<in> set (resolved_between start end (rt_history t)).
        None \<notin> set (left_join (channels_in (rt_history t) h)) \<and>
        None \<notin> set (left_join (channels_out (rt_history t) h)))"
    using left_join_nonempty by (metis (no_types, lifting) all_not_in_conv)
  finally show ?thesis by (simp add: left_join_None)
qed

lemma tokens_of_nonempty: "tokens_of tcs c \<noteq> []"
  by (simp add: tokens_of_def left_join_def)

lemma our_forwards_complete:
  assumes "unassociated start end t = 0" and "h \<in> set (resolved_between start end (rt_history t))"
  shows "h \<in> fst ` set (our_forwards api_key peers start end t)"
proof -
  obtain c_in c_out where "c_in \<in> set (channels_in (rt_history t) h)" "c_out \<in> set (channels_out (rt_history t) h)"
    using assms unfolding unassociated_0 empty_iff_no_member by blast
  moreover obtain x y where "x \<in> set (tokens_of (token_channels api_key t) c_in)"
    "y \<in> set (tokens_of (token_channels api_key t) c_out)"
    using tokens_of_nonempty unfolding empty_iff_no_member by blast
  ultimately have "(h, c_in, c_out, x, y) \<in> set (our_forwards api_key peers start end t)"
    using assms(2) by (simp add: our_forwards_def Let_def) blast
  then show ?thesis by (rule image_eqI [rotated]) simp
qed

lemma our_forwards_sound:
  "row \<in> set (our_forwards api_key peers start end t) \<Longrightarrow>
     fst row \<in> set (resolved_between start end (rt_history t))"
  by (auto simp: our_forwards_def Let_def)

section \<open>The order of the forwards\<close>

interpretation forward_order: strict_weak_order "forward_lt peers"
  by unfold_locales (auto simp: forward_lt_def)

interpretation htlc_order: strict_weak_order htlc_lt
  by unfold_locales (auto simp: htlc_lt_def)

lemma scan_rows_map:
  "scan_rows f rs = Inr xs \<Longrightarrow> list_all2 (\<lambda>r x. f r = Inr x) rs xs"
  by (induction rs arbitrary: xs) (auto split: sum.splits)

lemma scan_forward_fields:
  "scan_forward L peers (h, rest) = Inr f \<Longrightarrow>
     rf_Nodeid f = fr_nodeid h \<and> rf_PeeridIn f = fst (peers h) \<and> rf_PeeridOut f = snd (peers h) \<and>
     rf_AmtMsatIn f = uint64_of (fr_amt_msat_in h) \<and> rf_AmtMsatOut f = uint64_of (fr_amt_msat_out h) \<and>
     rf_OpenChannelHtlc f = None"
  by (cases rest) (auto simp: scan_forward_def split: sum.splits prod.splits)

end
