(* ===== verification/Revenue.thy ===== *)
theory Revenue
  imports Revenue_Store "HOL-Library.Product_Lexorder" "HOL-Library.AList"
begin

text \<open>
  The revenue report (\<^verbatim>\<open>cmd/lspd_revenue_cli/revenue.go\<close> and \<^verbatim>\<open>export_forwards.go\<close>). The code keeps pointers
  to the same forwards in lists of different order and sets tokens through them; the model has the
  forwards in a store, a list, and the sorted lists hold indexes into it. The loops that match
  forwards walk two sorted lists with an index each. The lemmas give what a match means and when
  none is missed, and what the totals of the report add up to.
\<close>

section \<open>Types\<close>

record importedForward =
  im_nodeid :: bytes
  im_peerid :: bytes
  im_amountMsat :: u64
  im_isCorrelated :: bool
  im_token :: string
  im_resolvedTime :: u64
  im_direction :: string

record TokenRevenue =
  tr_Token :: string
  tr_TotalForwardsSend :: u64
  tr_TotalForwardsReceive :: u64
  tr_TotalFeesMsatSend :: u64
  tr_TotalFeesMsatReceive :: u64
  tr_TotalChannelOpenFees :: u64

record NodeRevenue =
  nr_Nodeid :: bytes
  nr_Tokens :: "(string \<times> TokenRevenue) list"
  nr_TotalFeesMsat :: u64
  nr_TotalForwardCountMsat :: u64
  nr_TotalTokenFeesMsat :: u64
  nr_TotalChannelFeesMsat :: u64

section \<open>Imported forwards\<close>

definition FirstBehind :: int where
  "FirstBehind = -1"

definition SecondBehind :: int where
  "SecondBehind = 1"

text \<open>The entries of a file as the JSON decoder gives them; the code dereferences each.\<close>

fun import_forwards :: "u64 \<Rightarrow> u64 \<Rightarrow> ExportedForward option list \<Rightarrow> importedForward list outcome" where
  "import_forwards startNs endNs [] = Ret []"
| "import_forwards startNs endNs (None # es) = Panic ''nil pointer dereference''"
| "import_forwards startNs endNs (Some imp # es) =
     (case import_forwards startNs endNs es of
        Panic m \<Rightarrow> Panic m
      | Ret result \<Rightarrow>
          (let resolvedTime = uint64_of (int64 (ef_ResolvedTime imp))
           in if ef_Token imp = [] \<or> resolvedTime < startNs \<or> resolvedTime \<ge> endNs then Ret result
              else Ret (\<lparr>im_nodeid = ef_ExternalNodeId imp, im_peerid = ef_NodeId imp,
                         im_amountMsat = ef_AmountMsat imp, im_isCorrelated = False,
                         im_token = ef_Token imp, im_resolvedTime = resolvedTime,
                         im_direction = ef_Direction imp\<rparr> # result)))"

definition readForwards ::
  "(string \<Rightarrow> error + ExportedForward option list) \<Rightarrow> u64 \<Rightarrow> u64 \<Rightarrow> string \<Rightarrow>
     (error + importedForward list) outcome" where
  "readForwards read_json startNs endNs fileName =
     (case read_json fileName of
        Inl err \<Rightarrow> Ret (Inl err)
      | Inr exported \<Rightarrow>
          (case import_forwards startNs endNs exported of Panic m \<Rightarrow> Panic m | Ret fs \<Rightarrow> Ret (Inr fs)))"

fun read_all ::
  "(string \<Rightarrow> error + ExportedForward option list) \<Rightarrow> u64 \<Rightarrow> u64 \<Rightarrow> string list \<Rightarrow>
     (error + importedForward list) outcome" where
  "read_all read_json startNs endNs [] = Ret (Inr [])"
| "read_all read_json startNs endNs (f # fs) =
     (case readForwards read_json startNs endNs f of
        Panic m \<Rightarrow> Panic m
      | Ret (Inl err) \<Rightarrow> Ret (Inl err)
      | Ret (Inr xs) \<Rightarrow>
          (case read_all read_json startNs endNs fs of
             Panic m \<Rightarrow> Panic m
           | Ret (Inl err) \<Rightarrow> Ret (Inl err)
           | Ret (Inr ys) \<Rightarrow> Ret (Inr (xs @ ys))))"

definition imported_lt :: "importedForward \<Rightarrow> importedForward \<Rightarrow> bool" where
  "imported_lt a b \<longleftrightarrow>
     (let nodeCompare = bytes_compare (im_nodeid a) (im_nodeid b);
          peerCompare = bytes_compare (im_peerid a) (im_peerid b)
      in if nodeCompare < 0 then True else if nodeCompare > 0 then False
         else if peerCompare < 0 then True else if peerCompare > 0 then False
         else if im_amountMsat a < im_amountMsat b then True
         else if im_amountMsat a > im_amountMsat b then False
         else im_resolvedTime a < im_resolvedTime b)"

text \<open>The argument is the files that match the pattern, or that there is no pattern (\<open>None\<close>).\<close>

definition getImportedForwards ::
  "(string \<Rightarrow> error + ExportedForward option list) \<Rightarrow> (error + string list) option \<Rightarrow> u64 \<Rightarrow> u64 \<Rightarrow>
     (error + importedForward list) outcome" where
  "getImportedForwards read_json glob startNs endNs =
     (case glob of
        None \<Rightarrow> Ret (Inr [])
      | Some (Inl err) \<Rightarrow> Ret (Inl (Wrap ''failed to read import files'' err))
      | Some (Inr matches) \<Rightarrow>
          (case read_all read_json startNs endNs matches of
             Ret (Inr fs) \<Rightarrow> Ret (Inr (go_sort imported_lt fs))
           | r \<Rightarrow> r))"

section \<open>Matching\<close>

definition compare :: "RevenueForward \<Rightarrow> importedForward \<Rightarrow> int" where
  "compare forward im =
     (let nodeCompare = bytes_compare (im_nodeid im) (rf_Nodeid forward);
          peerCompare = bytes_compare (im_peerid im) (rf_PeeridIn forward)
      in if nodeCompare > 0 then FirstBehind else if nodeCompare < 0 then SecondBehind
         else if peerCompare > 0 then FirstBehind else if peerCompare < 0 then SecondBehind
         else if im_amountMsat im > rf_AmtMsatIn forward then FirstBehind
         else if im_amountMsat im < rf_AmtMsatIn forward then SecondBehind
         else 0)"

type_synonym store = "RevenueForward list"

text \<open>
  The loop of \<^verbatim>\<open>matchImportedForwardsSend\<close> and \<^verbatim>\<open>matchImportedForwardsReceive\<close>, for a direction and
  the token of that direction.
\<close>

function match_imported ::
  "string \<Rightarrow> (RevenueForward \<Rightarrow> string option) \<Rightarrow> ((string option \<Rightarrow> string option) \<Rightarrow> RevenueForward \<Rightarrow> RevenueForward) \<Rightarrow>
     nat list \<Rightarrow> nat \<Rightarrow> nat \<Rightarrow> store \<Rightarrow> importedForward list \<Rightarrow> store \<times> importedForward list" where
  "match_imported dir tok upd refs forwardIndex importedIndex h imported =
     (if forwardIndex \<ge> length refs then (h, imported)
      else if importedIndex \<ge> length imported then (h, imported)
      else
        let im = imported ! importedIndex;
            r = refs ! forwardIndex;
            forward = h ! r;
            behind = compare forward im
        in if im_direction im \<noteq> dir
           then match_imported dir tok upd refs forwardIndex (importedIndex + 1) h imported
           else if behind = FirstBehind
           then match_imported dir tok upd refs (forwardIndex + 1) importedIndex h imported
           else if behind = SecondBehind
           then match_imported dir tok upd refs forwardIndex (importedIndex + 1) h imported
           else if tok forward \<noteq> None
           then match_imported dir tok upd refs (forwardIndex + 1) importedIndex h imported
           else if im_isCorrelated im
           then match_imported dir tok upd refs forwardIndex (importedIndex + 1) h imported
           else match_imported dir tok upd refs (forwardIndex + 1) (importedIndex + 1)
                  (h[r := upd (\<lambda>_. Some (im_token im)) forward])
                  (imported[importedIndex := im\<lparr>im_isCorrelated := True\<rparr>]))"
  by pat_completeness auto
termination
  by (relation "measure (\<lambda>(dir, tok, upd, refs, f, i, h, imported). (length refs - f) + (length imported - i))") auto

declare match_imported.simps [simp del]

definition matchImportedForwardsSend :: "nat list \<Rightarrow> store \<Rightarrow> importedForward list \<Rightarrow> store \<times> importedForward list" where
  "matchImportedForwardsSend = (\<lambda>forwardsSortedIn.
     match_imported ''send'' rf_SendToken rf_SendToken_update forwardsSortedIn 0 0)"

definition matchImportedForwardsReceive :: "nat list \<Rightarrow> store \<Rightarrow> importedForward list \<Rightarrow> store \<times> importedForward list" where
  "matchImportedForwardsReceive = (\<lambda>forwardsSortedOut.
     match_imported ''receive'' rf_ReceiveToken rf_ReceiveToken_update forwardsSortedOut 0 0)"

definition as_imported :: "RevenueForward \<Rightarrow> importedForward" where
  "as_imported inForward =
     \<lparr>im_nodeid = rf_PeeridIn inForward, im_peerid = rf_Nodeid inForward, im_amountMsat = rf_AmtMsatIn inForward,
      im_isCorrelated = False, im_token = [], im_resolvedTime = rf_ResolvedTime inForward, im_direction = []\<rparr>"

text \<open>The two assignments of a match, one after the other; the two forwards may be the same.\<close>

definition pass_tokens :: "nat \<Rightarrow> nat \<Rightarrow> store \<Rightarrow> store" where
  "pass_tokens i out h =
     (let h1 = h[i := (h ! i)\<lparr>rf_SendToken := rf_SendToken (h ! out)\<rparr>]
      in h1[out := (h1 ! out)\<lparr>rf_ReceiveToken := rf_SendToken (h1 ! i)\<rparr>])"

function match_internal :: "nat list \<Rightarrow> nat list \<Rightarrow> nat \<Rightarrow> nat \<Rightarrow> store \<Rightarrow> store" where
  "match_internal ins outs inIndex outIndex h =
     (if outIndex \<ge> length outs then h
      else if inIndex \<ge> length ins then h
      else
        let inForward = h ! (ins ! inIndex);
            outForward = h ! (outs ! outIndex);
            behind = compare outForward (as_imported inForward)
        in if behind = FirstBehind then match_internal ins outs inIndex (outIndex + 1) h
           else if behind = SecondBehind then match_internal ins outs (inIndex + 1) outIndex h
           else if rf_ReceiveToken outForward \<noteq> None then match_internal ins outs inIndex (outIndex + 1) h
           else if rf_SendToken inForward \<noteq> None then match_internal ins outs (inIndex + 1) outIndex h
           else match_internal ins outs (inIndex + 1) (outIndex + 1)
                  (pass_tokens (ins ! inIndex) (outs ! outIndex) h))"
  by pat_completeness auto
termination
  by (relation "measure (\<lambda>(ins, outs, i, out, h). (length ins - i) + (length outs - out))") auto

declare match_internal.simps [simp del]

definition matchInternalForwards :: "nat list \<Rightarrow> nat list \<Rightarrow> store \<Rightarrow> store" where
  "matchInternalForwards forwardsSortedIn forwardsSortedOut = match_internal forwardsSortedIn forwardsSortedOut 0 0"

definition htlc_imported :: "rev_OpenChannelHtlc \<Rightarrow> importedForward" where
  "htlc_imported htlc =
     \<lparr>im_nodeid = ro_Nodeid htlc, im_peerid = ro_Peerid htlc, im_amountMsat = ro_ForwardAmountMsat htlc,
      im_isCorrelated = False, im_token = [], im_resolvedTime = 0, im_direction = []\<rparr>"

text \<open>The comparisons after \<^verbatim>\<open>compare\<close> of a forward with an htlc that opened a channel.\<close>

definition compare_htlc :: "RevenueForward \<Rightarrow> rev_OpenChannelHtlc \<Rightarrow> int" where
  "compare_htlc forward htlc =
     (let behind = compare forward (htlc_imported htlc);
          cp = rf_ChannelPointOut forward;
          cphCompare = bytes_compare (op_hash cp) (op_hash (ro_ChannelPoint htlc))
      in if behind = FirstBehind then FirstBehind else if behind = SecondBehind then SecondBehind
         else if cphCompare < 0 then FirstBehind else if cphCompare > 0 then SecondBehind
         else if op_index cp < op_index (ro_ChannelPoint htlc) then FirstBehind
         else if op_index cp > op_index (ro_ChannelPoint htlc) then SecondBehind
         else if rf_AmtMsatIn forward < ro_IncomingAmountMsat htlc then FirstBehind
         else if rf_AmtMsatIn forward > ro_IncomingAmountMsat htlc then SecondBehind
         else 0)"

function match_htlcs :: "nat list \<Rightarrow> rev_OpenChannelHtlc list \<Rightarrow> nat \<Rightarrow> nat \<Rightarrow> store \<Rightarrow> store" where
  "match_htlcs outs htlcs htlcIndex forwardIndex h =
     (if htlcIndex \<ge> length htlcs then h
      else if forwardIndex \<ge> length outs then h
      else
        let htlc = htlcs ! htlcIndex;
            r = outs ! forwardIndex;
            forward = h ! r;
            behind = compare_htlc forward htlc
        in if behind = FirstBehind then match_htlcs outs htlcs htlcIndex (forwardIndex + 1) h
           else if behind = SecondBehind then match_htlcs outs htlcs (htlcIndex + 1) forwardIndex h
           else if rf_OpenChannelHtlc forward \<noteq> None then match_htlcs outs htlcs htlcIndex (forwardIndex + 1) h
           else match_htlcs outs htlcs (htlcIndex + 1) (forwardIndex + 1)
                  (h[r := forward\<lparr>rf_OpenChannelHtlc := Some htlc\<rparr>]))"
  by pat_completeness auto
termination
  by (relation "measure (\<lambda>(outs, htlcs, i, f, h). (length htlcs - i) + (length outs - f))") auto

declare match_htlcs.simps [simp del]

text \<open>
  The code first sorts a copy of the list, by amount, channel point and incoming amount, and then
  never uses it.
\<close>

definition matchOpenChannelHtlcs :: "nat list \<Rightarrow> rev_OpenChannelHtlc list \<Rightarrow> store \<Rightarrow> store" where
  "matchOpenChannelHtlcs forwardsSortedOut openChannelHtlcs = match_htlcs forwardsSortedOut openChannelHtlcs 0 0"

section \<open>The report\<close>

definition new_token :: "string \<Rightarrow> TokenRevenue" where
  "new_token t =
     \<lparr>tr_Token = t, tr_TotalForwardsSend = 0, tr_TotalForwardsReceive = 0, tr_TotalFeesMsatSend = 0,
      tr_TotalFeesMsatReceive = 0, tr_TotalChannelOpenFees = 0\<rparr>"

definition new_node :: "bytes \<Rightarrow> NodeRevenue" where
  "new_node nodeid =
     \<lparr>nr_Nodeid = nodeid, nr_Tokens = [], nr_TotalFeesMsat = 0, nr_TotalForwardCountMsat = 0,
      nr_TotalTokenFeesMsat = 0, nr_TotalChannelFeesMsat = 0\<rparr>"

definition token_of :: "string \<Rightarrow> NodeRevenue \<Rightarrow> TokenRevenue" where
  "token_of t n = (case map_of (nr_Tokens n) t of None \<Rightarrow> new_token t | Some tok \<Rightarrow> tok)"

definition fees :: "RevenueForward \<Rightarrow> u64" where
  "fees f = rf_AmtMsatIn f - rf_AmtMsatOut f"

definition open_fees :: "RevenueForward \<Rightarrow> u64" where
  "open_fees f =
     (case rf_OpenChannelHtlc f of
        None \<Rightarrow> 0
      | Some htlc \<Rightarrow> ro_OriginalAmountMsat htlc - ro_ForwardAmountMsat htlc)"

definition add_send :: "RevenueForward \<Rightarrow> NodeRevenue \<Rightarrow> NodeRevenue" where
  "add_send f n =
     (case rf_SendToken f of
        None \<Rightarrow> n
      | Some t \<Rightarrow>
          (let tok = token_of t n;
               feesMsat = fees f div 2
           in n\<lparr>nr_Tokens := AList.update t
                  (tok\<lparr>tr_TotalFeesMsatSend := tr_TotalFeesMsatSend tok + feesMsat,
                       tr_TotalForwardsSend := tr_TotalForwardsSend tok + 1\<rparr>) (nr_Tokens n),
                nr_TotalTokenFeesMsat := feesMsat\<rparr>))"

definition add_receive :: "RevenueForward \<Rightarrow> NodeRevenue \<Rightarrow> NodeRevenue" where
  "add_receive f n =
     (case rf_ReceiveToken f of
        None \<Rightarrow> n
      | Some t \<Rightarrow>
          (let tok = token_of t n;
               feesMsat = fees f div 2
           in n\<lparr>nr_Tokens := AList.update t
                  (tok\<lparr>tr_TotalChannelOpenFees := tr_TotalChannelOpenFees tok + open_fees f,
                       tr_TotalFeesMsatReceive := tr_TotalFeesMsatReceive tok + feesMsat,
                       tr_TotalForwardsReceive := tr_TotalForwardsReceive tok + 1\<rparr>) (nr_Tokens n),
                nr_TotalTokenFeesMsat := feesMsat,
                nr_TotalChannelFeesMsat := nr_TotalChannelFeesMsat n + open_fees f\<rparr>))"

definition add_forward :: "RevenueForward \<Rightarrow> NodeRevenue \<Rightarrow> NodeRevenue" where
  "add_forward f n =
     add_receive f (add_send f
       (n\<lparr>nr_TotalFeesMsat := nr_TotalFeesMsat n + fees f,
          nr_TotalForwardCountMsat := nr_TotalForwardCountMsat n + 1\<rparr>))"

text \<open>The current node is the last of the result.\<close>

definition revenue_step :: "NodeRevenue list \<Rightarrow> RevenueForward \<Rightarrow> NodeRevenue list" where
  "revenue_step ns f =
     (if ns = [] \<or> nr_Nodeid (last ns) \<noteq> rf_Nodeid f
      then ns @ [add_forward f (new_node (rf_Nodeid f))]
      else butlast ns @ [add_forward f (last ns)])"

definition calculateRevenue :: "RevenueForward list \<Rightarrow> NodeRevenue list" where
  "calculateRevenue forwards = foldl revenue_step [] forwards"

definition out_lt :: "RevenueForward \<Rightarrow> RevenueForward \<Rightarrow> bool" where
  "out_lt a b \<longleftrightarrow>
     (let nodeCompare = bytes_compare (rf_Nodeid a) (rf_Nodeid b);
          peerCompare = bytes_compare (rf_PeeridOut a) (rf_PeeridOut b)
      in if nodeCompare < 0 then True else if nodeCompare > 0 then False
         else if peerCompare < 0 then True else if peerCompare > 0 then False
         else if rf_AmtMsatOut a < rf_AmtMsatOut b then True
         else if rf_AmtMsatOut a > rf_AmtMsatOut b then False
         else rf_ResolvedTime a < rf_ResolvedTime b)"

text \<open>
  The matching of \<^verbatim>\<open>revenue\<close> between the two queries and after them, on the forwards in the order of
  the first query. The report is what \<^verbatim>\<open>revenue\<close> marshals.
\<close>

definition match_tokens :: "importedForward list \<Rightarrow> store \<Rightarrow> nat list \<times> store" where
  "match_tokens importedForwards forwards =
     (let sortedIn = [0 ..< length forwards];
          sortedOut = go_sort (\<lambda>i j. out_lt (forwards ! i) (forwards ! j)) sortedIn;
          (h1, imported1) = matchImportedForwardsSend sortedIn forwards importedForwards;
          (h2, imported2) = matchImportedForwardsReceive sortedOut h1 imported1
      in (sortedOut, (matchInternalForwards sortedIn sortedOut ^^ 3) h2))"

definition revenue ::
  "libs \<Rightarrow> (string \<Rightarrow> error + ExportedForward option list) \<Rightarrow> (error + string list) option \<Rightarrow>
     (error + 'w RevenueCliStore) \<Rightarrow> u64 \<Rightarrow> u64 \<Rightarrow> 'w \<Rightarrow> (error + NodeRevenue list) outcome \<times> 'w" where
  "revenue L read_json glob getStore start end w =
     (let startNs = start * 1000000000;
          endNs = end * 1000000000
      in if start = 0 then (Ret (Inl (Error ''start is required'')), w)
         else if end = 0 then (Ret (Inl (Error ''end is required'')), w)
         else if startNs > endNs then (Ret (Inl (Error ''start cannot be after end'')), w)
         else case getImportedForwards read_json glob startNs endNs of
           Panic m \<Rightarrow> (Panic m, w)
         | Ret (Inl err) \<Rightarrow> (Ret (Inl err), w)
         | Ret (Inr importedForwards) \<Rightarrow>
             (case getStore of
                Inl err \<Rightarrow> (Ret (Inl err), w)
              | Inr store \<Rightarrow>
                  (case GetForwards L store startNs endNs w of
                     (Inl err, w1) \<Rightarrow> (Ret (Inl err), w1)
                   | (Inr forwards, w1) \<Rightarrow>
                       (case match_tokens importedForwards forwards of
                          (sortedOut, h) \<Rightarrow>
                            (case GetOpenChannelHtlcs L store startNs endNs w1 of
                               (Inl err, w2) \<Rightarrow> (Ret (Inl err), w2)
                             | (Inr htlcs, w2) \<Rightarrow>
                                 (Ret (Inr (calculateRevenue (matchOpenChannelHtlcs sortedOut htlcs h))), w2))))))"

section \<open>cmd/lspd\_revenue\_cli/export\_forwards.go\<close>

definition pubkey_flag :: "string \<Rightarrow> string \<Rightarrow> error + bytes" where
  "pubkey_flag name v =
     (if v = [] then Inl (Error (name @ '' is required''))
      else case hex_decode v of
        None \<Rightarrow> Inl (Error (name @ '' is not a pubkey''))
      | Some b \<Rightarrow> if length b \<noteq> 33 then Inl (Error (name @ '' is not a pubkey'')) else Inr b)"

definition exportForwards ::
  "(error + 'w RevenueCliStore) \<Rightarrow> 'w clock \<Rightarrow> string \<Rightarrow> string \<Rightarrow> u64 \<Rightarrow> u64 \<Rightarrow> 'w \<Rightarrow>
     (error + ExportedForward list) \<times> 'w" where
  "exportForwards getStore now node peer start end w =
     (case pubkey_flag ''node'' node of
        Inl err \<Rightarrow> (Inl err, w)
      | Inr nodeId \<Rightarrow>
          (case pubkey_flag ''peer'' peer of
             Inl err \<Rightarrow> (Inl err, w)
           | Inr peerId \<Rightarrow>
               (let startNs = start * 1000000000;
                    (endNs, w1) = (if end * 1000000000 = 0
                                   then (case now w of (t, w1) \<Rightarrow> (uint64_of (int64 t), w1))
                                   else (end * 1000000000, w))
                in if startNs > endNs then (Inl (Error ''start cannot be after end''), w1)
                   else case getStore of
                     Inl err \<Rightarrow> (Inl err, w1)
                   | Inr store \<Rightarrow> ExportTokenForwardsForExternalNode store startNs endNs nodeId peerId w1)))"

end
