(* ===== verification/Revenue_Correct.thy ===== *)
theory Revenue_Correct
  imports Revenue
begin

text \<open>
  What the revenue report gets right: on the sorted lists that the queries and the imports give, the
  match of sent payments misses none and uses every imported forward once, and the totals of the
  report are the sums over each node's forwards. And what it does not: it fails on the tables that the
  migrations create.
\<close>

section \<open>Comparing\<close>

definition in_key :: "RevenueForward \<Rightarrow> bytes \<times> bytes \<times> u64" where
  "in_key f = (rf_Nodeid f, rf_PeeridIn f, rf_AmtMsatIn f)"

definition im_key :: "importedForward \<Rightarrow> bytes \<times> bytes \<times> u64" where
  "im_key im = (im_nodeid im, im_peerid im, im_amountMsat im)"

lemma compare_less: "compare f im = FirstBehind \<longleftrightarrow> in_key f < im_key im"
  by (auto simp: compare_def bytes_compare_def in_key_def im_key_def FirstBehind_def SecondBehind_def Let_def)

lemma compare_greater: "compare f im = SecondBehind \<longleftrightarrow> im_key im < in_key f"
  by (auto simp: compare_def bytes_compare_def in_key_def im_key_def FirstBehind_def SecondBehind_def Let_def)

lemma im_key_correlated [simp]: "im_key (im\<lparr>im_isCorrelated := b\<rparr>) = im_key im"
  by (simp add: im_key_def)

lemma length_filter_update:
  "i < length xs \<Longrightarrow> \<not> P (xs ! i) \<Longrightarrow> P y \<Longrightarrow> length (filter P (xs[i := y])) = Suc (length (filter P xs))"
proof (induction xs arbitrary: i)
  case (Cons x xs)
  then show ?case by (cases i) auto
qed simp

section \<open>Matching imported forwards\<close>

text \<open>
  The forwards \<open>h'\<close> and imports \<open>im'\<close> come from \<open>h\<close> and \<open>im\<close> by giving forwards without a token
  the tokens of imports of the same node, peer and amount, each import once.
\<close>

definition correlates ::
  "string \<Rightarrow> (RevenueForward \<Rightarrow> string option) \<Rightarrow> ((string option \<Rightarrow> string option) \<Rightarrow> RevenueForward \<Rightarrow> RevenueForward) \<Rightarrow>
     store \<Rightarrow> importedForward list \<Rightarrow> store \<Rightarrow> importedForward list \<Rightarrow> bool" where
  "correlates dir tok upd h im h' im' \<longleftrightarrow>
     length h' = length h \<and> length im' = length im \<and>
     (\<forall>r < length h. h' ! r = h ! r \<or> tok (h ! r) = None \<and>
        (\<exists>i < length im. im_direction (im ! i) = dir \<and> \<not> im_isCorrelated (im ! i) \<and> im_isCorrelated (im' ! i) \<and>
           im_key (im ! i) = in_key (h ! r) \<and> h' ! r = upd (\<lambda>_. Some (im_token (im ! i))) (h ! r))) \<and>
     (\<forall>i < length im. im' ! i = im ! i \<or> \<not> im_isCorrelated (im ! i) \<and> im' ! i = (im ! i)\<lparr>im_isCorrelated := True\<rparr>) \<and>
     length (filter (\<lambda>f. tok f \<noteq> None) h') + length (filter im_isCorrelated im) =
     length (filter (\<lambda>f. tok f \<noteq> None) h) + length (filter im_isCorrelated im')"

text \<open>A forward and an import that could still be matched, at positions of the two lists.\<close>

definition matchable ::
  "string \<Rightarrow> (RevenueForward \<Rightarrow> string option) \<Rightarrow> nat list \<Rightarrow> store \<Rightarrow> importedForward list \<Rightarrow> nat \<Rightarrow> nat \<Rightarrow> bool" where
  "matchable dir tok refs h im a b \<longleftrightarrow>
     a < length refs \<and> b < length im \<and> im_direction (im ! b) = dir \<and> \<not> im_isCorrelated (im ! b) \<and>
     tok (h ! (refs ! a)) = None \<and> in_key (h ! (refs ! a)) = im_key (im ! b)"

lemma correlates_refl: "correlates dir tok upd h im h im"
  by (simp add: correlates_def)

lemma match_imported_cases:
  assumes "match_imported dir tok upd refs fi ii h im = res"
  obtains (stop) "fi \<ge> length refs \<or> ii \<ge> length im" "res = (h, im)"
  | (forward) "fi < length refs" "ii < length im"
      "in_key (h ! (refs ! fi)) < im_key (im ! ii) \<or> tok (h ! (refs ! fi)) \<noteq> None"
      "match_imported dir tok upd refs (fi + 1) ii h im = res"
  | (imported) "fi < length refs" "ii < length im"
      "im_direction (im ! ii) \<noteq> dir \<or> im_key (im ! ii) < in_key (h ! (refs ! fi)) \<or> im_isCorrelated (im ! ii)"
      "match_imported dir tok upd refs fi (ii + 1) h im = res"
  | (both) "fi < length refs" "ii < length im" "im_direction (im ! ii) = dir" "\<not> im_isCorrelated (im ! ii)"
      "tok (h ! (refs ! fi)) = None" "im_key (im ! ii) = in_key (h ! (refs ! fi))"
      "match_imported dir tok upd refs (fi + 1) (ii + 1)
         (h[refs ! fi := upd (\<lambda>_. Some (im_token (im ! ii))) (h ! (refs ! fi))])
         (im[ii := (im ! ii)\<lparr>im_isCorrelated := True\<rparr>]) = res"
proof (cases "fi \<ge> length refs \<or> ii \<ge> length im")
  case True
  with assms stop show ?thesis by (subst (asm) match_imported.simps) (auto split: if_splits)
next
  case False
  then have *: "fi < length refs" "ii < length im" by auto
  note E = assms [unfolded match_imported.simps [of dir tok upd refs fi ii h im] Let_def compare_less compare_greater]
  consider "im_direction (im ! ii) \<noteq> dir"
    | "im_direction (im ! ii) = dir" "in_key (h ! (refs ! fi)) < im_key (im ! ii)"
    | "im_direction (im ! ii) = dir" "im_key (im ! ii) < in_key (h ! (refs ! fi))"
    | "im_direction (im ! ii) = dir" "im_key (im ! ii) = in_key (h ! (refs ! fi))"
    by (metis neqE)
  then show ?thesis
  proof cases
    case 1
    with E * imported show ?thesis by simp
  next
    case 2
    with E * forward show ?thesis by simp
  next
    case 3
    with E * imported show ?thesis by (simp add: less_not_sym)
  next
    case 4
    show ?thesis
    proof (cases "tok (h ! (refs ! fi)) = None")
      case False
      with 4 E * forward show ?thesis by simp
    next
      case True
      with 4 E * imported both show ?thesis by (cases "im_isCorrelated (im ! ii)") simp_all
    qed
  qed
qed

locale token_field =
  fixes tok :: "RevenueForward \<Rightarrow> string option"
    and upd :: "(string option \<Rightarrow> string option) \<Rightarrow> RevenueForward \<Rightarrow> RevenueForward"
  assumes tok_upd [simp]: "tok (upd g f) = g (tok f)"
    and key_upd [simp]: "in_key (upd g f) = in_key f"
begin

lemma correlates_step:
  assumes r: "r < length h" and i: "i < length im"
    and new: "tok (h ! r) = None" "\<not> im_isCorrelated (im ! i)" "im_direction (im ! i) = dir"
      "im_key (im ! i) = in_key (h ! r)"
    and rest: "correlates dir tok upd (h[r := upd (\<lambda>_. Some (im_token (im ! i))) (h ! r)])
      (im[i := (im ! i)\<lparr>im_isCorrelated := True\<rparr>]) h' im'"
  shows "correlates dir tok upd h im h' im'"
proof -
  define h1 where "h1 = h[r := upd (\<lambda>_. Some (im_token (im ! i))) (h ! r)]"
  define im1 where "im1 = im[i := (im ! i)\<lparr>im_isCorrelated := True\<rparr>]"
  have len: "length h1 = length h" "length im1 = length im"
    by (simp_all add: h1_def im1_def)
  have R: "correlates dir tok upd h1 im1 h' im'"
    using rest by (simp add: h1_def im1_def)
  have 1: "length h' = length h" "length im' = length im"
    using R len by (simp_all add: correlates_def)
  have 2: "h' ! q = h1 ! q \<or> tok (h1 ! q) = None \<and>
      (\<exists>j < length im. im_direction (im1 ! j) = dir \<and> \<not> im_isCorrelated (im1 ! j) \<and> im_isCorrelated (im' ! j) \<and>
         im_key (im1 ! j) = in_key (h1 ! q) \<and> h' ! q = upd (\<lambda>_. Some (im_token (im1 ! j))) (h1 ! q))"
    if "q < length h" for q
    using R len that unfolding correlates_def by simp
  have 3: "im' ! j = im1 ! j \<or> \<not> im_isCorrelated (im1 ! j) \<and> im' ! j = (im1 ! j)\<lparr>im_isCorrelated := True\<rparr>"
    if "j < length im" for j
    using R len that unfolding correlates_def by simp
  have 4: "length (filter (\<lambda>f. tok f \<noteq> None) h') + length (filter im_isCorrelated im1) =
      length (filter (\<lambda>f. tok f \<noteq> None) h1) + length (filter im_isCorrelated im')"
    using R unfolding correlates_def by simp
  have at: "h1 ! r = upd (\<lambda>_. Some (im_token (im ! i))) (h ! r)" "im1 ! i = (im ! i)\<lparr>im_isCorrelated := True\<rparr>"
    using r i by (simp_all add: h1_def im1_def)
  have off: "q \<noteq> r \<Longrightarrow> h1 ! q = h ! q" "j \<noteq> i \<Longrightarrow> im1 ! j = im ! j" for q j
    by (simp_all add: h1_def im1_def)
  have i': "im' ! i = (im ! i)\<lparr>im_isCorrelated := True\<rparr>"
    using 3 [OF i] at(2) by simp
  have r': "h' ! r = upd (\<lambda>_. Some (im_token (im ! i))) (h ! r)"
    using 2 [OF r] at(1) by simp
  have fs: "h' ! q = h ! q \<or> tok (h ! q) = None \<and>
      (\<exists>j < length im. im_direction (im ! j) = dir \<and> \<not> im_isCorrelated (im ! j) \<and> im_isCorrelated (im' ! j) \<and>
         im_key (im ! j) = in_key (h ! q) \<and> h' ! q = upd (\<lambda>_. Some (im_token (im ! j))) (h ! q))"
    if "q < length h" for q
  proof (cases "q = r")
    case True
    have "im_isCorrelated (im' ! i)" using i' by simp
    with True r' i new show ?thesis by blast
  next
    case False
    have "j \<noteq> i" if "\<not> im_isCorrelated (im1 ! j)" for j
      using that at(2) by auto
    with 2 [OF that] off(1) [OF False] off(2) show ?thesis by metis
  qed
  have ims: "im' ! j = im ! j \<or> \<not> im_isCorrelated (im ! j) \<and> im' ! j = (im ! j)\<lparr>im_isCorrelated := True\<rparr>"
    if "j < length im" for j
    using 3 [OF that] off(2) [of j] i' new(2) by (cases "j = i") simp_all
  have "length (filter (\<lambda>f. tok f \<noteq> None) h1) = Suc (length (filter (\<lambda>f. tok f \<noteq> None) h))"
    using r new(1) unfolding h1_def by (intro length_filter_update) auto
  moreover have "length (filter im_isCorrelated im1) = Suc (length (filter im_isCorrelated im))"
    using i new(2) unfolding im1_def by (intro length_filter_update) auto
  ultimately show ?thesis
    unfolding correlates_def using 1 4 fs ims by simp
qed

lemma match_correlates:
  assumes "match_imported dir tok upd refs fi ii h im = (h', im')" and "\<forall>r \<in> set refs. r < length h"
  shows "correlates dir tok upd h im h' im'"
  using assms
proof (induction "(length refs - fi) + (length im - ii)" arbitrary: fi ii h im rule: less_induct)
  case less
  from less.prems(1) show ?case
  proof (cases rule: match_imported_cases)
    case stop
    then show ?thesis by (simp add: correlates_refl)
  next
    case forward
    then show ?thesis by (intro less.hyps [OF _ forward(4) less.prems(2)]) simp
  next
    case imported
    then show ?thesis by (intro less.hyps [OF _ imported(4) less.prems(2)]) simp
  next
    case both
    show ?thesis
    proof (rule correlates_step [OF _ both(2) both(5) both(4) both(3) both(6)])
      show "refs ! fi < length h" using both(1) less.prems(2) by simp
      show "correlates dir tok upd (h[refs ! fi := upd (\<lambda>_. Some (im_token (im ! ii))) (h ! (refs ! fi))])
          (im[ii := (im ! ii)\<lparr>im_isCorrelated := True\<rparr>]) h' im'"
        using both(1,2) less.prems(2) by (intro less.hyps [OF _ both(7)]) auto
    qed
  qed
qed

text \<open>On lists sorted by the keys the loop leaves nothing that could still be matched.\<close>

lemma match_complete:
  assumes "match_imported dir tok upd refs fi ii h im = (h', im')" and "\<forall>r \<in> set refs. r < length h"
    and "distinct refs" and "sorted (map (\<lambda>r. in_key (h ! r)) refs)" and "sorted (map im_key im)"
    and "\<And>a b. matchable dir tok refs h im a b \<Longrightarrow> fi \<le> a \<and> ii \<le> b"
  shows "\<not> matchable dir tok refs h' im' a b"
  using assms
proof (induction "(length refs - fi) + (length im - ii)" arbitrary: fi ii h im rule: less_induct)
  case less
  note sf = less.prems(4) and si = less.prems(5)
  from less.prems(1) show ?case
  proof (cases rule: match_imported_cases)
    case stop
    then show ?thesis using less.prems(6) [of a b] by (auto simp: matchable_def)
  next
    case forward
    show ?thesis
    proof (rule less.hyps [OF _ forward(4) less.prems(2-5)])
      fix c d
      assume m: "matchable dir tok refs h im c d"
      note le = less.prems(6) [OF m]
      have "c \<noteq> fi"
      proof
        assume "c = fi"
        then have "im_key (im ! d) < im_key (im ! ii)"
          using m forward(3) by (auto simp: matchable_def)
        moreover have "im_key (im ! ii) \<le> im_key (im ! d)"
          using sorted_nth_mono [OF si, of ii d] le m by (simp add: matchable_def)
        ultimately show False by simp
      qed
      with le show "fi + 1 \<le> c \<and> ii \<le> d" by simp
    qed (use forward in simp)
  next
    case imported
    show ?thesis
    proof (rule less.hyps [OF _ imported(4) less.prems(2-5)])
      fix c d
      assume m: "matchable dir tok refs h im c d"
      note le = less.prems(6) [OF m]
      have "d \<noteq> ii"
      proof
        assume "d = ii"
        then have "in_key (h ! (refs ! c)) < in_key (h ! (refs ! fi))"
          using m imported(3) by (auto simp: matchable_def)
        moreover have "in_key (h ! (refs ! fi)) \<le> in_key (h ! (refs ! c))"
          using sorted_nth_mono [OF sf, of fi c] le m by (simp add: matchable_def)
        ultimately show False by simp
      qed
      with le show "fi \<le> c \<and> ii + 1 \<le> d" by simp
    qed (use imported in simp)
  next
    case both
    let ?h1 = "h[refs ! fi := upd (\<lambda>_. Some (im_token (im ! ii))) (h ! (refs ! fi))]"
    let ?im1 = "im[ii := (im ! ii)\<lparr>im_isCorrelated := True\<rparr>]"
    have keys: "in_key (?h1 ! r) = in_key (h ! r)" for r
      by (cases "r = refs ! fi \<and> r < length h") (auto simp: nth_list_update list_update_beyond)
    have ikeys: "map im_key ?im1 = map im_key im"
      by (simp add: map_update im_key_def) (metis (no_types) im_key_def list_update_id map_update)
    show ?thesis
    proof (rule less.hyps [OF _ both(7)])
      show "\<forall>r\<in>set refs. r < length ?h1" "distinct refs" using less.prems(2,3) by auto
      show "sorted (map (\<lambda>r. in_key (?h1 ! r)) refs)" using sf by (simp only: keys)
      show "sorted (map im_key ?im1)" using si by (simp only: ikeys)
      fix c d
      assume m: "matchable dir tok refs ?h1 ?im1 c d"
      have "c \<noteq> fi" using m both(1) less.prems(2) by (auto simp: matchable_def)
      moreover have "d \<noteq> ii" using m both(2) by (auto simp: matchable_def)
      moreover have "refs ! c \<noteq> refs ! fi"
        using calculation(1) m both(1) less.prems(3) by (simp add: matchable_def nth_eq_iff_index_eq)
      ultimately have "matchable dir tok refs h im c d" using m by (simp add: matchable_def)
      from less.prems(6) [OF this] \<open>c \<noteq> fi\<close> \<open>d \<noteq> ii\<close> show "fi + 1 \<le> c \<and> ii + 1 \<le> d" by simp
    qed (use both in simp)
  qed
qed

end

interpretation send: token_field rf_SendToken rf_SendToken_update
  by unfold_locales (simp_all add: in_key_def)

interpretation receive: token_field rf_ReceiveToken rf_ReceiveToken_update
  by unfold_locales (simp_all add: in_key_def)

section \<open>The lists are sorted\<close>

interpretation imported_order: strict_weak_order imported_lt
  by unfold_locales (auto simp: imported_lt_def bytes_compare_def Let_def split: if_splits)

lemma imported_lt_key: "\<not> imported_lt b a \<Longrightarrow> im_key a \<le> im_key b"
  by (auto simp: imported_lt_def bytes_compare_def im_key_def Let_def split: if_splits)

lemma getImportedForwards_sorted:
  assumes "getImportedForwards read_json glob startNs endNs = Ret (Inr im)"
  shows "sorted (map im_key im)"
proof -
  obtain fs where "im = go_sort imported_lt fs"
    using assms by (auto simp: getImportedForwards_def go_sort_def split: option.splits sum.splits outcome.splits)
      (metis foldr.simps(1) id_apply)
  then show ?thesis
    using imported_order.go_sort_sorted [of fs]
    by (auto simp: sorted_map intro: sorted_wrt_mono_rel [OF imported_lt_key])
qed

lemma uint64_of_mono: "0 \<le> x \<Longrightarrow> x \<le> y \<Longrightarrow> y < 2 ^ 63 \<Longrightarrow> uint64_of x \<le> uint64_of y"
  by (simp add: uint64_of_def word_le_def uint_word_of_int)

definition amounts_ok :: "revenue_tables \<Rightarrow> bool" where
  "amounts_ok t \<longleftrightarrow> list_all (\<lambda>h. 0 \<le> fr_amt_msat_in h \<and> fr_amt_msat_in h < 2 ^ 63) (tbl_forwards (rt_history t))"

lemma forward_lt_key:
  assumes "\<not> forward_lt peers b a" "scan_forward L peers a = Inr f" "scan_forward L peers b = Inr g"
    and "0 \<le> fr_amt_msat_in (fst a)" "fr_amt_msat_in (fst b) < 2 ^ 63"
  shows "in_key f \<le> in_key g"
proof -
  obtain h x k y where ab: "a = (h, x)" "b = (k, y)" by (cases a, cases b)
  note f = scan_forward_fields [OF assms(2) [unfolded ab]]
  note g = scan_forward_fields [OF assms(3) [unfolded ab]]
  show ?thesis
    using assms(1,4,5) f g ab uint64_of_mono [of "fr_amt_msat_in h" "fr_amt_msat_in k"]
    by (auto simp: in_key_def forward_lt_def)
qed

lemma our_forwards_keys_sorted:
  assumes "amounts_ok t" and "scan_rows (scan_forward L peers) (our_forwards api_key peers start end t) = Inr fs"
  shows "sorted (map in_key fs)"
proof -
  let ?rows = "our_forwards api_key peers start end t"
  have rel: "list_all2 (\<lambda>r f. scan_forward L peers r = Inr f) ?rows fs"
    using scan_rows_map [OF assms(2)] .
  have ok: "0 \<le> fr_amt_msat_in (fst r) \<and> fr_amt_msat_in (fst r) < 2 ^ 63" if "r \<in> set ?rows" for r
    using our_forwards_sound [OF that] assms(1) by (auto simp: resolved_between_def amounts_ok_def list_all_iff)
  have srt: "sorted_wrt (\<lambda>a b. \<not> forward_lt peers b a) ?rows"
    unfolding our_forwards_def Let_def by (rule forward_order.go_sort_sorted)
  have "in_key (fs ! i) \<le> in_key (fs ! j)" if "i < j" "j < length fs" for i j
  proof (rule forward_lt_key)
    have len: "length ?rows = length fs" using rel by (rule list_all2_lengthD)
    show "\<not> forward_lt peers (?rows ! j) (?rows ! i)"
      using srt that len by (simp add: sorted_wrt_iff_nth_less)
    show "scan_forward L peers (?rows ! i) = Inr (fs ! i)" "scan_forward L peers (?rows ! j) = Inr (fs ! j)"
      using rel that len by (simp_all add: list_all2_conv_all_nth)
    show "0 \<le> fr_amt_msat_in (fst (?rows ! i))" "fr_amt_msat_in (fst (?rows ! j)) < 2 ^ 63"
      using ok that len by simp_all
  qed
  then show ?thesis by (simp add: sorted_map sorted_wrt_iff_nth_less)
qed

section \<open>The queries\<close>

lemma list_all2_member: "list_all2 P xs ys \<Longrightarrow> x \<in> set xs \<Longrightarrow> \<exists>y \<in> set ys. P x y"
  by (induction rule: list_all2_induct) auto

text \<open>A store whose statements run on its tables.\<close>

locale revenue_db = database "rs_table s" "rs_pool s" now
  for s :: "'w RevenueCliStore" and now :: "'w clock"
begin

lemma range_query_result:
  assumes "range_query s startNs endNs f w = (Inr x, w')"
  shows "uint startNs < 2 ^ 63" "uint endNs < 2 ^ 63"
    and "x = f (uint startNs) (uint endNs) (cell_get (rs_table s) w)"
    and "cell_get (rs_table s) w' = cell_get (rs_table s) w"
  using assms query_result [of "f (uint startNs) (uint endNs)" w x w']
    query_table [of "f (uint startNs) (uint endNs)" w "Inr x" w']
  by (auto simp: range_query_def bigint_arg_def split: if_splits)

lemma sanityCheck_passes:
  assumes "sanityCheck s startNs endNs w = (None, w')"
  shows "unassociated (uint startNs) (uint endNs) (cell_get (rs_table s) w) = 0"
    and "cell_get (rs_table s) w' = cell_get (rs_table s) w"
  using assms range_query_result [of startNs endNs unassociated w _ w']
  by (auto simp: sanityCheck_def split: prod.splits sum.splits if_splits)

lemma GetForwards_rows:
  assumes "GetForwards L s startNs endNs w = (Inr fs, w')"
  obtains peers where "peer_columns (rs_schema s) = Some peers"
    and "scan_rows (scan_forward L peers)
      (our_forwards (rs_api_key s) peers (uint startNs) (uint endNs) (cell_get (rs_table s) w)) = Inr fs"
    and "unassociated (uint startNs) (uint endNs) (cell_get (rs_table s) w) = 0"
proof -
  obtain w1 where 1: "sanityCheck s startNs endNs w = (None, w1)"
    using assms by (auto simp: GetForwards_def split: prod.splits option.splits)
  obtain peers rows w2 where 2: "peer_columns (rs_schema s) = Some peers"
    "range_query s startNs endNs (our_forwards (rs_api_key s) peers) w1 = (Inr rows, w2)"
    "scan_rows (scan_forward L peers) rows = Inr fs"
    using assms 1 by (auto simp: GetForwards_def split: prod.splits option.splits sum.splits)
  show ?thesis
    using that [OF 2(1)] 2(3) range_query_result(3) [OF 2(2)] sanityCheck_passes [OF 1] by simp
qed

lemma GetForwards_sorted:
  assumes "GetForwards L s startNs endNs w = (Inr fs, w')" and "amounts_ok (cell_get (rs_table s) w)"
  shows "sorted (map in_key fs)"
  using GetForwards_rows [OF assms(1)] our_forwards_keys_sorted [OF assms(2)] by metis

lemma GetForwards_complete:
  assumes "GetForwards L s startNs endNs w = (Inr fs, w')"
    and "h \<in> set (resolved_between (uint startNs) (uint endNs) (rt_history (cell_get (rs_table s) w)))"
  shows "\<exists>f \<in> set fs. rf_Nodeid f = fr_nodeid h \<and> rf_AmtMsatIn f = uint64_of (fr_amt_msat_in h) \<and>
    rf_AmtMsatOut f = uint64_of (fr_amt_msat_out h)"
proof -
  obtain peers where p: "scan_rows (scan_forward L peers)
      (our_forwards (rs_api_key s) peers (uint startNs) (uint endNs) (cell_get (rs_table s) w)) = Inr fs"
    "unassociated (uint startNs) (uint endNs) (cell_get (rs_table s) w) = 0"
    using GetForwards_rows [OF assms(1)] by blast
  obtain rest where r: "(h, rest) \<in> set (our_forwards (rs_api_key s) peers (uint startNs) (uint endNs) (cell_get (rs_table s) w))"
    using our_forwards_complete [OF p(2) assms(2)] by force
  then obtain f where "f \<in> set fs" "scan_forward L peers (h, rest) = Inr f"
    using list_all2_member [OF scan_rows_map [OF p(1)] r] by blast
  then show ?thesis using scan_forward_fields [of L peers h rest f] by blast
qed

text \<open>A forward that the history store inserts is returned by a query of its time range.\<close>

lemma GetForwards_inserted:
  assumes ins: "InsertForwards (PostgresHistoryStore (rs_pool s) (history_cell (rs_table s))) fs n w = (None, w1)"
    and get: "GetForwards L s startNs endNs w1 = (Inr gs, w2)"
    and f: "f \<in> set fs" "distinct (map fw_Identifier fs)"
    and new: "(n, fw_Identifier f) \<notin> forward_key ` set (tbl_forwards (rt_history (cell_get (rs_table s) w)))"
    and time: "uint startNs \<le> int64 (fw_ResolvedTime f)" "int64 (fw_ResolvedTime f) < uint endNs"
  shows "\<exists>g \<in> set gs. rf_Nodeid g = n \<and> rf_AmtMsatIn g = fw_InMsat f \<and> rf_AmtMsatOut g = fw_OutMsat f"
proof -
  let ?old = "tbl_forwards (rt_history (cell_get (rs_table s) w))"
  let ?row = "forward_values n f"
  have "pg_InsertForwards (rs_pool s) (history_cell (rs_table s)) fs n w = (None, w1)"
    using ins by (simp add: PostgresHistoryStore_def)
  note t = history_db.InsertForwards_table [OF history_db_cell [OF database_axioms] this]
  have new_rows: "tbl_forwards (rt_history (cell_get (rs_table s) w1)) =
      insert_rows forward_key keep_old (map (forward_values n) fs) ?old"
    using t by (simp add: history_cell_def)
  have key: "forward_key (forward_values n g) = (n, fw_Identifier g)" for g
    by (simp add: forward_key_def forward_values_def)
  have "row_of forward_key (n, fw_Identifier f) ?old = None"
    using new by (simp add: new_forwards.row_of_None)
  moreover have "row_of forward_key (n, fw_Identifier f) (map (forward_values n) fs) = Some ?row"
    using f row_of_distinct [of forward_key "map (forward_values n) fs" ?row]
    by (simp add: key comp_def distinct_map inj_on_def)
  ultimately have "row_of forward_key (n, fw_Identifier f) (tbl_forwards (rt_history (cell_get (rs_table s) w1))) = Some ?row"
    by (simp add: new_rows row_of_keep_old)
  then have "?row \<in> set (resolved_between (uint startNs) (uint endNs) (rt_history (cell_get (rs_table s) w1)))"
    using time row_of_SomeD by (fastforce simp: resolved_between_def forward_values_def)
  from GetForwards_complete [OF get this] show ?thesis
    by (simp add: forward_values_def)
qed

end

text \<open>A store over a concrete table with columns for the peers.\<close>

definition std_store :: "(forward_row \<Rightarrow> bytes \<times> bytes) \<Rightarrow> revenue_tables std_world RevenueCliStore" where
  "std_store peers =
     \<lparr>rs_pool = std_pool, rs_table = std_table,
      rs_schema = \<lparr>peer_columns = Some peers, peer_column = Some (snd \<circ> peers)\<rparr>, rs_api_key = Some\<rparr>"

interpretation std_revenue: revenue_db "std_store peers" std_now
  unfolding revenue_db_def std_store_def by (simp add: std.database_axioms)

section \<open>Sent payments\<close>

lemma send_correlates:
  assumes "matchImportedForwardsSend [0 ..< length fs] fs im = (h, im')"
  shows "correlates ''send'' rf_SendToken rf_SendToken_update fs im h im'"
  using assms unfolding matchImportedForwardsSend_def by (rule send.match_correlates) simp

lemma send_complete:
  assumes "matchImportedForwardsSend [0 ..< length fs] fs im = (h, im')"
    and "sorted (map in_key fs)" and "sorted (map im_key im)"
  shows "\<not> matchable ''send'' rf_SendToken [0 ..< length fs] h im' r i"
proof -
  have "map (\<lambda>r. in_key (fs ! r)) [0 ..< length fs] = map in_key fs"
    by (rule nth_equalityI) simp_all
  with assms show ?thesis
    unfolding matchImportedForwardsSend_def by (intro send.match_complete) auto
qed

text \<open>
  C28: On the forwards that the database returns and the forwards that are imported, the match of sent
  payments is right and misses nothing. A forward gets a token only if it has none, and then that of
  an imported send of the same node, peer and amount; every import is used at most once; and afterwards
  no unused import fits a forward without a token.
\<close>

theorem matchImportedForwardsSend_correct:
  assumes "revenue_db s now" and "amounts_ok (cell_get (rs_table s) w)"
    and "GetForwards L s startNs endNs w = (Inr fs, w')"
    and "getImportedForwards read_json glob startNs endNs = Ret (Inr im)"
    and "matchImportedForwardsSend [0 ..< length fs] fs im = (h, im')"
  shows "correlates ''send'' rf_SendToken rf_SendToken_update fs im h im' \<and>
    \<not> matchable ''send'' rf_SendToken [0 ..< length fs] h im' r i"
proof
  show "correlates ''send'' rf_SendToken rf_SendToken_update fs im h im'"
    by (rule send_correlates [OF assms(5)])
  have "sorted (map in_key fs)"
    by (rule revenue_db.GetForwards_sorted [OF assms(1) assms(3) assms(2)])
  then show "\<not> matchable ''send'' rf_SendToken [0 ..< length fs] h im' r i"
    using send_complete [OF assms(5)] getImportedForwards_sorted [OF assms(4)] by blast
qed

text \<open>One forward from peer 2 to peer 3, and an import of peer 2 that sent it.\<close>

definition sample_txid :: bytes where
  "sample_txid = replicate 32 0"

definition sample_channel :: "bytes \<Rightarrow> int \<Rightarrow> int \<Rightarrow> channel_row" where
  "sample_channel peer scid outnum =
     \<lparr>cr_nodeid = [1], cr_peerid = peer, cr_alias_scid = None, cr_confirmed_scid = Some scid,
      cr_funding_tx_id = sample_txid, cr_funding_tx_outnum = outnum, cr_first_seen = 0, cr_last_update = 0\<rparr>"

definition sample_tables :: revenue_tables where
  "sample_tables =
     \<lparr>rt_history = empty_history\<lparr>tbl_channels := [sample_channel [2] 10 0, sample_channel [3] 11 1],
        tbl_forwards := [\<lparr>fr_identifier = ''f'', fr_resolved_time = 1500000000, fr_nodeid = [1], fr_chanid_in = 10,
          fr_chanid_out = 11, fr_amt_msat_in = 1000, fr_amt_msat_out = 900\<rparr>]\<rparr>,
      rt_payments = []\<rparr>"

definition sample_revenue_world :: "revenue_tables std_world" where
  "sample_revenue_world = \<lparr>sw_time = 0, sw_fates = [], sw_table = sample_tables\<rparr>"

definition sample_revenue_forward :: RevenueForward where
  "sample_revenue_forward =
     \<lparr>rf_Identifier = ''f'', rf_Nodeid = [1], rf_PeeridIn = [2], rf_PeeridOut = [3], rf_AmtMsatIn = 1000,
      rf_AmtMsatOut = 900, rf_ResolvedTime = 1500000000, rf_ChannelPointIn = \<lparr>op_hash = sample_txid, op_index = 0\<rparr>,
      rf_ChannelPointOut = \<lparr>op_hash = sample_txid, op_index = 1\<rparr>, rf_SendToken = None, rf_ReceiveToken = None,
      rf_OpenChannelHtlc = None\<rparr>"

definition sample_export :: ExportedForward where
  "sample_export =
     \<lparr>ef_Token = ''abc'', ef_NodeId = [2], ef_ExternalNodeId = [1], ef_ResolvedTime = 1600000000,
      ef_Direction = ''send'', ef_AmountMsat = 1000\<rparr>"

definition sample_import :: importedForward where
  "sample_import =
     \<lparr>im_nodeid = [1], im_peerid = [2], im_amountMsat = 1000, im_isCorrelated = False, im_token = ''abc'',
      im_resolvedTime = 1600000000, im_direction = ''send''\<rparr>"

lemma sample_GetForwards:
  "GetForwards std_libs (std_store (\<lambda>_. ([2], [3]))) 1000000000 2000000000 sample_revenue_world =
     (Inr [sample_revenue_forward], sample_revenue_world)"
  by (simp add: GetForwards_def sanityCheck_def range_query_def bigint_arg_def std_store_def db_simps
      sample_revenue_world_def sample_tables_def unassociated_def our_forwards_def resolved_between_def
      channels_in_def channels_out_def on_channel_def sample_channel_def left_join_def token_channels_def
      tokens_of_def go_sort_def empty_history_def scan_forward_def funding_outpoint_def scan_uint32_def
      NewOutPoint_def std_libs_def sample_txid_def sample_revenue_forward_def uint64_of_def)

lemma sample_getImportedForwards:
  "getImportedForwards (\<lambda>_. Inr [Some sample_export]) (Some (Inr [''x''])) 1000000000 2000000000 = Ret (Inr [sample_import])"
  by (simp add: getImportedForwards_def readForwards_def sample_export_def sample_import_def go_sort_def
      Let_def uint64_of_def int64_def)

lemma sample_match:
  "matchImportedForwardsSend [0] [sample_revenue_forward] [sample_import] =
     ([sample_revenue_forward\<lparr>rf_SendToken := Some ''abc''\<rparr>], [sample_import\<lparr>im_isCorrelated := True\<rparr>])"
  by (simp add: matchImportedForwardsSend_def match_imported.simps compare_def bytes_compare_def
      sample_revenue_forward_def sample_import_def FirstBehind_def SecondBehind_def)

theorem matchImportedForwardsSend_correct_witness:
  "\<exists>fs w' im h im'.
     GetForwards std_libs (std_store (\<lambda>_. ([2], [3]))) 1000000000 2000000000 sample_revenue_world = (Inr fs, w') \<and>
     getImportedForwards (\<lambda>_. Inr [Some sample_export]) (Some (Inr [''x''])) 1000000000 2000000000 = Ret (Inr im) \<and>
     matchImportedForwardsSend [0 ..< length fs] fs im = (h, im') \<and> map rf_SendToken h = [Some ''abc''] \<and>
     correlates ''send'' rf_SendToken rf_SendToken_update fs im h im' \<and>
     \<not> matchable ''send'' rf_SendToken [0 ..< length fs] h im' 0 0"
proof -
  have "amounts_ok (cell_get (rs_table (std_store (\<lambda>_. ([2], [3])))) sample_revenue_world)"
    by (simp add: amounts_ok_def std_store_def std_table_def sample_revenue_world_def sample_tables_def)
  moreover have "matchImportedForwardsSend [0 ..< length [sample_revenue_forward]] [sample_revenue_forward] [sample_import] =
      ([sample_revenue_forward\<lparr>rf_SendToken := Some ''abc''\<rparr>], [sample_import\<lparr>im_isCorrelated := True\<rparr>])"
    using sample_match by simp
  ultimately show ?thesis
    using matchImportedForwardsSend_correct [OF std_revenue.revenue_db_axioms _ sample_GetForwards
        sample_getImportedForwards, of _ _ 0 0]
      sample_GetForwards sample_getImportedForwards by fastforce
qed

section \<open>The totals of the report\<close>

definition sent_by :: "string \<Rightarrow> RevenueForward list \<Rightarrow> RevenueForward list" where
  "sent_by t fs = filter (\<lambda>f. rf_SendToken f = Some t) fs"

definition received_by :: "string \<Rightarrow> RevenueForward list \<Rightarrow> RevenueForward list" where
  "received_by t fs = filter (\<lambda>f. rf_ReceiveToken f = Some t) fs"

text \<open>The report of a node on its forwards, as sums modulo \<open>2\<^sup>6\<^sup>4\<close>.\<close>

definition reports :: "NodeRevenue \<Rightarrow> RevenueForward list \<Rightarrow> bool" where
  "reports n fs \<longleftrightarrow>
     nr_TotalFeesMsat n = sum_list (map fees fs) \<and>
     nr_TotalForwardCountMsat n = of_nat (length fs) \<and>
     nr_TotalChannelFeesMsat n = sum_list (map open_fees (filter (\<lambda>f. rf_ReceiveToken f \<noteq> None) fs)) \<and>
     (\<forall>t. token_of t n =
        \<lparr>tr_Token = t,
         tr_TotalForwardsSend = of_nat (length (sent_by t fs)),
         tr_TotalForwardsReceive = of_nat (length (received_by t fs)),
         tr_TotalFeesMsatSend = sum_list (map (\<lambda>f. fees f div 2) (sent_by t fs)),
         tr_TotalFeesMsatReceive = sum_list (map (\<lambda>f. fees f div 2) (received_by t fs)),
         tr_TotalChannelOpenFees = sum_list (map open_fees (received_by t fs))\<rparr>)"

lemma reports_new: "reports (new_node nodeid) []"
  by (simp add: reports_def new_node_def token_of_def new_token_def sent_by_def received_by_def)

lemma nr_Nodeid_add [simp]: "nr_Nodeid (add_forward f n) = nr_Nodeid n"
  by (simp add: add_forward_def add_receive_def add_send_def Let_def split: option.split)

lemma token_of_add_send:
  "token_of t (add_send f n) =
     (if rf_SendToken f = Some t
      then (token_of t n)\<lparr>tr_TotalFeesMsatSend := tr_TotalFeesMsatSend (token_of t n) + fees f div 2,
             tr_TotalForwardsSend := tr_TotalForwardsSend (token_of t n) + 1\<rparr>
      else token_of t n)"
  by (auto simp: add_send_def token_of_def Let_def update_conv' split: option.split)

lemma token_of_add_receive:
  "token_of t (add_receive f n) =
     (if rf_ReceiveToken f = Some t
      then (token_of t n)\<lparr>tr_TotalChannelOpenFees := tr_TotalChannelOpenFees (token_of t n) + open_fees f,
             tr_TotalFeesMsatReceive := tr_TotalFeesMsatReceive (token_of t n) + fees f div 2,
             tr_TotalForwardsReceive := tr_TotalForwardsReceive (token_of t n) + 1\<rparr>
      else token_of t n)"
  by (auto simp: add_receive_def token_of_def Let_def update_conv' split: option.split)

lemma token_of_totals: "token_of t (n\<lparr>nr_TotalFeesMsat := x, nr_TotalForwardCountMsat := y\<rparr>) = token_of t n"
  by (simp add: token_of_def)

lemma add_forward_totals:
  "nr_TotalFeesMsat (add_forward f n) = nr_TotalFeesMsat n + fees f"
  "nr_TotalForwardCountMsat (add_forward f n) = nr_TotalForwardCountMsat n + 1"
  "nr_TotalChannelFeesMsat (add_forward f n) =
     nr_TotalChannelFeesMsat n + (if rf_ReceiveToken f = None then 0 else open_fees f)"
  by (simp_all add: add_forward_def add_send_def add_receive_def Let_def split: option.split)

lemma reports_add: "reports n fs \<Longrightarrow> reports (add_forward f n) (fs @ [f])"
  unfolding reports_def add_forward_totals
  by (simp add: add_forward_def token_of_add_receive token_of_add_send token_of_totals sent_by_def received_by_def)

lemma calculateRevenue_snoc: "calculateRevenue (fs @ [f]) = revenue_step (calculateRevenue fs) f"
  by (simp add: calculateRevenue_def)

text \<open>On forwards that are sorted by node the report has one entry per node.\<close>

definition of_node :: "bytes \<Rightarrow> RevenueForward list \<Rightarrow> RevenueForward list" where
  "of_node nodeid fs = filter (\<lambda>f. rf_Nodeid f = nodeid) fs"

definition per_node :: "RevenueForward list \<Rightarrow> NodeRevenue list \<Rightarrow> bool" where
  "per_node fs ns \<longleftrightarrow>
     distinct (map nr_Nodeid ns) \<and> nr_Nodeid ` set ns = rf_Nodeid ` set fs \<and>
     (\<forall>n \<in> set ns. reports n (of_node (nr_Nodeid n) fs))"

lemma per_node_new:
  assumes "per_node fs ns" and "rf_Nodeid f \<notin> rf_Nodeid ` set fs"
  shows "per_node (fs @ [f]) (ns @ [add_forward f (new_node (rf_Nodeid f))])"
proof -
  have "of_node (rf_Nodeid f) fs = []"
    using assms(2) unfolding of_node_def filter_empty_conv by (metis image_eqI)
  then have "reports (add_forward f (new_node (rf_Nodeid f))) (of_node (rf_Nodeid f) (fs @ [f]))"
    using reports_add [OF reports_new, of f "rf_Nodeid f"] by (simp add: of_node_def)
  moreover have "of_node (nr_Nodeid n) (fs @ [f]) = of_node (nr_Nodeid n) fs" if "n \<in> set ns" for n
    using assms that by (auto simp: per_node_def of_node_def)
  ultimately show ?thesis
    using assms by (auto simp: per_node_def new_node_def)
qed

lemma per_node_same:
  assumes "per_node fs (ns @ [n])" and "nr_Nodeid n = rf_Nodeid f"
  shows "per_node (fs @ [f]) (ns @ [add_forward f n])"
proof -
  have "reports n (of_node (rf_Nodeid f) fs)"
    using assms by (auto simp: per_node_def)
  then have "reports (add_forward f n) (of_node (rf_Nodeid f) (fs @ [f]))"
    using reports_add by (simp add: of_node_def)
  moreover have "of_node (nr_Nodeid m) (fs @ [f]) = of_node (nr_Nodeid m) fs" if "m \<in> set ns" for m
    using assms that by (auto simp: per_node_def of_node_def)
  ultimately show ?thesis
    using assms by (auto simp: per_node_def)
qed

lemma calculateRevenue_per_node:
  assumes "sorted (map rf_Nodeid fs)"
  shows "per_node fs (calculateRevenue fs) \<and>
    (fs \<noteq> [] \<longrightarrow> calculateRevenue fs \<noteq> [] \<and> nr_Nodeid (last (calculateRevenue fs)) = rf_Nodeid (last fs))"
  using assms
proof (induction fs rule: rev_induct)
  case Nil
  then show ?case by (simp add: calculateRevenue_def per_node_def)
next
  case (snoc f fs)
  let ?ns = "calculateRevenue fs"
  have srt: "sorted (map rf_Nodeid fs)" "\<forall>g \<in> set fs. rf_Nodeid g \<le> rf_Nodeid f"
    using snoc.prems by (auto simp: sorted_append)
  note IH = snoc.IH [OF srt(1)]
  show ?case
  proof (cases "fs = [] \<or> rf_Nodeid (last fs) \<noteq> rf_Nodeid f")
    case True
    have "rf_Nodeid g \<noteq> rf_Nodeid f" if "g \<in> set fs" for g
    proof -
      have "fs \<noteq> []" using that by auto
      then have "rf_Nodeid g \<le> rf_Nodeid (last fs)"
        using srt(1) that sorted_append [of "map rf_Nodeid (butlast fs)" "[rf_Nodeid (last fs)]"]
        by (cases fs rule: rev_cases) (auto simp: sorted_append)
      moreover have "rf_Nodeid (last fs) \<noteq> rf_Nodeid f" "rf_Nodeid (last fs) \<le> rf_Nodeid f"
        using True \<open>fs \<noteq> []\<close> srt(2) by auto
      ultimately show ?thesis by auto
    qed
    then have "rf_Nodeid f \<notin> rf_Nodeid ` set fs" by force
    moreover have "?ns = [] \<or> nr_Nodeid (last ?ns) \<noteq> rf_Nodeid f"
      using True IH by (cases "fs = []") (auto simp: calculateRevenue_def)
    ultimately show ?thesis
      using per_node_new IH by (simp add: calculateRevenue_snoc revenue_step_def new_node_def)
  next
    case False
    then have ns: "?ns \<noteq> []" "nr_Nodeid (last ?ns) = rf_Nodeid f" using IH by auto
    then have "?ns = butlast ?ns @ [last ?ns]" by simp
    then have "per_node fs (butlast ?ns @ [last ?ns])" using IH by simp
    from per_node_same [OF this ns(2)] ns show ?thesis
      by (simp add: calculateRevenue_snoc revenue_step_def)
  qed
qed

section \<open>Matching keeps the forwards\<close>

text \<open>A forward without what matching sets.\<close>

definition bare :: "RevenueForward \<Rightarrow> RevenueForward" where
  "bare f = f\<lparr>rf_SendToken := None, rf_ReceiveToken := None, rf_OpenChannelHtlc := None\<rparr>"

lemma bare_updates [simp]:
  "bare (f\<lparr>rf_SendToken := x\<rparr>) = bare f"
  "bare (f\<lparr>rf_ReceiveToken := x\<rparr>) = bare f"
  "bare (f\<lparr>rf_OpenChannelHtlc := y\<rparr>) = bare f"
  "bare (rf_SendToken_update g f) = bare f"
  "bare (rf_ReceiveToken_update g f) = bare f"
  by (simp_all add: bare_def)

lemma rf_Nodeid_bare [simp]: "rf_Nodeid (bare f) = rf_Nodeid f"
  by (simp add: bare_def)

lemma map_bare_update: "bare x = bare (h ! r) \<Longrightarrow> map bare (h[r := x]) = map bare h"
  by (metis list_update_id map_update)

lemma correlates_bare:
  assumes "correlates dir tok upd h im h' im'" and "\<And>g f. bare (upd g f) = bare f"
  shows "map bare h' = map bare h"
proof (rule nth_equalityI)
  show "length (map bare h') = length (map bare h)"
    using assms(1) by (simp add: correlates_def)
  fix r
  assume "r < length (map bare h')"
  then have "h' ! r = h ! r \<or> (\<exists>g. h' ! r = upd g (h ! r))"
    using assms(1) unfolding correlates_def by auto
  then show "map bare h' ! r = map bare h ! r"
    using assms \<open>r < length (map bare h')\<close> by (auto simp: correlates_def)
qed

lemma pass_tokens_bare: "map bare (pass_tokens i out h) = map bare h"
  by (simp add: pass_tokens_def Let_def map_bare_update)

lemma match_internal_bare: "map bare (match_internal ins outs i out h) = map bare h"
proof (induction ins outs i out h rule: match_internal.induct)
  case (1 ins outs i out h)
  then show ?case
    by (subst match_internal.simps) (simp add: Let_def pass_tokens_bare)
qed

lemma match_htlcs_bare: "map bare (match_htlcs outs htlcs i f h) = map bare h"
proof (induction outs htlcs i f h rule: match_htlcs.induct)
  case (1 outs htlcs i f h)
  then show ?case
    by (subst match_htlcs.simps) (simp add: Let_def map_bare_update)
qed

lemma match_tokens_bare:
  assumes "match_tokens im fs = (sortedOut, h)"
  shows "map bare h = map bare fs"
proof -
  obtain h1 im1 where 1: "matchImportedForwardsSend [0 ..< length fs] fs im = (h1, im1)"
    by fastforce
  obtain h2 im2 where 2: "matchImportedForwardsReceive sortedOut h1 im1 = (h2, im2)"
    by fastforce
  have out: "sortedOut = go_sort (\<lambda>i j. out_lt (fs ! i) (fs ! j)) [0 ..< length fs]"
    and h: "h = (matchInternalForwards [0 ..< length fs] sortedOut ^^ 3) h2"
    using assms 1 2 by (auto simp: match_tokens_def Let_def split: prod.splits)
  have b1: "map bare h1 = map bare fs"
    by (rule correlates_bare [OF send_correlates [OF 1]]) simp
  have "length h1 = length fs" using b1 by (metis length_map)
  then have "correlates ''receive'' rf_ReceiveToken rf_ReceiveToken_update h1 im1 h2 im2"
    using 2 unfolding matchImportedForwardsReceive_def by (intro receive.match_correlates) (auto simp: out)
  then have b2: "map bare h2 = map bare h1"
    by (rule correlates_bare) simp
  show ?thesis
    using b1 b2 by (simp add: h matchInternalForwards_def match_internal_bare numeral_3_eq_3)
qed


lemma sample_match_tokens: "match_tokens [] [sample_revenue_forward] = ([0], [sample_revenue_forward])"
  by (simp add: match_tokens_def matchImportedForwardsSend_def matchImportedForwardsReceive_def
      matchInternalForwards_def match_imported.simps match_internal.simps go_sort_def Let_def numeral_3_eq_3
      compare_def as_imported_def bytes_compare_def sample_revenue_forward_def FirstBehind_def)

lemma sample_revenue:
  "revenue std_libs read_json None (Inr (std_store (\<lambda>_. ([2], [3])))) 1 2 sample_revenue_world =
     (Ret (Inr [(new_node [1])\<lparr>nr_TotalFeesMsat := 100, nr_TotalForwardCountMsat := 1\<rparr>]), sample_revenue_world)"
proof -
  have "GetOpenChannelHtlcs std_libs (std_store (\<lambda>_. ([2], [3]))) 1000000000 2000000000 sample_revenue_world =
      (Inr [], sample_revenue_world)"
    by (simp add: GetOpenChannelHtlcs_def range_query_def bigint_arg_def std_store_def db_simps htlc_rows_def
        sample_revenue_world_def sample_tables_def empty_history_def go_sort_def)
  moreover have "calculateRevenue [sample_revenue_forward] =
      [(new_node [1])\<lparr>nr_TotalFeesMsat := 100, nr_TotalForwardCountMsat := 1\<rparr>]"
    by (simp add: calculateRevenue_def revenue_step_def add_forward_def add_send_def add_receive_def fees_def
        new_node_def sample_revenue_forward_def)
  ultimately show ?thesis
    by (simp add: revenue_def getImportedForwards_def sample_GetForwards sample_match_tokens
        matchOpenChannelHtlcs_def match_htlcs.simps)
qed


section \<open>What the report gets wrong\<close>



text \<open>
  A match between two of our own nodes gives the outgoing forward its own send token as receive token,
  and not that of the recipient.
\<close>

lemma pass_tokens_receive:
  assumes "i < length h" "out < length h" "rf_SendToken (h ! i) = None" "rf_ReceiveToken (h ! out) = None" "r < length h"
  shows "rf_ReceiveToken (pass_tokens i out h ! r) \<noteq> rf_ReceiveToken (h ! r) \<longrightarrow>
    rf_ReceiveToken (pass_tokens i out h ! r) = rf_SendToken (h ! r)"
  using assms by (auto simp: pass_tokens_def Let_def nth_list_update)

text \<open>
  The match of received payments compares the incoming side of the forwards, while the import is about
  the outgoing side. Of two forwards, the first to the peer that received and the second from it, the
  second gets the token.
\<close>

lemma receive_takes_wrong_side:
  "map rf_ReceiveToken (fst (matchImportedForwardsReceive [0, 1]
     [sample_revenue_forward\<lparr>rf_PeeridIn := [0], rf_PeeridOut := [2], rf_AmtMsatOut := 1000\<rparr>, sample_revenue_forward]
     [sample_import\<lparr>im_direction := ''receive''\<rparr>])) = [None, Some ''abc'']"
  by (simp add: matchImportedForwardsReceive_def match_imported.simps compare_def bytes_compare_def Let_def
      sample_revenue_forward_def sample_import_def FirstBehind_def SecondBehind_def)

end
