(* ===== verification/Run.thy ===== *)
theory Run
  imports Nodes Chain_Fees Json
begin

text \<open>
  Starting and stopping lspd (\<^verbatim>\<open>cmd/lspd/run.go\<close>): the fee strategy from the environment, the nodes from
  their configuration, and the goroutines that stop everything when one part stops. Clients, files
  and keys come from the environment. The goroutines are a step relation; the lemmas show what is
  left running when all of them are done.
\<close>

section \<open>The fee strategy\<close>

definition feeStrategy_of :: "string \<Rightarrow> FeeStrategy" where
  "feeStrategy_of envFeeStrategy =
     (let s = map lower_char envFeeStrategy
      in if s = ''minimum'' then FeeStrategyMinimum
         else if s = ''economy'' then FeeStrategyEconomy
         else if s = ''hour'' then FeeStrategyHour
         else if s = ''halfhour'' then FeeStrategyHalfHour
         else if s = ''fastest'' then FeeStrategyFastest
         else FeeStrategyEconomy)"

section \<open>initializeNodes\<close>

text \<open>Dialling a node, reading a file, and the private and public keys of the bytes of a private key.\<close>

record 'w run_env =
  re_NewLndClient :: "LndConfig \<Rightarrow> error + 'w Client"
  re_NewClnClient :: "ClnConfig \<Rightarrow> error + 'w Client"
  re_ReadFile :: "string \<Rightarrow> error + string"
  re_PrivKeyFromBytes :: "bytes \<Rightarrow> bytes \<times> bytes"
  re_NewPrivateKeyFromBytes :: "bytes \<Rightarrow> bytes \<times> bytes"

definition file_or_text :: "'w run_env \<Rightarrow> string \<Rightarrow> string" where
  "file_or_text E s = (case re_ReadFile E s of Inl _ \<Rightarrow> s | Inr contents \<Rightarrow> contents)"

definition read_certs :: "'w run_env \<Rightarrow> ClnConfig \<Rightarrow> ClnConfig" where
  "read_certs E c =
     c\<lparr>cln_CaCert := file_or_text E (cln_CaCert c), cln_ClientCert := file_or_text E (cln_ClientCert c),
       cln_ClientKey := file_or_text E (cln_ClientKey c)\<rparr>"

text \<open>The configuration with the certificates read, and its client.\<close>

definition connect_node :: "'w run_env \<Rightarrow> NodeConfig \<Rightarrow> error + NodeConfig \<times> 'w Client" where
  "connect_node E config =
     (case (Lnd config, Cln config) of
        (None, None) \<Rightarrow> Inl (Error ''node has to be either cln or lnd'')
      | (Some _, Some _) \<Rightarrow> Inl (Error ''node cannot be both cln and lnd'')
      | (Some l, None) \<Rightarrow>
          (case re_NewLndClient E l of Inl err \<Rightarrow> Inl err | Inr client \<Rightarrow> Inr (config, client))
      | (None, Some c) \<Rightarrow>
          (case re_NewClnClient E (read_certs E c) of
             Inl err \<Rightarrow> Inl err
           | Inr client \<Rightarrow> Inr (config\<lparr>Cln := Some (read_certs E c)\<rparr>, client)))"

definition is_pubkey :: "string \<Rightarrow> bool" where
  "is_pubkey s \<longleftrightarrow> (case hex_decode s of None \<Rightarrow> False | Some b \<Rightarrow> length b = 33)"

text \<open>If the node does not answer, a complete configuration stands in for its answer.\<close>

definition node_info :: "NodeConfig \<Rightarrow> 'w Client \<Rightarrow> 'w \<Rightarrow> (error + GetInfoResult) \<times> 'w" where
  "node_info config client w =
     (case GetInfo client w of
        (Inr info, w1) \<Rightarrow> (Inr info, w1)
      | (Inl err, w1) \<Rightarrow>
          if Name config = [] \<or> NodePubkey config = [] \<or> \<not> is_pubkey (NodePubkey config)
          then (Inl (Error ''failed to get info from host''), w1)
          else (Inr \<lparr>Alias = Name config, Pubkey = NodePubkey config\<rparr>, w1))"

definition fill_config :: "NodeConfig \<Rightarrow> GetInfoResult \<Rightarrow> NodeConfig" where
  "fill_config config info =
     config\<lparr>Name := (if Name config = [] then Alias info else Name config),
            NodePubkey := (if NodePubkey config = [] then Pubkey info else NodePubkey config)\<rparr>"

definition initialize_node :: "'w run_env \<Rightarrow> NodeConfig \<Rightarrow> 'w \<Rightarrow> (error + 'w Node) \<times> 'w" where
  "initialize_node E config w =
     (case hex_decode (LspdPrivateKey config) of
        None \<Rightarrow> (Inl (Error ''hex.DecodeString(config.lspdPrivateKey) error''), w)
      | Some pk \<Rightarrow>
          (case connect_node E config of
             Inl err \<Rightarrow> (Inl err, w)
           | Inr (config1, client) \<Rightarrow>
               (case node_info config1 client w of
                  (Inl err, w1) \<Rightarrow> (Inl err, w1)
                | (Inr info, w1) \<Rightarrow>
                    (case hex_decode (Pubkey info) of
                       None \<Rightarrow> (Inl (Error ''failed to parse node id''), w1)
                     | Some nodeId \<Rightarrow>
                         (Inr \<lparr>NodeId = nodeId, NodeClient = client, Config = fill_config config1 info,
                               PrivateKey = fst (re_PrivKeyFromBytes E pk),
                               PublicKey = snd (re_PrivKeyFromBytes E pk),
                               EciesPrivateKey = fst (re_NewPrivateKeyFromBytes E pk),
                               EciesPublicKey = snd (re_NewPrivateKeyFromBytes E pk),
                               Tokens = ConfigTokens config\<rparr>, w1)))))"

fun initialize_all :: "'w run_env \<Rightarrow> NodeConfig list \<Rightarrow> 'w \<Rightarrow> (error + 'w Node list) \<times> 'w" where
  "initialize_all E [] w = (Inr [], w)"
| "initialize_all E (config # configs) w =
     (case initialize_node E config w of
        (Inl err, w1) \<Rightarrow> (Inl err, w1)
      | (Inr node, w1) \<Rightarrow>
          (case initialize_all E configs w1 of
             (Inl err, w2) \<Rightarrow> (Inl err, w2)
           | (Inr ns, w2) \<Rightarrow> (Inr (node # ns), w2)))"

definition initializeNodes :: "'w run_env \<Rightarrow> NodeConfig list \<Rightarrow> 'w \<Rightarrow> (error + 'w Node list) \<times> 'w" where
  "initializeNodes E configs w =
     (if configs = [] then (Inl (Error ''no nodes supplied''), w) else initialize_all E configs w)"

lemma connect_node_one:
  "connect_node E config = Inr (config1, client) \<Longrightarrow>
     (Lnd config1 = None) \<noteq> (Cln config1 = None) \<and> ConfigTokens config1 = ConfigTokens config \<and>
     Name config1 = Name config \<and> NodePubkey config1 = NodePubkey config"
  by (auto simp: connect_node_def split: option.splits sum.splits)

text \<open>
  A node is either an LND or a CLN node, has the tokens of its configuration, and, unless its public
  key is configured, the public key it returns to clients is its own.
\<close>

definition node_matches :: "NodeConfig \<Rightarrow> 'w Node \<Rightarrow> bool" where
  "node_matches config n \<longleftrightarrow>
     (Lnd (Config n) = None) \<noteq> (Cln (Config n) = None) \<and> Tokens n = ConfigTokens config \<and>
     (NodePubkey config = [] \<longrightarrow> hex_decode (NodePubkey (Config n)) = Some (NodeId n)) \<and>
     (Name config \<noteq> [] \<longrightarrow> Name (Config n) = Name config)"

lemma initialize_node_ok:
  assumes "initialize_node E config w = (Inr n, w')"
  shows "node_matches config n"
proof -
  obtain config1 client info where c: "connect_node E config = Inr (config1, client)"
    "hex_decode (Pubkey info) = Some (NodeId n)" "Config n = fill_config config1 info"
    "Tokens n = ConfigTokens config"
    using assms by (auto simp: initialize_node_def split: option.splits sum.splits prod.splits)
  then show ?thesis
    using connect_node_one [OF c(1)] by (auto simp: fill_config_def node_matches_def)
qed

lemma initialize_all_ok: "initialize_all E configs w = (Inr ns, w') \<Longrightarrow> list_all2 node_matches configs ns"
proof (induction E configs w arbitrary: ns rule: initialize_all.induct)
  case (2 E config configs w)
  then obtain n w1 ms where "initialize_node E config w = (Inr n, w1)"
    "initialize_all E configs w1 = (Inr ms, w')" "ns = n # ms"
    by (auto split: sum.splits prod.splits)
  with 2 initialize_node_ok show ?case by auto
qed simp

lemma initializeNodes_ok:
  "initializeNodes E configs w = (Inr ns, w') \<Longrightarrow> ns \<noteq> [] \<and> list_all2 node_matches configs ns"
  using initialize_all_ok by (fastforce simp: initializeNodes_def split: if_splits)

section \<open>The parts of lspd\<close>

text \<open>
  What \<^verbatim>\<open>runLspd\<close> makes of the environment before it starts anything: the interceptor of every node
  with the client, the handler's fee estimator and the fee strategy. \<open>Inl\<close> is a fatal error, with
  which the process exits. Decoding the variable \<^verbatim>\<open>NODES\<close>, migrating, connecting and making an
  interceptor are arguments.
\<close>

datatype estimator = DefaultEstimator u32 | MempoolEstimator string

datatype 'w part = LndPart "'w Client" estimator | ClnPart "'w Client" estimator

record 'w run_vars =
  rv_NODES :: "error + NodeConfig list"
  rv_MEMPOOL_PRIORITY :: string
  rv_MEMPOOL_API_BASE_URL :: string
  rv_AUTO_MIGRATE_DATABASE :: string
  rv_Migrate :: "error option"
  rv_PgConnect :: "error option"
  rv_NewLndHtlcInterceptor :: "NodeConfig \<Rightarrow> error option"
  rv_NewClnHtlcInterceptor :: "NodeConfig \<Rightarrow> error option"

definition parse_bool :: "string \<Rightarrow> bool" where
  "parse_bool s \<longleftrightarrow> s \<in> set [''1'', ''t'', ''T'', ''TRUE'', ''true'', ''True'']"

definition mempool_client :: "'w run_vars \<Rightarrow> error + string option" where
  "mempool_client V =
     (if rv_MEMPOOL_API_BASE_URL V = [] then Inr None
      else case NewMempoolClient (rv_MEMPOOL_API_BASE_URL V) of Inl err \<Rightarrow> Inl err | Inr c \<Rightarrow> Inr (Some c))"

definition node_estimator :: "string option \<Rightarrow> NodeConfig \<Rightarrow> estimator" where
  "node_estimator mempoolClient config =
     (case mempoolClient of None \<Rightarrow> DefaultEstimator (ConfigTargetConf config) | Some c \<Rightarrow> MempoolEstimator c)"

definition lnd_part :: "'w run_env \<Rightarrow> 'w run_vars \<Rightarrow> estimator \<Rightarrow> NodeConfig \<Rightarrow> error + 'w part option" where
  "lnd_part E V est config =
     (case Lnd config of
        None \<Rightarrow> Inr None
      | Some l \<Rightarrow>
          (case re_NewLndClient E l of
             Inl err \<Rightarrow> Inl (Wrap ''failed to initialize LND client'' err)
           | Inr client \<Rightarrow>
               (case rv_NewLndHtlcInterceptor V config of
                  Some err \<Rightarrow> Inl (Wrap ''failed to initialize LND interceptor'' err)
                | None \<Rightarrow> Inr (Some (LndPart client est)))))"

definition cln_part :: "'w run_env \<Rightarrow> 'w run_vars \<Rightarrow> estimator \<Rightarrow> NodeConfig \<Rightarrow> error + 'w part option" where
  "cln_part E V est config =
     (case Cln config of
        None \<Rightarrow> Inr None
      | Some c \<Rightarrow>
          (case re_NewClnClient E c of
             Inl err \<Rightarrow> Inl (Wrap ''failed to initialize CLN client'' err)
           | Inr client \<Rightarrow>
               (case rv_NewClnHtlcInterceptor V config of
                  Some err \<Rightarrow> Inl (Wrap ''failed to initialize CLN interceptor'' err)
                | None \<Rightarrow> Inr (Some (ClnPart client est)))))"

definition no_kind :: error where
  "no_kind = Error ''fatal: node has to be either cln or lnd''"

definition node_part :: "'w run_env \<Rightarrow> 'w run_vars \<Rightarrow> string option \<Rightarrow> NodeConfig \<Rightarrow> error + 'w part" where
  "node_part E V mempoolClient config =
     (let est = node_estimator mempoolClient config
      in case lnd_part E V est config of
           Inl err \<Rightarrow> Inl err
         | Inr p \<Rightarrow>
             (case cln_part E V est config of
                Inl err \<Rightarrow> Inl err
              | Inr (Some q) \<Rightarrow> Inr q
              | Inr None \<Rightarrow> (case p of None \<Rightarrow> Inl no_kind | Some p \<Rightarrow> Inr p)))"

fun node_parts :: "'w run_env \<Rightarrow> 'w run_vars \<Rightarrow> string option \<Rightarrow> 'w Node list \<Rightarrow> error + 'w part list" where
  "node_parts E V mempoolClient [] = Inr []"
| "node_parts E V mempoolClient (n # ns) =
     (case node_part E V mempoolClient (Config n) of
        Inl err \<Rightarrow> Inl err
      | Inr p \<Rightarrow> (case node_parts E V mempoolClient ns of Inl err \<Rightarrow> Inl err | Inr ps \<Rightarrow> Inr (p # ps)))"

definition runLspd ::
  "'w run_env \<Rightarrow> 'w run_vars \<Rightarrow> 'w \<Rightarrow> (error + 'w nodesService \<times> FeeStrategy \<times> 'w part list) \<times> 'w" where
  "runLspd E V w =
     (case rv_NODES V of
        Inl err \<Rightarrow> (Inl (Wrap ''failed to unmarshal NODES env'' err), w)
      | Inr configs \<Rightarrow>
          if configs = [] then (Inl (Error ''need at least one node configured in NODES.''), w)
          else case initializeNodes E configs w of
            (Inl err, w1) \<Rightarrow> (Inl (Wrap ''failed to initialize nodes'' err), w1)
          | (Inr ns, w1) \<Rightarrow>
              (case NewNodesService ns of
                 Inl err \<Rightarrow> (Inl (Wrap ''failed to create nodes service'' err), w1)
               | Inr service \<Rightarrow>
                   (case mempool_client V of
                      Inl err \<Rightarrow> (Inl (Wrap ''failed to initialize mempool client'' err), w1)
                    | Inr mempoolClient \<Rightarrow>
                        (case (if parse_bool (rv_AUTO_MIGRATE_DATABASE V) then rv_Migrate V else None) of
                           Some err \<Rightarrow> (Inl (Wrap ''Failed to migrate postgres database'' err), w1)
                         | None \<Rightarrow>
                             (case rv_PgConnect V of
                                Some err \<Rightarrow> (Inl (Wrap ''pgConnect() error'' err), w1)
                              | None \<Rightarrow>
                                  (case node_parts E V mempoolClient ns of
                                     Inl err \<Rightarrow> (Inl err, w1)
                                   | Inr parts \<Rightarrow>
                                       (Inr (service, feeStrategy_of (rv_MEMPOOL_PRIORITY V), parts), w1)))))))"

text \<open>
  The nodes that \<^verbatim>\<open>initializeNodes\<close> returns have a kind, so that the loop over them never finds one
  without, and mempool is used if and only if its address is set.
\<close>

lemma node_part_kind:
  assumes "(Lnd config = None) \<noteq> (Cln config = None)"
  shows "node_part E V m config \<noteq> Inl no_kind"
    and "node_part E V m config = Inr p \<Longrightarrow>
      (case p of LndPart _ est \<Rightarrow> Lnd config \<noteq> None \<and> est = node_estimator m config
               | ClnPart _ est \<Rightarrow> Cln config \<noteq> None \<and> est = node_estimator m config)"
  using assms
  by (auto simp: node_part_def lnd_part_def cln_part_def no_kind_def Let_def
      split: option.splits sum.splits)

lemma node_parts_no_kind:
  "\<forall>n \<in> set ns. (Lnd (Config n) = None) \<noteq> (Cln (Config n) = None) \<Longrightarrow> node_parts E V m ns \<noteq> Inl no_kind"
proof (induction ns)
  case (Cons n ns)
  have "node_part E V m (Config n) \<noteq> Inl no_kind"
    using Cons.prems by (intro node_part_kind(1)) simp
  with Cons show ?case by (auto split: sum.split)
qed simp

lemma node_parts_length: "node_parts E V m ns = Inr ps \<Longrightarrow> length ps = length ns"
  by (induction ns arbitrary: ps) (auto split: sum.splits)

lemma node_matches_kinds:
  "list_all2 node_matches configs ns \<Longrightarrow> \<forall>n \<in> set ns. (Lnd (Config n) = None) \<noteq> (Cln (Config n) = None)"
  by (induction rule: list_all2_induct) (auto simp: node_matches_def)

lemma runLspd_stages:
  obtains (early) err w1 where "runLspd E V w = (Inl err, w1)" "err \<noteq> no_kind"
  | (parts) configs ns service m w1 where "rv_NODES V = Inr configs" "configs \<noteq> []"
      "initializeNodes E configs w = (Inr ns, w1)" "NewNodesService ns = Inr service" "mempool_client V = Inr m"
      "runLspd E V w = (case node_parts E V m ns of
         Inl err \<Rightarrow> (Inl err, w1)
       | Inr ps \<Rightarrow> (Inr (service, feeStrategy_of (rv_MEMPOOL_PRIORITY V), ps), w1))"
proof (cases "rv_NODES V")
  case (Inl err)
  then show ?thesis by - (rule early, simp add: runLspd_def, simp add: no_kind_def)
next
  case 1: (Inr configs)
  show ?thesis
  proof (cases "configs = [] \<or> (\<exists>err. fst (initializeNodes E configs w) = Inl err)")
    case True
    show ?thesis
    proof (cases "configs = []")
      case True
      with 1 show ?thesis by - (rule early, simp add: runLspd_def, simp add: no_kind_def)
    next
      case ne: False
      with True obtain err w1 where "initializeNodes E configs w = (Inl err, w1)"
        by (metis prod.collapse)
      with 1 ne show ?thesis by - (rule early, simp add: runLspd_def, simp add: no_kind_def)
    qed
  next
    case False
    then obtain ns w1 where 2: "configs \<noteq> []" "initializeNodes E configs w = (Inr ns, w1)"
      by (metis old.sum.exhaust prod.collapse)
    note runs = 1 2 runLspd_def [of E V w]
    show ?thesis
    proof (cases "NewNodesService ns")
      case (Inl err)
      with runs show ?thesis by - (rule early, simp, simp add: no_kind_def)
    next
      case 3: (Inr service)
      show ?thesis
      proof (cases "mempool_client V")
        case (Inl err)
        with runs 3 show ?thesis by - (rule early, simp, simp add: no_kind_def)
      next
        case 4: (Inr m)
        show ?thesis
        proof (cases "if parse_bool (rv_AUTO_MIGRATE_DATABASE V) then rv_Migrate V else None")
          case (Some err)
          with runs 3 4 show ?thesis by - (rule early, simp, simp add: no_kind_def)
        next
          case 5: None
          show ?thesis
          proof (cases "rv_PgConnect V")
            case (Some err)
            with runs 3 4 5 show ?thesis by - (rule early, simp, simp add: no_kind_def)
          next
            case None
            with runs 3 4 5 show ?thesis by - (rule parts [OF 1 2 3 4], simp)
          qed
        qed
      qed
    qed
  qed
qed

lemma runLspd_no_kind: "fst (runLspd E V w) \<noteq> Inl no_kind"
proof (cases rule: runLspd_stages [of E V w])
  case (parts configs ns service m w1)
  have "node_parts E V m ns \<noteq> Inl no_kind"
    by (intro node_parts_no_kind node_matches_kinds [of configs]) (simp add: initializeNodes_ok [OF parts(3)])
  then show ?thesis
    unfolding parts(6) by (cases "node_parts E V m ns") simp_all
qed simp

lemma runLspd_parts:
  assumes "runLspd E V w = (Inr (service, strategy, ps), w')"
  obtains configs where "rv_NODES V = Inr configs" "length ps = length configs" "configs \<noteq> []"
    "strategy = feeStrategy_of (rv_MEMPOOL_PRIORITY V)"
proof (cases rule: runLspd_stages [of E V w])
  case (parts configs ns service' m w1)
  then have "node_parts E V m ns = Inr ps" "strategy = feeStrategy_of (rv_MEMPOOL_PRIORITY V)"
    using assms unfolding parts(6) by (cases "node_parts E V m ns"; simp)+
  moreover have "length configs = length ns"
    using conjunct2 [OF initializeNodes_ok [OF parts(3)]] by (rule list_all2_lengthD)
  ultimately show ?thesis
    using that [OF parts(1)] parts(2) node_parts_length by metis
qed (use assms in simp)

section \<open>The gRPC server\<close>

text \<open>
  \<^verbatim>\<open>cmd/lspd/grpc_server.go\<close>. \<open>gs_s\<close> is whether the server is set. Opening a listener, with or without a
  certificate for the domain, and serving are arguments; the error of a listener exits the process.
  The calls go through \<open>authorize\<close> of \<open>Nodes\<close>.
\<close>

record grpcServer =
  gs_address :: string
  gs_certmagicDomain :: string
  gs_s :: bool

record listen_env =
  le_Listen :: "string \<Rightarrow> error option"
  le_certmagic :: "string \<Rightarrow> error option"
  le_tlsListen :: "string \<Rightarrow> error option"
  le_Serve :: "error option"

definition NewGrpcServer :: "string \<Rightarrow> string \<Rightarrow> grpcServer" where
  "NewGrpcServer address certmagicDomain =
     \<lparr>gs_address = address, gs_certmagicDomain = certmagicDomain, gs_s = False\<rparr>"

definition open_listener :: "listen_env \<Rightarrow> grpcServer \<Rightarrow> error option" where
  "open_listener E s =
     (if gs_certmagicDomain s = [] then map_option (Wrap ''failed to listen'') (le_Listen E (gs_address s))
      else case le_certmagic E (gs_certmagicDomain s) of
        Some err \<Rightarrow> Some (Wrap ''failed to run certmagic'' err)
      | None \<Rightarrow> map_option (Wrap ''failed to listen'') (le_tlsListen E (gs_address s)))"

definition grpcServer_Start :: "listen_env \<Rightarrow> grpcServer \<Rightarrow> (error option \<times> grpcServer) outcome" where
  "grpcServer_Start E s =
     (case open_listener E s of
        Some err \<Rightarrow> Panic ''exit''
      | None \<Rightarrow> Ret (map_option (Wrap ''failed to serve'') (le_Serve E), s\<lparr>gs_s := True\<rparr>))"

text \<open>Whether \<^verbatim>\<open>Stop\<close> stops a server.\<close>

definition grpcServer_Stop :: "grpcServer \<Rightarrow> bool" where
  "grpcServer_Stop s = gs_s s"

lemma grpcServer_Stop_early: "\<not> grpcServer_Stop (NewGrpcServer address domain)"
  by (simp add: grpcServer_Stop_def NewGrpcServer_def)

lemma grpcServer_Stop_started: "grpcServer_Start E s = Ret (r, s') \<Longrightarrow> grpcServer_Stop s'"
  by (auto simp: grpcServer_Start_def grpcServer_Stop_def split: option.splits)

section \<open>Stopping\<close>

text \<open>
  \<^verbatim>\<open>runLspd\<close> waits until all interceptors and the gRPC server have returned. Whenever one of them
  returns, and on a signal, a goroutine asks the others to stop: first the server, unless that is what
  returned, then the interceptors. \<^verbatim>\<open>grpcServer.Stop\<close> does nothing while \<^verbatim>\<open>Start\<close> has not yet set the
  server. An interceptor is a pair of whether it runs and whether it was asked to stop. \<open>rn_both\<close> and
  \<open>rn_ints\<close> count the goroutines that still have to ask the server and the interceptors, and only the
  interceptors.
\<close>

datatype server_state = Starting | Serving | Stopped

record run_state =
  rn_interceptors :: "(bool \<times> bool) list"
  rn_server :: server_state
  rn_server_asked :: bool
  rn_wg :: nat
  rn_both :: nat
  rn_ints :: nat
  rn_signalled :: bool

definition start_run :: "nat \<Rightarrow> server_state \<Rightarrow> run_state" where
  "start_run n server =
     \<lparr>rn_interceptors = replicate n (True, False), rn_server = server, rn_server_asked = False,
      rn_wg = n + 1, rn_both = 0, rn_ints = 0, rn_signalled = False\<rparr>"

definition ask_to_stop :: "bool \<times> bool \<Rightarrow> bool \<times> bool" where
  "ask_to_stop p = (fst p, True)"

inductive run_step :: "run_state \<Rightarrow> run_state \<Rightarrow> bool" where
  listening: "rn_server s = Starting \<Longrightarrow> run_step s (s\<lparr>rn_server := Serving\<rparr>)"
| interceptor_returns: "i < length (rn_interceptors s) \<Longrightarrow> rn_interceptors s ! i = (True, asked) \<Longrightarrow>
    run_step s (s\<lparr>rn_interceptors := (rn_interceptors s)[i := (False, asked)],
                  rn_wg := rn_wg s - 1, rn_both := Suc (rn_both s)\<rparr>)"
| server_returns: "rn_server s = Serving \<Longrightarrow>
    run_step s (s\<lparr>rn_server := Stopped, rn_wg := rn_wg s - 1, rn_ints := Suc (rn_ints s)\<rparr>)"
| signal: "\<not> rn_signalled s \<Longrightarrow> run_step s (s\<lparr>rn_signalled := True, rn_both := Suc (rn_both s)\<rparr>)"
| stop_server: "rn_both s = Suc n \<Longrightarrow>
    run_step s (s\<lparr>rn_server_asked := (rn_server_asked s \<or> rn_server s \<noteq> Starting),
                  rn_both := n, rn_ints := Suc (rn_ints s)\<rparr>)"
| stopInterceptors: "rn_ints s = Suc n \<Longrightarrow>
    run_step s (s\<lparr>rn_interceptors := map ask_to_stop (rn_interceptors s), rn_ints := n\<rparr>)"

inductive_cases run_stepE: "run_step s s'"

text \<open>Something stopped; and all goroutines are done and whatever was asked to stop has stopped.\<close>

definition triggered :: "run_state \<Rightarrow> bool" where
  "triggered s \<longleftrightarrow> rn_signalled s \<or> rn_server s = Stopped \<or> list_ex (\<lambda>(running, _). \<not> running) (rn_interceptors s)"

definition settled :: "run_state \<Rightarrow> bool" where
  "settled s \<longleftrightarrow> rn_both s = 0 \<and> rn_ints s = 0 \<and>
     list_all (\<lambda>(running, asked). \<not> (running \<and> asked)) (rn_interceptors s) \<and>
     \<not> (rn_server s = Serving \<and> rn_server_asked s)"

definition running_parts :: "run_state \<Rightarrow> nat" where
  "running_parts s = length (filter fst (rn_interceptors s)) + (if rn_server s = Stopped then 0 else 1)"

lemma length_filter_clear:
  "i < length xs \<Longrightarrow> P (xs ! i) \<Longrightarrow> \<not> P y \<Longrightarrow> Suc (length (filter P (xs[i := y]))) = length (filter P xs)"
proof (induction xs arbitrary: i)
  case (Cons x xs)
  then show ?case by (cases i) auto
qed simp

lemma fst_ask_to_stop [simp]: "fst \<circ> ask_to_stop = fst"
  by (simp add: ask_to_stop_def fun_eq_iff)

lemma wg_counts_step:
  assumes "run_step s s'" and "rn_wg s = running_parts s"
  shows "rn_wg s' = running_parts s'"
  using assms(1)
proof cases
  case (interceptor_returns i asked)
  then show ?thesis
    using assms(2) length_filter_clear [of i "rn_interceptors s" fst "(False, asked)"]
    by (simp add: running_parts_def)
next
  case (stopInterceptors n)
  then show ?thesis using assms(2) by (simp add: running_parts_def)
qed (use assms(2) in \<open>simp_all add: running_parts_def\<close>)

lemma wg_counts: "run_step\<^sup>*\<^sup>* (start_run n server) s \<Longrightarrow> server \<noteq> Stopped \<Longrightarrow> rn_wg s = running_parts s"
proof (induction rule: rtranclp_induct)
  case base
  then show ?case by (simp add: start_run_def running_parts_def)
qed (blast intro: wg_counts_step)

text \<open>Once something stopped, every part is stopped, asked to stop, or about to be.\<close>

definition stopping :: "run_state \<Rightarrow> bool" where
  "stopping s \<longleftrightarrow> rn_server s \<noteq> Starting \<and>
     (triggered s \<longrightarrow>
       (rn_both s > 0 \<or> rn_ints s > 0 \<or> list_all (\<lambda>(running, asked). running \<longrightarrow> asked) (rn_interceptors s)) \<and>
       (rn_both s > 0 \<or> rn_server s = Stopped \<or> rn_server_asked s))"

lemma stopping_step: "run_step s s' \<Longrightarrow> stopping s \<Longrightarrow> stopping s'"
proof (induction rule: run_step.induct)
  case (interceptor_returns i s asked)
  then show ?case by (simp add: stopping_def)
next
  case (stop_server s n)
  then show ?case by (simp add: stopping_def triggered_def)
next
  case (stopInterceptors s n)
  then show ?case
    by (auto simp: stopping_def triggered_def ask_to_stop_def list_all_iff list_ex_iff)
qed (simp_all add: stopping_def triggered_def)

lemma stopping_reachable: "run_step\<^sup>*\<^sup>* (start_run n Serving) s \<Longrightarrow> stopping s"
proof (induction rule: rtranclp_induct)
  case base
  then show ?case by (simp add: start_run_def stopping_def triggered_def list_ex_iff)
qed (rule stopping_step)

lemma settled_all_stopped:
  assumes "stopping s" and "triggered s" and "settled s"
  shows "running_parts s = 0"
proof -
  have asked: "list_all (\<lambda>(running, asked). running \<longrightarrow> asked) (rn_interceptors s)"
    "rn_server s = Stopped \<or> rn_server_asked s" "rn_server s \<noteq> Starting"
    using assms by (simp_all add: stopping_def settled_def)
  have "rn_server s = Stopped"
    using asked(2,3) assms(3) by (cases "rn_server s") (simp_all add: settled_def)
  moreover have "\<not> fst p" if "p \<in> set (rn_interceptors s)" for p
    using asked(1) assms(3) that by (fastforce simp: settled_def list_all_iff)
  ultimately show ?thesis
    by (simp add: running_parts_def filter_empty_conv)
qed



end
