(* ===== verification/Email.thy ===== *)
theory Email
  imports Json_Text
begin

text \<open>
  The e-mails of the interceptor (\<^verbatim>\<open>interceptor/email.go\<close>). \<^verbatim>\<open>html/template\<close> is modelled as far as the two
  templates use it: values in the text of an element are escaped, and a map is printed in the order of
  its keys. Amazon's mail service is an argument. The lemmas show that no value, the client's tag in
  particular, can add markup to a message.
\<close>

section \<open>html/template\<close>

text \<open>The replacements in the text of an element; a zero byte becomes U+FFFD.\<close>

definition html_escape_char :: "char \<Rightarrow> string" where
  "html_escape_char c =
     (if c = CHR 0x00 then [CHR 0xEF, CHR 0xBF, CHR 0xBD]
      else if c = CHR 0x22 then ''&#34;''
      else if c = CHR ''&'' then ''&amp;''
      else if c = CHR 0x27 then ''&#39;''
      else if c = CHR ''+'' then ''&#43;''
      else if c = CHR ''<'' then ''&lt;''
      else if c = CHR ''>'' then ''&gt;''
      else [c])"

definition html_escape :: "string \<Rightarrow> string" where
  "html_escape s = concat (map html_escape_char s)"

text \<open>A line of a template, which is indented by a tab.\<close>

definition tpl_line :: "string \<Rightarrow> string" where
  "tpl_line s = CHR 0x09 # s @ [CHR 0x0A]"

section \<open>interceptor/email.go\<close>

definition charset :: string where
  "charset = ''UTF-8''"

text \<open>A list of strings and nulls; an error of the decoder is ignored.\<close>

definition decode_addresses :: "string option list \<Rightarrow> string \<Rightarrow> string option list \<times> bool" where
  "decode_addresses old raw =
     (if raw = ''null'' then ([], True)
      else if raw \<noteq> [] \<and> hd raw = CHR ''[''
      then (let ds = map (decode_str_opt None) (raw_elements (length raw) (tl raw)) in (map fst ds, list_all snd ds))
      else (old, False))"

definition addresses :: "string \<Rightarrow> string option list" where
  "addresses a = fst (unmarshal decode_addresses [] a)"

record SendEmailInput =
  se_CcAddresses :: "string option list"
  se_ToAddresses :: "string option list"
  se_Charset :: string
  se_Html :: string
  se_Subject :: string
  se_Source :: string

record 'w mail_service =
  ms_NewSession :: "'w \<Rightarrow> error option \<times> 'w"
  ms_SendEmail :: "SendEmailInput \<Rightarrow> 'w \<Rightarrow> error option \<times> 'w"
  ms_Getenv :: "string \<Rightarrow> string"

definition sendEmail ::
  "'w mail_service \<Rightarrow> string \<Rightarrow> string \<Rightarrow> string \<Rightarrow> string \<Rightarrow> string \<Rightarrow> 'w \<Rightarrow> error option \<times> 'w" where
  "sendEmail S to cc from content subject w =
     (case ms_NewSession S w of
        (Some err, w1) \<Rightarrow> (Some err, w1)
      | (None, w1) \<Rightarrow>
          ms_SendEmail S
            \<lparr>se_CcAddresses = addresses cc, se_ToAddresses = addresses to, se_Charset = charset,
             se_Html = content, se_Subject = subject, se_Source = from\<rparr> w1)"

definition channel_rows :: "(string \<times> u64) list \<Rightarrow> string" where
  "channel_rows channels =
     concat (map (\<lambda>(key, v). ''<tr><td>'' @ html_escape key @ ''</td><td>'' @ format_uint v @ ''</td></tr>'')
       (sort_key (string_bytes \<circ> fst) channels))"

text \<open>A section of the message about mismatched channels, empty if there are none.\<close>

definition mismatch_section :: "string \<Rightarrow> (string \<times> u64) list \<Rightarrow> string" where
  "mismatch_section title channels =
     (if channels = [] then []
      else ''<h3>'' @ title @ ''</h3><table>'' @ [CHR 0x0A] @
        tpl_line ''<tr><th>Channel Point</th><th>Height Hint</th></tr>'' @
        tpl_line (channel_rows channels) @ CHR 0x09 # ''</table>'')"

definition mismatch_html :: "string \<Rightarrow> (string \<times> u64) list \<Rightarrow> (string \<times> u64) list \<Rightarrow> string" where
  "mismatch_html nodeID notFakeChannels closedChannels =
     [CHR 0x0A] @ tpl_line (''<h2>NodeID: '' @ html_escape nodeID @ ''</h2>'') @
     tpl_line (mismatch_section ''Channels not fake anynmore'' notFakeChannels) @
     tpl_line (mismatch_section ''Closed Channels'' closedChannels) @ [CHR 0x09]"

definition sendChannelMismatchNotification ::
  "'w mail_service \<Rightarrow> string \<Rightarrow> (string \<times> u64) list \<Rightarrow> (string \<times> u64) list \<Rightarrow> 'w \<Rightarrow> error option \<times> 'w" where
  "sendChannelMismatchNotification S nodeID notFakeChannels closedChannels w =
     sendEmail S (ms_Getenv S ''CHANNELMISMATCH_NOTIFICATION_TO'') (ms_Getenv S ''CHANNELMISMATCH_NOTIFICATION_CC'')
       (ms_Getenv S ''CHANNELMISMATCH_NOTIFICATION_FROM'') (mismatch_html nodeID notFakeChannels closedChannels)
       ''Channel(s) Mismatch'' w"

definition open_row :: "string \<Rightarrow> string \<Rightarrow> string" where
  "open_row label v = tpl_line (''<tr><td>'' @ label @ ''</td><td>'' @ html_escape v @ ''</td></tr>'')"

definition open_channel_html :: "bytes \<Rightarrow> int \<Rightarrow> bytes \<Rightarrow> int \<Rightarrow> string \<Rightarrow> string option \<Rightarrow> string" where
  "open_channel_html paymentHash incomingAmountMsat destination capacity channelPoint tag =
     [CHR 0x0A] @ tpl_line ''<table>'' @
     open_row ''Payment Hash:'' (hex_encode paymentHash) @
     open_row ''Incoming Amount (msat):'' (format_uint (uint64_of incomingAmountMsat)) @
     open_row ''Destination Node:'' (hex_encode destination) @
     open_row ''Channel capacity (sat):'' (format_uint (uint64_of capacity)) @
     open_row ''Channel point:'' channelPoint @
     open_row ''Tag:'' (case tag of None \<Rightarrow> [] | Some t \<Rightarrow> t) @
     tpl_line ''</table>'' @ [CHR 0x09]"

definition sendOpenChannelEmailNotification ::
  "'w mail_service \<Rightarrow> bytes \<Rightarrow> int \<Rightarrow> bytes \<Rightarrow> int \<Rightarrow> string \<Rightarrow> string option \<Rightarrow> 'w \<Rightarrow> error option \<times> 'w" where
  "sendOpenChannelEmailNotification S paymentHash incomingAmountMsat destination capacity channelPoint tag w =
     sendEmail S (ms_Getenv S ''OPENCHANNEL_NOTIFICATION_TO'') (ms_Getenv S ''OPENCHANNEL_NOTIFICATION_CC'')
       (ms_Getenv S ''OPENCHANNEL_NOTIFICATION_FROM'')
       (open_channel_html paymentHash incomingAmountMsat destination capacity channelPoint tag)
       ''Open Channel - Interceptor'' w"

section \<open>No value adds markup\<close>

definition markup :: "string \<Rightarrow> string" where
  "markup s = filter (\<lambda>c. c \<in> set [CHR ''<'', CHR ''>'', CHR 0x22, CHR 0x27]) s"

lemma markup_append [simp]: "markup (s @ t) = markup s @ markup t"
  by (simp add: markup_def)

lemma markup_Cons: "markup (c # s) = (if c \<in> set [CHR ''<'', CHR ''>'', CHR 0x22, CHR 0x27] then c # markup s else markup s)"
  by (simp add: markup_def)

lemma markup_escape_char: "markup (html_escape_char c) = []"
  by (simp add: html_escape_char_def markup_def)

lemma markup_escape [simp]: "markup (html_escape s) = []"
  by (induction s) (simp_all add: html_escape_def markup_escape_char, simp add: markup_def)

lemma open_channel_markup:
  "markup (open_channel_html paymentHash incoming destination capacity channelPoint tag) =
   markup (open_channel_html [] 0 [] 0 [] None)"
  by (simp add: open_channel_html_def open_row_def tpl_line_def markup_Cons)

end
