(* ===== verification/Spec2Isabelle.thy ===== *)
theory Spec2Isabelle
  imports Chain_Fees Opening Notifications History Channel_Opener Cln_Forwards Lnd_Forwards Plugin_Refinement
    Cln_Interceptor Lnd_Interceptor Cln_Plugin
    Cln_Client Lnd_Client Revenue_Correct Run Email
begin

text \<open>
  A verification library for lspd, the Breez lightning service provider daemon.

  \<^bold>\<open>The program.\<close> lspd runs beside one or more lightning nodes (LND or CLN). Clients register
  payments over gRPC; when the htlcs of a registered payment arrive at the node, lspd intercepts them,
  opens a zero-conf channel to the client, deducts the opening fee and forwards the payment over the new
  channel. Beside that it notifies offline clients through webhooks, keeps a history of channels and
  forwards in PostgreSQL, and has a tool that makes a revenue report of it. On CLN the interception goes
  through a plugin of its own, a process that talks JSON-RPC to CLN and gRPC to lspd. File names below are
  relative to \<^verbatim>\<open>src/\<close>.

  \<^bold>\<open>How the code is represented.\<close> A function of the source is a function here, with the name of
  the source where it is free; a struct is a record, an interface a record of functions. Unsigned integers
  are words of their width, \<^verbatim>\<open>int64\<close> is \<open>int\<close> with the wrap-around \<open>int64\<close> written out, byte slices are
  lists of \<open>8 word\<close>, a nil pointer is \<open>None\<close>. An error is a value (\<open>error + 'a\<close> or \<open>error option\<close>); a
  panic is \<open>Panic\<close> of the type \<open>outcome\<close>. State outside a function (the database, the node, the clock) is a
  world of an arbitrary type \<open>'w\<close> that is passed along. Code that is not part of the repository is an
  argument: cryptography, \<^verbatim>\<open>lnwire\<close> and \<^verbatim>\<open>chainhash\<close> (record \<open>libs\<close>), the sphinx and TLV codecs, the
  protobuf encodings, the gRPC calls and streams, the ordered map of the plugin's server, the Starlark
  interpreter, the mail service. What is assumed of it is a named predicate or a locale, each with an
  instance on concrete functions.

  \<^bold>\<open>The standard library.\<close> \<open>Lspd_Prelude\<close> (types, errors, \<^verbatim>\<open>hex\<close>, \<^verbatim>\<open>strconv\<close>, \<^verbatim>\<open>strings\<close>), \<open>Go_Float\<close>,
  \<open>Go_Time\<close>, \<open>Go_Duration\<close>, \<open>Go_Sort\<close>, \<open>Json\<close> (encoding), \<open>Json_Scan\<close> (the scanner of \<^verbatim>\<open>encoding/json\<close>),
  \<open>Json_Text\<close> (decoding of raw texts), \<open>World\<close> (cells, statements on tables, the locale \<open>database\<close>).

  \<^bold>\<open>The components.\<close>
  \<^item> \<open>Lightning\<close>: \<^verbatim>\<open>lightning/\<close>. Short channel ids, outpoints, signed messages, the interface
    \<open>Client\<close> of a node. Ids and outpoints survive printing and parsing.
  \<^item> \<open>Chain_Fees\<close>: \<^verbatim>\<open>chain/\<close> and \<^verbatim>\<open>mempool/\<close>.
  \<^item> \<open>Nodes\<close>: \<^verbatim>\<open>config/config.go\<close>, \<^verbatim>\<open>common/nodes_service.go\<close>, \<^verbatim>\<open>rpc/node_context.go\<close> and the
    authorisation of \<^verbatim>\<open>cmd/lspd/grpc_server.go\<close>: a call reaches its handler only with a node's token.
  \<^item> \<open>Opening\<close>: \<^verbatim>\<open>common/opening_service.go\<close>, \<^verbatim>\<open>postgresql/opening_store.go\<close>. The fee menu, and that a
    signed offer is accepted back until it expires and with no other terms.
  \<^item> \<open>Intercept_Types\<close>, \<open>Intercept_Store\<close>: the requests and results of interception, the combined handler,
    and the table of payments (\<^verbatim>\<open>postgresql/intercept_store.go\<close>).
  \<^item> \<open>Interceptor\<close>: \<^verbatim>\<open>interceptor/intercept_handler.go\<close>; \<open>Deployment\<close> joins it to the stores and the
    notification service. \<open>Interceptor_Safety\<close>: when a channel is opened, and what is answered.
    \<open>Interceptor_Once\<close>: at most one channel per payment, and that every call returns.
    \<open>Interceptor_Amounts\<close>: what the parts of a payment add up to.
  \<^item> \<open>Ciphering\<close>: \<^verbatim>\<open>btceclegacy/ciphering.go\<close>. Decryption inverts encryption and never crashes.
  \<^item> \<open>Channel_Opener\<close>: \<^verbatim>\<open>cmd/lspd/channel_opener_server.go\<close>, down to the composition with the interceptor:
    what is forwarded was paid for.
  \<^item> \<open>Notifications\<close>: \<^verbatim>\<open>notifications/\<close> and \<^verbatim>\<open>postgresql/notifications_store.go\<close>.
  \<^item> \<open>History\<close>: \<^verbatim>\<open>history/\<close> and \<^verbatim>\<open>postgresql/history_store.go\<close>, with the unique keys of the tables as an
    invariant. \<open>Cln_Forwards\<close>, \<open>Lnd_Forwards\<close>: the synchronisation of forwards (\<^verbatim>\<open>cln/forwards_sync.go\<close>,
    \<^verbatim>\<open>lnd/forwards_sync.go\<close>), its offsets, and when a round returns.
  \<^item> \<open>Plugin_Messages\<close>, \<open>Plugin_Server\<close>, \<open>Plugin_Refinement\<close>: \<^verbatim>\<open>cln_plugin/server.go\<close>, its goroutines as
    a step relation, its well-formedness, and a simulation by a specification of what was accepted, sent and answered.
    \<open>Plugin_Io\<close>, \<open>Cln_Plugin\<close>: the reader, the writer, the messages and the request handlers of the plugin.
  \<^item> \<open>Htlc_Loop\<close>, \<open>Cln_Interceptor\<close>, \<open>Lnd_Interceptor\<close>: \<^verbatim>\<open>cln/cln_interceptor.go\<close> and
    \<^verbatim>\<open>lnd/interceptor.go\<close>, the loop they share as a step relation, and the answers to the node.
  \<^item> \<open>Cln_Client\<close>, \<open>Lnd_Client\<close>: \<^verbatim>\<open>cln/cln_client.go\<close>, \<^verbatim>\<open>lnd/client.go\<close>. Waiting ends; the
    subscriptions of the LND client end with the call that made them; its goroutines as a step relation.
  \<^item> \<open>Revenue_Store\<close>, \<open>Revenue\<close>, \<open>Revenue_Correct\<close>: \<^verbatim>\<open>postgresql/revenue_cli_store.go\<close> and
    \<^verbatim>\<open>cmd/lspd_revenue_cli/\<close>. The queries as comprehensions over the tables, the matching loops over a store
    of forwards that several lists point into. The match of sent payments is as good as a full join;
    the totals are sums over the forwards.
  \<^item> \<open>Run\<close>: \<^verbatim>\<open>cmd/lspd/run.go\<close> and the rest of \<^verbatim>\<open>cmd/lspd/grpc_server.go\<close>. Building the nodes and parts, and
    the goroutines that stop all parts when one stops.
  \<^item> \<open>Email\<close>: \<^verbatim>\<open>interceptor/email.go\<close>. No value adds markup to a message.

  The property at the end of this theory spans the synchronisation and the report.

  \<^bold>\<open>Loops.\<close> A loop whose end is not structural is either a \<open>function\<close> with a measure (the
  matching loops: the two indexes) or a \<open>partial_function\<close>, whose \<open>None\<close> is that it never returns: waiting
  for a channel in \<open>Interceptor\<close>, polling in \<open>Cln_Client\<close>, paging in \<open>Cln_Forwards\<close> and \<open>Lnd_Forwards\<close>. For
  these it is shown when they return, and for the LND paging also when it does not. \<open>Json_Text\<close> uses the
  length of a text as fuel for its members and elements, of which there are fewer. Loops that run until
  the process ends are modelled a round at a time, or over the list of what they receive.

  \<^bold>\<open>Concurrency.\<close> The server of the plugin, the loops of the interceptors, the waiting goroutines
  of the LND client and the shutdown are step relations with arbitrary interleaving. Elsewhere calls
  started with \<^verbatim>\<open>go\<close> run at once and one after the other; the single-flight group of the interceptor is
  an atomic call per payment.

  \<^bold>\<open>Not modelled.\<close> Generated protobuf and gRPC code (its messages are records, its calls
  arguments); TLS, dialling and listening; connecting to the database and running the migrations (the
  tables they create are the records of the stores); command line parsing, build information, logging
  and the \<^verbatim>\<open>String\<close> methods that only feed it, the start of the plugin's goroutines and its log writer; the
  integration tests. They do I/O or text for people only, and nothing else depends on their results.
\<close>

section \<open>From the synchronisation to the report\<close>


definition synced_forward :: Forward where
  "synced_forward =
     \<lparr>fw_Identifier = ''g'', fw_InChannel = 10, fw_OutChannel = 11, fw_InMsat = 500, fw_OutMsat = 400,
      fw_ResolvedTime = 1600000000\<rparr>"

definition synced_world :: "revenue_tables std_world" where
  "synced_world =
     snd (InsertForwards (PostgresHistoryStore std_pool (history_cell std_table)) [synced_forward] [1]
            sample_revenue_world)"

lemma synced_insert:
  "InsertForwards (PostgresHistoryStore std_pool (history_cell std_table)) [synced_forward] [1] sample_revenue_world =
     (None, synced_world)"
  by (simp add: synced_world_def PostgresHistoryStore_def pg_InsertForwards_def tx_labels_def db_simps
      sample_revenue_world_def)

lemma synced_forwards_rows:
  "sw_table synced_world =
     sample_tables\<lparr>rt_history := (rt_history sample_tables)\<lparr>tbl_forwards :=
       tbl_forwards (rt_history sample_tables) @ [forward_values [1] synced_forward]\<rparr>\<rparr>" "sw_fates synced_world = []"
  by (simp_all add: synced_world_def PostgresHistoryStore_def pg_InsertForwards_def tx_labels_def db_simps
      sample_revenue_world_def history_cell_def upsert_def forward_key_def forward_values_def
      sample_tables_def synced_forward_def)

lemma synced_get:
  "\<exists>gs w2. GetForwards std_libs (std_store (\<lambda>_. ([2], [3]))) 1000000000 2000000000 synced_world = (Inr gs, w2)"
  by (simp add: GetForwards_def sanityCheck_def range_query_def bigint_arg_def std_store_def db_simps
      synced_forwards_rows sample_tables_def forward_values_def synced_forward_def unassociated_def
      our_forwards_def resolved_between_def channels_in_def channels_out_def on_channel_def sample_channel_def
      left_join_def token_channels_def tokens_of_def go_sort_def forward_lt_def empty_history_def
      scan_forward_def funding_outpoint_def scan_uint32_def NewOutPoint_def std_libs_def sample_txid_def
      int64_def int64_of_def)


end
